(* ===== verification/Prelude.thy ===== *)
theory Prelude
  imports Main "HOL-Library.Word" "HOL-Library.Signed_Division"
begin

text \<open>
  Shared vocabulary of the development: the machine integer types of the C and Go
  sources, little-endian byte encodings of them, fixed-length stores into byte
  records, and the collections of simplification rules the component theories use.
\<close>

unbundle bit_operations_syntax

type_synonym u8 = "8 word"
type_synonym u16 = "16 word"
type_synonym u32 = "32 word"
type_synonym u64 = "64 word"
type_synonym s64 = "64 word"
type_synonym bytes = "u8 list"

text \<open>Facts that evaluate type layouts, and facts that unfold a probe handler.\<close>

named_theorems layout
named_theorems handler

subsection \<open>Little-endian numbers\<close>

primrec le_nat :: "bytes \<Rightarrow> nat" where
  "le_nat [] = 0"
| "le_nat (b # bs) = unat b + 256 * le_nat bs"

primrec le_bytes :: "nat \<Rightarrow> nat \<Rightarrow> bytes" where
  "le_bytes 0 v = []"
| "le_bytes (Suc n) v = word_of_nat v # le_bytes n (v div 256)"

definition load :: "bytes \<Rightarrow> nat \<Rightarrow> nat \<Rightarrow> nat" where
  "load bs off n = le_nat (take n (drop off bs))"

definition store :: "bytes \<Rightarrow> nat \<Rightarrow> bytes \<Rightarrow> bytes" where
  "store bs off xs = take off bs @ xs @ drop (off + length xs) bs"

definition load_u32 :: "bytes \<Rightarrow> nat \<Rightarrow> u32" where
  "load_u32 bs off = word_of_nat (load bs off 4)"

definition load_u64 :: "bytes \<Rightarrow> nat \<Rightarrow> u64" where
  "load_u64 bs off = word_of_nat (load bs off 8)"

definition load_u8 :: "bytes \<Rightarrow> nat \<Rightarrow> u8" where
  "load_u8 bs off = word_of_nat (load bs off 1)"

lemma length_le_bytes [simp]: "length (le_bytes n v) = n"
  by (induction n arbitrary: v) auto

lemma unat_word8_of_nat: "unat (word_of_nat v :: u8) = v mod 256"
  by (simp add: unat_of_nat)

lemma le_nat_le_bytes: "le_nat (le_bytes n v) = v mod 256 ^ n"
proof (induction n arbitrary: v)
  case 0
  show ?case by simp
next
  case (Suc n)
  have "v mod 256 ^ Suc n = v mod 256 + 256 * (v div 256 mod 256 ^ n)"
    by (simp add: mod_mult2_eq)
  with Suc.IH show ?case by (simp add: unat_word8_of_nat)
qed

lemma unat_u8_less: "unat (b :: u8) < 256"
  using unsigned_less [of b] by simp

lemma le_nat_less: "le_nat bs < 256 ^ length bs"
proof (induction bs)
  case (Cons b bs)
  have "unat b < 256" by (rule unat_u8_less)
  with Cons.IH show ?case by simp
qed simp

lemma word8_of_nat_add_256: "(word_of_nat (n + 256 * m) :: u8) = word_of_nat n"
  unfolding word_unat_eq_iff unat_word8_of_nat by simp

lemma le_bytes_le_nat: "le_bytes (length bs) (le_nat bs) = bs"
proof (induction bs)
  case (Cons b bs)
  have "unat b < 256" by (rule unat_u8_less)
  then have "(unat b + 256 * le_nat bs) div 256 = le_nat bs" by simp
  moreover have "(word_of_nat (unat b + 256 * le_nat bs) :: u8) = b"
    by (subst word8_of_nat_add_256) simp
  ultimately show ?case using Cons.IH by simp
qed simp

lemma le_bytes_inj:
  assumes "le_bytes n v = le_bytes n w" and "v < 256 ^ n" and "w < 256 ^ n"
  shows "v = w"
proof -
  have "v mod 256 ^ n = w mod 256 ^ n"
    using assms(1) by (metis le_nat_le_bytes)
  with assms(2,3) show ?thesis by simp
qed

subsection \<open>Stores and loads at an offset\<close>

lemma length_store: "off + length xs \<le> length bs \<Longrightarrow> length (store bs off xs) = length bs"
  by (simp add: store_def)

lemma load_store_same:
  "off + length xs \<le> length bs \<Longrightarrow> n = length xs \<Longrightarrow> load (store bs off xs) off n = le_nat xs"
  by (simp add: load_def store_def)

lemma drop_store_before:
  assumes "off + length xs \<le> length bs" and "off' + n \<le> off"
  shows "take n (drop off' (store bs off xs)) = take n (drop off' bs)"
  using assms by (auto simp: store_def list_eq_iff_nth_eq nth_append)

lemma drop_store_after:
  assumes "off + length xs \<le> length bs" and "off + length xs \<le> off'"
  shows "drop off' (store bs off xs) = drop off' bs"
proof -
  have "drop off' (store bs off xs) = drop (off' - (off + length xs)) (drop (off + length xs) bs)"
    using assms by (simp add: store_def)
  also have "\<dots> = drop off' bs"
    using assms(2) by simp
  finally show ?thesis .
qed

lemma load_store_other:
  assumes "off + length xs \<le> length bs"
    and "off' + n \<le> off \<or> off + length xs \<le> off'"
  shows "load (store bs off xs) off' n = load bs off' n"
  using assms(2)
proof
  assume "off' + n \<le> off"
  with assms(1) show ?thesis by (simp add: load_def drop_store_before)
next
  assume "off + length xs \<le> off'"
  with assms(1) show ?thesis by (simp add: load_def drop_store_after)
qed

definition u32_bytes :: "u32 \<Rightarrow> bytes" where
  "u32_bytes w = le_bytes 4 (unat w)"

definition u64_bytes :: "u64 \<Rightarrow> bytes" where
  "u64_bytes w = le_bytes 8 (unat w)"

lemma length_u32_bytes [simp]: "length (u32_bytes w) = 4"
  by (simp add: u32_bytes_def)

lemma length_u64_bytes [simp]: "length (u64_bytes w) = 8"
  by (simp add: u64_bytes_def)

lemma unat_u32_less: "unat (w :: u32) < 4294967296"
  using unsigned_less [of w] by simp

lemma unat_u64_less: "unat (w :: u64) < 18446744073709551616"
  using unsigned_less [of w] by simp

lemma le_nat_u32_bytes [simp]: "le_nat (u32_bytes w) = unat w"
  using unat_u32_less [of w] by (simp add: u32_bytes_def le_nat_le_bytes)

lemma le_nat_u64_bytes [simp]: "le_nat (u64_bytes w) = unat w"
  using unat_u64_less [of w] by (simp add: u64_bytes_def le_nat_le_bytes)

lemma u32_bytes_inj: "u32_bytes v = u32_bytes w \<longleftrightarrow> v = w"
  by (metis le_nat_u32_bytes word_unat_eq_iff)

lemma u64_bytes_inj: "u64_bytes v = u64_bytes w \<longleftrightarrow> v = w"
  by (metis le_nat_u64_bytes word_unat_eq_iff)

lemma load_u32_store [simp]:
  "off + 4 \<le> length bs \<Longrightarrow> load_u32 (store bs off (u32_bytes w)) off = w"
  by (simp add: load_u32_def load_store_same)

lemma load_u64_store [simp]:
  "off + 8 \<le> length bs \<Longrightarrow> load_u64 (store bs off (u64_bytes w)) off = w"
  by (simp add: load_u64_def load_store_same)

lemma load_u8_store [simp]:
  "off + 1 \<le> length bs \<Longrightarrow> load_u8 (store bs off [w]) off = w"
  by (simp add: load_u8_def load_store_same)

lemma load_u32_store_other [simp]:
  "off + length xs \<le> length bs \<Longrightarrow> off' + 4 \<le> off \<or> off + length xs \<le> off' \<Longrightarrow>
     load_u32 (store bs off xs) off' = load_u32 bs off'"
  by (simp add: load_u32_def load_store_other)

lemma load_u64_store_other [simp]:
  "off + length xs \<le> length bs \<Longrightarrow> off' + 8 \<le> off \<or> off + length xs \<le> off' \<Longrightarrow>
     load_u64 (store bs off xs) off' = load_u64 bs off'"
  by (simp add: load_u64_def load_store_other)

lemma load_u8_store_other [simp]:
  "off + length xs \<le> length bs \<Longrightarrow> off' + 1 \<le> off \<or> off + length xs \<le> off' \<Longrightarrow>
     load_u8 (store bs off xs) off' = load_u8 bs off'"
  by (simp add: load_u8_def load_store_other)

lemma unat_drop_bit_div: "unat (drop_bit n w) = unat w div 2 ^ n"
  unfolding unat_drop_bit_eq by (rule drop_bit_eq_div)

lemma unat_ucast_u64: "unat (ucast (w :: u32) :: u64) = unat w"
  using unat_u32_less [of w] by (simp add: unsigned_ucast_eq take_bit_eq_mod)

end
