(* ===== verification/CTypes.thy ===== *)
theory CTypes
  imports Prelude
begin

text \<open>
  C object types and their layout on x86-64 Linux, the target the programs under
  \<^verbatim>\<open>bpf/\<close> are compiled for (\<^verbatim>\<open>-D__TARGET_ARCH_x86\<close> in \<^verbatim>\<open>pkg/ebpf/gen.go\<close>). A
  \<^verbatim>\<open>ctype\<close> is the type as the declaration writes it; \<^verbatim>\<open>calign\<close>, \<^verbatim>\<open>csize\<close> and
  \<^verbatim>\<open>offsetof\<close> are the compiler's \<^verbatim>\<open>_Alignof\<close>, \<^verbatim>\<open>sizeof\<close> and \<^verbatim>\<open>offsetof\<close>,
  bit-fields and packed structures included. The declarations of
  \<^verbatim>\<open>bpf/headers/vmlinux.h\<close> are written in this type by the \<^verbatim>\<open>KTypes\<close> theories; the
  theorems here hold for every well-formed declaration.
\<close>

subsection \<open>Types\<close>

text \<open>
  A member is its name (empty for an anonymous member), its type and, for a bit-field,
  its width. \<^verbatim>\<open>CUInt\<close> and \<^verbatim>\<open>CSInt\<close> are the unsigned and signed integer types of a
  size in bytes (\<^verbatim>\<open>_Bool\<close> is unsigned, plain \<^verbatim>\<open>char\<close> signed). \<^verbatim>\<open>CStruct\<close> and \<^verbatim>\<open>CUnion\<close> carry the tag and whether the declaration is
  \<^verbatim>\<open>__attribute__((packed))\<close>; \<^verbatim>\<open>CPtr\<close> names what it points to (\<^verbatim>\<open>()\<close> is a
  function); \<^verbatim>\<open>CEnum\<close> carries its size and its constants.
\<close>

datatype ctype =
    CUInt nat
  | CSInt nat
  | CPtr string
  | CEnum string nat "(string \<times> int) list"
  | CArr ctype nat
  | CStruct string bool "(string \<times> ctype \<times> nat option) list"
  | CUnion string bool "(string \<times> ctype \<times> nat option) list"

type_synonym cfield = "string \<times> ctype \<times> nat option"

subsection \<open>Alignment, placement and size\<close>

definition round_up :: "nat \<Rightarrow> nat \<Rightarrow> nat" where
  "round_up n a = (if a dvd n then n else (n div a + 1) * a)"

fun calign :: "ctype \<Rightarrow> nat" and falign :: "cfield list \<Rightarrow> nat" where
  "calign (CUInt n) = n"
| "calign (CSInt n) = n"
| "calign (CPtr _) = 8"
| "calign (CEnum _ n _) = n"
| "calign (CArr t _) = calign t"
| "calign (CStruct _ packed fs) = (if packed then 1 else falign fs)"
| "calign (CUnion _ packed fs) = (if packed then 1 else falign fs)"
| "falign [] = 1"
| "falign ((n, t, w) # fs) =
     (if w = None \<or> n \<noteq> [] then max (calign t) (falign fs) else falign fs)"

text \<open>
  Positions are counted in bits. An ordinary member starts at the next multiple of its
  alignment (of one byte, in a packed structure); a bit-field stays where it is unless it
  would cross a storage unit of its declared type, and a zero width closes the unit.
\<close>

definition place :: "bool \<Rightarrow> nat \<Rightarrow> nat \<Rightarrow> nat" where
  "place packed pos al = round_up pos (8 * (if packed then 1 else al))"

definition place_bits :: "bool \<Rightarrow> nat \<Rightarrow> nat \<Rightarrow> nat \<Rightarrow> nat" where
  "place_bits packed pos bits w =
     (if w = 0 then round_up pos bits
      else if \<not> packed \<and> bits < pos mod bits + w then round_up pos bits
      else pos)"

fun csize :: "ctype \<Rightarrow> nat" and fend :: "bool \<Rightarrow> nat \<Rightarrow> cfield list \<Rightarrow> nat"
  and fmax :: "cfield list \<Rightarrow> nat" where
  "csize (CUInt n) = n"
| "csize (CSInt n) = n"
| "csize (CPtr _) = 8"
| "csize (CEnum _ n _) = n"
| "csize (CArr t n) = n * csize t"
| "csize (CStruct _ packed fs) =
     round_up ((fend packed 0 fs + 7) div 8) (if packed then 1 else falign fs)"
| "csize (CUnion _ packed fs) = round_up (fmax fs) (if packed then 1 else falign fs)"
| "fend packed pos [] = pos"
| "fend packed pos ((n, t, None) # fs) =
     fend packed (place packed pos (calign t) + 8 * csize t) fs"
| "fend packed pos ((n, t, Some w) # fs) =
     fend packed (place_bits packed pos (8 * csize t) w + w) fs"
| "fmax [] = 0"
| "fmax ((n, t, None) # fs) = max (csize t) (fmax fs)"
| "fmax ((n, t, Some w) # fs) = max ((w + 7) div 8) (fmax fs)"

subsection \<open>Members\<close>

text \<open>
  \<^verbatim>\<open>member t f\<close> is the byte offset and type of member \<^verbatim>\<open>f\<close> of \<^verbatim>\<open>t\<close>, looking into
  anonymous members as C does; a bit-field has no offset. \<^verbatim>\<open>offsetof\<close> follows a path
  of members, as in \<^verbatim>\<open>offsetof(struct nfs_pgio_header, args.offset)\<close>.
\<close>

fun member :: "ctype \<Rightarrow> string \<Rightarrow> (nat \<times> ctype) option"
  and fmember :: "bool \<Rightarrow> nat \<Rightarrow> cfield list \<Rightarrow> string \<Rightarrow> (nat \<times> ctype) option"
  and umember :: "cfield list \<Rightarrow> string \<Rightarrow> (nat \<times> ctype) option" where
  "member (CStruct _ packed fs) f = fmember packed 0 fs f"
| "member (CUnion _ _ fs) f = umember fs f"
| "member (CUInt _) f = None"
| "member (CSInt _) f = None"
| "member (CPtr _) f = None"
| "member (CEnum _ _ _) f = None"
| "member (CArr _ _) f = None"
| "fmember packed pos [] f = None"
| "fmember packed pos ((n, t, None) # fs) f =
     (if n \<noteq> [] \<and> n = f then Some (place packed pos (calign t) div 8, t)
      else case (if n = [] then member t f else None) of
        Some (off, u) \<Rightarrow> Some (place packed pos (calign t) div 8 + off, u)
      | None \<Rightarrow> fmember packed (place packed pos (calign t) + 8 * csize t) fs f)"
| "fmember packed pos ((n, t, Some w) # fs) f =
     fmember packed (place_bits packed pos (8 * csize t) w + w) fs f"
| "umember [] f = None"
| "umember ((n, t, None) # fs) f =
     (if n \<noteq> [] \<and> n = f then Some (0, t)
      else case (if n = [] then member t f else None) of
        Some r \<Rightarrow> Some r
      | None \<Rightarrow> umember fs f)"
| "umember ((n, t, Some w) # fs) f = umember fs f"

fun offsetof :: "ctype \<Rightarrow> string list \<Rightarrow> (nat \<times> ctype) option" where
  "offsetof t [] = Some (0, t)"
| "offsetof t (f # fs) =
     (case member t f of None \<Rightarrow> None
      | Some (off, u) \<Rightarrow> map_option (\<lambda>(off', v). (off + off', v)) (offsetof u fs))"

text \<open>The ordinary members of a structure with their offsets, in declaration order.\<close>

fun placed :: "bool \<Rightarrow> nat \<Rightarrow> cfield list \<Rightarrow> (string \<times> nat \<times> ctype) list" where
  "placed packed pos [] = []"
| "placed packed pos ((n, t, None) # fs) =
     (n, place packed pos (calign t) div 8, t) #
       placed packed (place packed pos (calign t) + 8 * csize t) fs"
| "placed packed pos ((n, t, Some w) # fs) =
     placed packed (place_bits packed pos (8 * csize t) w + w) fs"

subsection \<open>Well-formed declarations\<close>

definition scalar_size :: "nat \<Rightarrow> bool" where
  "scalar_size n \<longleftrightarrow> n = 1 \<or> n = 2 \<or> n = 4 \<or> n = 8 \<or> n = 16"

fun wf_ctype :: "ctype \<Rightarrow> bool" and wf_fields :: "cfield list \<Rightarrow> bool" where
  "wf_ctype (CUInt n) = scalar_size n"
| "wf_ctype (CSInt n) = scalar_size n"
| "wf_ctype (CPtr _) = True"
| "wf_ctype (CEnum _ n _) = scalar_size n"
| "wf_ctype (CArr t _) = wf_ctype t"
| "wf_ctype (CStruct _ _ fs) = wf_fields fs"
| "wf_ctype (CUnion _ _ fs) = wf_fields fs"
| "wf_fields [] = True"
| "wf_fields ((n, t, None) # fs) = (wf_ctype t \<and> wf_fields fs)"
| "wf_fields ((n, t, Some w) # fs) =
     (wf_ctype t \<and> 0 < csize t \<and> w \<le> 8 * csize t \<and> wf_fields fs)"

fun unpacked :: "ctype \<Rightarrow> bool" and unpacked_fields :: "cfield list \<Rightarrow> bool" where
  "unpacked (CUInt _) = True"
| "unpacked (CSInt _) = True"
| "unpacked (CPtr _) = True"
| "unpacked (CEnum _ _ _) = True"
| "unpacked (CArr t _) = unpacked t"
| "unpacked (CStruct _ packed fs) = (\<not> packed \<and> unpacked_fields fs)"
| "unpacked (CUnion _ packed fs) = (\<not> packed \<and> unpacked_fields fs)"
| "unpacked_fields [] = True"
| "unpacked_fields ((n, t, w) # fs) = (unpacked t \<and> unpacked_fields fs)"

lemmas [layout] = round_up_def place_def place_bits_def scalar_size_def
  numeral_2_eq_2 [symmetric]

subsection \<open>Placement moves forward\<close>

lemma round_up_ge: "0 < a \<Longrightarrow> n \<le> round_up n a"
  by (simp add: round_up_def) (metis add.commute dividend_less_div_times less_imp_le)

lemma round_up_dvd: "a dvd round_up n a"
  by (simp add: round_up_def)

lemma scalar_size_cases [consumes 1]:
  "scalar_size n \<Longrightarrow> (n = 1 \<Longrightarrow> P) \<Longrightarrow> (n = 2 \<Longrightarrow> P) \<Longrightarrow> (n = 4 \<Longrightarrow> P) \<Longrightarrow> (n = 8 \<Longrightarrow> P)
     \<Longrightarrow> (n = 16 \<Longrightarrow> P) \<Longrightarrow> P"
  by (auto simp: scalar_size_def)

lemma scalar_size_pos: "scalar_size n \<Longrightarrow> 0 < n"
  by (auto simp: scalar_size_def)

lemma scalar_size_max: "scalar_size m \<Longrightarrow> scalar_size n \<Longrightarrow> scalar_size (max m n)"
  by (simp add: max_def)

lemma scalar_size_dvd: "scalar_size m \<Longrightarrow> scalar_size n \<Longrightarrow> m \<le> n \<Longrightarrow> m dvd n"
  by (elim scalar_size_cases) simp_all

lemma calign_scalar:
  "wf_ctype t \<Longrightarrow> scalar_size (calign t)"
  "wf_fields fs \<Longrightarrow> scalar_size (falign fs)"
proof (induction t and fs rule: wf_ctype_wf_fields.induct)
  case 8
  show ?case by (simp add: scalar_size_def)
next
  case (9 n t fs)
  then show ?case by (simp add: scalar_size_max)
next
  case (10 n t w fs)
  then show ?case by (simp add: scalar_size_max)
qed (auto simp: scalar_size_def)

lemma place_ge: "wf_ctype t \<Longrightarrow> pos \<le> place packed pos (calign t)"
  by (simp add: place_def round_up_ge calign_scalar scalar_size_pos)

lemma place_bits_ge: "0 < bits \<Longrightarrow> pos \<le> place_bits packed pos bits w"
  by (simp add: place_bits_def round_up_ge)

lemma place_byte: "8 dvd place packed pos al"
  using round_up_dvd [of "8 * (if packed then 1 else al)" pos] dvd_mult_left
  unfolding place_def by blast

lemma place_aligned: "al dvd place False pos al div 8"
proof -
  have "8 * al dvd place False pos al"
    unfolding place_def using round_up_dvd [of "8 * al" pos] by simp
  then obtain k where "place False pos al = 8 * al * k" ..
  then show ?thesis by simp
qed

lemma fend_ge: "wf_fields fs \<Longrightarrow> pos \<le> fend packed pos fs"
proof (induction fs arbitrary: pos)
  case (Cons f fs)
  obtain n t w where f: "f = (n, t, w)" by (cases f) auto
  show ?case
  proof (cases w)
    case None
    with Cons.prems f have "pos \<le> place packed pos (calign t)"
      by (simp add: place_ge)
    also have "\<dots> \<le> fend packed (place packed pos (calign t) + 8 * csize t) fs"
      using Cons.IH [of "place packed pos (calign t) + 8 * csize t"] Cons.prems f None by simp
    finally show ?thesis using f None by simp
  next
    case (Some k)
    with Cons.prems f have "pos \<le> place_bits packed pos (8 * csize t) k"
      by (simp add: place_bits_ge)
    also have "\<dots> \<le> fend packed (place_bits packed pos (8 * csize t) k + k) fs"
      using Cons.IH [of "place_bits packed pos (8 * csize t) k + k"] Cons.prems f Some by simp
    finally show ?thesis using f Some by simp
  qed
qed simp

subsection \<open>Every member lies inside its object\<close>

lemma struct_size_ge:
  assumes "wf_fields fs" and "8 * k \<le> fend packed 0 fs"
  shows "k \<le> csize (CStruct s packed fs)"
proof -
  have "k \<le> (fend packed 0 fs + 7) div 8"
    using assms(2) by simp
  also have "\<dots> \<le> csize (CStruct s packed fs)"
    using assms(1) by (simp add: round_up_ge calign_scalar scalar_size_pos)
  finally show ?thesis .
qed

lemma union_size_ge:
  assumes "wf_fields fs" and "k \<le> fmax fs"
  shows "k \<le> csize (CUnion s packed fs)"
proof -
  have "fmax fs \<le> csize (CUnion s packed fs)"
    using assms(1) by (simp add: round_up_ge calign_scalar scalar_size_pos)
  with assms(2) show ?thesis by simp
qed

lemma place_end:
  "wf_fields fs \<Longrightarrow> off + k \<le> csize t \<Longrightarrow>
     8 * (place packed pos al div 8 + off + k)
       \<le> fend packed (place packed pos al + 8 * csize t) fs"
  using fend_ge [of fs "place packed pos al + 8 * csize t" packed] place_byte [of packed pos al]
  by (simp add: algebra_simps)

lemma member_bounds:
  "wf_ctype t \<Longrightarrow> member t f = Some (off, u) \<Longrightarrow> wf_ctype u \<and> off + csize u \<le> csize t"
  "wf_fields fs \<Longrightarrow> fmember packed pos fs f = Some (off, u) \<Longrightarrow>
     wf_ctype u \<and> 8 * (off + csize u) \<le> fend packed pos fs"
  "wf_fields fs \<Longrightarrow> umember fs f = Some (off, u) \<Longrightarrow> wf_ctype u \<and> off + csize u \<le> fmax fs"
proof (induction t f and packed pos fs f and fs f arbitrary: off u and off u and off u
    rule: member_fmember_umember.induct)
  case (1 s packed fs f)
  then have "wf_ctype u" and "8 * (off + csize u) \<le> fend packed 0 fs"
    by auto
  with 1 show ?case using struct_size_ge [of fs "off + csize u" packed s] by simp
next
  case (2 s packed fs f)
  then have "wf_ctype u" and "off + csize u \<le> fmax fs"
    by auto
  with 2 show ?case using union_size_ge [of fs "off + csize u" s packed] by simp
next
  case (9 packed pos n t fs f)
  show ?case
  proof (cases "n \<noteq> [] \<and> n = f")
    case True
    with 9 show ?thesis
      using place_end [of fs 0 "csize t" t packed pos "calign t"] by auto
  next
    case False
    show ?thesis
    proof (cases "if n = [] then member t f else None")
      case None
      with False 9 show ?thesis by (auto split: if_splits)
    next
      case (Some r)
      then obtain off' u' where r: "n = []" "member t f = Some (off', u')"
        by (cases r) (auto split: if_splits)
      with 9 have "wf_ctype u'" and "off' + csize u' \<le> csize t"
        by auto
      with r False 9 show ?thesis
        using place_end [of fs off' "csize u'" t packed pos "calign t"] by auto
    qed
  qed
next
  case (12 n t fs f)
  then show ?case by (fastforce split: if_splits option.splits)
qed auto

theorem offsetof_in_bounds:
  "wf_ctype t \<Longrightarrow> offsetof t fs = Some (off, u) \<Longrightarrow> wf_ctype u \<and> off + csize u \<le> csize t"
proof (induction fs arbitrary: t off)
  case (Cons f fs)
  then obtain o1 t1 o2 where m: "member t f = Some (o1, t1)" and
    o: "offsetof t1 fs = Some (o2, u)" "off = o1 + o2"
    by (auto split: option.splits)
  from Cons.prems(1) m have t1: "wf_ctype t1" "o1 + csize t1 \<le> csize t"
    using member_bounds(1) by auto
  from Cons.IH [OF t1(1) o(1)] t1(2) o(2) show ?case by simp
qed simp

subsection \<open>Members are aligned\<close>

lemma csize_aligned: "wf_ctype t \<Longrightarrow> calign t dvd csize t"
  by (induction t) (auto simp: round_up_dvd)

lemma member_calign_le:
  "unpacked t \<Longrightarrow> member t f = Some (off, u) \<Longrightarrow> unpacked u \<and> calign u \<le> calign t"
  "unpacked_fields fs \<Longrightarrow> fmember packed pos fs f = Some (off, u) \<Longrightarrow>
     unpacked u \<and> calign u \<le> falign fs"
  "unpacked_fields fs \<Longrightarrow> umember fs f = Some (off, u) \<Longrightarrow> unpacked u \<and> calign u \<le> falign fs"
proof (induction t f and packed pos fs f and fs f arbitrary: off u and off u and off u
    rule: member_fmember_umember.induct)
  case (9 packed pos n t fs f)
  then show ?case by (fastforce split: if_splits option.splits)
next
  case (10 packed pos n t w fs f)
  then show ?case by fastforce
next
  case (12 n t fs f)
  then show ?case by (fastforce split: if_splits option.splits)
next
  case (13 n t w fs f)
  then show ?case by fastforce
qed auto

lemma member_aligned:
  "wf_ctype t \<Longrightarrow> unpacked t \<Longrightarrow> member t f = Some (off, u) \<Longrightarrow> calign u dvd off"
  "wf_fields fs \<Longrightarrow> unpacked_fields fs \<Longrightarrow> \<not> packed \<Longrightarrow>
     fmember packed pos fs f = Some (off, u) \<Longrightarrow> calign u dvd off"
  "wf_fields fs \<Longrightarrow> unpacked_fields fs \<Longrightarrow> umember fs f = Some (off, u) \<Longrightarrow> calign u dvd off"
proof (induction t f and packed pos fs f and fs f arbitrary: off u and off u and off u
    rule: member_fmember_umember.induct)
  case (9 packed pos n t fs f)
  show ?case
  proof (cases "n = [] \<and> member t f \<noteq> None")
    case True
    then obtain off' u' where m: "n = []" "member t f = Some (off', u')" by auto
    with 9 have eq: "u = u'" "off = place packed pos (calign t) div 8 + off'"
      and d: "calign u dvd off'" by auto
    from 9 m have wf: "wf_ctype t" "wf_ctype u'" "unpacked t"
      using member_bounds(1) by auto
    have "calign u' dvd calign t"
      using wf member_calign_le(1) [OF wf(3) m(2)] scalar_size_dvd calign_scalar(1) by blast
    then have "calign u dvd place packed pos (calign t) div 8"
      using 9 place_aligned [of "calign t" pos] eq dvd_trans by auto
    with d eq show ?thesis by simp
  next
    case False
    with 9 show ?thesis
      using place_aligned [of "calign t" pos] by (auto split: if_splits option.splits)
  qed
next
  case (12 n t fs f)
  then show ?case by (fastforce split: if_splits option.splits)
qed auto

theorem offsetof_aligned:
  assumes "wf_ctype t" and "unpacked t" and "offsetof t fs = Some (off, u)"
  shows "calign u dvd off"
proof -
  have "calign u dvd off \<and> calign u dvd calign t"
    using assms
  proof (induction fs arbitrary: t off)
    case (Cons f fs)
    then obtain o1 t1 o2 where m: "member t f = Some (o1, t1)" and
      o: "offsetof t1 fs = Some (o2, u)" "off = o1 + o2"
      by (auto split: option.splits)
    have t1: "wf_ctype t1" "unpacked t1" "calign t1 dvd o1" "calign t1 dvd calign t"
      using m Cons.prems member_bounds(1) member_calign_le(1) member_aligned(1)
        scalar_size_dvd calign_scalar(1) by blast+
    from Cons.IH [OF t1(1,2) o(1)] have "calign u dvd o2" "calign u dvd calign t1"
      by auto
    with t1(3,4) o(2) show ?case
      using dvd_trans by (auto intro: dvd_add)
  qed simp
  then show ?thesis ..
qed

subsection \<open>Members of a structure do not overlap\<close>

lemma placed_ge: "wf_fields fs \<Longrightarrow> (n, off, t) \<in> set (placed packed pos fs) \<Longrightarrow> pos \<le> 8 * off"
proof (induction packed pos fs rule: placed.induct)
  case (2 packed pos m t' fs)
  have "pos \<le> place packed pos (calign t')"
    using 2 by (simp add: place_ge)
  with 2 show ?case
    using place_byte [of packed pos "calign t'"] by force
next
  case (3 packed pos m t' w fs)
  have "pos \<le> place_bits packed pos (8 * csize t') w"
    using 3 by (simp add: place_bits_ge)
  with 3 show ?case by force
qed simp

theorem placed_disjoint:
  "wf_fields fs \<Longrightarrow>
     sorted_wrt (\<lambda>(_, off1, t1) (_, off2, t2). off1 + csize t1 \<le> off2) (placed packed pos fs)"
proof (induction packed pos fs rule: placed.induct)
  case (2 packed pos m t fs)
  have "place packed pos (calign t) div 8 + csize t \<le> off"
    if "(n, off, u) \<in> set (placed packed (place packed pos (calign t) + 8 * csize t) fs)" for n off u
    using placed_ge [OF _ that] 2(2) place_byte [of packed pos "calign t"] by force
  with 2 show ?case by auto
qed simp_all

end
