(* ===== verification/KTypes_Core.thy ===== *)
theory KTypes_Core
  imports CTypes
begin

text \<open>
  Declarations of \<^verbatim>\<open>bpf/headers/vmlinux.h\<close>: the integer typedefs, and the lists, locks,
  counters and trees that the kernel objects read by the programs embed by value. Each
  definition is one declaration of the header, members in order; its \<^verbatim>\<open>layout\<close> lemma is
  the declaration's alignment and size.
\<close>

definition td___u32 :: ctype where
  "td___u32 = CUInt 4"

definition td_u32 :: ctype where
  "td_u32 = td___u32"

definition td___kernel_dev_t :: ctype where
  "td___kernel_dev_t = td_u32"

definition td_dev_t :: ctype where
  "td_dev_t = td___kernel_dev_t"

definition td___u64 :: ctype where
  "td___u64 = CUInt 8"

definition td_u64 :: ctype where
  "td_u64 = td___u64"

definition td_sector_t :: ctype where
  "td_sector_t = td_u64"

definition struct_list_head :: ctype where
  "struct_list_head = CStruct ''list_head'' False
      [(''next'', CPtr ''struct list_head'', None),
       (''prev'', CPtr ''struct list_head'', None)]"

definition td_fmode_t :: ctype where
  "td_fmode_t = CUInt 4"

definition td___kernel_loff_t :: ctype where
  "td___kernel_loff_t = CSInt 8"

definition td_loff_t :: ctype where
  "td_loff_t = td___kernel_loff_t"

definition td_atomic_t :: ctype where
  "td_atomic_t = CStruct '''' False
      [(''counter'', CSInt 4, None)]"

definition td___s64 :: ctype where
  "td___s64 = CSInt 8"

definition td_s64 :: ctype where
  "td_s64 = td___s64"

definition td_atomic64_t :: ctype where
  "td_atomic64_t = CStruct '''' False
      [(''counter'', td_s64, None)]"

definition td_atomic_long_t :: ctype where
  "td_atomic_long_t = td_atomic64_t"

definition td_work_func_t :: ctype where
  "td_work_func_t = CPtr ''()''"

definition struct_work_struct :: ctype where
  "struct_work_struct = CStruct ''work_struct'' False
      [(''data'', td_atomic_long_t, None),
       (''entry'', struct_list_head, None),
       (''func'', td_work_func_t, None)]"

definition td_ktime_t :: ctype where
  "td_ktime_t = td_s64"

definition td___kernel_pid_t :: ctype where
  "td___kernel_pid_t = CSInt 4"

definition td_pid_t :: ctype where
  "td_pid_t = td___kernel_pid_t"

definition td_umode_t :: ctype where
  "td_umode_t = CUInt 2"

definition td___kernel_uid32_t :: ctype where
  "td___kernel_uid32_t = CUInt 4"

definition td_uid_t :: ctype where
  "td_uid_t = td___kernel_uid32_t"

definition td_kuid_t :: ctype where
  "td_kuid_t = CStruct '''' False
      [(''val'', td_uid_t, None)]"

definition td___kernel_gid32_t :: ctype where
  "td___kernel_gid32_t = CUInt 4"

definition td_gid_t :: ctype where
  "td_gid_t = td___kernel_gid32_t"

definition td_kgid_t :: ctype where
  "td_kgid_t = CStruct '''' False
      [(''val'', td_gid_t, None)]"

definition td_uint64_t :: ctype where
  "td_uint64_t = td_u64"

definition td_time64_t :: ctype where
  "td_time64_t = td___s64"

definition td___u8 :: ctype where
  "td___u8 = CUInt 1"

definition td_u8 :: ctype where
  "td_u8 = td___u8"

definition td___be32 :: ctype where
  "td___be32 = td___u32"

definition td___u16 :: ctype where
  "td___u16 = CUInt 2"

definition td_u16 :: ctype where
  "td_u16 = td___u16"

definition struct_qspinlock :: ctype where
  "struct_qspinlock = CStruct ''qspinlock'' False
      [('''', CUnion '''' False
          [(''val'', td_atomic_t, None),
           ('''', CStruct '''' False
              [(''locked'', td_u8, None),
               (''pending'', td_u8, None)], None),
           ('''', CStruct '''' False
              [(''locked_pending'', td_u16, None),
               (''tail'', td_u16, None)], None)], None)]"

definition td_arch_spinlock_t :: ctype where
  "td_arch_spinlock_t = struct_qspinlock"

definition struct_raw_spinlock :: ctype where
  "struct_raw_spinlock = CStruct ''raw_spinlock'' False
      [(''raw_lock'', td_arch_spinlock_t, None)]"

definition struct_spinlock :: ctype where
  "struct_spinlock = CStruct ''spinlock'' False
      [('''', CUnion '''' False
          [(''rlock'', struct_raw_spinlock, None)], None)]"

definition td_spinlock_t :: ctype where
  "td_spinlock_t = struct_spinlock"

definition td_blkcnt_t :: ctype where
  "td_blkcnt_t = td_u64"

definition struct_optimistic_spin_queue :: ctype where
  "struct_optimistic_spin_queue = CStruct ''optimistic_spin_queue'' False
      [(''tail'', td_atomic_t, None)]"

definition td_raw_spinlock_t :: ctype where
  "td_raw_spinlock_t = struct_raw_spinlock"

definition struct_rw_semaphore :: ctype where
  "struct_rw_semaphore = CStruct ''rw_semaphore'' False
      [(''count'', td_atomic_long_t, None),
       (''owner'', td_atomic_long_t, None),
       (''osq'', struct_optimistic_spin_queue, None),
       (''wait_lock'', td_raw_spinlock_t, None),
       (''wait_list'', struct_list_head, None)]"

definition struct_hlist_node :: ctype where
  "struct_hlist_node = CStruct ''hlist_node'' False
      [(''next'', CPtr ''struct hlist_node'', None),
       (''pprev'', CPtr ''struct hlist_node *'', None)]"

definition struct_hlist_head :: ctype where
  "struct_hlist_head = CStruct ''hlist_head'' False
      [(''first'', CPtr ''struct hlist_node'', None)]"

definition struct_callback_head :: ctype where
  "struct_callback_head = CStruct ''callback_head'' False
      [(''next'', CPtr ''struct callback_head'', None),
       (''func'', CPtr ''()'', None)]"

definition td_gfp_t :: ctype where
  "td_gfp_t = CUInt 4"

definition struct_xarray :: ctype where
  "struct_xarray = CStruct ''xarray'' False
      [(''xa_lock'', td_spinlock_t, None),
       (''xa_flags'', td_gfp_t, None),
       (''xa_head'', CPtr ''void'', None)]"

definition struct_rb_root :: ctype where
  "struct_rb_root = CStruct ''rb_root'' False
      [(''rb_node'', CPtr ''struct rb_node'', None)]"

definition struct_rb_root_cached :: ctype where
  "struct_rb_root_cached = CStruct ''rb_root_cached'' False
      [(''rb_root'', struct_rb_root, None),
       (''rb_leftmost'', CPtr ''struct rb_node'', None)]"

definition td_errseq_t :: ctype where
  "td_errseq_t = td_u32"

definition td_qsize_t :: ctype where
  "td_qsize_t = CSInt 8"

definition struct_wait_queue_head :: ctype where
  "struct_wait_queue_head = CStruct ''wait_queue_head'' False
      [(''lock'', td_spinlock_t, None),
       (''head'', struct_list_head, None)]"

definition td_wait_queue_head_t :: ctype where
  "td_wait_queue_head_t = struct_wait_queue_head"

definition struct_rcuwait :: ctype where
  "struct_rcuwait = CStruct ''rcuwait'' False
      [(''task'', CPtr ''struct task_struct'', None)]"

definition td_uuid_t :: ctype where
  "td_uuid_t = CStruct '''' False
      [(''b'', CArr (td___u8) 16, None)]"

definition struct_mutex :: ctype where
  "struct_mutex = CStruct ''mutex'' False
      [(''owner'', td_atomic_long_t, None),
       (''wait_lock'', td_raw_spinlock_t, None),
       (''osq'', struct_optimistic_spin_queue, None),
       (''wait_list'', struct_list_head, None)]"

definition td_bool :: ctype where
  "td_bool = CUInt 1"

definition struct_llist_node :: ctype where
  "struct_llist_node = CStruct ''llist_node'' False
      [(''next'', CPtr ''struct llist_node'', None)]"

definition td_freeptr_t :: ctype where
  "td_freeptr_t = CStruct '''' False
      [(''v'', CUInt 8, None)]"

definition struct_seqcount :: ctype where
  "struct_seqcount = CStruct ''seqcount'' False
      [(''sequence'', CUInt 4, None)]"

definition td_seqcount_t :: ctype where
  "td_seqcount_t = struct_seqcount"

definition struct_seqcount_spinlock :: ctype where
  "struct_seqcount_spinlock = CStruct ''seqcount_spinlock'' False
      [(''seqcount'', td_seqcount_t, None)]"

definition td_seqcount_spinlock_t :: ctype where
  "td_seqcount_spinlock_t = struct_seqcount_spinlock"

subsection \<open>Alignment and size\<close>

lemma td___u32_layout [simp]:
  "calign td___u32 = 4" "csize td___u32 = 4" "wf_ctype td___u32" "unpacked td___u32"
  by (simp_all add: td___u32_def layout)

lemma td_u32_layout [simp]:
  "calign td_u32 = 4" "csize td_u32 = 4" "wf_ctype td_u32" "unpacked td_u32"
  by (simp_all add: td_u32_def layout)

lemma td___kernel_dev_t_layout [simp]:
  "calign td___kernel_dev_t = 4" "csize td___kernel_dev_t = 4" "wf_ctype td___kernel_dev_t" "unpacked td___kernel_dev_t"
  by (simp_all add: td___kernel_dev_t_def layout)

lemma td_dev_t_layout [simp]:
  "calign td_dev_t = 4" "csize td_dev_t = 4" "wf_ctype td_dev_t" "unpacked td_dev_t"
  by (simp_all add: td_dev_t_def layout)

lemma td___u64_layout [simp]:
  "calign td___u64 = 8" "csize td___u64 = 8" "wf_ctype td___u64" "unpacked td___u64"
  by (simp_all add: td___u64_def layout)

lemma td_u64_layout [simp]:
  "calign td_u64 = 8" "csize td_u64 = 8" "wf_ctype td_u64" "unpacked td_u64"
  by (simp_all add: td_u64_def layout)

lemma td_sector_t_layout [simp]:
  "calign td_sector_t = 8" "csize td_sector_t = 8" "wf_ctype td_sector_t" "unpacked td_sector_t"
  by (simp_all add: td_sector_t_def layout)

lemma struct_list_head_layout [simp]:
  "calign struct_list_head = 8" "csize struct_list_head = 16" "wf_ctype struct_list_head" "unpacked struct_list_head"
  by (simp_all add: struct_list_head_def layout)

lemma td_fmode_t_layout [simp]:
  "calign td_fmode_t = 4" "csize td_fmode_t = 4" "wf_ctype td_fmode_t" "unpacked td_fmode_t"
  by (simp_all add: td_fmode_t_def layout)

lemma td___kernel_loff_t_layout [simp]:
  "calign td___kernel_loff_t = 8" "csize td___kernel_loff_t = 8" "wf_ctype td___kernel_loff_t" "unpacked td___kernel_loff_t"
  by (simp_all add: td___kernel_loff_t_def layout)

lemma td_loff_t_layout [simp]:
  "calign td_loff_t = 8" "csize td_loff_t = 8" "wf_ctype td_loff_t" "unpacked td_loff_t"
  by (simp_all add: td_loff_t_def layout)

lemma td_atomic_t_layout [simp]:
  "calign td_atomic_t = 4" "csize td_atomic_t = 4" "wf_ctype td_atomic_t" "unpacked td_atomic_t"
  by (simp_all add: td_atomic_t_def layout)

lemma td___s64_layout [simp]:
  "calign td___s64 = 8" "csize td___s64 = 8" "wf_ctype td___s64" "unpacked td___s64"
  by (simp_all add: td___s64_def layout)

lemma td_s64_layout [simp]:
  "calign td_s64 = 8" "csize td_s64 = 8" "wf_ctype td_s64" "unpacked td_s64"
  by (simp_all add: td_s64_def layout)

lemma td_atomic64_t_layout [simp]:
  "calign td_atomic64_t = 8" "csize td_atomic64_t = 8" "wf_ctype td_atomic64_t" "unpacked td_atomic64_t"
  by (simp_all add: td_atomic64_t_def layout)

lemma td_atomic_long_t_layout [simp]:
  "calign td_atomic_long_t = 8" "csize td_atomic_long_t = 8" "wf_ctype td_atomic_long_t" "unpacked td_atomic_long_t"
  by (simp_all add: td_atomic_long_t_def layout)

lemma td_work_func_t_layout [simp]:
  "calign td_work_func_t = 8" "csize td_work_func_t = 8" "wf_ctype td_work_func_t" "unpacked td_work_func_t"
  by (simp_all add: td_work_func_t_def layout)

lemma struct_work_struct_layout [simp]:
  "calign struct_work_struct = 8" "csize struct_work_struct = 32" "wf_ctype struct_work_struct" "unpacked struct_work_struct"
  by (simp_all add: struct_work_struct_def layout)

lemma td_ktime_t_layout [simp]:
  "calign td_ktime_t = 8" "csize td_ktime_t = 8" "wf_ctype td_ktime_t" "unpacked td_ktime_t"
  by (simp_all add: td_ktime_t_def layout)

lemma td___kernel_pid_t_layout [simp]:
  "calign td___kernel_pid_t = 4" "csize td___kernel_pid_t = 4" "wf_ctype td___kernel_pid_t" "unpacked td___kernel_pid_t"
  by (simp_all add: td___kernel_pid_t_def layout)

lemma td_pid_t_layout [simp]:
  "calign td_pid_t = 4" "csize td_pid_t = 4" "wf_ctype td_pid_t" "unpacked td_pid_t"
  by (simp_all add: td_pid_t_def layout)

lemma td_umode_t_layout [simp]:
  "calign td_umode_t = 2" "csize td_umode_t = 2" "wf_ctype td_umode_t" "unpacked td_umode_t"
  by (simp_all add: td_umode_t_def layout)

lemma td___kernel_uid32_t_layout [simp]:
  "calign td___kernel_uid32_t = 4" "csize td___kernel_uid32_t = 4" "wf_ctype td___kernel_uid32_t" "unpacked td___kernel_uid32_t"
  by (simp_all add: td___kernel_uid32_t_def layout)

lemma td_uid_t_layout [simp]:
  "calign td_uid_t = 4" "csize td_uid_t = 4" "wf_ctype td_uid_t" "unpacked td_uid_t"
  by (simp_all add: td_uid_t_def layout)

lemma td_kuid_t_layout [simp]:
  "calign td_kuid_t = 4" "csize td_kuid_t = 4" "wf_ctype td_kuid_t" "unpacked td_kuid_t"
  by (simp_all add: td_kuid_t_def layout)

lemma td___kernel_gid32_t_layout [simp]:
  "calign td___kernel_gid32_t = 4" "csize td___kernel_gid32_t = 4" "wf_ctype td___kernel_gid32_t" "unpacked td___kernel_gid32_t"
  by (simp_all add: td___kernel_gid32_t_def layout)

lemma td_gid_t_layout [simp]:
  "calign td_gid_t = 4" "csize td_gid_t = 4" "wf_ctype td_gid_t" "unpacked td_gid_t"
  by (simp_all add: td_gid_t_def layout)

lemma td_kgid_t_layout [simp]:
  "calign td_kgid_t = 4" "csize td_kgid_t = 4" "wf_ctype td_kgid_t" "unpacked td_kgid_t"
  by (simp_all add: td_kgid_t_def layout)

lemma td_uint64_t_layout [simp]:
  "calign td_uint64_t = 8" "csize td_uint64_t = 8" "wf_ctype td_uint64_t" "unpacked td_uint64_t"
  by (simp_all add: td_uint64_t_def layout)

lemma td_time64_t_layout [simp]:
  "calign td_time64_t = 8" "csize td_time64_t = 8" "wf_ctype td_time64_t" "unpacked td_time64_t"
  by (simp_all add: td_time64_t_def layout)

lemma td___u8_layout [simp]:
  "calign td___u8 = 1" "csize td___u8 = 1" "wf_ctype td___u8" "unpacked td___u8"
  by (simp_all add: td___u8_def layout)

lemma td_u8_layout [simp]:
  "calign td_u8 = 1" "csize td_u8 = 1" "wf_ctype td_u8" "unpacked td_u8"
  by (simp_all add: td_u8_def layout)

lemma td___be32_layout [simp]:
  "calign td___be32 = 4" "csize td___be32 = 4" "wf_ctype td___be32" "unpacked td___be32"
  by (simp_all add: td___be32_def layout)

lemma td___u16_layout [simp]:
  "calign td___u16 = 2" "csize td___u16 = 2" "wf_ctype td___u16" "unpacked td___u16"
  by (simp_all add: td___u16_def layout)

lemma td_u16_layout [simp]:
  "calign td_u16 = 2" "csize td_u16 = 2" "wf_ctype td_u16" "unpacked td_u16"
  by (simp_all add: td_u16_def layout)

lemma struct_qspinlock_layout [simp]:
  "calign struct_qspinlock = 4" "csize struct_qspinlock = 4" "wf_ctype struct_qspinlock" "unpacked struct_qspinlock"
  by (simp_all add: struct_qspinlock_def layout)

lemma td_arch_spinlock_t_layout [simp]:
  "calign td_arch_spinlock_t = 4" "csize td_arch_spinlock_t = 4" "wf_ctype td_arch_spinlock_t" "unpacked td_arch_spinlock_t"
  by (simp_all add: td_arch_spinlock_t_def layout)

lemma struct_raw_spinlock_layout [simp]:
  "calign struct_raw_spinlock = 4" "csize struct_raw_spinlock = 4" "wf_ctype struct_raw_spinlock" "unpacked struct_raw_spinlock"
  by (simp_all add: struct_raw_spinlock_def layout)

lemma struct_spinlock_layout [simp]:
  "calign struct_spinlock = 4" "csize struct_spinlock = 4" "wf_ctype struct_spinlock" "unpacked struct_spinlock"
  by (simp_all add: struct_spinlock_def layout)

lemma td_spinlock_t_layout [simp]:
  "calign td_spinlock_t = 4" "csize td_spinlock_t = 4" "wf_ctype td_spinlock_t" "unpacked td_spinlock_t"
  by (simp_all add: td_spinlock_t_def layout)

lemma td_blkcnt_t_layout [simp]:
  "calign td_blkcnt_t = 8" "csize td_blkcnt_t = 8" "wf_ctype td_blkcnt_t" "unpacked td_blkcnt_t"
  by (simp_all add: td_blkcnt_t_def layout)

lemma struct_optimistic_spin_queue_layout [simp]:
  "calign struct_optimistic_spin_queue = 4" "csize struct_optimistic_spin_queue = 4" "wf_ctype struct_optimistic_spin_queue" "unpacked struct_optimistic_spin_queue"
  by (simp_all add: struct_optimistic_spin_queue_def layout)

lemma td_raw_spinlock_t_layout [simp]:
  "calign td_raw_spinlock_t = 4" "csize td_raw_spinlock_t = 4" "wf_ctype td_raw_spinlock_t" "unpacked td_raw_spinlock_t"
  by (simp_all add: td_raw_spinlock_t_def layout)

lemma struct_rw_semaphore_layout [simp]:
  "calign struct_rw_semaphore = 8" "csize struct_rw_semaphore = 40" "wf_ctype struct_rw_semaphore" "unpacked struct_rw_semaphore"
  by (simp_all add: struct_rw_semaphore_def layout)

lemma struct_hlist_node_layout [simp]:
  "calign struct_hlist_node = 8" "csize struct_hlist_node = 16" "wf_ctype struct_hlist_node" "unpacked struct_hlist_node"
  by (simp_all add: struct_hlist_node_def layout)

lemma struct_hlist_head_layout [simp]:
  "calign struct_hlist_head = 8" "csize struct_hlist_head = 8" "wf_ctype struct_hlist_head" "unpacked struct_hlist_head"
  by (simp_all add: struct_hlist_head_def layout)

lemma struct_callback_head_layout [simp]:
  "calign struct_callback_head = 8" "csize struct_callback_head = 16" "wf_ctype struct_callback_head" "unpacked struct_callback_head"
  by (simp_all add: struct_callback_head_def layout)

lemma td_gfp_t_layout [simp]:
  "calign td_gfp_t = 4" "csize td_gfp_t = 4" "wf_ctype td_gfp_t" "unpacked td_gfp_t"
  by (simp_all add: td_gfp_t_def layout)

lemma struct_xarray_layout [simp]:
  "calign struct_xarray = 8" "csize struct_xarray = 16" "wf_ctype struct_xarray" "unpacked struct_xarray"
  by (simp_all add: struct_xarray_def layout)

lemma struct_rb_root_layout [simp]:
  "calign struct_rb_root = 8" "csize struct_rb_root = 8" "wf_ctype struct_rb_root" "unpacked struct_rb_root"
  by (simp_all add: struct_rb_root_def layout)

lemma struct_rb_root_cached_layout [simp]:
  "calign struct_rb_root_cached = 8" "csize struct_rb_root_cached = 16" "wf_ctype struct_rb_root_cached" "unpacked struct_rb_root_cached"
  by (simp_all add: struct_rb_root_cached_def layout)

lemma td_errseq_t_layout [simp]:
  "calign td_errseq_t = 4" "csize td_errseq_t = 4" "wf_ctype td_errseq_t" "unpacked td_errseq_t"
  by (simp_all add: td_errseq_t_def layout)

lemma td_qsize_t_layout [simp]:
  "calign td_qsize_t = 8" "csize td_qsize_t = 8" "wf_ctype td_qsize_t" "unpacked td_qsize_t"
  by (simp_all add: td_qsize_t_def layout)

lemma struct_wait_queue_head_layout [simp]:
  "calign struct_wait_queue_head = 8" "csize struct_wait_queue_head = 24" "wf_ctype struct_wait_queue_head" "unpacked struct_wait_queue_head"
  by (simp_all add: struct_wait_queue_head_def layout)

lemma td_wait_queue_head_t_layout [simp]:
  "calign td_wait_queue_head_t = 8" "csize td_wait_queue_head_t = 24" "wf_ctype td_wait_queue_head_t" "unpacked td_wait_queue_head_t"
  by (simp_all add: td_wait_queue_head_t_def layout)

lemma struct_rcuwait_layout [simp]:
  "calign struct_rcuwait = 8" "csize struct_rcuwait = 8" "wf_ctype struct_rcuwait" "unpacked struct_rcuwait"
  by (simp_all add: struct_rcuwait_def layout)

lemma td_uuid_t_layout [simp]:
  "calign td_uuid_t = 1" "csize td_uuid_t = 16" "wf_ctype td_uuid_t" "unpacked td_uuid_t"
  by (simp_all add: td_uuid_t_def layout)

lemma struct_mutex_layout [simp]:
  "calign struct_mutex = 8" "csize struct_mutex = 32" "wf_ctype struct_mutex" "unpacked struct_mutex"
  by (simp_all add: struct_mutex_def layout)

lemma td_bool_layout [simp]:
  "calign td_bool = 1" "csize td_bool = 1" "wf_ctype td_bool" "unpacked td_bool"
  by (simp_all add: td_bool_def layout)

lemma struct_llist_node_layout [simp]:
  "calign struct_llist_node = 8" "csize struct_llist_node = 8" "wf_ctype struct_llist_node" "unpacked struct_llist_node"
  by (simp_all add: struct_llist_node_def layout)

lemma td_freeptr_t_layout [simp]:
  "calign td_freeptr_t = 8" "csize td_freeptr_t = 8" "wf_ctype td_freeptr_t" "unpacked td_freeptr_t"
  by (simp_all add: td_freeptr_t_def layout)

lemma struct_seqcount_layout [simp]:
  "calign struct_seqcount = 4" "csize struct_seqcount = 4" "wf_ctype struct_seqcount" "unpacked struct_seqcount"
  by (simp_all add: struct_seqcount_def layout)

lemma td_seqcount_t_layout [simp]:
  "calign td_seqcount_t = 4" "csize td_seqcount_t = 4" "wf_ctype td_seqcount_t" "unpacked td_seqcount_t"
  by (simp_all add: td_seqcount_t_def layout)

lemma struct_seqcount_spinlock_layout [simp]:
  "calign struct_seqcount_spinlock = 4" "csize struct_seqcount_spinlock = 4" "wf_ctype struct_seqcount_spinlock" "unpacked struct_seqcount_spinlock"
  by (simp_all add: struct_seqcount_spinlock_def layout)

lemma td_seqcount_spinlock_t_layout [simp]:
  "calign td_seqcount_spinlock_t = 4" "csize td_seqcount_spinlock_t = 4" "wf_ctype td_seqcount_spinlock_t" "unpacked td_seqcount_spinlock_t"
  by (simp_all add: td_seqcount_spinlock_t_def layout)

end
