(* ===== verification/KTypes_Vfs.thy ===== *)
theory KTypes_Vfs
  imports KTypes_Core
begin

text \<open>
  Declarations of \<^verbatim>\<open>bpf/headers/vmlinux.h\<close>: the file-system objects the NFS programs
  walk through (\<^verbatim>\<open>struct inode\<close>, \<^verbatim>\<open>struct super_block\<close>, \<^verbatim>\<open>struct file\<close>,
  \<^verbatim>\<open>struct kiocb\<close>, \<^verbatim>\<open>struct path\<close>, \<^verbatim>\<open>struct dentry\<close>) with everything they embed.
\<close>

definition enum_rw_hint :: ctype where
  "enum_rw_hint = CEnum ''rw_hint'' 4
      [(''WRITE_LIFE_NOT_SET'', 0),
       (''WRITE_LIFE_NONE'', 1),
       (''WRITE_LIFE_SHORT'', 2),
       (''WRITE_LIFE_MEDIUM'', 3),
       (''WRITE_LIFE_LONG'', 4),
       (''WRITE_LIFE_EXTREME'', 5)]"

definition struct_address_space :: ctype where
  "struct_address_space = CStruct ''address_space'' False
      [(''host'', CPtr ''struct inode'', None),
       (''i_pages'', struct_xarray, None),
       (''invalidate_lock'', struct_rw_semaphore, None),
       (''gfp_mask'', td_gfp_t, None),
       (''i_mmap_writable'', td_atomic_t, None),
       (''i_mmap'', struct_rb_root_cached, None),
       (''nrpages'', CUInt 8, None),
       (''writeback_index'', CUInt 8, None),
       (''a_ops'', CPtr ''struct address_space_operations'', None),
       (''flags'', CUInt 8, None),
       (''wb_err'', td_errseq_t, None),
       (''i_private_lock'', td_spinlock_t, None),
       (''i_private_list'', struct_list_head, None),
       (''i_mmap_rwsem'', struct_rw_semaphore, None),
       (''i_private_data'', CPtr ''void'', None)]"

definition struct_inode :: ctype where
  "struct_inode = CStruct ''inode'' False
      [(''i_mode'', td_umode_t, None),
       (''i_opflags'', CUInt 2, None),
       (''i_uid'', td_kuid_t, None),
       (''i_gid'', td_kgid_t, None),
       (''i_flags'', CUInt 4, None),
       (''i_acl'', CPtr ''struct posix_acl'', None),
       (''i_default_acl'', CPtr ''struct posix_acl'', None),
       (''i_op'', CPtr ''struct inode_operations'', None),
       (''i_sb'', CPtr ''struct super_block'', None),
       (''i_mapping'', CPtr ''struct address_space'', None),
       (''i_security'', CPtr ''void'', None),
       (''i_ino'', CUInt 8, None),
       ('''', CUnion '''' False
          [(''i_nlink'', CUInt 4, None),
           (''__i_nlink'', CUInt 4, None)], None),
       (''i_rdev'', td_dev_t, None),
       (''i_size'', td_loff_t, None),
       (''i_atime_sec'', td_time64_t, None),
       (''i_mtime_sec'', td_time64_t, None),
       (''i_ctime_sec'', td_time64_t, None),
       (''i_atime_nsec'', td_u32, None),
       (''i_mtime_nsec'', td_u32, None),
       (''i_ctime_nsec'', td_u32, None),
       (''i_generation'', td_u32, None),
       (''i_lock'', td_spinlock_t, None),
       (''i_bytes'', CUInt 2, None),
       (''i_blkbits'', td_u8, None),
       (''i_write_hint'', enum_rw_hint, None),
       (''i_blocks'', td_blkcnt_t, None),
       (''i_state'', td_u32, None),
       (''i_rwsem'', struct_rw_semaphore, None),
       (''dirtied_when'', CUInt 8, None),
       (''dirtied_time_when'', CUInt 8, None),
       (''i_hash'', struct_hlist_node, None),
       (''i_io_list'', struct_list_head, None),
       (''i_wb'', CPtr ''struct bdi_writeback'', None),
       (''i_wb_frn_winner'', CSInt 4, None),
       (''i_wb_frn_avg_time'', td_u16, None),
       (''i_wb_frn_history'', td_u16, None),
       (''i_lru'', struct_list_head, None),
       (''i_sb_list'', struct_list_head, None),
       (''i_wb_list'', struct_list_head, None),
       ('''', CUnion '''' False
          [(''i_dentry'', struct_hlist_head, None),
           (''i_rcu'', struct_callback_head, None)], None),
       (''i_version'', td_atomic64_t, None),
       (''i_sequence'', td_atomic64_t, None),
       (''i_count'', td_atomic_t, None),
       (''i_dio_count'', td_atomic_t, None),
       (''i_writecount'', td_atomic_t, None),
       (''i_readcount'', td_atomic_t, None),
       ('''', CUnion '''' False
          [(''i_fop'', CPtr ''struct file_operations'', None),
           (''free_inode'', CPtr ''()'', None)], None),
       (''i_flctx'', CPtr ''struct file_lock_context'', None),
       (''i_data'', struct_address_space, None),
       (''i_devices'', struct_list_head, None),
       ('''', CUnion '''' False
          [(''i_pipe'', CPtr ''struct pipe_inode_info'', None),
           (''i_cdev'', CPtr ''struct cdev'', None),
           (''i_link'', CPtr ''char'', None),
           (''i_dir_seq'', CUInt 4, None)], None),
       (''i_fsnotify_mask'', td___u32, None),
       (''i_fsnotify_marks'', CPtr ''struct fsnotify_mark_connector'', None),
       (''i_crypt_info'', CPtr ''struct fscrypt_inode_info'', None),
       (''i_verity_info'', CPtr ''struct fsverity_info'', None),
       (''i_private'', CPtr ''void'', None)]"

definition struct_hlist_bl_head :: ctype where
  "struct_hlist_bl_head = CStruct ''hlist_bl_head'' False
      [(''first'', CPtr ''struct hlist_bl_node'', None)]"

definition struct_mem_dqinfo :: ctype where
  "struct_mem_dqinfo = CStruct ''mem_dqinfo'' False
      [(''dqi_format'', CPtr ''struct quota_format_type'', None),
       (''dqi_fmt_id'', CSInt 4, None),
       (''dqi_dirty_list'', struct_list_head, None),
       (''dqi_flags'', CUInt 8, None),
       (''dqi_bgrace'', CUInt 4, None),
       (''dqi_igrace'', CUInt 4, None),
       (''dqi_max_spc_limit'', td_qsize_t, None),
       (''dqi_max_ino_limit'', td_qsize_t, None),
       (''dqi_priv'', CPtr ''void'', None)]"

definition struct_quota_info :: ctype where
  "struct_quota_info = CStruct ''quota_info'' False
      [(''flags'', CUInt 4, None),
       (''dqio_sem'', struct_rw_semaphore, None),
       (''files'', CArr (CPtr ''struct inode'') 3, None),
       (''info'', CArr (struct_mem_dqinfo) 3, None),
       (''ops'', CArr (CPtr ''struct quota_format_ops'') 3, None)]"

definition struct_rcu_sync :: ctype where
  "struct_rcu_sync = CStruct ''rcu_sync'' False
      [(''gp_state'', CSInt 4, None),
       (''gp_count'', CSInt 4, None),
       (''gp_wait'', td_wait_queue_head_t, None),
       (''cb_head'', struct_callback_head, None)]"

definition struct_percpu_rw_semaphore :: ctype where
  "struct_percpu_rw_semaphore = CStruct ''percpu_rw_semaphore'' False
      [(''rss'', struct_rcu_sync, None),
       (''read_count'', CPtr ''unsigned int'', None),
       (''writer'', struct_rcuwait, None),
       (''waiters'', td_wait_queue_head_t, None),
       (''block'', td_atomic_t, None)]"

definition struct_sb_writers :: ctype where
  "struct_sb_writers = CStruct ''sb_writers'' False
      [(''frozen'', CUInt 2, None),
       (''freeze_kcount'', CSInt 4, None),
       (''freeze_ucount'', CSInt 4, None),
       (''rw_sem'', CArr (struct_percpu_rw_semaphore) 3, None)]"

definition struct_list_lru :: ctype where
  "struct_list_lru = CStruct ''list_lru'' False
      [(''node'', CPtr ''struct list_lru_node'', None),
       (''list'', struct_list_head, None),
       (''shrinker_id'', CSInt 4, None),
       (''memcg_aware'', td_bool, None),
       (''xa'', struct_xarray, None)]"

definition struct_super_block :: ctype where
  "struct_super_block = CStruct ''super_block'' False
      [(''s_list'', struct_list_head, None),
       (''s_dev'', td_dev_t, None),
       (''s_blocksize_bits'', CUInt 1, None),
       (''s_blocksize'', CUInt 8, None),
       (''s_maxbytes'', td_loff_t, None),
       (''s_type'', CPtr ''struct file_system_type'', None),
       (''s_op'', CPtr ''struct super_operations'', None),
       (''dq_op'', CPtr ''struct dquot_operations'', None),
       (''s_qcop'', CPtr ''struct quotactl_ops'', None),
       (''s_export_op'', CPtr ''struct export_operations'', None),
       (''s_flags'', CUInt 8, None),
       (''s_iflags'', CUInt 8, None),
       (''s_magic'', CUInt 8, None),
       (''s_root'', CPtr ''struct dentry'', None),
       (''s_umount'', struct_rw_semaphore, None),
       (''s_count'', CSInt 4, None),
       (''s_active'', td_atomic_t, None),
       (''s_security'', CPtr ''void'', None),
       (''s_xattr'', CPtr ''struct xattr_handler *'', None),
       (''s_cop'', CPtr ''struct fscrypt_operations'', None),
       (''s_master_keys'', CPtr ''struct fscrypt_keyring'', None),
       (''s_vop'', CPtr ''struct fsverity_operations'', None),
       (''s_encoding'', CPtr ''struct unicode_map'', None),
       (''s_encoding_flags'', td___u16, None),
       (''s_roots'', struct_hlist_bl_head, None),
       (''s_mounts'', struct_list_head, None),
       (''s_bdev'', CPtr ''struct block_device'', None),
       (''s_bdev_file'', CPtr ''struct file'', None),
       (''s_bdi'', CPtr ''struct backing_dev_info'', None),
       (''s_mtd'', CPtr ''struct mtd_info'', None),
       (''s_instances'', struct_hlist_node, None),
       (''s_quota_types'', CUInt 4, None),
       (''s_dquot'', struct_quota_info, None),
       (''s_writers'', struct_sb_writers, None),
       (''s_fs_info'', CPtr ''void'', None),
       (''s_time_gran'', td_u32, None),
       (''s_time_min'', td_time64_t, None),
       (''s_time_max'', td_time64_t, None),
       (''s_fsnotify_mask'', td_u32, None),
       (''s_fsnotify_info'', CPtr ''struct fsnotify_sb_info'', None),
       (''s_id'', CArr (CSInt 1) 32, None),
       (''s_uuid'', td_uuid_t, None),
       (''s_uuid_len'', td_u8, None),
       (''s_sysfs_name'', CArr (CSInt 1) 37, None),
       (''s_max_links'', CUInt 4, None),
       (''s_vfs_rename_mutex'', struct_mutex, None),
       (''s_subtype'', CPtr ''char'', None),
       (''s_d_op'', CPtr ''struct dentry_operations'', None),
       (''s_shrink'', CPtr ''struct shrinker'', None),
       (''s_remove_count'', td_atomic_long_t, None),
       (''s_readonly_remount'', CSInt 4, None),
       (''s_wb_err'', td_errseq_t, None),
       (''s_dio_done_wq'', CPtr ''struct workqueue_struct'', None),
       (''s_pins'', struct_hlist_head, None),
       (''s_user_ns'', CPtr ''struct user_namespace'', None),
       (''s_dentry_lru'', struct_list_lru, None),
       (''s_inode_lru'', struct_list_lru, None),
       (''rcu'', struct_callback_head, None),
       (''destroy_work'', struct_work_struct, None),
       (''s_sync_lock'', struct_mutex, None),
       (''s_stack_depth'', CSInt 4, None),
       ('''', CSInt 8, Some 64),
       (''s_inode_list_lock'', td_spinlock_t, None),
       (''s_inodes'', struct_list_head, None),
       (''s_inode_wblist_lock'', td_spinlock_t, None),
       (''s_inodes_wb'', struct_list_head, None),
       ('''', CSInt 8, Some 64),
       ('''', CSInt 8, Some 64)]"

definition struct_kiocb :: ctype where
  "struct_kiocb = CStruct ''kiocb'' False
      [(''ki_filp'', CPtr ''struct file'', None),
       (''ki_pos'', td_loff_t, None),
       (''ki_complete'', CPtr ''()'', None),
       (''private'', CPtr ''void'', None),
       (''ki_flags'', CSInt 4, None),
       (''ki_ioprio'', td_u16, None),
       ('''', CUnion '''' False
          [(''ki_waitq'', CPtr ''struct wait_page_queue'', None),
           (''dio_complete'', CPtr ''()'', None)], None)]"

definition struct_path :: ctype where
  "struct_path = CStruct ''path'' False
      [(''mnt'', CPtr ''struct vfsmount'', None),
       (''dentry'', CPtr ''struct dentry'', None)]"

definition struct_file_ra_state :: ctype where
  "struct_file_ra_state = CStruct ''file_ra_state'' False
      [(''start'', CUInt 8, None),
       (''size'', CUInt 4, None),
       (''async_size'', CUInt 4, None),
       (''ra_pages'', CUInt 4, None),
       (''mmap_miss'', CUInt 4, None),
       (''prev_pos'', td_loff_t, None)]"

definition struct_file :: ctype where
  "struct_file = CStruct ''file'' False
      [(''f_count'', td_atomic_long_t, None),
       (''f_lock'', td_spinlock_t, None),
       (''f_mode'', td_fmode_t, None),
       (''f_op'', CPtr ''struct file_operations'', None),
       (''f_mapping'', CPtr ''struct address_space'', None),
       (''private_data'', CPtr ''void'', None),
       (''f_inode'', CPtr ''struct inode'', None),
       (''f_flags'', CUInt 4, None),
       (''f_iocb_flags'', CUInt 4, None),
       (''f_cred'', CPtr ''struct cred'', None),
       (''f_path'', struct_path, None),
       ('''', CUnion '''' False
          [(''f_pos_lock'', struct_mutex, None),
           (''f_pipe'', td_u64, None)], None),
       (''f_pos'', td_loff_t, None),
       (''f_security'', CPtr ''void'', None),
       (''f_owner'', CPtr ''struct fown_struct'', None),
       (''f_wb_err'', td_errseq_t, None),
       (''f_sb_err'', td_errseq_t, None),
       (''f_ep'', CPtr ''struct hlist_head'', None),
       ('''', CUnion '''' False
          [(''f_task_work'', struct_callback_head, None),
           (''f_llist'', struct_llist_node, None),
           (''f_ra'', struct_file_ra_state, None),
           (''f_freeptr'', td_freeptr_t, None)], None)]"

definition struct_hlist_bl_node :: ctype where
  "struct_hlist_bl_node = CStruct ''hlist_bl_node'' False
      [(''next'', CPtr ''struct hlist_bl_node'', None),
       (''pprev'', CPtr ''struct hlist_bl_node *'', None)]"

definition struct_qstr :: ctype where
  "struct_qstr = CStruct ''qstr'' False
      [('''', CUnion '''' False
          [('''', CStruct '''' False
              [(''hash'', td_u32, None),
               (''len'', td_u32, None)], None),
           (''hash_len'', td_u64, None)], None),
       (''name'', CPtr ''unsigned char'', None)]"

definition struct_lockref :: ctype where
  "struct_lockref = CStruct ''lockref'' False
      [('''', CUnion '''' False
          [(''lock_count'', td___u64, None),
           ('''', CStruct '''' False
              [(''lock'', td_spinlock_t, None),
               (''count'', CSInt 4, None)], None)], None)]"

definition struct_dentry :: ctype where
  "struct_dentry = CStruct ''dentry'' False
      [(''d_flags'', CUInt 4, None),
       (''d_seq'', td_seqcount_spinlock_t, None),
       (''d_hash'', struct_hlist_bl_node, None),
       (''d_parent'', CPtr ''struct dentry'', None),
       (''d_name'', struct_qstr, None),
       (''d_inode'', CPtr ''struct inode'', None),
       (''d_iname'', CArr (CUInt 1) 40, None),
       (''d_op'', CPtr ''struct dentry_operations'', None),
       (''d_sb'', CPtr ''struct super_block'', None),
       (''d_time'', CUInt 8, None),
       (''d_fsdata'', CPtr ''void'', None),
       (''d_lockref'', struct_lockref, None),
       ('''', CUnion '''' False
          [(''d_lru'', struct_list_head, None),
           (''d_wait'', CPtr ''wait_queue_head_t'', None)], None),
       (''d_sib'', struct_hlist_node, None),
       (''d_children'', struct_hlist_head, None),
       (''d_u'', CUnion '''' False
          [(''d_alias'', struct_hlist_node, None),
           (''d_in_lookup_hash'', struct_hlist_bl_node, None),
           (''d_rcu'', struct_callback_head, None)], None)]"

subsection \<open>Alignment and size\<close>

lemma enum_rw_hint_layout [simp]:
  "calign enum_rw_hint = 4" "csize enum_rw_hint = 4" "wf_ctype enum_rw_hint" "unpacked enum_rw_hint"
  by (simp_all add: enum_rw_hint_def layout)

lemma struct_address_space_layout [simp]:
  "calign struct_address_space = 8" "csize struct_address_space = 192" "wf_ctype struct_address_space" "unpacked struct_address_space"
  by (simp_all add: struct_address_space_def layout)

lemma struct_inode_layout [simp]:
  "calign struct_inode = 8" "csize struct_inode = 632" "wf_ctype struct_inode" "unpacked struct_inode"
  by (simp_all add: struct_inode_def layout)

lemma struct_hlist_bl_head_layout [simp]:
  "calign struct_hlist_bl_head = 8" "csize struct_hlist_bl_head = 8" "wf_ctype struct_hlist_bl_head" "unpacked struct_hlist_bl_head"
  by (simp_all add: struct_hlist_bl_head_def layout)

lemma struct_mem_dqinfo_layout [simp]:
  "calign struct_mem_dqinfo = 8" "csize struct_mem_dqinfo = 72" "wf_ctype struct_mem_dqinfo" "unpacked struct_mem_dqinfo"
  by (simp_all add: struct_mem_dqinfo_def layout)

lemma struct_quota_info_layout [simp]:
  "calign struct_quota_info = 8" "csize struct_quota_info = 312" "wf_ctype struct_quota_info" "unpacked struct_quota_info"
  by (simp_all add: struct_quota_info_def layout)

lemma struct_rcu_sync_layout [simp]:
  "calign struct_rcu_sync = 8" "csize struct_rcu_sync = 48" "wf_ctype struct_rcu_sync" "unpacked struct_rcu_sync"
  by (simp_all add: struct_rcu_sync_def layout)

lemma struct_percpu_rw_semaphore_layout [simp]:
  "calign struct_percpu_rw_semaphore = 8" "csize struct_percpu_rw_semaphore = 96" "wf_ctype struct_percpu_rw_semaphore" "unpacked struct_percpu_rw_semaphore"
  by (simp_all add: struct_percpu_rw_semaphore_def layout)

lemma struct_sb_writers_layout [simp]:
  "calign struct_sb_writers = 8" "csize struct_sb_writers = 304" "wf_ctype struct_sb_writers" "unpacked struct_sb_writers"
  by (simp_all add: struct_sb_writers_def layout)

lemma struct_list_lru_layout [simp]:
  "calign struct_list_lru = 8" "csize struct_list_lru = 48" "wf_ctype struct_list_lru" "unpacked struct_list_lru"
  by (simp_all add: struct_list_lru_def layout)

lemma struct_super_block_layout [simp]:
  "calign struct_super_block = 8" "csize struct_super_block = 1408" "wf_ctype struct_super_block" "unpacked struct_super_block"
  by (simp_all add: struct_super_block_def layout)

lemma struct_kiocb_layout [simp]:
  "calign struct_kiocb = 8" "csize struct_kiocb = 48" "wf_ctype struct_kiocb" "unpacked struct_kiocb"
  by (simp_all add: struct_kiocb_def layout)

lemma struct_path_layout [simp]:
  "calign struct_path = 8" "csize struct_path = 16" "wf_ctype struct_path" "unpacked struct_path"
  by (simp_all add: struct_path_def layout)

lemma struct_file_ra_state_layout [simp]:
  "calign struct_file_ra_state = 8" "csize struct_file_ra_state = 32" "wf_ctype struct_file_ra_state" "unpacked struct_file_ra_state"
  by (simp_all add: struct_file_ra_state_def layout)

lemma struct_file_layout [simp]:
  "calign struct_file = 8" "csize struct_file = 184" "wf_ctype struct_file" "unpacked struct_file"
  by (simp_all add: struct_file_def layout)

lemma struct_hlist_bl_node_layout [simp]:
  "calign struct_hlist_bl_node = 8" "csize struct_hlist_bl_node = 16" "wf_ctype struct_hlist_bl_node" "unpacked struct_hlist_bl_node"
  by (simp_all add: struct_hlist_bl_node_def layout)

lemma struct_qstr_layout [simp]:
  "calign struct_qstr = 8" "csize struct_qstr = 16" "wf_ctype struct_qstr" "unpacked struct_qstr"
  by (simp_all add: struct_qstr_def layout)

lemma struct_lockref_layout [simp]:
  "calign struct_lockref = 8" "csize struct_lockref = 8" "wf_ctype struct_lockref" "unpacked struct_lockref"
  by (simp_all add: struct_lockref_def layout)

lemma struct_dentry_layout [simp]:
  "calign struct_dentry = 8" "csize struct_dentry = 192" "wf_ctype struct_dentry" "unpacked struct_dentry"
  by (simp_all add: struct_dentry_def layout)

end
