(* ===== verification/KTypes_Nfs.thy ===== *)
theory KTypes_Nfs
  imports KTypes_Vfs
begin

text \<open>
  Declarations of \<^verbatim>\<open>bpf/headers/vmlinux.h\<close>: \<^verbatim>\<open>struct nfs_pgio_header\<close>, the object the
  NFS tracepoints pass, with everything it embeds.
\<close>

definition struct_nfs_write_verifier :: ctype where
  "struct_nfs_write_verifier = CStruct ''nfs_write_verifier'' False
      [(''data'', CArr (CSInt 1) 8, None)]"

definition enum_nfs3_stable_how :: ctype where
  "enum_nfs3_stable_how = CEnum ''nfs3_stable_how'' 4
      [(''NFS_UNSTABLE'', 0),
       (''NFS_DATA_SYNC'', 1),
       (''NFS_FILE_SYNC'', 2),
       (''NFS_INVALID_STABLE_HOW'', (- 1))]"

definition struct_nfs_writeverf :: ctype where
  "struct_nfs_writeverf = CStruct ''nfs_writeverf'' False
      [(''verifier'', struct_nfs_write_verifier, None),
       (''committed'', enum_nfs3_stable_how, None)]"

definition struct_rpc_wait :: ctype where
  "struct_rpc_wait = CStruct ''rpc_wait'' False
      [(''list'', struct_list_head, None),
       (''links'', struct_list_head, None),
       (''timer_list'', struct_list_head, None)]"

definition struct_rpc_message :: ctype where
  "struct_rpc_message = CStruct ''rpc_message'' False
      [(''rpc_proc'', CPtr ''struct rpc_procinfo'', None),
       (''rpc_argp'', CPtr ''void'', None),
       (''rpc_resp'', CPtr ''void'', None),
       (''rpc_cred'', CPtr ''struct cred'', None)]"

definition struct_rpc_task :: ctype where
  "struct_rpc_task = CStruct ''rpc_task'' False
      [(''tk_count'', td_atomic_t, None),
       (''tk_status'', CSInt 4, None),
       (''tk_task'', struct_list_head, None),
       (''tk_callback'', CPtr ''()'', None),
       (''tk_action'', CPtr ''()'', None),
       (''tk_timeout'', CUInt 8, None),
       (''tk_runstate'', CUInt 8, None),
       (''tk_waitqueue'', CPtr ''struct rpc_wait_queue'', None),
       (''u'', CUnion '''' False
          [(''tk_work'', struct_work_struct, None),
           (''tk_wait'', struct_rpc_wait, None)], None),
       (''tk_msg'', struct_rpc_message, None),
       (''tk_calldata'', CPtr ''void'', None),
       (''tk_ops'', CPtr ''struct rpc_call_ops'', None),
       (''tk_client'', CPtr ''struct rpc_clnt'', None),
       (''tk_xprt'', CPtr ''struct rpc_xprt'', None),
       (''tk_op_cred'', CPtr ''struct rpc_cred'', None),
       (''tk_rqstp'', CPtr ''struct rpc_rqst'', None),
       (''tk_workqueue'', CPtr ''struct workqueue_struct'', None),
       (''tk_start'', td_ktime_t, None),
       (''tk_owner'', td_pid_t, None),
       (''tk_rpc_status'', CSInt 4, None),
       (''tk_flags'', CUInt 2, None),
       (''tk_timeouts'', CUInt 2, None),
       (''tk_pid'', CUInt 2, None),
       (''tk_priority'', CUInt 1, Some 2),
       (''tk_garb_retry'', CUInt 1, Some 2),
       (''tk_cred_retry'', CUInt 1, Some 2)]"

definition struct_nfs_fsid :: ctype where
  "struct_nfs_fsid = CStruct ''nfs_fsid'' False
      [(''major'', td_uint64_t, None),
       (''minor'', td_uint64_t, None)]"

definition struct_timespec64 :: ctype where
  "struct_timespec64 = CStruct ''timespec64'' False
      [(''tv_sec'', td_time64_t, None),
       (''tv_nsec'', CSInt 8, None)]"

definition struct_nfs_fattr :: ctype where
  "struct_nfs_fattr = CStruct ''nfs_fattr'' False
      [(''valid'', CUInt 4, None),
       (''mode'', td_umode_t, None),
       (''nlink'', td___u32, None),
       (''uid'', td_kuid_t, None),
       (''gid'', td_kgid_t, None),
       (''rdev'', td_dev_t, None),
       (''size'', td___u64, None),
       (''du'', CUnion '''' False
          [(''nfs2'', CStruct '''' False
              [(''blocksize'', td___u32, None),
               (''blocks'', td___u32, None)], None),
           (''nfs3'', CStruct '''' False
              [(''used'', td___u64, None)], None)], None),
       (''fsid'', struct_nfs_fsid, None),
       (''fileid'', td___u64, None),
       (''mounted_on_fileid'', td___u64, None),
       (''atime'', struct_timespec64, None),
       (''mtime'', struct_timespec64, None),
       (''ctime'', struct_timespec64, None),
       (''change_attr'', td___u64, None),
       (''pre_change_attr'', td___u64, None),
       (''pre_size'', td___u64, None),
       (''pre_mtime'', struct_timespec64, None),
       (''pre_ctime'', struct_timespec64, None),
       (''time_start'', CUInt 8, None),
       (''gencount'', CUInt 8, None),
       (''owner_name'', CPtr ''struct nfs4_string'', None),
       (''group_name'', CPtr ''struct nfs4_string'', None),
       (''mdsthreshold'', CPtr ''struct nfs4_threshold'', None),
       (''label'', CPtr ''struct nfs4_label'', None)]"

definition struct_nfs4_sequence_args :: ctype where
  "struct_nfs4_sequence_args = CStruct ''nfs4_sequence_args'' False
      [(''sa_slot'', CPtr ''struct nfs4_slot'', None),
       (''sa_cache_this'', td_u8, Some 1),
       (''sa_privileged'', td_u8, Some 1)]"

definition struct_nfs4_stateid_struct :: ctype where
  "struct_nfs4_stateid_struct = CStruct ''nfs4_stateid_struct'' False
      [('''', CUnion '''' False
          [(''data'', CArr (CSInt 1) 16, None),
           ('''', CStruct '''' False
              [(''seqid'', td___be32, None),
               (''other'', CArr (CSInt 1) 12, None)], None)], None),
       (''type'', CEnum '''' 4
          [(''NFS4_INVALID_STATEID_TYPE'', 0),
           (''NFS4_SPECIAL_STATEID_TYPE'', 1),
           (''NFS4_OPEN_STATEID_TYPE'', 2),
           (''NFS4_LOCK_STATEID_TYPE'', 3),
           (''NFS4_DELEGATION_STATEID_TYPE'', 4),
           (''NFS4_LAYOUT_STATEID_TYPE'', 5),
           (''NFS4_PNFS_DS_STATEID_TYPE'', 6),
           (''NFS4_REVOKED_STATEID_TYPE'', 7)], None)]"

definition td_nfs4_stateid :: ctype where
  "td_nfs4_stateid = struct_nfs4_stateid_struct"

definition struct_nfs_pgio_args :: ctype where
  "struct_nfs_pgio_args = CStruct ''nfs_pgio_args'' False
      [(''seq_args'', struct_nfs4_sequence_args, None),
       (''fh'', CPtr ''struct nfs_fh'', None),
       (''context'', CPtr ''struct nfs_open_context'', None),
       (''lock_context'', CPtr ''struct nfs_lock_context'', None),
       (''stateid'', td_nfs4_stateid, None),
       (''offset'', td___u64, None),
       (''count'', td___u32, None),
       (''pgbase'', CUInt 4, None),
       (''pages'', CPtr ''struct page *'', None),
       ('''', CUnion '''' False
          [(''replen'', CUInt 4, None),
           ('''', CStruct '''' False
              [(''bitmask'', CPtr ''u32'', None),
               (''bitmask_store'', CArr (td_u32) 3, None),
               (''stable'', enum_nfs3_stable_how, None)], None)], None)]"

definition struct_nfs4_sequence_res :: ctype where
  "struct_nfs4_sequence_res = CStruct ''nfs4_sequence_res'' False
      [(''sr_slot'', CPtr ''struct nfs4_slot'', None),
       (''sr_timestamp'', CUInt 8, None),
       (''sr_status'', CSInt 4, None),
       (''sr_status_flags'', td_u32, None),
       (''sr_highest_slotid'', td_u32, None),
       (''sr_target_highest_slotid'', td_u32, None)]"

definition struct_nfs_pgio_res :: ctype where
  "struct_nfs_pgio_res = CStruct ''nfs_pgio_res'' False
      [(''seq_res'', struct_nfs4_sequence_res, None),
       (''fattr'', CPtr ''struct nfs_fattr'', None),
       (''count'', td___u64, None),
       (''op_status'', td___u32, None),
       ('''', CUnion '''' False
          [('''', CStruct '''' False
              [(''replen'', CUInt 4, None),
               (''eof'', CSInt 4, None),
               (''scratch'', CPtr ''void'', None)], None),
           ('''', CStruct '''' False
              [(''verf'', CPtr ''struct nfs_writeverf'', None),
               (''server'', CPtr ''struct nfs_server'', None)], None)], None)]"

definition struct_nfs_page_array :: ctype where
  "struct_nfs_page_array = CStruct ''nfs_page_array'' False
      [(''pagevec'', CPtr ''struct page *'', None),
       (''npages'', CUInt 4, None),
       (''page_array'', CArr (CPtr ''struct page'') 8, None)]"

definition struct_nfs_pgio_header :: ctype where
  "struct_nfs_pgio_header = CStruct ''nfs_pgio_header'' False
      [(''inode'', CPtr ''struct inode'', None),
       (''cred'', CPtr ''struct cred'', None),
       (''pages'', struct_list_head, None),
       (''req'', CPtr ''struct nfs_page'', None),
       (''verf'', struct_nfs_writeverf, None),
       (''rw_mode'', td_fmode_t, None),
       (''lseg'', CPtr ''struct pnfs_layout_segment'', None),
       (''io_start'', td_loff_t, None),
       (''mds_ops'', CPtr ''struct rpc_call_ops'', None),
       (''release'', CPtr ''()'', None),
       (''completion_ops'', CPtr ''struct nfs_pgio_completion_ops'', None),
       (''rw_ops'', CPtr ''struct nfs_rw_ops'', None),
       (''io_completion'', CPtr ''struct nfs_io_completion'', None),
       (''dreq'', CPtr ''struct nfs_direct_req'', None),
       (''netfs'', CPtr ''void'', None),
       (''pnfs_error'', CSInt 4, None),
       (''error'', CSInt 4, None),
       (''good_bytes'', CUInt 4, None),
       (''flags'', CUInt 8, None),
       (''task'', struct_rpc_task, None),
       (''fattr'', struct_nfs_fattr, None),
       (''args'', struct_nfs_pgio_args, None),
       (''res'', struct_nfs_pgio_res, None),
       (''timestamp'', CUInt 8, None),
       (''pgio_done_cb'', CPtr ''()'', None),
       (''mds_offset'', td___u64, None),
       (''page_array'', struct_nfs_page_array, None),
       (''ds_clp'', CPtr ''struct nfs_client'', None),
       (''ds_commit_idx'', td_u32, None),
       (''pgio_mirror_idx'', td_u32, None)]"

subsection \<open>Alignment and size\<close>

lemma struct_nfs_write_verifier_layout [simp]:
  "calign struct_nfs_write_verifier = 1" "csize struct_nfs_write_verifier = 8" "wf_ctype struct_nfs_write_verifier" "unpacked struct_nfs_write_verifier"
  by (simp_all add: struct_nfs_write_verifier_def layout)

lemma enum_nfs3_stable_how_layout [simp]:
  "calign enum_nfs3_stable_how = 4" "csize enum_nfs3_stable_how = 4" "wf_ctype enum_nfs3_stable_how" "unpacked enum_nfs3_stable_how"
  by (simp_all add: enum_nfs3_stable_how_def layout)

lemma struct_nfs_writeverf_layout [simp]:
  "calign struct_nfs_writeverf = 4" "csize struct_nfs_writeverf = 12" "wf_ctype struct_nfs_writeverf" "unpacked struct_nfs_writeverf"
  by (simp_all add: struct_nfs_writeverf_def layout)

lemma struct_rpc_wait_layout [simp]:
  "calign struct_rpc_wait = 8" "csize struct_rpc_wait = 48" "wf_ctype struct_rpc_wait" "unpacked struct_rpc_wait"
  by (simp_all add: struct_rpc_wait_def layout)

lemma struct_rpc_message_layout [simp]:
  "calign struct_rpc_message = 8" "csize struct_rpc_message = 32" "wf_ctype struct_rpc_message" "unpacked struct_rpc_message"
  by (simp_all add: struct_rpc_message_def layout)

lemma struct_rpc_task_layout [simp]:
  "calign struct_rpc_task = 8" "csize struct_rpc_task = 224" "wf_ctype struct_rpc_task" "unpacked struct_rpc_task"
  by (simp_all add: struct_rpc_task_def layout)

lemma struct_nfs_fsid_layout [simp]:
  "calign struct_nfs_fsid = 8" "csize struct_nfs_fsid = 16" "wf_ctype struct_nfs_fsid" "unpacked struct_nfs_fsid"
  by (simp_all add: struct_nfs_fsid_def layout)

lemma struct_timespec64_layout [simp]:
  "calign struct_timespec64 = 8" "csize struct_timespec64 = 16" "wf_ctype struct_timespec64" "unpacked struct_timespec64"
  by (simp_all add: struct_timespec64_def layout)

lemma struct_nfs_fattr_layout [simp]:
  "calign struct_nfs_fattr = 8" "csize struct_nfs_fattr = 224" "wf_ctype struct_nfs_fattr" "unpacked struct_nfs_fattr"
  by (simp_all add: struct_nfs_fattr_def layout)

lemma struct_nfs4_sequence_args_layout [simp]:
  "calign struct_nfs4_sequence_args = 8" "csize struct_nfs4_sequence_args = 16" "wf_ctype struct_nfs4_sequence_args" "unpacked struct_nfs4_sequence_args"
  by (simp_all add: struct_nfs4_sequence_args_def layout)

lemma struct_nfs4_stateid_struct_layout [simp]:
  "calign struct_nfs4_stateid_struct = 4" "csize struct_nfs4_stateid_struct = 20" "wf_ctype struct_nfs4_stateid_struct" "unpacked struct_nfs4_stateid_struct"
  by (simp_all add: struct_nfs4_stateid_struct_def layout)

lemma td_nfs4_stateid_layout [simp]:
  "calign td_nfs4_stateid = 4" "csize td_nfs4_stateid = 20" "wf_ctype td_nfs4_stateid" "unpacked td_nfs4_stateid"
  by (simp_all add: td_nfs4_stateid_def layout)

lemma struct_nfs_pgio_args_layout [simp]:
  "calign struct_nfs_pgio_args = 8" "csize struct_nfs_pgio_args = 112" "wf_ctype struct_nfs_pgio_args" "unpacked struct_nfs_pgio_args"
  by (simp_all add: struct_nfs_pgio_args_def layout)

lemma struct_nfs4_sequence_res_layout [simp]:
  "calign struct_nfs4_sequence_res = 8" "csize struct_nfs4_sequence_res = 32" "wf_ctype struct_nfs4_sequence_res" "unpacked struct_nfs4_sequence_res"
  by (simp_all add: struct_nfs4_sequence_res_def layout)

lemma struct_nfs_pgio_res_layout [simp]:
  "calign struct_nfs_pgio_res = 8" "csize struct_nfs_pgio_res = 72" "wf_ctype struct_nfs_pgio_res" "unpacked struct_nfs_pgio_res"
  by (simp_all add: struct_nfs_pgio_res_def layout)

lemma struct_nfs_page_array_layout [simp]:
  "calign struct_nfs_page_array = 8" "csize struct_nfs_page_array = 80" "wf_ctype struct_nfs_page_array" "unpacked struct_nfs_page_array"
  by (simp_all add: struct_nfs_page_array_def layout)

lemma struct_nfs_pgio_header_layout [simp]:
  "calign struct_nfs_pgio_header = 8" "csize struct_nfs_pgio_header = 904" "wf_ctype struct_nfs_pgio_header" "unpacked struct_nfs_pgio_header"
  by (simp_all add: struct_nfs_pgio_header_def layout)

end
