(* ===== verification/KTypes_Rpc.thy ===== *)
theory KTypes_Rpc
  imports KTypes_Nfs
begin

text \<open>
  Declarations of \<^verbatim>\<open>bpf/headers/vmlinux.h\<close>: the objects that the members of
  \<^verbatim>\<open>struct nfs_pgio_header\<close> point to, with everything they embed.
\<close>

definition td_kxdreproc_t :: ctype where
  "td_kxdreproc_t = CPtr ''()''"

definition td_kxdrdproc_t :: ctype where
  "td_kxdrdproc_t = CPtr ''()''"

definition struct_rpc_procinfo :: ctype where
  "struct_rpc_procinfo = CStruct ''rpc_procinfo'' False
      [(''p_proc'', td_u32, None),
       (''p_encode'', td_kxdreproc_t, None),
       (''p_decode'', td_kxdrdproc_t, None),
       (''p_arglen'', CUInt 4, None),
       (''p_replen'', CUInt 4, None),
       (''p_timer'', CUInt 4, None),
       (''p_statidx'', td_u32, None),
       (''p_name'', CPtr ''char'', None)]"

definition td_kernel_cap_t :: ctype where
  "td_kernel_cap_t = CStruct '''' False
      [(''val'', td_u64, None)]"

definition struct_cred :: ctype where
  "struct_cred = CStruct ''cred'' False
      [(''usage'', td_atomic_long_t, None),
       (''uid'', td_kuid_t, None),
       (''gid'', td_kgid_t, None),
       (''suid'', td_kuid_t, None),
       (''sgid'', td_kgid_t, None),
       (''euid'', td_kuid_t, None),
       (''egid'', td_kgid_t, None),
       (''fsuid'', td_kuid_t, None),
       (''fsgid'', td_kgid_t, None),
       (''securebits'', CUInt 4, None),
       (''cap_inheritable'', td_kernel_cap_t, None),
       (''cap_permitted'', td_kernel_cap_t, None),
       (''cap_effective'', td_kernel_cap_t, None),
       (''cap_bset'', td_kernel_cap_t, None),
       (''cap_ambient'', td_kernel_cap_t, None),
       (''jit_keyring'', CUInt 1, None),
       (''session_keyring'', CPtr ''struct key'', None),
       (''process_keyring'', CPtr ''struct key'', None),
       (''thread_keyring'', CPtr ''struct key'', None),
       (''request_key_auth'', CPtr ''struct key'', None),
       (''security'', CPtr ''void'', None),
       (''user'', CPtr ''struct user_struct'', None),
       (''user_ns'', CPtr ''struct user_namespace'', None),
       (''ucounts'', CPtr ''struct ucounts'', None),
       (''group_info'', CPtr ''struct group_info'', None),
       ('''', CUnion '''' False
          [(''non_rcu'', CSInt 4, None),
           (''rcu'', struct_callback_head, None)], None)]"

definition struct_timer_list :: ctype where
  "struct_timer_list = CStruct ''timer_list'' False
      [(''entry'', struct_hlist_node, None),
       (''expires'', CUInt 8, None),
       (''function'', CPtr ''()'', None),
       (''flags'', td_u32, None)]"

definition struct_delayed_work :: ctype where
  "struct_delayed_work = CStruct ''delayed_work'' False
      [(''work'', struct_work_struct, None),
       (''timer'', struct_timer_list, None),
       (''wq'', CPtr ''struct workqueue_struct'', None),
       (''cpu'', CSInt 4, None)]"

definition struct_rpc_timer :: ctype where
  "struct_rpc_timer = CStruct ''rpc_timer'' False
      [(''list'', struct_list_head, None),
       (''expires'', CUInt 8, None),
       (''dwork'', struct_delayed_work, None)]"

definition struct_rpc_wait_queue :: ctype where
  "struct_rpc_wait_queue = CStruct ''rpc_wait_queue'' False
      [(''lock'', td_spinlock_t, None),
       (''tasks'', CArr (struct_list_head) 4, None),
       (''maxpriority'', CUInt 1, None),
       (''priority'', CUInt 1, None),
       (''nr'', CUInt 1, None),
       (''qlen'', CUInt 4, None),
       (''timer_list'', struct_rpc_timer, None),
       (''name'', CPtr ''char'', None)]"

definition struct_rpc_call_ops :: ctype where
  "struct_rpc_call_ops = CStruct ''rpc_call_ops'' False
      [(''rpc_call_prepare'', CPtr ''()'', None),
       (''rpc_call_done'', CPtr ''()'', None),
       (''rpc_count_stats'', CPtr ''()'', None),
       (''rpc_release'', CPtr ''()'', None)]"

definition struct_refcount_struct :: ctype where
  "struct_refcount_struct = CStruct ''refcount_struct'' False
      [(''refs'', td_atomic_t, None)]"

definition td_refcount_t :: ctype where
  "td_refcount_t = struct_refcount_struct"

definition enum_xprtsec_policies :: ctype where
  "enum_xprtsec_policies = CEnum ''xprtsec_policies'' 4
      [(''RPC_XPRTSEC_NONE'', 0),
       (''RPC_XPRTSEC_TLS_ANON'', 1),
       (''RPC_XPRTSEC_TLS_X509'', 2)]"

definition td___s32 :: ctype where
  "td___s32 = CSInt 4"

definition td_s32 :: ctype where
  "td_s32 = td___s32"

definition td_int32_t :: ctype where
  "td_int32_t = td_s32"

definition td_key_serial_t :: ctype where
  "td_key_serial_t = td_int32_t"

definition struct_xprtsec_parms :: ctype where
  "struct_xprtsec_parms = CStruct ''xprtsec_parms'' False
      [(''policy'', enum_xprtsec_policies, None),
       (''cert_serial'', td_key_serial_t, None),
       (''privkey_serial'', td_key_serial_t, None)]"

definition struct_rpc_pipe_dir_head :: ctype where
  "struct_rpc_pipe_dir_head = CStruct ''rpc_pipe_dir_head'' False
      [(''pdh_entries'', struct_list_head, None),
       (''pdh_dentry'', CPtr ''struct dentry'', None)]"

definition struct_rpc_rtt :: ctype where
  "struct_rpc_rtt = CStruct ''rpc_rtt'' False
      [(''timeo'', CUInt 8, None),
       (''srtt'', CArr (CUInt 8) 5, None),
       (''sdrtt'', CArr (CUInt 8) 5, None),
       (''ntimeouts'', CArr (CSInt 4) 5, None)]"

definition struct_rpc_timeout :: ctype where
  "struct_rpc_timeout = CStruct ''rpc_timeout'' False
      [(''to_initval'', CUInt 8, None),
       (''to_maxval'', CUInt 8, None),
       (''to_increment'', CUInt 8, None),
       (''to_retries'', CUInt 4, None),
       (''to_exponential'', CUInt 1, None)]"

definition struct_rpc_xprt_iter :: ctype where
  "struct_rpc_xprt_iter = CStruct ''rpc_xprt_iter'' False
      [(''xpi_xpswitch'', CPtr ''struct rpc_xprt_switch'', None),
       (''xpi_cursor'', CPtr ''struct rpc_xprt'', None),
       (''xpi_ops'', CPtr ''struct rpc_xprt_iter_ops'', None)]"

definition struct_rpc_clnt :: ctype where
  "struct_rpc_clnt = CStruct ''rpc_clnt'' False
      [(''cl_count'', td_refcount_t, None),
       (''cl_clid'', CUInt 4, None),
       (''cl_clients'', struct_list_head, None),
       (''cl_tasks'', struct_list_head, None),
       (''cl_pid'', td_atomic_t, None),
       (''cl_lock'', td_spinlock_t, None),
       (''cl_xprt'', CPtr ''struct rpc_xprt'', None),
       (''cl_procinfo'', CPtr ''struct rpc_procinfo'', None),
       (''cl_prog'', td_u32, None),
       (''cl_vers'', td_u32, None),
       (''cl_maxproc'', td_u32, None),
       (''cl_auth'', CPtr ''struct rpc_auth'', None),
       (''cl_stats'', CPtr ''struct rpc_stat'', None),
       (''cl_metrics'', CPtr ''struct rpc_iostats'', None),
       (''cl_softrtry'', CUInt 4, Some 1),
       (''cl_softerr'', CUInt 4, Some 1),
       (''cl_discrtry'', CUInt 4, Some 1),
       (''cl_noretranstimeo'', CUInt 4, Some 1),
       (''cl_autobind'', CUInt 4, Some 1),
       (''cl_chatty'', CUInt 4, Some 1),
       (''cl_shutdown'', CUInt 4, Some 1),
       (''cl_xprtsec'', struct_xprtsec_parms, None),
       (''cl_rtt'', CPtr ''struct rpc_rtt'', None),
       (''cl_timeout'', CPtr ''struct rpc_timeout'', None),
       (''cl_swapper'', td_atomic_t, None),
       (''cl_nodelen'', CSInt 4, None),
       (''cl_nodename'', CArr (CSInt 1) 65, None),
       (''cl_pipedir_objects'', struct_rpc_pipe_dir_head, None),
       (''cl_parent'', CPtr ''struct rpc_clnt'', None),
       (''cl_rtt_default'', struct_rpc_rtt, None),
       (''cl_timeout_default'', struct_rpc_timeout, None),
       (''cl_program'', CPtr ''struct rpc_program'', None),
       (''cl_principal'', CPtr ''char'', None),
       (''cl_debugfs'', CPtr ''struct dentry'', None),
       (''cl_sysfs'', CPtr ''struct rpc_sysfs_client'', None),
       ('''', CUnion '''' False
          [(''cl_xpi'', struct_rpc_xprt_iter, None),
           (''cl_work'', struct_work_struct, None)], None),
       (''cl_cred'', CPtr ''struct cred'', None),
       (''cl_max_connect'', CUInt 4, None),
       (''pipefs_sb'', CPtr ''struct super_block'', None)]"

definition struct_kref :: ctype where
  "struct_kref = CStruct ''kref'' False
      [(''refcount'', td_refcount_t, None)]"

definition td___kernel_sa_family_t :: ctype where
  "td___kernel_sa_family_t = CUInt 2"

definition struct___kernel_sockaddr_storage :: ctype where
  "struct___kernel_sockaddr_storage = CStruct ''__kernel_sockaddr_storage'' False
      [('''', CUnion '''' False
          [('''', CStruct '''' False
              [(''ss_family'', td___kernel_sa_family_t, None),
               (''__data'', CArr (CSInt 1) 126, None)], None),
           (''__align'', CPtr ''void'', None)], None)]"

definition td___kernel_ulong_t :: ctype where
  "td___kernel_ulong_t = CUInt 8"

definition td___kernel_size_t :: ctype where
  "td___kernel_size_t = td___kernel_ulong_t"

definition td_size_t :: ctype where
  "td_size_t = td___kernel_size_t"

definition td_netns_tracker :: ctype where
  "td_netns_tracker = CStruct '''' False
      []"

definition struct_rpc_xprt :: ctype where
  "struct_rpc_xprt = CStruct ''rpc_xprt'' False
      [(''kref'', struct_kref, None),
       (''ops'', CPtr ''struct rpc_xprt_ops'', None),
       (''id'', CUInt 4, None),
       (''timeout'', CPtr ''struct rpc_timeout'', None),
       (''addr'', struct___kernel_sockaddr_storage, None),
       (''addrlen'', td_size_t, None),
       (''prot'', CSInt 4, None),
       (''cong'', CUInt 8, None),
       (''cwnd'', CUInt 8, None),
       (''max_payload'', td_size_t, None),
       (''binding'', struct_rpc_wait_queue, None),
       (''sending'', struct_rpc_wait_queue, None),
       (''pending'', struct_rpc_wait_queue, None),
       (''backlog'', struct_rpc_wait_queue, None),
       (''free'', struct_list_head, None),
       (''max_reqs'', CUInt 4, None),
       (''min_reqs'', CUInt 4, None),
       (''num_reqs'', CUInt 4, None),
       (''state'', CUInt 8, None),
       (''resvport'', CUInt 1, Some 1),
       (''reuseport'', CUInt 1, Some 1),
       (''swapper'', td_atomic_t, None),
       (''bind_index'', CUInt 4, None),
       (''xprt_switch'', struct_list_head, None),
       (''bind_timeout'', CUInt 8, None),
       (''reestablish_timeout'', CUInt 8, None),
       (''xprtsec'', struct_xprtsec_parms, None),
       (''connect_cookie'', CUInt 4, None),
       (''task_cleanup'', struct_work_struct, None),
       (''timer'', struct_timer_list, None),
       (''last_used'', CUInt 8, None),
       (''idle_timeout'', CUInt 8, None),
       (''connect_timeout'', CUInt 8, None),
       (''max_reconnect_timeout'', CUInt 8, None),
       (''queuelen'', td_atomic_long_t, None),
       (''transport_lock'', td_spinlock_t, None),
       (''reserve_lock'', td_spinlock_t, None),
       (''queue_lock'', td_spinlock_t, None),
       (''xid'', td_u32, None),
       (''snd_task'', CPtr ''struct rpc_task'', None),
       (''xmit_queue'', struct_list_head, None),
       (''xmit_queuelen'', td_atomic_long_t, None),
       (''bc_xprt'', CPtr ''struct svc_xprt'', None),
       (''bc_serv'', CPtr ''struct svc_serv'', None),
       (''bc_alloc_max'', CUInt 4, None),
       (''bc_alloc_count'', CUInt 4, None),
       (''bc_slot_count'', td_atomic_t, None),
       (''bc_pa_lock'', td_spinlock_t, None),
       (''bc_pa_list'', struct_list_head, None),
       (''recv_queue'', struct_rb_root, None),
       (''stat'', CStruct '''' False
          [(''bind_count'', CUInt 8, None),
           (''connect_count'', CUInt 8, None),
           (''connect_start'', CUInt 8, None),
           (''connect_time'', CUInt 8, None),
           (''sends'', CUInt 8, None),
           (''recvs'', CUInt 8, None),
           (''bad_xids'', CUInt 8, None),
           (''max_slots'', CUInt 8, None),
           (''req_u'', CUInt 8, None),
           (''bklog_u'', CUInt 8, None),
           (''sending_u'', CUInt 8, None),
           (''pending_u'', CUInt 8, None)], None),
       (''xprt_net'', CPtr ''struct net'', None),
       (''ns_tracker'', td_netns_tracker, None),
       (''servername'', CPtr ''char'', None),
       (''address_strings'', CArr (CPtr ''char'') 6, None),
       (''debugfs'', CPtr ''struct dentry'', None),
       (''rcu'', struct_callback_head, None),
       (''xprt_class'', CPtr ''struct xprt_class'', None),
       (''xprt_sysfs'', CPtr ''struct rpc_sysfs_xprt'', None),
       (''main'', td_bool, None)]"

definition struct_rpc_cred :: ctype where
  "struct_rpc_cred = CStruct ''rpc_cred'' False
      [(''cr_hash'', struct_hlist_node, None),
       (''cr_lru'', struct_list_head, None),
       (''cr_rcu'', struct_callback_head, None),
       (''cr_auth'', CPtr ''struct rpc_auth'', None),
       (''cr_ops'', CPtr ''struct rpc_credops'', None),
       (''cr_expire'', CUInt 8, None),
       (''cr_flags'', CUInt 8, None),
       (''cr_count'', td_refcount_t, None),
       (''cr_cred'', CPtr ''struct cred'', None)]"

definition struct_kvec :: ctype where
  "struct_kvec = CStruct ''kvec'' False
      [(''iov_base'', CPtr ''void'', None),
       (''iov_len'', td_size_t, None)]"

definition struct_xdr_buf :: ctype where
  "struct_xdr_buf = CStruct ''xdr_buf'' False
      [(''head'', CArr (struct_kvec) 1, None),
       (''tail'', CArr (struct_kvec) 1, None),
       (''bvec'', CPtr ''struct bio_vec'', None),
       (''pages'', CPtr ''struct page *'', None),
       (''page_base'', CUInt 4, None),
       (''page_len'', CUInt 4, None),
       (''flags'', CUInt 4, None),
       (''buflen'', CUInt 4, None),
       (''len'', CUInt 4, None)]"

definition struct_rb_node :: ctype where
  "struct_rb_node = CStruct ''rb_node'' False
      [(''__rb_parent_color'', CUInt 8, None),
       (''rb_right'', CPtr ''struct rb_node'', None),
       (''rb_left'', CPtr ''struct rb_node'', None)]"

definition struct_lwq_node :: ctype where
  "struct_lwq_node = CStruct ''lwq_node'' False
      [(''node'', struct_llist_node, None)]"

definition struct_rpc_rqst :: ctype where
  "struct_rpc_rqst = CStruct ''rpc_rqst'' False
      [(''rq_xprt'', CPtr ''struct rpc_xprt'', None),
       (''rq_snd_buf'', struct_xdr_buf, None),
       (''rq_rcv_buf'', struct_xdr_buf, None),
       (''rq_task'', CPtr ''struct rpc_task'', None),
       (''rq_cred'', CPtr ''struct rpc_cred'', None),
       (''rq_xid'', td___be32, None),
       (''rq_cong'', CSInt 4, None),
       (''rq_seqno'', td_u32, None),
       (''rq_enc_pages_num'', CSInt 4, None),
       (''rq_enc_pages'', CPtr ''struct page *'', None),
       (''rq_release_snd_buf'', CPtr ''()'', None),
       ('''', CUnion '''' False
          [(''rq_list'', struct_list_head, None),
           (''rq_recv'', struct_rb_node, None)], None),
       (''rq_xmit'', struct_list_head, None),
       (''rq_xmit2'', struct_list_head, None),
       (''rq_buffer'', CPtr ''void'', None),
       (''rq_callsize'', td_size_t, None),
       (''rq_rbuffer'', CPtr ''void'', None),
       (''rq_rcvsize'', td_size_t, None),
       (''rq_xmit_bytes_sent'', td_size_t, None),
       (''rq_reply_bytes_recvd'', td_size_t, None),
       (''rq_private_buf'', struct_xdr_buf, None),
       (''rq_majortimeo'', CUInt 8, None),
       (''rq_minortimeo'', CUInt 8, None),
       (''rq_timeout'', CUInt 8, None),
       (''rq_rtt'', td_ktime_t, None),
       (''rq_retries'', CUInt 4, None),
       (''rq_connect_cookie'', CUInt 4, None),
       (''rq_pin'', td_atomic_t, None),
       (''rq_bytes_sent'', td_u32, None),
       (''rq_xtime'', td_ktime_t, None),
       (''rq_ntrans'', CSInt 4, None),
       (''rq_bc_list'', struct_lwq_node, None),
       (''rq_bc_pa_state'', CUInt 8, None),
       (''rq_bc_pa_list'', struct_list_head, None)]"

definition struct_workqueue_struct :: ctype where
  "struct_workqueue_struct = CStruct ''workqueue_struct'' False
      [(''pwqs'', struct_list_head, None),
       (''list'', struct_list_head, None),
       (''mutex'', struct_mutex, None),
       (''work_color'', CSInt 4, None),
       (''flush_color'', CSInt 4, None),
       (''nr_pwqs_to_flush'', td_atomic_t, None),
       (''first_flusher'', CPtr ''struct wq_flusher'', None),
       (''flusher_queue'', struct_list_head, None),
       (''flusher_overflow'', struct_list_head, None),
       (''maydays'', struct_list_head, None),
       (''rescuer'', CPtr ''struct worker'', None),
       (''nr_drainers'', CSInt 4, None),
       (''max_active'', CSInt 4, None),
       (''min_active'', CSInt 4, None),
       (''saved_max_active'', CSInt 4, None),
       (''saved_min_active'', CSInt 4, None),
       (''unbound_attrs'', CPtr ''struct workqueue_attrs'', None),
       (''dfl_pwq'', CPtr ''struct pool_workqueue'', None),
       (''wq_dev'', CPtr ''struct wq_device'', None),
       (''name'', CArr (CSInt 1) 32, None),
       (''rcu'', struct_callback_head, None),
       ('''', CSInt 8, Some 64),
       ('''', CSInt 8, Some 64),
       (''flags'', CUInt 4, None),
       (''cpu_pwq'', CPtr ''struct pool_workqueue *'', None),
       (''node_nr_active'', CArr (CPtr ''struct wq_node_nr_active'') 0, None),
       ('''', CSInt 8, Some 64),
       ('''', CSInt 8, Some 64),
       ('''', CSInt 8, Some 64),
       ('''', CSInt 8, Some 64),
       ('''', CSInt 8, Some 64),
       ('''', CSInt 8, Some 64)]"

definition struct_nfs4_string :: ctype where
  "struct_nfs4_string = CStruct ''nfs4_string'' False
      [(''len'', CUInt 4, None),
       (''data'', CPtr ''char'', None)]"

definition struct_nfs4_threshold :: ctype where
  "struct_nfs4_threshold = CStruct ''nfs4_threshold'' False
      [(''bm'', td___u32, None),
       (''l_type'', td___u32, None),
       (''rd_sz'', td___u64, None),
       (''wr_sz'', td___u64, None),
       (''rd_io_sz'', td___u64, None),
       (''wr_io_sz'', td___u64, None)]"

definition td_uint32_t :: ctype where
  "td_uint32_t = td_u32"

definition struct_nfs4_label :: ctype where
  "struct_nfs4_label = CStruct ''nfs4_label'' False
      [(''lfs'', td_uint32_t, None),
       (''pi'', td_uint32_t, None),
       (''len'', td_u32, None),
       (''label'', CPtr ''char'', None)]"

definition struct_nfs_fh :: ctype where
  "struct_nfs_fh = CStruct ''nfs_fh'' False
      [(''size'', CUInt 2, None),
       (''data'', CArr (CUInt 1) 128, None)]"

definition td_fl_owner_t :: ctype where
  "td_fl_owner_t = CPtr ''void''"

definition struct_nfs_lock_context :: ctype where
  "struct_nfs_lock_context = CStruct ''nfs_lock_context'' False
      [(''count'', td_refcount_t, None),
       (''list'', struct_list_head, None),
       (''open_context'', CPtr ''struct nfs_open_context'', None),
       (''lockowner'', td_fl_owner_t, None),
       (''io_count'', td_atomic_t, None),
       (''callback_head'', struct_callback_head, None)]"

definition struct_nfs_open_context :: ctype where
  "struct_nfs_open_context = CStruct ''nfs_open_context'' False
      [(''lock_context'', struct_nfs_lock_context, None),
       (''flock_owner'', td_fl_owner_t, None),
       (''dentry'', CPtr ''struct dentry'', None),
       (''cred'', CPtr ''struct cred'', None),
       (''ll_cred'', CPtr ''struct rpc_cred'', None),
       (''state'', CPtr ''struct nfs4_state'', None),
       (''mode'', td_fmode_t, None),
       (''flags'', CUInt 8, None),
       (''error'', CSInt 4, None),
       (''list'', struct_list_head, None),
       (''mdsthreshold'', CPtr ''struct nfs4_threshold'', None),
       (''callback_head'', struct_callback_head, None)]"

definition struct_page :: ctype where
  "struct_page = CStruct ''page'' False
      [(''flags'', CUInt 8, None),
       ('''', CUnion '''' False
          [('''', CStruct '''' False
              [('''', CUnion '''' False
                  [(''lru'', struct_list_head, None),
                   ('''', CStruct '''' False
                      [(''__filler'', CPtr ''void'', None),
                       (''mlock_count'', CUInt 4, None)], None),
                   (''buddy_list'', struct_list_head, None),
                   (''pcp_list'', struct_list_head, None)], None),
               (''mapping'', CPtr ''struct address_space'', None),
               ('''', CUnion '''' False
                  [(''index'', CUInt 8, None),
                   (''share'', CUInt 8, None)], None),
               (''private'', CUInt 8, None)], None),
           ('''', CStruct '''' False
              [(''pp_magic'', CUInt 8, None),
               (''pp'', CPtr ''struct page_pool'', None),
               (''_pp_mapping_pad'', CUInt 8, None),
               (''dma_addr'', CUInt 8, None),
               (''pp_ref_count'', td_atomic_long_t, None)], None),
           ('''', CStruct '''' False
              [(''compound_head'', CUInt 8, None)], None),
           ('''', CStruct '''' False
              [(''pgmap'', CPtr ''struct dev_pagemap'', None),
               (''zone_device_data'', CPtr ''void'', None)], None),
           (''callback_head'', struct_callback_head, None)], None),
       ('''', CUnion '''' False
          [(''page_type'', CUInt 4, None),
           (''_mapcount'', td_atomic_t, None)], None),
       (''_refcount'', td_atomic_t, None),
       (''memcg_data'', CUInt 8, None)]"

definition enum_nfs4_change_attr_type :: ctype where
  "enum_nfs4_change_attr_type = CEnum ''nfs4_change_attr_type'' 4
      [(''NFS4_CHANGE_TYPE_IS_MONOTONIC_INCR'', 0),
       (''NFS4_CHANGE_TYPE_IS_VERSION_COUNTER'', 1),
       (''NFS4_CHANGE_TYPE_IS_VERSION_COUNTER_NOPNFS'', 2),
       (''NFS4_CHANGE_TYPE_IS_TIME_METADATA'', 3),
       (''NFS4_CHANGE_TYPE_IS_UNDEFINED'', 4)]"

definition td_rpc_authflavor_t :: ctype where
  "td_rpc_authflavor_t = td_u32"

definition struct_nfs_auth_info :: ctype where
  "struct_nfs_auth_info = CStruct ''nfs_auth_info'' False
      [(''flavor_len'', CUInt 4, None),
       (''flavors'', CArr (td_rpc_authflavor_t) 12, None)]"

definition struct_kobject :: ctype where
  "struct_kobject = CStruct ''kobject'' False
      [(''name'', CPtr ''char'', None),
       (''entry'', struct_list_head, None),
       (''parent'', CPtr ''struct kobject'', None),
       (''kset'', CPtr ''struct kset'', None),
       (''ktype'', CPtr ''struct kobj_type'', None),
       (''sd'', CPtr ''struct kernfs_node'', None),
       (''kref'', struct_kref, None),
       (''state_initialized'', CUInt 4, Some 1),
       (''state_in_sysfs'', CUInt 4, Some 1),
       (''state_add_uevent_sent'', CUInt 4, Some 1),
       (''state_remove_uevent_sent'', CUInt 4, Some 1),
       (''uevent_suppress'', CUInt 4, Some 1)]"

definition struct_nfs_server :: ctype where
  "struct_nfs_server = CStruct ''nfs_server'' False
      [(''nfs_client'', CPtr ''struct nfs_client'', None),
       (''client_link'', struct_list_head, None),
       (''master_link'', struct_list_head, None),
       (''client'', CPtr ''struct rpc_clnt'', None),
       (''client_acl'', CPtr ''struct rpc_clnt'', None),
       (''nlm_host'', CPtr ''struct nlm_host'', None),
       (''io_stats'', CPtr ''struct nfs_iostats'', None),
       (''write_congestion_wait'', td_wait_queue_head_t, None),
       (''writeback'', td_atomic_long_t, None),
       (''write_congested'', CUInt 4, None),
       (''flags'', CUInt 4, None),
       (''fattr_valid'', CUInt 4, None),
       (''caps'', CUInt 4, None),
       (''rsize'', CUInt 4, None),
       (''rpages'', CUInt 4, None),
       (''wsize'', CUInt 4, None),
       (''wpages'', CUInt 4, None),
       (''wtmult'', CUInt 4, None),
       (''dtsize'', CUInt 4, None),
       (''port'', CUInt 2, None),
       (''bsize'', CUInt 4, None),
       (''gxasize'', CUInt 4, None),
       (''sxasize'', CUInt 4, None),
       (''lxasize'', CUInt 4, None),
       (''acregmin'', CUInt 4, None),
       (''acregmax'', CUInt 4, None),
       (''acdirmin'', CUInt 4, None),
       (''acdirmax'', CUInt 4, None),
       (''namelen'', CUInt 4, None),
       (''options'', CUInt 4, None),
       (''clone_blksize'', CUInt 4, None),
       (''change_attr_type'', enum_nfs4_change_attr_type, None),
       (''fsid'', struct_nfs_fsid, None),
       (''s_sysfs_id'', CSInt 4, None),
       (''maxfilesize'', td___u64, None),
       (''time_delta'', struct_timespec64, None),
       (''mount_time'', CUInt 8, None),
       (''super'', CPtr ''struct super_block'', None),
       (''s_dev'', td_dev_t, None),
       (''auth_info'', struct_nfs_auth_info, None),
       (''fscache'', CPtr ''struct fscache_volume'', None),
       (''fscache_uniq'', CPtr ''char'', None),
       (''pnfs_blksize'', td_u32, None),
       (''attr_bitmask'', CArr (td_u32) 3, None),
       (''attr_bitmask_nl'', CArr (td_u32) 3, None),
       (''exclcreat_bitmask'', CArr (td_u32) 3, None),
       (''cache_consistency_bitmask'', CArr (td_u32) 3, None),
       (''acl_bitmask'', td_u32, None),
       (''fh_expire_type'', td_u32, None),
       (''pnfs_curr_ld'', CPtr ''struct pnfs_layoutdriver_type'', None),
       (''roc_rpcwaitq'', struct_rpc_wait_queue, None),
       (''pnfs_ld_data'', CPtr ''void'', None),
       (''state_owners'', struct_rb_root, None),
       (''owner_ctr'', td_atomic64_t, None),
       (''state_owners_lru'', struct_list_head, None),
       (''layouts'', struct_list_head, None),
       (''delegations'', struct_list_head, None),
       (''ss_copies'', struct_list_head, None),
       (''ss_src_copies'', struct_list_head, None),
       (''delegation_gen'', CUInt 8, None),
       (''mig_gen'', CUInt 8, None),
       (''mig_status'', CUInt 8, None),
       (''destroy'', CPtr ''()'', None),
       (''active'', td_atomic_t, None),
       (''mountd_address'', struct___kernel_sockaddr_storage, None),
       (''mountd_addrlen'', td_size_t, None),
       (''mountd_version'', td_u32, None),
       (''mountd_port'', CUInt 2, None),
       (''mountd_protocol'', CUInt 2, None),
       (''uoc_rpcwaitq'', struct_rpc_wait_queue, None),
       (''read_hdrsize'', CUInt 4, None),
       (''cred'', CPtr ''struct cred'', None),
       (''has_sec_mnt_opts'', td_bool, None),
       (''kobj'', struct_kobject, None),
       (''rcu'', struct_callback_head, None)]"

definition struct_nfs_pgio_completion_ops :: ctype where
  "struct_nfs_pgio_completion_ops = CStruct ''nfs_pgio_completion_ops'' False
      [(''error_cleanup'', CPtr ''()'', None),
       (''init_hdr'', CPtr ''()'', None),
       (''completion'', CPtr ''()'', None),
       (''reschedule_io'', CPtr ''()'', None)]"

definition td_nfs4_verifier :: ctype where
  "td_nfs4_verifier = CStruct '''' False
      [(''data'', CArr (CSInt 1) 8, None)]"

definition struct_nfs_client :: ctype where
  "struct_nfs_client = CStruct ''nfs_client'' False
      [(''cl_count'', td_refcount_t, None),
       (''cl_mds_count'', td_atomic_t, None),
       (''cl_cons_state'', CSInt 4, None),
       (''cl_res_state'', CUInt 8, None),
       (''cl_flags'', CUInt 8, None),
       (''cl_addr'', struct___kernel_sockaddr_storage, None),
       (''cl_addrlen'', td_size_t, None),
       (''cl_hostname'', CPtr ''char'', None),
       (''cl_acceptor'', CPtr ''char'', None),
       (''cl_share_link'', struct_list_head, None),
       (''cl_superblocks'', struct_list_head, None),
       (''cl_rpcclient'', CPtr ''struct rpc_clnt'', None),
       (''rpc_ops'', CPtr ''struct nfs_rpc_ops'', None),
       (''cl_proto'', CSInt 4, None),
       (''cl_nfs_mod'', CPtr ''struct nfs_subversion'', None),
       (''cl_minorversion'', td_u32, None),
       (''cl_nconnect'', CUInt 4, None),
       (''cl_max_connect'', CUInt 4, None),
       (''cl_principal'', CPtr ''char'', None),
       (''cl_xprtsec'', struct_xprtsec_parms, None),
       (''cl_ds_clients'', struct_list_head, None),
       (''cl_clientid'', td_u64, None),
       (''cl_confirm'', td_nfs4_verifier, None),
       (''cl_state'', CUInt 8, None),
       (''cl_lock'', td_spinlock_t, None),
       (''cl_lease_time'', CUInt 8, None),
       (''cl_last_renewal'', CUInt 8, None),
       (''cl_renewd'', struct_delayed_work, None),
       (''cl_rpcwaitq'', struct_rpc_wait_queue, None),
       (''cl_idmap'', CPtr ''struct idmap'', None),
       (''cl_owner_id'', CPtr ''char'', None),
       (''cl_cb_ident'', td_u32, None),
       (''cl_mvops'', CPtr ''struct nfs4_minor_version_ops'', None),
       (''cl_mig_gen'', CUInt 8, None),
       (''cl_slot_tbl'', CPtr ''struct nfs4_slot_table'', None),
       (''cl_seqid'', td_u32, None),
       (''cl_exchange_flags'', td_u32, None),
       (''cl_session'', CPtr ''struct nfs4_session'', None),
       (''cl_preserve_clid'', td_bool, None),
       (''cl_serverowner'', CPtr ''struct nfs41_server_owner'', None),
       (''cl_serverscope'', CPtr ''struct nfs41_server_scope'', None),
       (''cl_implid'', CPtr ''struct nfs41_impl_id'', None),
       (''cl_sp4_flags'', CUInt 8, None),
       (''cl_lock_waitq'', td_wait_queue_head_t, None),
       (''cl_ipaddr'', CArr (CSInt 1) 48, None),
       (''cl_net'', CPtr ''struct net'', None),
       (''pending_cb_stateids'', struct_list_head, None),
       (''rcu'', struct_callback_head, None)]"

subsection \<open>Alignment and size\<close>

lemma td_kxdreproc_t_layout [simp]:
  "calign td_kxdreproc_t = 8" "csize td_kxdreproc_t = 8" "wf_ctype td_kxdreproc_t" "unpacked td_kxdreproc_t"
  by (simp_all add: td_kxdreproc_t_def layout)

lemma td_kxdrdproc_t_layout [simp]:
  "calign td_kxdrdproc_t = 8" "csize td_kxdrdproc_t = 8" "wf_ctype td_kxdrdproc_t" "unpacked td_kxdrdproc_t"
  by (simp_all add: td_kxdrdproc_t_def layout)

lemma struct_rpc_procinfo_layout [simp]:
  "calign struct_rpc_procinfo = 8" "csize struct_rpc_procinfo = 48" "wf_ctype struct_rpc_procinfo" "unpacked struct_rpc_procinfo"
  by (simp_all add: struct_rpc_procinfo_def layout)

lemma td_kernel_cap_t_layout [simp]:
  "calign td_kernel_cap_t = 8" "csize td_kernel_cap_t = 8" "wf_ctype td_kernel_cap_t" "unpacked td_kernel_cap_t"
  by (simp_all add: td_kernel_cap_t_def layout)

lemma struct_cred_layout [simp]:
  "calign struct_cred = 8" "csize struct_cred = 184" "wf_ctype struct_cred" "unpacked struct_cred"
  by (simp_all add: struct_cred_def layout)

lemma struct_timer_list_layout [simp]:
  "calign struct_timer_list = 8" "csize struct_timer_list = 40" "wf_ctype struct_timer_list" "unpacked struct_timer_list"
  by (simp_all add: struct_timer_list_def layout)

lemma struct_delayed_work_layout [simp]:
  "calign struct_delayed_work = 8" "csize struct_delayed_work = 88" "wf_ctype struct_delayed_work" "unpacked struct_delayed_work"
  by (simp_all add: struct_delayed_work_def layout)

lemma struct_rpc_timer_layout [simp]:
  "calign struct_rpc_timer = 8" "csize struct_rpc_timer = 112" "wf_ctype struct_rpc_timer" "unpacked struct_rpc_timer"
  by (simp_all add: struct_rpc_timer_def layout)

lemma struct_rpc_wait_queue_layout [simp]:
  "calign struct_rpc_wait_queue = 8" "csize struct_rpc_wait_queue = 200" "wf_ctype struct_rpc_wait_queue" "unpacked struct_rpc_wait_queue"
  by (simp_all add: struct_rpc_wait_queue_def layout)

lemma struct_rpc_call_ops_layout [simp]:
  "calign struct_rpc_call_ops = 8" "csize struct_rpc_call_ops = 32" "wf_ctype struct_rpc_call_ops" "unpacked struct_rpc_call_ops"
  by (simp_all add: struct_rpc_call_ops_def layout)

lemma struct_refcount_struct_layout [simp]:
  "calign struct_refcount_struct = 4" "csize struct_refcount_struct = 4" "wf_ctype struct_refcount_struct" "unpacked struct_refcount_struct"
  by (simp_all add: struct_refcount_struct_def layout)

lemma td_refcount_t_layout [simp]:
  "calign td_refcount_t = 4" "csize td_refcount_t = 4" "wf_ctype td_refcount_t" "unpacked td_refcount_t"
  by (simp_all add: td_refcount_t_def layout)

lemma enum_xprtsec_policies_layout [simp]:
  "calign enum_xprtsec_policies = 4" "csize enum_xprtsec_policies = 4" "wf_ctype enum_xprtsec_policies" "unpacked enum_xprtsec_policies"
  by (simp_all add: enum_xprtsec_policies_def layout)

lemma td___s32_layout [simp]:
  "calign td___s32 = 4" "csize td___s32 = 4" "wf_ctype td___s32" "unpacked td___s32"
  by (simp_all add: td___s32_def layout)

lemma td_s32_layout [simp]:
  "calign td_s32 = 4" "csize td_s32 = 4" "wf_ctype td_s32" "unpacked td_s32"
  by (simp_all add: td_s32_def layout)

lemma td_int32_t_layout [simp]:
  "calign td_int32_t = 4" "csize td_int32_t = 4" "wf_ctype td_int32_t" "unpacked td_int32_t"
  by (simp_all add: td_int32_t_def layout)

lemma td_key_serial_t_layout [simp]:
  "calign td_key_serial_t = 4" "csize td_key_serial_t = 4" "wf_ctype td_key_serial_t" "unpacked td_key_serial_t"
  by (simp_all add: td_key_serial_t_def layout)

lemma struct_xprtsec_parms_layout [simp]:
  "calign struct_xprtsec_parms = 4" "csize struct_xprtsec_parms = 12" "wf_ctype struct_xprtsec_parms" "unpacked struct_xprtsec_parms"
  by (simp_all add: struct_xprtsec_parms_def layout)

lemma struct_rpc_pipe_dir_head_layout [simp]:
  "calign struct_rpc_pipe_dir_head = 8" "csize struct_rpc_pipe_dir_head = 24" "wf_ctype struct_rpc_pipe_dir_head" "unpacked struct_rpc_pipe_dir_head"
  by (simp_all add: struct_rpc_pipe_dir_head_def layout)

lemma struct_rpc_rtt_layout [simp]:
  "calign struct_rpc_rtt = 8" "csize struct_rpc_rtt = 112" "wf_ctype struct_rpc_rtt" "unpacked struct_rpc_rtt"
  by (simp_all add: struct_rpc_rtt_def layout)

lemma struct_rpc_timeout_layout [simp]:
  "calign struct_rpc_timeout = 8" "csize struct_rpc_timeout = 32" "wf_ctype struct_rpc_timeout" "unpacked struct_rpc_timeout"
  by (simp_all add: struct_rpc_timeout_def layout)

lemma struct_rpc_xprt_iter_layout [simp]:
  "calign struct_rpc_xprt_iter = 8" "csize struct_rpc_xprt_iter = 24" "wf_ctype struct_rpc_xprt_iter" "unpacked struct_rpc_xprt_iter"
  by (simp_all add: struct_rpc_xprt_iter_def layout)

lemma struct_rpc_clnt_layout [simp]:
  "calign struct_rpc_clnt = 8" "csize struct_rpc_clnt = 480" "wf_ctype struct_rpc_clnt" "unpacked struct_rpc_clnt"
  by (simp_all add: struct_rpc_clnt_def layout)

lemma struct_kref_layout [simp]:
  "calign struct_kref = 4" "csize struct_kref = 4" "wf_ctype struct_kref" "unpacked struct_kref"
  by (simp_all add: struct_kref_def layout)

lemma td___kernel_sa_family_t_layout [simp]:
  "calign td___kernel_sa_family_t = 2" "csize td___kernel_sa_family_t = 2" "wf_ctype td___kernel_sa_family_t" "unpacked td___kernel_sa_family_t"
  by (simp_all add: td___kernel_sa_family_t_def layout)

lemma struct___kernel_sockaddr_storage_layout [simp]:
  "calign struct___kernel_sockaddr_storage = 8" "csize struct___kernel_sockaddr_storage = 128" "wf_ctype struct___kernel_sockaddr_storage" "unpacked struct___kernel_sockaddr_storage"
  by (simp_all add: struct___kernel_sockaddr_storage_def layout)

lemma td___kernel_ulong_t_layout [simp]:
  "calign td___kernel_ulong_t = 8" "csize td___kernel_ulong_t = 8" "wf_ctype td___kernel_ulong_t" "unpacked td___kernel_ulong_t"
  by (simp_all add: td___kernel_ulong_t_def layout)

lemma td___kernel_size_t_layout [simp]:
  "calign td___kernel_size_t = 8" "csize td___kernel_size_t = 8" "wf_ctype td___kernel_size_t" "unpacked td___kernel_size_t"
  by (simp_all add: td___kernel_size_t_def layout)

lemma td_size_t_layout [simp]:
  "calign td_size_t = 8" "csize td_size_t = 8" "wf_ctype td_size_t" "unpacked td_size_t"
  by (simp_all add: td_size_t_def layout)

lemma td_netns_tracker_layout [simp]:
  "calign td_netns_tracker = 1" "csize td_netns_tracker = 0" "wf_ctype td_netns_tracker" "unpacked td_netns_tracker"
  by (simp_all add: td_netns_tracker_def layout)

lemma struct_rpc_xprt_layout [simp]:
  "calign struct_rpc_xprt = 8" "csize struct_rpc_xprt = 1528" "wf_ctype struct_rpc_xprt" "unpacked struct_rpc_xprt"
  by (simp_all add: struct_rpc_xprt_def layout)

lemma struct_rpc_cred_layout [simp]:
  "calign struct_rpc_cred = 8" "csize struct_rpc_cred = 96" "wf_ctype struct_rpc_cred" "unpacked struct_rpc_cred"
  by (simp_all add: struct_rpc_cred_def layout)

lemma struct_kvec_layout [simp]:
  "calign struct_kvec = 8" "csize struct_kvec = 16" "wf_ctype struct_kvec" "unpacked struct_kvec"
  by (simp_all add: struct_kvec_def layout)

lemma struct_xdr_buf_layout [simp]:
  "calign struct_xdr_buf = 8" "csize struct_xdr_buf = 72" "wf_ctype struct_xdr_buf" "unpacked struct_xdr_buf"
  by (simp_all add: struct_xdr_buf_def layout)

lemma struct_rb_node_layout [simp]:
  "calign struct_rb_node = 8" "csize struct_rb_node = 24" "wf_ctype struct_rb_node" "unpacked struct_rb_node"
  by (simp_all add: struct_rb_node_def layout)

lemma struct_lwq_node_layout [simp]:
  "calign struct_lwq_node = 8" "csize struct_lwq_node = 8" "wf_ctype struct_lwq_node" "unpacked struct_lwq_node"
  by (simp_all add: struct_lwq_node_def layout)

lemma struct_rpc_rqst_layout [simp]:
  "calign struct_rpc_rqst = 8" "csize struct_rpc_rqst = 472" "wf_ctype struct_rpc_rqst" "unpacked struct_rpc_rqst"
  by (simp_all add: struct_rpc_rqst_def layout)

lemma struct_workqueue_struct_layout [simp]:
  "calign struct_workqueue_struct = 8" "csize struct_workqueue_struct = 320" "wf_ctype struct_workqueue_struct" "unpacked struct_workqueue_struct"
  by (simp_all add: struct_workqueue_struct_def layout)

lemma struct_nfs4_string_layout [simp]:
  "calign struct_nfs4_string = 8" "csize struct_nfs4_string = 16" "wf_ctype struct_nfs4_string" "unpacked struct_nfs4_string"
  by (simp_all add: struct_nfs4_string_def layout)

lemma struct_nfs4_threshold_layout [simp]:
  "calign struct_nfs4_threshold = 8" "csize struct_nfs4_threshold = 40" "wf_ctype struct_nfs4_threshold" "unpacked struct_nfs4_threshold"
  by (simp_all add: struct_nfs4_threshold_def layout)

lemma td_uint32_t_layout [simp]:
  "calign td_uint32_t = 4" "csize td_uint32_t = 4" "wf_ctype td_uint32_t" "unpacked td_uint32_t"
  by (simp_all add: td_uint32_t_def layout)

lemma struct_nfs4_label_layout [simp]:
  "calign struct_nfs4_label = 8" "csize struct_nfs4_label = 24" "wf_ctype struct_nfs4_label" "unpacked struct_nfs4_label"
  by (simp_all add: struct_nfs4_label_def layout)

lemma struct_nfs_fh_layout [simp]:
  "calign struct_nfs_fh = 2" "csize struct_nfs_fh = 130" "wf_ctype struct_nfs_fh" "unpacked struct_nfs_fh"
  by (simp_all add: struct_nfs_fh_def layout)

lemma td_fl_owner_t_layout [simp]:
  "calign td_fl_owner_t = 8" "csize td_fl_owner_t = 8" "wf_ctype td_fl_owner_t" "unpacked td_fl_owner_t"
  by (simp_all add: td_fl_owner_t_def layout)

lemma struct_nfs_lock_context_layout [simp]:
  "calign struct_nfs_lock_context = 8" "csize struct_nfs_lock_context = 64" "wf_ctype struct_nfs_lock_context" "unpacked struct_nfs_lock_context"
  by (simp_all add: struct_nfs_lock_context_def layout)

lemma struct_nfs_open_context_layout [simp]:
  "calign struct_nfs_open_context = 8" "csize struct_nfs_open_context = 168" "wf_ctype struct_nfs_open_context" "unpacked struct_nfs_open_context"
  by (simp_all add: struct_nfs_open_context_def layout)

lemma struct_page_layout [simp]:
  "calign struct_page = 8" "csize struct_page = 64" "wf_ctype struct_page" "unpacked struct_page"
  by (simp_all add: struct_page_def layout)

lemma enum_nfs4_change_attr_type_layout [simp]:
  "calign enum_nfs4_change_attr_type = 4" "csize enum_nfs4_change_attr_type = 4" "wf_ctype enum_nfs4_change_attr_type" "unpacked enum_nfs4_change_attr_type"
  by (simp_all add: enum_nfs4_change_attr_type_def layout)

lemma td_rpc_authflavor_t_layout [simp]:
  "calign td_rpc_authflavor_t = 4" "csize td_rpc_authflavor_t = 4" "wf_ctype td_rpc_authflavor_t" "unpacked td_rpc_authflavor_t"
  by (simp_all add: td_rpc_authflavor_t_def layout)

lemma struct_nfs_auth_info_layout [simp]:
  "calign struct_nfs_auth_info = 4" "csize struct_nfs_auth_info = 52" "wf_ctype struct_nfs_auth_info" "unpacked struct_nfs_auth_info"
  by (simp_all add: struct_nfs_auth_info_def layout)

lemma struct_kobject_layout [simp]:
  "calign struct_kobject = 8" "csize struct_kobject = 64" "wf_ctype struct_kobject" "unpacked struct_kobject"
  by (simp_all add: struct_kobject_def layout)

lemma struct_nfs_server_layout [simp]:
  "calign struct_nfs_server = 8" "csize struct_nfs_server = 1200" "wf_ctype struct_nfs_server" "unpacked struct_nfs_server"
  by (simp_all add: struct_nfs_server_def layout)

lemma struct_nfs_pgio_completion_ops_layout [simp]:
  "calign struct_nfs_pgio_completion_ops = 8" "csize struct_nfs_pgio_completion_ops = 32" "wf_ctype struct_nfs_pgio_completion_ops" "unpacked struct_nfs_pgio_completion_ops"
  by (simp_all add: struct_nfs_pgio_completion_ops_def layout)

lemma td_nfs4_verifier_layout [simp]:
  "calign td_nfs4_verifier = 1" "csize td_nfs4_verifier = 8" "wf_ctype td_nfs4_verifier" "unpacked td_nfs4_verifier"
  by (simp_all add: td_nfs4_verifier_def layout)

lemma struct_nfs_client_layout [simp]:
  "calign struct_nfs_client = 8" "csize struct_nfs_client = 856" "wf_ctype struct_nfs_client" "unpacked struct_nfs_client"
  by (simp_all add: struct_nfs_client_def layout)

end
