(* ===== verification/KTypes_Fs.thy ===== *)
theory KTypes_Fs
  imports KTypes_Rpc
begin

text \<open>
  Declarations of \<^verbatim>\<open>bpf/headers/vmlinux.h\<close>: the objects that the members of the
  file-system objects point to (operation tables, credentials, quota, encryption), with
  everything they embed.
\<close>

definition struct_address_space_operations :: ctype where
  "struct_address_space_operations = CStruct ''address_space_operations'' False
      [(''writepage'', CPtr ''()'', None),
       (''read_folio'', CPtr ''()'', None),
       (''writepages'', CPtr ''()'', None),
       (''dirty_folio'', CPtr ''()'', None),
       (''readahead'', CPtr ''()'', None),
       (''write_begin'', CPtr ''()'', None),
       (''write_end'', CPtr ''()'', None),
       (''bmap'', CPtr ''()'', None),
       (''invalidate_folio'', CPtr ''()'', None),
       (''release_folio'', CPtr ''()'', None),
       (''free_folio'', CPtr ''()'', None),
       (''direct_IO'', CPtr ''()'', None),
       (''migrate_folio'', CPtr ''()'', None),
       (''launder_folio'', CPtr ''()'', None),
       (''is_partially_uptodate'', CPtr ''()'', None),
       (''is_dirty_writeback'', CPtr ''()'', None),
       (''error_remove_folio'', CPtr ''()'', None),
       (''swap_activate'', CPtr ''()'', None),
       (''swap_deactivate'', CPtr ''()'', None),
       (''swap_rw'', CPtr ''()'', None)]"

definition struct_posix_acl_entry :: ctype where
  "struct_posix_acl_entry = CStruct ''posix_acl_entry'' False
      [(''e_tag'', CSInt 2, None),
       (''e_perm'', CUInt 2, None),
       ('''', CUnion '''' False
          [(''e_uid'', td_kuid_t, None),
           (''e_gid'', td_kgid_t, None)], None)]"

definition struct_posix_acl :: ctype where
  "struct_posix_acl = CStruct ''posix_acl'' False
      [(''a_refcount'', td_refcount_t, None),
       (''a_rcu'', struct_callback_head, None),
       (''a_count'', CUInt 4, None),
       (''a_entries'', CArr (struct_posix_acl_entry) 0, None)]"

definition struct_inode_operations :: ctype where
  "struct_inode_operations = CStruct ''inode_operations'' False
      [(''lookup'', CPtr ''()'', None),
       (''get_link'', CPtr ''()'', None),
       (''permission'', CPtr ''()'', None),
       (''get_inode_acl'', CPtr ''()'', None),
       (''readlink'', CPtr ''()'', None),
       (''create'', CPtr ''()'', None),
       (''link'', CPtr ''()'', None),
       (''unlink'', CPtr ''()'', None),
       (''symlink'', CPtr ''()'', None),
       (''mkdir'', CPtr ''()'', None),
       (''rmdir'', CPtr ''()'', None),
       (''mknod'', CPtr ''()'', None),
       (''rename'', CPtr ''()'', None),
       (''setattr'', CPtr ''()'', None),
       (''getattr'', CPtr ''()'', None),
       (''listxattr'', CPtr ''()'', None),
       (''fiemap'', CPtr ''()'', None),
       (''update_time'', CPtr ''()'', None),
       (''atomic_open'', CPtr ''()'', None),
       (''tmpfile'', CPtr ''()'', None),
       (''get_acl'', CPtr ''()'', None),
       (''set_acl'', CPtr ''()'', None),
       (''fileattr_set'', CPtr ''()'', None),
       (''fileattr_get'', CPtr ''()'', None),
       (''get_offset_ctx'', CPtr ''()'', None),
       ('''', CSInt 8, Some 64),
       ('''', CSInt 8, Some 64),
       ('''', CSInt 8, Some 64),
       ('''', CSInt 8, Some 64),
       ('''', CSInt 8, Some 64),
       ('''', CSInt 8, Some 64),
       ('''', CSInt 8, Some 64)]"

definition struct_percpu_counter :: ctype where
  "struct_percpu_counter = CStruct ''percpu_counter'' False
      [(''lock'', td_raw_spinlock_t, None),
       (''count'', td_s64, None),
       (''list'', struct_list_head, None),
       (''counters'', CPtr ''s32'', None)]"

definition struct_fprop_local_percpu :: ctype where
  "struct_fprop_local_percpu = CStruct ''fprop_local_percpu'' False
      [(''events'', struct_percpu_counter, None),
       (''period'', CUInt 4, None),
       (''lock'', td_raw_spinlock_t, None)]"

definition enum_wb_reason :: ctype where
  "enum_wb_reason = CEnum ''wb_reason'' 4
      [(''WB_REASON_BACKGROUND'', 0),
       (''WB_REASON_VMSCAN'', 1),
       (''WB_REASON_SYNC'', 2),
       (''WB_REASON_PERIODIC'', 3),
       (''WB_REASON_LAPTOP_TIMER'', 4),
       (''WB_REASON_FS_FREE_SPACE'', 5),
       (''WB_REASON_FORKER_THREAD'', 6),
       (''WB_REASON_FOREIGN_FLUSH'', 7),
       (''WB_REASON_MAX'', 8)]"

definition struct_percpu_ref :: ctype where
  "struct_percpu_ref = CStruct ''percpu_ref'' False
      [(''percpu_count_ptr'', CUInt 8, None),
       (''data'', CPtr ''struct percpu_ref_data'', None)]"

definition struct_bdi_writeback :: ctype where
  "struct_bdi_writeback = CStruct ''bdi_writeback'' False
      [(''bdi'', CPtr ''struct backing_dev_info'', None),
       (''state'', CUInt 8, None),
       (''last_old_flush'', CUInt 8, None),
       (''b_dirty'', struct_list_head, None),
       (''b_io'', struct_list_head, None),
       (''b_more_io'', struct_list_head, None),
       (''b_dirty_time'', struct_list_head, None),
       (''list_lock'', td_spinlock_t, None),
       (''writeback_inodes'', td_atomic_t, None),
       (''stat'', CArr (struct_percpu_counter) 4, None),
       (''bw_time_stamp'', CUInt 8, None),
       (''dirtied_stamp'', CUInt 8, None),
       (''written_stamp'', CUInt 8, None),
       (''write_bandwidth'', CUInt 8, None),
       (''avg_write_bandwidth'', CUInt 8, None),
       (''dirty_ratelimit'', CUInt 8, None),
       (''balanced_dirty_ratelimit'', CUInt 8, None),
       (''completions'', struct_fprop_local_percpu, None),
       (''dirty_exceeded'', CSInt 4, None),
       (''start_all_reason'', enum_wb_reason, None),
       (''work_lock'', td_spinlock_t, None),
       (''work_list'', struct_list_head, None),
       (''dwork'', struct_delayed_work, None),
       (''bw_dwork'', struct_delayed_work, None),
       (''bdi_node'', struct_list_head, None),
       (''refcnt'', struct_percpu_ref, None),
       (''memcg_completions'', struct_fprop_local_percpu, None),
       (''memcg_css'', CPtr ''struct cgroup_subsys_state'', None),
       (''blkcg_css'', CPtr ''struct cgroup_subsys_state'', None),
       (''memcg_node'', struct_list_head, None),
       (''blkcg_node'', struct_list_head, None),
       (''b_attached'', struct_list_head, None),
       (''offline_node'', struct_list_head, None),
       ('''', CUnion '''' False
          [(''release_work'', struct_work_struct, None),
           (''rcu'', struct_callback_head, None)], None)]"

definition td_fop_flags_t :: ctype where
  "td_fop_flags_t = CUInt 4"

definition struct_file_operations :: ctype where
  "struct_file_operations = CStruct ''file_operations'' False
      [(''owner'', CPtr ''struct module'', None),
       (''fop_flags'', td_fop_flags_t, None),
       (''llseek'', CPtr ''()'', None),
       (''read'', CPtr ''()'', None),
       (''write'', CPtr ''()'', None),
       (''read_iter'', CPtr ''()'', None),
       (''write_iter'', CPtr ''()'', None),
       (''iopoll'', CPtr ''()'', None),
       (''iterate_shared'', CPtr ''()'', None),
       (''poll'', CPtr ''()'', None),
       (''unlocked_ioctl'', CPtr ''()'', None),
       (''compat_ioctl'', CPtr ''()'', None),
       (''mmap'', CPtr ''()'', None),
       (''open'', CPtr ''()'', None),
       (''flush'', CPtr ''()'', None),
       (''release'', CPtr ''()'', None),
       (''fsync'', CPtr ''()'', None),
       (''fasync'', CPtr ''()'', None),
       (''lock'', CPtr ''()'', None),
       (''get_unmapped_area'', CPtr ''()'', None),
       (''check_flags'', CPtr ''()'', None),
       (''flock'', CPtr ''()'', None),
       (''splice_write'', CPtr ''()'', None),
       (''splice_read'', CPtr ''()'', None),
       (''splice_eof'', CPtr ''()'', None),
       (''setlease'', CPtr ''()'', None),
       (''fallocate'', CPtr ''()'', None),
       (''show_fdinfo'', CPtr ''()'', None),
       (''copy_file_range'', CPtr ''()'', None),
       (''remap_file_range'', CPtr ''()'', None),
       (''fadvise'', CPtr ''()'', None),
       (''uring_cmd'', CPtr ''()'', None),
       (''uring_cmd_iopoll'', CPtr ''()'', None)]"

definition struct_file_lock_context :: ctype where
  "struct_file_lock_context = CStruct ''file_lock_context'' False
      [(''flc_lock'', td_spinlock_t, None),
       (''flc_flock'', struct_list_head, None),
       (''flc_posix'', struct_list_head, None),
       (''flc_lease'', struct_list_head, None)]"

definition struct_pipe_inode_info :: ctype where
  "struct_pipe_inode_info = CStruct ''pipe_inode_info'' False
      [(''mutex'', struct_mutex, None),
       (''rd_wait'', td_wait_queue_head_t, None),
       (''wr_wait'', td_wait_queue_head_t, None),
       (''head'', CUInt 4, None),
       (''tail'', CUInt 4, None),
       (''max_usage'', CUInt 4, None),
       (''ring_size'', CUInt 4, None),
       (''nr_accounted'', CUInt 4, None),
       (''readers'', CUInt 4, None),
       (''writers'', CUInt 4, None),
       (''files'', CUInt 4, None),
       (''r_counter'', CUInt 4, None),
       (''w_counter'', CUInt 4, None),
       (''poll_usage'', td_bool, None),
       (''note_loss'', td_bool, None),
       (''tmp_page'', CPtr ''struct page'', None),
       (''fasync_readers'', CPtr ''struct fasync_struct'', None),
       (''fasync_writers'', CPtr ''struct fasync_struct'', None),
       (''bufs'', CPtr ''struct pipe_buffer'', None),
       (''user'', CPtr ''struct user_struct'', None),
       (''watch_queue'', CPtr ''struct watch_queue'', None)]"

definition struct_cdev :: ctype where
  "struct_cdev = CStruct ''cdev'' False
      [(''kobj'', struct_kobject, None),
       (''owner'', CPtr ''struct module'', None),
       (''ops'', CPtr ''struct file_operations'', None),
       (''list'', struct_list_head, None),
       (''dev'', td_dev_t, None),
       (''count'', CUInt 4, None)]"

definition struct_fsnotify_mark_connector :: ctype where
  "struct_fsnotify_mark_connector = CStruct ''fsnotify_mark_connector'' False
      [(''lock'', td_spinlock_t, None),
       (''type'', CUInt 1, None),
       (''prio'', CUInt 1, None),
       (''flags'', CUInt 2, None),
       ('''', CUnion '''' False
          [(''obj'', CPtr ''void'', None),
           (''destroy_next'', CPtr ''struct fsnotify_mark_connector'', None)], None),
       (''list'', struct_hlist_head, None)]"

definition struct_fscrypt_prepared_key :: ctype where
  "struct_fscrypt_prepared_key = CStruct ''fscrypt_prepared_key'' False
      [(''tfm'', CPtr ''struct crypto_skcipher'', None),
       (''blk_key'', CPtr ''struct blk_crypto_key'', None)]"

definition td_siphash_key_t :: ctype where
  "td_siphash_key_t = CStruct '''' False
      [(''key'', CArr (td_u64) 2, None)]"

definition struct_fscrypt_policy_v1 :: ctype where
  "struct_fscrypt_policy_v1 = CStruct ''fscrypt_policy_v1'' False
      [(''version'', td___u8, None),
       (''contents_encryption_mode'', td___u8, None),
       (''filenames_encryption_mode'', td___u8, None),
       (''flags'', td___u8, None),
       (''master_key_descriptor'', CArr (td___u8) 8, None)]"

definition struct_fscrypt_policy_v2 :: ctype where
  "struct_fscrypt_policy_v2 = CStruct ''fscrypt_policy_v2'' False
      [(''version'', td___u8, None),
       (''contents_encryption_mode'', td___u8, None),
       (''filenames_encryption_mode'', td___u8, None),
       (''flags'', td___u8, None),
       (''log2_data_unit_size'', td___u8, None),
       (''__reserved'', CArr (td___u8) 3, None),
       (''master_key_identifier'', CArr (td___u8) 16, None)]"

definition union_fscrypt_policy :: ctype where
  "union_fscrypt_policy = CUnion ''fscrypt_policy'' False
      [(''version'', td_u8, None),
       (''v1'', struct_fscrypt_policy_v1, None),
       (''v2'', struct_fscrypt_policy_v2, None)]"

definition struct_fscrypt_inode_info :: ctype where
  "struct_fscrypt_inode_info = CStruct ''fscrypt_inode_info'' False
      [(''ci_enc_key'', struct_fscrypt_prepared_key, None),
       (''ci_owns_key'', td_u8, Some 1),
       (''ci_inlinecrypt'', td_u8, Some 1),
       (''ci_dirhash_key_initialized'', td_u8, Some 1),
       (''ci_data_unit_bits'', td_u8, None),
       (''ci_data_units_per_block_bits'', td_u8, None),
       (''ci_hashed_ino'', td_u32, None),
       (''ci_mode'', CPtr ''struct fscrypt_mode'', None),
       (''ci_inode'', CPtr ''struct inode'', None),
       (''ci_master_key'', CPtr ''struct fscrypt_master_key'', None),
       (''ci_master_key_link'', struct_list_head, None),
       (''ci_direct_key'', CPtr ''struct fscrypt_direct_key'', None),
       (''ci_dirhash_key'', td_siphash_key_t, None),
       (''ci_policy'', union_fscrypt_policy, None),
       (''ci_nonce'', CArr (td_u8) 16, None)]"

definition struct_merkle_tree_params :: ctype where
  "struct_merkle_tree_params = CStruct ''merkle_tree_params'' False
      [(''hash_alg'', CPtr ''struct fsverity_hash_alg'', None),
       (''hashstate'', CPtr ''u8'', None),
       (''digest_size'', CUInt 4, None),
       (''block_size'', CUInt 4, None),
       (''hashes_per_block'', CUInt 4, None),
       (''blocks_per_page'', CUInt 4, None),
       (''log_digestsize'', td_u8, None),
       (''log_blocksize'', td_u8, None),
       (''log_arity'', td_u8, None),
       (''log_blocks_per_page'', td_u8, None),
       (''num_levels'', CUInt 4, None),
       (''tree_size'', td_u64, None),
       (''tree_pages'', CUInt 8, None),
       (''level_start'', CArr (CUInt 8) 8, None)]"

definition struct_fsverity_info :: ctype where
  "struct_fsverity_info = CStruct ''fsverity_info'' False
      [(''tree_params'', struct_merkle_tree_params, None),
       (''root_hash'', CArr (td_u8) 64, None),
       (''file_digest'', CArr (td_u8) 64, None),
       (''inode'', CPtr ''struct inode'', None),
       (''hash_block_verified'', CPtr ''long unsigned int'', None)]"

definition struct_quota_format_type :: ctype where
  "struct_quota_format_type = CStruct ''quota_format_type'' False
      [(''qf_fmt_id'', CSInt 4, None),
       (''qf_ops'', CPtr ''struct quota_format_ops'', None),
       (''qf_owner'', CPtr ''struct module'', None),
       (''qf_next'', CPtr ''struct quota_format_type'', None)]"

definition struct_quota_format_ops :: ctype where
  "struct_quota_format_ops = CStruct ''quota_format_ops'' False
      [(''check_quota_file'', CPtr ''()'', None),
       (''read_file_info'', CPtr ''()'', None),
       (''write_file_info'', CPtr ''()'', None),
       (''free_file_info'', CPtr ''()'', None),
       (''read_dqblk'', CPtr ''()'', None),
       (''commit_dqblk'', CPtr ''()'', None),
       (''release_dqblk'', CPtr ''()'', None),
       (''get_next_id'', CPtr ''()'', None)]"

definition struct_list_lru_one :: ctype where
  "struct_list_lru_one = CStruct ''list_lru_one'' False
      [(''list'', struct_list_head, None),
       (''nr_items'', CSInt 8, None)]"

definition struct_list_lru_node :: ctype where
  "struct_list_lru_node = CStruct ''list_lru_node'' False
      [(''lock'', td_spinlock_t, None),
       (''lru'', struct_list_lru_one, None),
       (''nr_items'', CSInt 8, None),
       ('''', CSInt 8, Some 64),
       ('''', CSInt 8, Some 64),
       ('''', CSInt 8, Some 64)]"

definition struct_lock_class_key :: ctype where
  "struct_lock_class_key = CStruct ''lock_class_key'' False
      []"

definition struct_file_system_type :: ctype where
  "struct_file_system_type = CStruct ''file_system_type'' False
      [(''name'', CPtr ''char'', None),
       (''fs_flags'', CSInt 4, None),
       (''init_fs_context'', CPtr ''()'', None),
       (''parameters'', CPtr ''struct fs_parameter_spec'', None),
       (''mount'', CPtr ''()'', None),
       (''kill_sb'', CPtr ''()'', None),
       (''owner'', CPtr ''struct module'', None),
       (''next'', CPtr ''struct file_system_type'', None),
       (''fs_supers'', struct_hlist_head, None),
       (''s_lock_key'', struct_lock_class_key, None),
       (''s_umount_key'', struct_lock_class_key, None),
       (''s_vfs_rename_key'', struct_lock_class_key, None),
       (''s_writers_key'', CArr (struct_lock_class_key) 3, None),
       (''i_lock_key'', struct_lock_class_key, None),
       (''i_mutex_key'', struct_lock_class_key, None),
       (''invalidate_lock_key'', struct_lock_class_key, None),
       (''i_mutex_dir_key'', struct_lock_class_key, None)]"

definition struct_super_operations :: ctype where
  "struct_super_operations = CStruct ''super_operations'' False
      [(''alloc_inode'', CPtr ''()'', None),
       (''destroy_inode'', CPtr ''()'', None),
       (''free_inode'', CPtr ''()'', None),
       (''dirty_inode'', CPtr ''()'', None),
       (''write_inode'', CPtr ''()'', None),
       (''drop_inode'', CPtr ''()'', None),
       (''evict_inode'', CPtr ''()'', None),
       (''put_super'', CPtr ''()'', None),
       (''sync_fs'', CPtr ''()'', None),
       (''freeze_super'', CPtr ''()'', None),
       (''freeze_fs'', CPtr ''()'', None),
       (''thaw_super'', CPtr ''()'', None),
       (''unfreeze_fs'', CPtr ''()'', None),
       (''statfs'', CPtr ''()'', None),
       (''remount_fs'', CPtr ''()'', None),
       (''umount_begin'', CPtr ''()'', None),
       (''show_options'', CPtr ''()'', None),
       (''show_devname'', CPtr ''()'', None),
       (''show_path'', CPtr ''()'', None),
       (''show_stats'', CPtr ''()'', None),
       (''quota_read'', CPtr ''()'', None),
       (''quota_write'', CPtr ''()'', None),
       (''get_dquots'', CPtr ''()'', None),
       (''nr_cached_objects'', CPtr ''()'', None),
       (''free_cached_objects'', CPtr ''()'', None),
       (''shutdown'', CPtr ''()'', None)]"

definition struct_dquot_operations :: ctype where
  "struct_dquot_operations = CStruct ''dquot_operations'' False
      [(''write_dquot'', CPtr ''()'', None),
       (''alloc_dquot'', CPtr ''()'', None),
       (''destroy_dquot'', CPtr ''()'', None),
       (''acquire_dquot'', CPtr ''()'', None),
       (''release_dquot'', CPtr ''()'', None),
       (''mark_dirty'', CPtr ''()'', None),
       (''write_info'', CPtr ''()'', None),
       (''get_reserved_space'', CPtr ''()'', None),
       (''get_projid'', CPtr ''()'', None),
       (''get_inode_usage'', CPtr ''()'', None),
       (''get_next_id'', CPtr ''()'', None)]"

definition struct_quotactl_ops :: ctype where
  "struct_quotactl_ops = CStruct ''quotactl_ops'' False
      [(''quota_on'', CPtr ''()'', None),
       (''quota_off'', CPtr ''()'', None),
       (''quota_enable'', CPtr ''()'', None),
       (''quota_disable'', CPtr ''()'', None),
       (''quota_sync'', CPtr ''()'', None),
       (''set_info'', CPtr ''()'', None),
       (''get_dqblk'', CPtr ''()'', None),
       (''get_nextdqblk'', CPtr ''()'', None),
       (''set_dqblk'', CPtr ''()'', None),
       (''get_state'', CPtr ''()'', None),
       (''rm_xquota'', CPtr ''()'', None)]"

definition struct_export_operations :: ctype where
  "struct_export_operations = CStruct ''export_operations'' False
      [(''encode_fh'', CPtr ''()'', None),
       (''fh_to_dentry'', CPtr ''()'', None),
       (''fh_to_parent'', CPtr ''()'', None),
       (''get_name'', CPtr ''()'', None),
       (''get_parent'', CPtr ''()'', None),
       (''commit_metadata'', CPtr ''()'', None),
       (''get_uuid'', CPtr ''()'', None),
       (''map_blocks'', CPtr ''()'', None),
       (''commit_blocks'', CPtr ''()'', None),
       (''flags'', CUInt 8, None)]"

definition struct_xattr_handler :: ctype where
  "struct_xattr_handler = CStruct ''xattr_handler'' False
      [(''name'', CPtr ''char'', None),
       (''prefix'', CPtr ''char'', None),
       (''flags'', CSInt 4, None),
       (''list'', CPtr ''()'', None),
       (''get'', CPtr ''()'', None),
       (''set'', CPtr ''()'', None)]"

definition struct_fscrypt_operations :: ctype where
  "struct_fscrypt_operations = CStruct ''fscrypt_operations'' False
      [(''needs_bounce_pages'', CUInt 4, Some 1),
       (''has_32bit_inodes'', CUInt 4, Some 1),
       (''supports_subblock_data_units'', CUInt 4, Some 1),
       (''legacy_key_prefix'', CPtr ''char'', None),
       (''get_context'', CPtr ''()'', None),
       (''set_context'', CPtr ''()'', None),
       (''get_dummy_policy'', CPtr ''()'', None),
       (''empty_dir'', CPtr ''()'', None),
       (''has_stable_inodes'', CPtr ''()'', None),
       (''get_devices'', CPtr ''()'', None)]"

definition struct_fscrypt_keyring :: ctype where
  "struct_fscrypt_keyring = CStruct ''fscrypt_keyring'' False
      [(''lock'', td_spinlock_t, None),
       (''key_hashtable'', CArr (struct_hlist_head) 128, None)]"

definition struct_fsverity_operations :: ctype where
  "struct_fsverity_operations = CStruct ''fsverity_operations'' False
      [(''begin_enable_verity'', CPtr ''()'', None),
       (''end_enable_verity'', CPtr ''()'', None),
       (''get_verity_descriptor'', CPtr ''()'', None),
       (''read_merkle_tree_page'', CPtr ''()'', None),
       (''write_merkle_tree_block'', CPtr ''()'', None)]"

definition struct_unicode_map :: ctype where
  "struct_unicode_map = CStruct ''unicode_map'' False
      [(''version'', CUInt 4, None),
       (''ntab'', CArr (CPtr ''struct utf8data'') 2, None),
       (''tables'', CPtr ''struct utf8data_table'', None)]"

definition struct_fsnotify_sb_info :: ctype where
  "struct_fsnotify_sb_info = CStruct ''fsnotify_sb_info'' False
      [(''sb_marks'', CPtr ''struct fsnotify_mark_connector'', None),
       (''watched_objects'', CArr (td_atomic_long_t) 3, None)]"

definition struct_dentry_operations :: ctype where
  "struct_dentry_operations = CStruct ''dentry_operations'' False
      [(''d_revalidate'', CPtr ''()'', None),
       (''d_weak_revalidate'', CPtr ''()'', None),
       (''d_hash'', CPtr ''()'', None),
       (''d_compare'', CPtr ''()'', None),
       (''d_delete'', CPtr ''()'', None),
       (''d_init'', CPtr ''()'', None),
       (''d_release'', CPtr ''()'', None),
       (''d_prune'', CPtr ''()'', None),
       (''d_iput'', CPtr ''()'', None),
       (''d_dname'', CPtr ''()'', None),
       (''d_automount'', CPtr ''()'', None),
       (''d_manage'', CPtr ''()'', None),
       (''d_real'', CPtr ''()'', None),
       ('''', CSInt 8, Some 64),
       ('''', CSInt 8, Some 64),
       ('''', CSInt 8, Some 64)]"

definition struct_swait_queue_head :: ctype where
  "struct_swait_queue_head = CStruct ''swait_queue_head'' False
      [(''lock'', td_raw_spinlock_t, None),
       (''task_list'', struct_list_head, None)]"

definition struct_completion :: ctype where
  "struct_completion = CStruct ''completion'' False
      [(''done'', CUInt 4, None),
       (''wait'', struct_swait_queue_head, None)]"

definition struct_shrinker :: ctype where
  "struct_shrinker = CStruct ''shrinker'' False
      [(''count_objects'', CPtr ''()'', None),
       (''scan_objects'', CPtr ''()'', None),
       (''batch'', CSInt 8, None),
       (''seeks'', CSInt 4, None),
       (''flags'', CUInt 4, None),
       (''refcount'', td_refcount_t, None),
       (''done'', struct_completion, None),
       (''rcu'', struct_callback_head, None),
       (''private_data'', CPtr ''void'', None),
       (''list'', struct_list_head, None),
       (''id'', CSInt 4, None),
       (''nr_deferred'', CPtr ''atomic_long_t'', None)]"

definition td_wait_queue_func_t :: ctype where
  "td_wait_queue_func_t = CPtr ''()''"

definition struct_wait_queue_entry :: ctype where
  "struct_wait_queue_entry = CStruct ''wait_queue_entry'' False
      [(''flags'', CUInt 4, None),
       (''private'', CPtr ''void'', None),
       (''func'', td_wait_queue_func_t, None),
       (''entry'', struct_list_head, None)]"

definition td_wait_queue_entry_t :: ctype where
  "td_wait_queue_entry_t = struct_wait_queue_entry"

definition struct_wait_page_queue :: ctype where
  "struct_wait_page_queue = CStruct ''wait_page_queue'' False
      [(''folio'', CPtr ''struct folio'', None),
       (''bit_nr'', CSInt 4, None),
       (''wait'', td_wait_queue_entry_t, None)]"

definition struct_vfsmount :: ctype where
  "struct_vfsmount = CStruct ''vfsmount'' False
      [(''mnt_root'', CPtr ''struct dentry'', None),
       (''mnt_sb'', CPtr ''struct super_block'', None),
       (''mnt_flags'', CSInt 4, None),
       (''mnt_idmap'', CPtr ''struct mnt_idmap'', None)]"

definition struct_qrwlock :: ctype where
  "struct_qrwlock = CStruct ''qrwlock'' False
      [('''', CUnion '''' False
          [(''cnts'', td_atomic_t, None),
           ('''', CStruct '''' False
              [(''wlocked'', td_u8, None),
               (''__lstate'', CArr (td_u8) 3, None)], None)], None),
       (''wait_lock'', td_arch_spinlock_t, None)]"

definition td_arch_rwlock_t :: ctype where
  "td_arch_rwlock_t = struct_qrwlock"

definition td_rwlock_t :: ctype where
  "td_rwlock_t = CStruct '''' False
      [(''raw_lock'', td_arch_rwlock_t, None)]"

definition enum_pid_type :: ctype where
  "enum_pid_type = CEnum ''pid_type'' 4
      [(''PIDTYPE_PID'', 0),
       (''PIDTYPE_TGID'', 1),
       (''PIDTYPE_PGID'', 2),
       (''PIDTYPE_SID'', 3),
       (''PIDTYPE_MAX'', 4)]"

definition struct_fown_struct :: ctype where
  "struct_fown_struct = CStruct ''fown_struct'' False
      [(''file'', CPtr ''struct file'', None),
       (''lock'', td_rwlock_t, None),
       (''pid'', CPtr ''struct pid'', None),
       (''pid_type'', enum_pid_type, None),
       (''uid'', td_kuid_t, None),
       (''euid'', td_kuid_t, None),
       (''signum'', CSInt 4, None)]"

subsection \<open>Alignment and size\<close>

lemma struct_address_space_operations_layout [simp]:
  "calign struct_address_space_operations = 8" "csize struct_address_space_operations = 160" "wf_ctype struct_address_space_operations" "unpacked struct_address_space_operations"
  by (simp_all add: struct_address_space_operations_def layout)

lemma struct_posix_acl_entry_layout [simp]:
  "calign struct_posix_acl_entry = 4" "csize struct_posix_acl_entry = 8" "wf_ctype struct_posix_acl_entry" "unpacked struct_posix_acl_entry"
  by (simp_all add: struct_posix_acl_entry_def layout)

lemma struct_posix_acl_layout [simp]:
  "calign struct_posix_acl = 8" "csize struct_posix_acl = 32" "wf_ctype struct_posix_acl" "unpacked struct_posix_acl"
  by (simp_all add: struct_posix_acl_def layout)

lemma struct_inode_operations_layout [simp]:
  "calign struct_inode_operations = 8" "csize struct_inode_operations = 256" "wf_ctype struct_inode_operations" "unpacked struct_inode_operations"
  by (simp_all add: struct_inode_operations_def layout)

lemma struct_percpu_counter_layout [simp]:
  "calign struct_percpu_counter = 8" "csize struct_percpu_counter = 40" "wf_ctype struct_percpu_counter" "unpacked struct_percpu_counter"
  by (simp_all add: struct_percpu_counter_def layout)

lemma struct_fprop_local_percpu_layout [simp]:
  "calign struct_fprop_local_percpu = 8" "csize struct_fprop_local_percpu = 48" "wf_ctype struct_fprop_local_percpu" "unpacked struct_fprop_local_percpu"
  by (simp_all add: struct_fprop_local_percpu_def layout)

lemma enum_wb_reason_layout [simp]:
  "calign enum_wb_reason = 4" "csize enum_wb_reason = 4" "wf_ctype enum_wb_reason" "unpacked enum_wb_reason"
  by (simp_all add: enum_wb_reason_def layout)

lemma struct_percpu_ref_layout [simp]:
  "calign struct_percpu_ref = 8" "csize struct_percpu_ref = 16" "wf_ctype struct_percpu_ref" "unpacked struct_percpu_ref"
  by (simp_all add: struct_percpu_ref_def layout)

lemma struct_bdi_writeback_layout [simp]:
  "calign struct_bdi_writeback = 8" "csize struct_bdi_writeback = 760" "wf_ctype struct_bdi_writeback" "unpacked struct_bdi_writeback"
  by (simp_all add: struct_bdi_writeback_def layout)

lemma td_fop_flags_t_layout [simp]:
  "calign td_fop_flags_t = 4" "csize td_fop_flags_t = 4" "wf_ctype td_fop_flags_t" "unpacked td_fop_flags_t"
  by (simp_all add: td_fop_flags_t_def layout)

lemma struct_file_operations_layout [simp]:
  "calign struct_file_operations = 8" "csize struct_file_operations = 264" "wf_ctype struct_file_operations" "unpacked struct_file_operations"
  by (simp_all add: struct_file_operations_def layout)

lemma struct_file_lock_context_layout [simp]:
  "calign struct_file_lock_context = 8" "csize struct_file_lock_context = 56" "wf_ctype struct_file_lock_context" "unpacked struct_file_lock_context"
  by (simp_all add: struct_file_lock_context_def layout)

lemma struct_pipe_inode_info_layout [simp]:
  "calign struct_pipe_inode_info = 8" "csize struct_pipe_inode_info = 176" "wf_ctype struct_pipe_inode_info" "unpacked struct_pipe_inode_info"
  by (simp_all add: struct_pipe_inode_info_def layout)

lemma struct_cdev_layout [simp]:
  "calign struct_cdev = 8" "csize struct_cdev = 104" "wf_ctype struct_cdev" "unpacked struct_cdev"
  by (simp_all add: struct_cdev_def layout)

lemma struct_fsnotify_mark_connector_layout [simp]:
  "calign struct_fsnotify_mark_connector = 8" "csize struct_fsnotify_mark_connector = 24" "wf_ctype struct_fsnotify_mark_connector" "unpacked struct_fsnotify_mark_connector"
  by (simp_all add: struct_fsnotify_mark_connector_def layout)

lemma struct_fscrypt_prepared_key_layout [simp]:
  "calign struct_fscrypt_prepared_key = 8" "csize struct_fscrypt_prepared_key = 16" "wf_ctype struct_fscrypt_prepared_key" "unpacked struct_fscrypt_prepared_key"
  by (simp_all add: struct_fscrypt_prepared_key_def layout)

lemma td_siphash_key_t_layout [simp]:
  "calign td_siphash_key_t = 8" "csize td_siphash_key_t = 16" "wf_ctype td_siphash_key_t" "unpacked td_siphash_key_t"
  by (simp_all add: td_siphash_key_t_def layout)

lemma struct_fscrypt_policy_v1_layout [simp]:
  "calign struct_fscrypt_policy_v1 = 1" "csize struct_fscrypt_policy_v1 = 12" "wf_ctype struct_fscrypt_policy_v1" "unpacked struct_fscrypt_policy_v1"
  by (simp_all add: struct_fscrypt_policy_v1_def layout)

lemma struct_fscrypt_policy_v2_layout [simp]:
  "calign struct_fscrypt_policy_v2 = 1" "csize struct_fscrypt_policy_v2 = 24" "wf_ctype struct_fscrypt_policy_v2" "unpacked struct_fscrypt_policy_v2"
  by (simp_all add: struct_fscrypt_policy_v2_def layout)

lemma union_fscrypt_policy_layout [simp]:
  "calign union_fscrypt_policy = 1" "csize union_fscrypt_policy = 24" "wf_ctype union_fscrypt_policy" "unpacked union_fscrypt_policy"
  by (simp_all add: union_fscrypt_policy_def layout)

lemma struct_fscrypt_inode_info_layout [simp]:
  "calign struct_fscrypt_inode_info = 8" "csize struct_fscrypt_inode_info = 128" "wf_ctype struct_fscrypt_inode_info" "unpacked struct_fscrypt_inode_info"
  by (simp_all add: struct_fscrypt_inode_info_def layout)

lemma struct_merkle_tree_params_layout [simp]:
  "calign struct_merkle_tree_params = 8" "csize struct_merkle_tree_params = 120" "wf_ctype struct_merkle_tree_params" "unpacked struct_merkle_tree_params"
  by (simp_all add: struct_merkle_tree_params_def layout)

lemma struct_fsverity_info_layout [simp]:
  "calign struct_fsverity_info = 8" "csize struct_fsverity_info = 264" "wf_ctype struct_fsverity_info" "unpacked struct_fsverity_info"
  by (simp_all add: struct_fsverity_info_def layout)

lemma struct_quota_format_type_layout [simp]:
  "calign struct_quota_format_type = 8" "csize struct_quota_format_type = 32" "wf_ctype struct_quota_format_type" "unpacked struct_quota_format_type"
  by (simp_all add: struct_quota_format_type_def layout)

lemma struct_quota_format_ops_layout [simp]:
  "calign struct_quota_format_ops = 8" "csize struct_quota_format_ops = 64" "wf_ctype struct_quota_format_ops" "unpacked struct_quota_format_ops"
  by (simp_all add: struct_quota_format_ops_def layout)

lemma struct_list_lru_one_layout [simp]:
  "calign struct_list_lru_one = 8" "csize struct_list_lru_one = 24" "wf_ctype struct_list_lru_one" "unpacked struct_list_lru_one"
  by (simp_all add: struct_list_lru_one_def layout)

lemma struct_list_lru_node_layout [simp]:
  "calign struct_list_lru_node = 8" "csize struct_list_lru_node = 64" "wf_ctype struct_list_lru_node" "unpacked struct_list_lru_node"
  by (simp_all add: struct_list_lru_node_def layout)

lemma struct_lock_class_key_layout [simp]:
  "calign struct_lock_class_key = 1" "csize struct_lock_class_key = 0" "wf_ctype struct_lock_class_key" "unpacked struct_lock_class_key"
  by (simp_all add: struct_lock_class_key_def layout)

lemma struct_file_system_type_layout [simp]:
  "calign struct_file_system_type = 8" "csize struct_file_system_type = 72" "wf_ctype struct_file_system_type" "unpacked struct_file_system_type"
  by (simp_all add: struct_file_system_type_def layout)

lemma struct_super_operations_layout [simp]:
  "calign struct_super_operations = 8" "csize struct_super_operations = 208" "wf_ctype struct_super_operations" "unpacked struct_super_operations"
  by (simp_all add: struct_super_operations_def layout)

lemma struct_dquot_operations_layout [simp]:
  "calign struct_dquot_operations = 8" "csize struct_dquot_operations = 88" "wf_ctype struct_dquot_operations" "unpacked struct_dquot_operations"
  by (simp_all add: struct_dquot_operations_def layout)

lemma struct_quotactl_ops_layout [simp]:
  "calign struct_quotactl_ops = 8" "csize struct_quotactl_ops = 88" "wf_ctype struct_quotactl_ops" "unpacked struct_quotactl_ops"
  by (simp_all add: struct_quotactl_ops_def layout)

lemma struct_export_operations_layout [simp]:
  "calign struct_export_operations = 8" "csize struct_export_operations = 80" "wf_ctype struct_export_operations" "unpacked struct_export_operations"
  by (simp_all add: struct_export_operations_def layout)

lemma struct_xattr_handler_layout [simp]:
  "calign struct_xattr_handler = 8" "csize struct_xattr_handler = 48" "wf_ctype struct_xattr_handler" "unpacked struct_xattr_handler"
  by (simp_all add: struct_xattr_handler_def layout)

lemma struct_fscrypt_operations_layout [simp]:
  "calign struct_fscrypt_operations = 8" "csize struct_fscrypt_operations = 64" "wf_ctype struct_fscrypt_operations" "unpacked struct_fscrypt_operations"
  by (simp_all add: struct_fscrypt_operations_def layout)

lemma struct_fscrypt_keyring_layout [simp]:
  "calign struct_fscrypt_keyring = 8" "csize struct_fscrypt_keyring = 1032" "wf_ctype struct_fscrypt_keyring" "unpacked struct_fscrypt_keyring"
  by (simp_all add: struct_fscrypt_keyring_def layout)

lemma struct_fsverity_operations_layout [simp]:
  "calign struct_fsverity_operations = 8" "csize struct_fsverity_operations = 40" "wf_ctype struct_fsverity_operations" "unpacked struct_fsverity_operations"
  by (simp_all add: struct_fsverity_operations_def layout)

lemma struct_unicode_map_layout [simp]:
  "calign struct_unicode_map = 8" "csize struct_unicode_map = 32" "wf_ctype struct_unicode_map" "unpacked struct_unicode_map"
  by (simp_all add: struct_unicode_map_def layout)

lemma struct_fsnotify_sb_info_layout [simp]:
  "calign struct_fsnotify_sb_info = 8" "csize struct_fsnotify_sb_info = 32" "wf_ctype struct_fsnotify_sb_info" "unpacked struct_fsnotify_sb_info"
  by (simp_all add: struct_fsnotify_sb_info_def layout)

lemma struct_dentry_operations_layout [simp]:
  "calign struct_dentry_operations = 8" "csize struct_dentry_operations = 128" "wf_ctype struct_dentry_operations" "unpacked struct_dentry_operations"
  by (simp_all add: struct_dentry_operations_def layout)

lemma struct_swait_queue_head_layout [simp]:
  "calign struct_swait_queue_head = 8" "csize struct_swait_queue_head = 24" "wf_ctype struct_swait_queue_head" "unpacked struct_swait_queue_head"
  by (simp_all add: struct_swait_queue_head_def layout)

lemma struct_completion_layout [simp]:
  "calign struct_completion = 8" "csize struct_completion = 32" "wf_ctype struct_completion" "unpacked struct_completion"
  by (simp_all add: struct_completion_def layout)

lemma struct_shrinker_layout [simp]:
  "calign struct_shrinker = 8" "csize struct_shrinker = 128" "wf_ctype struct_shrinker" "unpacked struct_shrinker"
  by (simp_all add: struct_shrinker_def layout)

lemma td_wait_queue_func_t_layout [simp]:
  "calign td_wait_queue_func_t = 8" "csize td_wait_queue_func_t = 8" "wf_ctype td_wait_queue_func_t" "unpacked td_wait_queue_func_t"
  by (simp_all add: td_wait_queue_func_t_def layout)

lemma struct_wait_queue_entry_layout [simp]:
  "calign struct_wait_queue_entry = 8" "csize struct_wait_queue_entry = 40" "wf_ctype struct_wait_queue_entry" "unpacked struct_wait_queue_entry"
  by (simp_all add: struct_wait_queue_entry_def layout)

lemma td_wait_queue_entry_t_layout [simp]:
  "calign td_wait_queue_entry_t = 8" "csize td_wait_queue_entry_t = 40" "wf_ctype td_wait_queue_entry_t" "unpacked td_wait_queue_entry_t"
  by (simp_all add: td_wait_queue_entry_t_def layout)

lemma struct_wait_page_queue_layout [simp]:
  "calign struct_wait_page_queue = 8" "csize struct_wait_page_queue = 56" "wf_ctype struct_wait_page_queue" "unpacked struct_wait_page_queue"
  by (simp_all add: struct_wait_page_queue_def layout)

lemma struct_vfsmount_layout [simp]:
  "calign struct_vfsmount = 8" "csize struct_vfsmount = 32" "wf_ctype struct_vfsmount" "unpacked struct_vfsmount"
  by (simp_all add: struct_vfsmount_def layout)

lemma struct_qrwlock_layout [simp]:
  "calign struct_qrwlock = 4" "csize struct_qrwlock = 8" "wf_ctype struct_qrwlock" "unpacked struct_qrwlock"
  by (simp_all add: struct_qrwlock_def layout)

lemma td_arch_rwlock_t_layout [simp]:
  "calign td_arch_rwlock_t = 4" "csize td_arch_rwlock_t = 8" "wf_ctype td_arch_rwlock_t" "unpacked td_arch_rwlock_t"
  by (simp_all add: td_arch_rwlock_t_def layout)

lemma td_rwlock_t_layout [simp]:
  "calign td_rwlock_t = 4" "csize td_rwlock_t = 8" "wf_ctype td_rwlock_t" "unpacked td_rwlock_t"
  by (simp_all add: td_rwlock_t_def layout)

lemma enum_pid_type_layout [simp]:
  "calign enum_pid_type = 4" "csize enum_pid_type = 4" "wf_ctype enum_pid_type" "unpacked enum_pid_type"
  by (simp_all add: enum_pid_type_def layout)

lemma struct_fown_struct_layout [simp]:
  "calign struct_fown_struct = 8" "csize struct_fown_struct = 40" "wf_ctype struct_fown_struct" "unpacked struct_fown_struct"
  by (simp_all add: struct_fown_struct_def layout)

end
