(* ===== verification/KTypes_Dev.thy ===== *)
theory KTypes_Dev
  imports KTypes_Fs
begin

text \<open>
  Declarations of \<^verbatim>\<open>bpf/headers/vmlinux.h\<close>: the devices and the user namespace that a
  super block points to, with everything they embed.
\<close>

definition enum_dl_dev_state :: ctype where
  "enum_dl_dev_state = CEnum ''dl_dev_state'' 4
      [(''DL_DEV_NO_DRIVER'', 0),
       (''DL_DEV_PROBING'', 1),
       (''DL_DEV_DRIVER_BOUND'', 2),
       (''DL_DEV_UNBINDING'', 3)]"

definition struct_dev_links_info :: ctype where
  "struct_dev_links_info = CStruct ''dev_links_info'' False
      [(''suppliers'', struct_list_head, None),
       (''consumers'', struct_list_head, None),
       (''defer_sync'', struct_list_head, None),
       (''status'', enum_dl_dev_state, None)]"

definition struct_pm_message :: ctype where
  "struct_pm_message = CStruct ''pm_message'' False
      [(''event'', CSInt 4, None)]"

definition td_pm_message_t :: ctype where
  "td_pm_message_t = struct_pm_message"

definition struct_timerqueue_node :: ctype where
  "struct_timerqueue_node = CStruct ''timerqueue_node'' False
      [(''node'', struct_rb_node, None),
       (''expires'', td_ktime_t, None)]"

definition struct_hrtimer :: ctype where
  "struct_hrtimer = CStruct ''hrtimer'' False
      [(''node'', struct_timerqueue_node, None),
       (''_softexpires'', td_ktime_t, None),
       (''function'', CPtr ''()'', None),
       (''base'', CPtr ''struct hrtimer_clock_base'', None),
       (''state'', td_u8, None),
       (''is_rel'', td_u8, None),
       (''is_soft'', td_u8, None),
       (''is_hard'', td_u8, None)]"

definition enum_rpm_request :: ctype where
  "enum_rpm_request = CEnum ''rpm_request'' 4
      [(''RPM_REQ_NONE'', 0),
       (''RPM_REQ_IDLE'', 1),
       (''RPM_REQ_SUSPEND'', 2),
       (''RPM_REQ_AUTOSUSPEND'', 3),
       (''RPM_REQ_RESUME'', 4)]"

definition enum_rpm_status :: ctype where
  "enum_rpm_status = CEnum ''rpm_status'' 4
      [(''RPM_INVALID'', (- 1)),
       (''RPM_ACTIVE'', 0),
       (''RPM_RESUMING'', 1),
       (''RPM_SUSPENDED'', 2),
       (''RPM_SUSPENDING'', 3)]"

definition struct_dev_pm_info :: ctype where
  "struct_dev_pm_info = CStruct ''dev_pm_info'' False
      [(''power_state'', td_pm_message_t, None),
       (''can_wakeup'', td_bool, Some 1),
       (''async_suspend'', td_bool, Some 1),
       (''in_dpm_list'', td_bool, Some 1),
       (''is_prepared'', td_bool, Some 1),
       (''is_suspended'', td_bool, Some 1),
       (''is_noirq_suspended'', td_bool, Some 1),
       (''is_late_suspended'', td_bool, Some 1),
       (''no_pm'', td_bool, Some 1),
       (''early_init'', td_bool, Some 1),
       (''direct_complete'', td_bool, Some 1),
       (''driver_flags'', td_u32, None),
       (''lock'', td_spinlock_t, None),
       (''entry'', struct_list_head, None),
       (''completion'', struct_completion, None),
       (''wakeup'', CPtr ''struct wakeup_source'', None),
       (''wakeup_path'', td_bool, Some 1),
       (''syscore'', td_bool, Some 1),
       (''no_pm_callbacks'', td_bool, Some 1),
       (''async_in_progress'', td_bool, Some 1),
       (''must_resume'', td_bool, Some 1),
       (''may_skip_resume'', td_bool, Some 1),
       (''suspend_timer'', struct_hrtimer, None),
       (''timer_expires'', td_u64, None),
       (''work'', struct_work_struct, None),
       (''wait_queue'', td_wait_queue_head_t, None),
       (''wakeirq'', CPtr ''struct wake_irq'', None),
       (''usage_count'', td_atomic_t, None),
       (''child_count'', td_atomic_t, None),
       (''disable_depth'', CUInt 4, Some 3),
       (''idle_notification'', td_bool, Some 1),
       (''request_pending'', td_bool, Some 1),
       (''deferred_resume'', td_bool, Some 1),
       (''needs_force_resume'', td_bool, Some 1),
       (''runtime_auto'', td_bool, Some 1),
       (''ignore_children'', td_bool, Some 1),
       (''no_callbacks'', td_bool, Some 1),
       (''irq_safe'', td_bool, Some 1),
       (''use_autosuspend'', td_bool, Some 1),
       (''timer_autosuspends'', td_bool, Some 1),
       (''memalloc_noio'', td_bool, Some 1),
       (''links_count'', CUInt 4, None),
       (''request'', enum_rpm_request, None),
       (''runtime_status'', enum_rpm_status, None),
       (''last_status'', enum_rpm_status, None),
       (''runtime_error'', CSInt 4, None),
       (''autosuspend_delay'', CSInt 4, None),
       (''last_busy'', td_u64, None),
       (''active_time'', td_u64, None),
       (''suspended_time'', td_u64, None),
       (''accounting_timestamp'', td_u64, None),
       (''subsys_data'', CPtr ''struct pm_subsys_data'', None),
       (''set_latency_tolerance'', CPtr ''()'', None),
       (''qos'', CPtr ''struct dev_pm_qos'', None)]"

definition struct_dev_msi_info :: ctype where
  "struct_dev_msi_info = CStruct ''dev_msi_info'' False
      [(''domain'', CPtr ''struct irq_domain'', None),
       (''data'', CPtr ''struct msi_device_data'', None)]"

definition struct_dev_archdata :: ctype where
  "struct_dev_archdata = CStruct ''dev_archdata'' False
      []"

definition enum_device_removable :: ctype where
  "enum_device_removable = CEnum ''device_removable'' 4
      [(''DEVICE_REMOVABLE_NOT_SUPPORTED'', 0),
       (''DEVICE_REMOVABLE_UNKNOWN'', 1),
       (''DEVICE_FIXED'', 2),
       (''DEVICE_REMOVABLE'', 3)]"

definition struct_device :: ctype where
  "struct_device = CStruct ''device'' False
      [(''kobj'', struct_kobject, None),
       (''parent'', CPtr ''struct device'', None),
       (''p'', CPtr ''struct device_private'', None),
       (''init_name'', CPtr ''char'', None),
       (''type'', CPtr ''struct device_type'', None),
       (''bus'', CPtr ''struct bus_type'', None),
       (''driver'', CPtr ''struct device_driver'', None),
       (''platform_data'', CPtr ''void'', None),
       (''driver_data'', CPtr ''void'', None),
       (''mutex'', struct_mutex, None),
       (''links'', struct_dev_links_info, None),
       (''power'', struct_dev_pm_info, None),
       (''pm_domain'', CPtr ''struct dev_pm_domain'', None),
       (''em_pd'', CPtr ''struct em_perf_domain'', None),
       (''pins'', CPtr ''struct dev_pin_info'', None),
       (''msi'', struct_dev_msi_info, None),
       (''dma_ops'', CPtr ''struct dma_map_ops'', None),
       (''dma_mask'', CPtr ''u64'', None),
       (''coherent_dma_mask'', td_u64, None),
       (''bus_dma_limit'', td_u64, None),
       (''dma_range_map'', CPtr ''struct bus_dma_region'', None),
       (''dma_parms'', CPtr ''struct device_dma_parameters'', None),
       (''dma_pools'', struct_list_head, None),
       (''dma_io_tlb_mem'', CPtr ''struct io_tlb_mem'', None),
       (''dma_io_tlb_pools'', struct_list_head, None),
       (''dma_io_tlb_lock'', td_spinlock_t, None),
       (''dma_uses_io_tlb'', td_bool, None),
       (''archdata'', struct_dev_archdata, None),
       (''of_node'', CPtr ''struct device_node'', None),
       (''fwnode'', CPtr ''struct fwnode_handle'', None),
       (''numa_node'', CSInt 4, None),
       (''devt'', td_dev_t, None),
       (''id'', td_u32, None),
       (''devres_lock'', td_spinlock_t, None),
       (''devres_head'', struct_list_head, None),
       (''class'', CPtr ''struct class'', None),
       (''groups'', CPtr ''struct attribute_group *'', None),
       (''release'', CPtr ''()'', None),
       (''iommu_group'', CPtr ''struct iommu_group'', None),
       (''iommu'', CPtr ''struct dev_iommu'', None),
       (''physical_location'', CPtr ''struct device_physical_location'', None),
       (''removable'', enum_device_removable, None),
       (''offline_disabled'', td_bool, Some 1),
       (''offline'', td_bool, Some 1),
       (''of_node_reused'', td_bool, Some 1),
       (''state_synced'', td_bool, Some 1),
       (''can_match'', td_bool, Some 1),
       (''dma_skip_sync'', td_bool, Some 1),
       (''dma_iommu'', td_bool, Some 1)]"

definition struct_block_device :: ctype where
  "struct_block_device = CStruct ''block_device'' False
      [(''bd_start_sect'', td_sector_t, None),
       (''bd_nr_sectors'', td_sector_t, None),
       (''bd_disk'', CPtr ''struct gendisk'', None),
       (''bd_queue'', CPtr ''struct request_queue'', None),
       (''bd_stats'', CPtr ''struct disk_stats'', None),
       (''bd_stamp'', CUInt 8, None),
       (''__bd_flags'', td_atomic_t, None),
       (''bd_dev'', td_dev_t, None),
       (''bd_mapping'', CPtr ''struct address_space'', None),
       (''bd_openers'', td_atomic_t, None),
       (''bd_size_lock'', td_spinlock_t, None),
       (''bd_claiming'', CPtr ''void'', None),
       (''bd_holder'', CPtr ''void'', None),
       (''bd_holder_ops'', CPtr ''struct blk_holder_ops'', None),
       (''bd_holder_lock'', struct_mutex, None),
       (''bd_holders'', CSInt 4, None),
       (''bd_holder_dir'', CPtr ''struct kobject'', None),
       (''bd_fsfreeze_count'', td_atomic_t, None),
       (''bd_fsfreeze_mutex'', struct_mutex, None),
       (''bd_meta_info'', CPtr ''struct partition_meta_info'', None),
       (''bd_writers'', CSInt 4, None),
       (''bd_security'', CPtr ''void'', None),
       (''bd_device'', struct_device, None)]"

definition struct_backing_dev_info :: ctype where
  "struct_backing_dev_info = CStruct ''backing_dev_info'' False
      [(''id'', td_u64, None),
       (''rb_node'', struct_rb_node, None),
       (''bdi_list'', struct_list_head, None),
       (''ra_pages'', CUInt 8, None),
       (''io_pages'', CUInt 8, None),
       (''refcnt'', struct_kref, None),
       (''capabilities'', CUInt 4, None),
       (''min_ratio'', CUInt 4, None),
       (''max_ratio'', CUInt 4, None),
       (''max_prop_frac'', CUInt 4, None),
       (''tot_write_bandwidth'', td_atomic_long_t, None),
       (''last_bdp_sleep'', CUInt 8, None),
       (''wb'', struct_bdi_writeback, None),
       (''wb_list'', struct_list_head, None),
       (''cgwb_tree'', struct_xarray, None),
       (''cgwb_release_mutex'', struct_mutex, None),
       (''wb_switch_rwsem'', struct_rw_semaphore, None),
       (''wb_waitq'', td_wait_queue_head_t, None),
       (''dev'', CPtr ''struct device'', None),
       (''dev_name'', CArr (CSInt 1) 64, None),
       (''owner'', CPtr ''struct device'', None),
       (''laptop_mode_wb_timer'', struct_timer_list, None),
       (''debug_dir'', CPtr ''struct dentry'', None)]"

definition struct_uid_gid_extent :: ctype where
  "struct_uid_gid_extent = CStruct ''uid_gid_extent'' False
      [(''first'', td_u32, None),
       (''lower_first'', td_u32, None),
       (''count'', td_u32, None)]"

definition struct_uid_gid_map :: ctype where
  "struct_uid_gid_map = CStruct ''uid_gid_map'' False
      [('''', CUnion '''' False
          [('''', CStruct '''' False
              [(''extent'', CArr (struct_uid_gid_extent) 5, None),
               (''nr_extents'', td_u32, None)], None),
           ('''', CStruct '''' False
              [(''forward'', CPtr ''struct uid_gid_extent'', None),
               (''reverse'', CPtr ''struct uid_gid_extent'', None)], None)], None)]"

definition struct_ns_common :: ctype where
  "struct_ns_common = CStruct ''ns_common'' False
      [(''stashed'', CPtr ''struct dentry'', None),
       (''ops'', CPtr ''struct proc_ns_operations'', None),
       (''inum'', CUInt 4, None),
       (''count'', td_refcount_t, None)]"

definition struct_ctl_table_header :: ctype where
  "struct_ctl_table_header = CStruct ''ctl_table_header'' False
      [('''', CUnion '''' False
          [('''', CStruct '''' False
              [(''ctl_table'', CPtr ''struct ctl_table'', None),
               (''ctl_table_size'', CSInt 4, None),
               (''used'', CSInt 4, None),
               (''count'', CSInt 4, None),
               (''nreg'', CSInt 4, None)], None),
           (''rcu'', struct_callback_head, None)], None),
       (''unregistering'', CPtr ''struct completion'', None),
       (''ctl_table_arg'', CPtr ''struct ctl_table'', None),
       (''root'', CPtr ''struct ctl_table_root'', None),
       (''set'', CPtr ''struct ctl_table_set'', None),
       (''parent'', CPtr ''struct ctl_dir'', None),
       (''node'', CPtr ''struct ctl_node'', None),
       (''inodes'', struct_hlist_head, None),
       (''type'', CEnum '''' 4
          [(''SYSCTL_TABLE_TYPE_DEFAULT'', 0),
           (''SYSCTL_TABLE_TYPE_PERMANENTLY_EMPTY'', 1)], None)]"

definition struct_ctl_dir :: ctype where
  "struct_ctl_dir = CStruct ''ctl_dir'' False
      [(''header'', struct_ctl_table_header, None),
       (''root'', struct_rb_root, None)]"

definition struct_ctl_table_set :: ctype where
  "struct_ctl_table_set = CStruct ''ctl_table_set'' False
      [(''is_seen'', CPtr ''()'', None),
       (''dir'', struct_ctl_dir, None)]"

definition struct_user_namespace :: ctype where
  "struct_user_namespace = CStruct ''user_namespace'' False
      [(''uid_map'', struct_uid_gid_map, None),
       (''gid_map'', struct_uid_gid_map, None),
       (''projid_map'', struct_uid_gid_map, None),
       (''parent'', CPtr ''struct user_namespace'', None),
       (''level'', CSInt 4, None),
       (''owner'', td_kuid_t, None),
       (''group'', td_kgid_t, None),
       (''ns'', struct_ns_common, None),
       (''flags'', CUInt 8, None),
       (''parent_could_setfcap'', td_bool, None),
       (''keyring_name_list'', struct_list_head, None),
       (''user_keyring_register'', CPtr ''struct key'', None),
       (''keyring_sem'', struct_rw_semaphore, None),
       (''persistent_keyring_register'', CPtr ''struct key'', None),
       (''work'', struct_work_struct, None),
       (''set'', struct_ctl_table_set, None),
       (''sysctls'', CPtr ''struct ctl_table_header'', None),
       (''ucounts'', CPtr ''struct ucounts'', None),
       (''ucount_max'', CArr (CSInt 8) 12, None),
       (''rlimit_max'', CArr (CSInt 8) 4, None),
       (''binfmt_misc'', CPtr ''struct binfmt_misc'', None)]"

subsection \<open>Alignment and size\<close>

lemma enum_dl_dev_state_layout [simp]:
  "calign enum_dl_dev_state = 4" "csize enum_dl_dev_state = 4" "wf_ctype enum_dl_dev_state" "unpacked enum_dl_dev_state"
  by (simp_all add: enum_dl_dev_state_def layout)

lemma struct_dev_links_info_layout [simp]:
  "calign struct_dev_links_info = 8" "csize struct_dev_links_info = 56" "wf_ctype struct_dev_links_info" "unpacked struct_dev_links_info"
  by (simp_all add: struct_dev_links_info_def layout)

lemma struct_pm_message_layout [simp]:
  "calign struct_pm_message = 4" "csize struct_pm_message = 4" "wf_ctype struct_pm_message" "unpacked struct_pm_message"
  by (simp_all add: struct_pm_message_def layout)

lemma td_pm_message_t_layout [simp]:
  "calign td_pm_message_t = 4" "csize td_pm_message_t = 4" "wf_ctype td_pm_message_t" "unpacked td_pm_message_t"
  by (simp_all add: td_pm_message_t_def layout)

lemma struct_timerqueue_node_layout [simp]:
  "calign struct_timerqueue_node = 8" "csize struct_timerqueue_node = 32" "wf_ctype struct_timerqueue_node" "unpacked struct_timerqueue_node"
  by (simp_all add: struct_timerqueue_node_def layout)

lemma struct_hrtimer_layout [simp]:
  "calign struct_hrtimer = 8" "csize struct_hrtimer = 64" "wf_ctype struct_hrtimer" "unpacked struct_hrtimer"
  by (simp_all add: struct_hrtimer_def layout)

lemma enum_rpm_request_layout [simp]:
  "calign enum_rpm_request = 4" "csize enum_rpm_request = 4" "wf_ctype enum_rpm_request" "unpacked enum_rpm_request"
  by (simp_all add: enum_rpm_request_def layout)

lemma enum_rpm_status_layout [simp]:
  "calign enum_rpm_status = 4" "csize enum_rpm_status = 4" "wf_ctype enum_rpm_status" "unpacked enum_rpm_status"
  by (simp_all add: enum_rpm_status_def layout)

lemma struct_dev_pm_info_layout [simp]:
  "calign struct_dev_pm_info = 8" "csize struct_dev_pm_info = 312" "wf_ctype struct_dev_pm_info" "unpacked struct_dev_pm_info"
  by (simp_all add: struct_dev_pm_info_def layout)

lemma struct_dev_msi_info_layout [simp]:
  "calign struct_dev_msi_info = 8" "csize struct_dev_msi_info = 16" "wf_ctype struct_dev_msi_info" "unpacked struct_dev_msi_info"
  by (simp_all add: struct_dev_msi_info_def layout)

lemma struct_dev_archdata_layout [simp]:
  "calign struct_dev_archdata = 1" "csize struct_dev_archdata = 0" "wf_ctype struct_dev_archdata" "unpacked struct_dev_archdata"
  by (simp_all add: struct_dev_archdata_def layout)

lemma enum_device_removable_layout [simp]:
  "calign enum_device_removable = 4" "csize enum_device_removable = 4" "wf_ctype enum_device_removable" "unpacked enum_device_removable"
  by (simp_all add: enum_device_removable_def layout)

lemma struct_device_layout [simp]:
  "calign struct_device = 8" "csize struct_device = 768" "wf_ctype struct_device" "unpacked struct_device"
  by (simp_all add: struct_device_def layout)

lemma struct_block_device_layout [simp]:
  "calign struct_block_device = 8" "csize struct_block_device = 976" "wf_ctype struct_block_device" "unpacked struct_block_device"
  by (simp_all add: struct_block_device_def layout)

lemma struct_backing_dev_info_layout [simp]:
  "calign struct_backing_dev_info = 8" "csize struct_backing_dev_info = 1120" "wf_ctype struct_backing_dev_info" "unpacked struct_backing_dev_info"
  by (simp_all add: struct_backing_dev_info_def layout)

lemma struct_uid_gid_extent_layout [simp]:
  "calign struct_uid_gid_extent = 4" "csize struct_uid_gid_extent = 12" "wf_ctype struct_uid_gid_extent" "unpacked struct_uid_gid_extent"
  by (simp_all add: struct_uid_gid_extent_def layout)

lemma struct_uid_gid_map_layout [simp]:
  "calign struct_uid_gid_map = 8" "csize struct_uid_gid_map = 64" "wf_ctype struct_uid_gid_map" "unpacked struct_uid_gid_map"
  by (simp_all add: struct_uid_gid_map_def layout)

lemma struct_ns_common_layout [simp]:
  "calign struct_ns_common = 8" "csize struct_ns_common = 24" "wf_ctype struct_ns_common" "unpacked struct_ns_common"
  by (simp_all add: struct_ns_common_def layout)

lemma struct_ctl_table_header_layout [simp]:
  "calign struct_ctl_table_header = 8" "csize struct_ctl_table_header = 88" "wf_ctype struct_ctl_table_header" "unpacked struct_ctl_table_header"
  by (simp_all add: struct_ctl_table_header_def layout)

lemma struct_ctl_dir_layout [simp]:
  "calign struct_ctl_dir = 8" "csize struct_ctl_dir = 96" "wf_ctype struct_ctl_dir" "unpacked struct_ctl_dir"
  by (simp_all add: struct_ctl_dir_def layout)

lemma struct_ctl_table_set_layout [simp]:
  "calign struct_ctl_table_set = 8" "csize struct_ctl_table_set = 104" "wf_ctype struct_ctl_table_set" "unpacked struct_ctl_table_set"
  by (simp_all add: struct_ctl_table_set_def layout)

lemma struct_user_namespace_layout [simp]:
  "calign struct_user_namespace = 8" "csize struct_user_namespace = 616" "wf_ctype struct_user_namespace" "unpacked struct_user_namespace"
  by (simp_all add: struct_user_namespace_def layout)

end
