(* ===== verification/KTypes_Task.thy ===== *)
theory KTypes_Task
  imports KTypes_Dev
begin

text \<open>
  Declarations of \<^verbatim>\<open>bpf/headers/vmlinux.h\<close>: \<^verbatim>\<open>struct task_struct\<close>, which locks and wait
  queues inside the file-system objects point to, with everything it embeds.
\<close>

definition struct_thread_info :: ctype where
  "struct_thread_info = CStruct ''thread_info'' False
      [(''flags'', CUInt 8, None),
       (''syscall_work'', CUInt 8, None),
       (''status'', td_u32, None),
       (''cpu'', td_u32, None)]"

definition struct___call_single_node :: ctype where
  "struct___call_single_node = CStruct ''__call_single_node'' False
      [(''llist'', struct_llist_node, None),
       ('''', CUnion '''' False
          [(''u_flags'', CUInt 4, None),
           (''a_flags'', td_atomic_t, None)], None),
       (''src'', td_u16, None),
       (''dst'', td_u16, None)]"

definition struct_load_weight :: ctype where
  "struct_load_weight = CStruct ''load_weight'' False
      [(''weight'', CUInt 8, None),
       (''inv_weight'', td_u32, None)]"

definition struct_sched_avg :: ctype where
  "struct_sched_avg = CStruct ''sched_avg'' False
      [(''last_update_time'', td_u64, None),
       (''load_sum'', td_u64, None),
       (''runnable_sum'', td_u64, None),
       (''util_sum'', td_u32, None),
       (''period_contrib'', td_u32, None),
       (''load_avg'', CUInt 8, None),
       (''runnable_avg'', CUInt 8, None),
       (''util_avg'', CUInt 8, None),
       (''util_est'', CUInt 4, None)]"

definition struct_sched_entity :: ctype where
  "struct_sched_entity = CStruct ''sched_entity'' False
      [(''load'', struct_load_weight, None),
       (''run_node'', struct_rb_node, None),
       (''deadline'', td_u64, None),
       (''min_vruntime'', td_u64, None),
       (''min_slice'', td_u64, None),
       (''group_node'', struct_list_head, None),
       (''on_rq'', CUInt 1, None),
       (''sched_delayed'', CUInt 1, None),
       (''rel_deadline'', CUInt 1, None),
       (''custom_slice'', CUInt 1, None),
       (''exec_start'', td_u64, None),
       (''sum_exec_runtime'', td_u64, None),
       (''prev_sum_exec_runtime'', td_u64, None),
       (''vruntime'', td_u64, None),
       (''vlag'', td_s64, None),
       (''slice'', td_u64, None),
       (''nr_migrations'', td_u64, None),
       (''depth'', CSInt 4, None),
       (''parent'', CPtr ''struct sched_entity'', None),
       (''cfs_rq'', CPtr ''struct cfs_rq'', None),
       (''my_q'', CPtr ''struct cfs_rq'', None),
       (''runnable_weight'', CUInt 8, None),
       ('''', CSInt 8, Some 64),
       (''avg'', struct_sched_avg, None)]"

definition struct_sched_rt_entity :: ctype where
  "struct_sched_rt_entity = CStruct ''sched_rt_entity'' False
      [(''run_list'', struct_list_head, None),
       (''timeout'', CUInt 8, None),
       (''watchdog_stamp'', CUInt 8, None),
       (''time_slice'', CUInt 4, None),
       (''on_rq'', CUInt 2, None),
       (''on_list'', CUInt 2, None),
       (''back'', CPtr ''struct sched_rt_entity'', None)]"

definition td_dl_server_has_tasks_f :: ctype where
  "td_dl_server_has_tasks_f = CPtr ''()''"

definition td_dl_server_pick_f :: ctype where
  "td_dl_server_pick_f = CPtr ''()''"

definition struct_sched_dl_entity :: ctype where
  "struct_sched_dl_entity = CStruct ''sched_dl_entity'' False
      [(''rb_node'', struct_rb_node, None),
       (''dl_runtime'', td_u64, None),
       (''dl_deadline'', td_u64, None),
       (''dl_period'', td_u64, None),
       (''dl_bw'', td_u64, None),
       (''dl_density'', td_u64, None),
       (''runtime'', td_s64, None),
       (''deadline'', td_u64, None),
       (''flags'', CUInt 4, None),
       (''dl_throttled'', CUInt 4, Some 1),
       (''dl_yielded'', CUInt 4, Some 1),
       (''dl_non_contending'', CUInt 4, Some 1),
       (''dl_overrun'', CUInt 4, Some 1),
       (''dl_server'', CUInt 4, Some 1),
       (''dl_defer'', CUInt 4, Some 1),
       (''dl_defer_armed'', CUInt 4, Some 1),
       (''dl_defer_running'', CUInt 4, Some 1),
       (''dl_timer'', struct_hrtimer, None),
       (''inactive_timer'', struct_hrtimer, None),
       (''rq'', CPtr ''struct rq'', None),
       (''server_has_tasks'', td_dl_server_has_tasks_f, None),
       (''server_pick_task'', td_dl_server_pick_f, None),
       (''pi_se'', CPtr ''struct sched_dl_entity'', None)]"

definition struct_scx_dsq_list_node :: ctype where
  "struct_scx_dsq_list_node = CStruct ''scx_dsq_list_node'' False
      [(''node'', struct_list_head, None),
       (''flags'', td_u32, None),
       (''priv'', td_u32, None)]"

definition struct_sched_ext_entity :: ctype where
  "struct_sched_ext_entity = CStruct ''sched_ext_entity'' False
      [(''dsq'', CPtr ''struct scx_dispatch_q'', None),
       (''dsq_list'', struct_scx_dsq_list_node, None),
       (''dsq_priq'', struct_rb_node, None),
       (''dsq_seq'', td_u32, None),
       (''dsq_flags'', td_u32, None),
       (''flags'', td_u32, None),
       (''weight'', td_u32, None),
       (''sticky_cpu'', td_s32, None),
       (''holding_cpu'', td_s32, None),
       (''kf_mask'', td_u32, None),
       (''kf_tasks'', CArr (CPtr ''struct task_struct'') 2, None),
       (''ops_state'', td_atomic_long_t, None),
       (''runnable_node'', struct_list_head, None),
       (''runnable_at'', CUInt 8, None),
       (''core_sched_at'', td_u64, None),
       (''ddsp_dsq_id'', td_u64, None),
       (''ddsp_enq_flags'', td_u64, None),
       (''slice'', td_u64, None),
       (''dsq_vtime'', td_u64, None),
       (''disallow'', td_bool, None),
       (''cgrp_moving_from'', CPtr ''struct cgroup'', None),
       (''tasks_node'', struct_list_head, None)]"

definition struct_uclamp_se :: ctype where
  "struct_uclamp_se = CStruct ''uclamp_se'' False
      [(''value'', CUInt 4, Some 11),
       (''bucket_id'', CUInt 4, Some 3),
       (''active'', CUInt 4, Some 1),
       (''user_defined'', CUInt 4, Some 1)]"

definition struct_sched_statistics :: ctype where
  "struct_sched_statistics = CStruct ''sched_statistics'' False
      [(''wait_start'', td_u64, None),
       (''wait_max'', td_u64, None),
       (''wait_count'', td_u64, None),
       (''wait_sum'', td_u64, None),
       (''iowait_count'', td_u64, None),
       (''iowait_sum'', td_u64, None),
       (''sleep_start'', td_u64, None),
       (''sleep_max'', td_u64, None),
       (''sum_sleep_runtime'', td_s64, None),
       (''block_start'', td_u64, None),
       (''block_max'', td_u64, None),
       (''sum_block_runtime'', td_s64, None),
       (''exec_max'', td_s64, None),
       (''slice_max'', td_u64, None),
       (''nr_migrations_cold'', td_u64, None),
       (''nr_failed_migrations_affine'', td_u64, None),
       (''nr_failed_migrations_running'', td_u64, None),
       (''nr_failed_migrations_hot'', td_u64, None),
       (''nr_forced_migrations'', td_u64, None),
       (''nr_wakeups'', td_u64, None),
       (''nr_wakeups_sync'', td_u64, None),
       (''nr_wakeups_migrate'', td_u64, None),
       (''nr_wakeups_local'', td_u64, None),
       (''nr_wakeups_remote'', td_u64, None),
       (''nr_wakeups_affine'', td_u64, None),
       (''nr_wakeups_affine_attempts'', td_u64, None),
       (''nr_wakeups_passive'', td_u64, None),
       (''nr_wakeups_idle'', td_u64, None),
       (''core_forceidle_sum'', td_u64, None),
       ('''', CSInt 8, Some 64),
       ('''', CSInt 8, Some 64),
       ('''', CSInt 8, Some 64)]"

definition struct_cpumask :: ctype where
  "struct_cpumask = CStruct ''cpumask'' False
      [(''bits'', CArr (CUInt 8) 128, None)]"

definition td_cpumask_t :: ctype where
  "td_cpumask_t = struct_cpumask"

definition union_rcu_special :: ctype where
  "union_rcu_special = CUnion ''rcu_special'' False
      [(''b'', CStruct '''' False
          [(''blocked'', td_u8, None),
           (''need_qs'', td_u8, None),
           (''exp_hint'', td_u8, None),
           (''need_mb'', td_u8, None)], None),
       (''s'', td_u32, None)]"

definition struct_sched_info :: ctype where
  "struct_sched_info = CStruct ''sched_info'' False
      [(''pcount'', CUInt 8, None),
       (''run_delay'', CUInt 8, None),
       (''last_arrival'', CUInt 8, None),
       (''last_queued'', CUInt 8, None)]"

definition struct_plist_node :: ctype where
  "struct_plist_node = CStruct ''plist_node'' False
      [(''prio'', CSInt 4, None),
       (''prio_list'', struct_list_head, None),
       (''node_list'', struct_list_head, None)]"

definition td___kernel_clockid_t :: ctype where
  "td___kernel_clockid_t = CSInt 4"

definition td_clockid_t :: ctype where
  "td_clockid_t = td___kernel_clockid_t"

definition enum_timespec_type :: ctype where
  "enum_timespec_type = CEnum ''timespec_type'' 4
      [(''TT_NONE'', 0),
       (''TT_NATIVE'', 1),
       (''TT_COMPAT'', 2)]"

definition struct_restart_block :: ctype where
  "struct_restart_block = CStruct ''restart_block'' False
      [(''arch_data'', CUInt 8, None),
       (''fn'', CPtr ''()'', None),
       ('''', CUnion '''' False
          [(''futex'', CStruct '''' False
              [(''uaddr'', CPtr ''u32'', None),
               (''val'', td_u32, None),
               (''flags'', td_u32, None),
               (''bitset'', td_u32, None),
               (''time'', td_u64, None),
               (''uaddr2'', CPtr ''u32'', None)], None),
           (''nanosleep'', CStruct '''' False
              [(''clockid'', td_clockid_t, None),
               (''type'', enum_timespec_type, None),
               ('''', CUnion '''' False
                  [(''rmtp'', CPtr ''struct __kernel_timespec'', None),
                   (''compat_rmtp'', CPtr ''struct old_timespec32'', None)], None),
               (''expires'', td_u64, None)], None),
           (''poll'', CStruct '''' False
              [(''ufds'', CPtr ''struct pollfd'', None),
               (''nfds'', CSInt 4, None),
               (''has_timeout'', CSInt 4, None),
               (''tv_sec'', CUInt 8, None),
               (''tv_nsec'', CUInt 8, None)], None)], None)]"

definition struct_prev_cputime :: ctype where
  "struct_prev_cputime = CStruct ''prev_cputime'' False
      [(''utime'', td_u64, None),
       (''stime'', td_u64, None),
       (''lock'', td_raw_spinlock_t, None)]"

definition enum_vtime_state :: ctype where
  "enum_vtime_state = CEnum ''vtime_state'' 4
      [(''VTIME_INACTIVE'', 0),
       (''VTIME_IDLE'', 1),
       (''VTIME_SYS'', 2),
       (''VTIME_USER'', 3),
       (''VTIME_GUEST'', 4)]"

definition struct_vtime :: ctype where
  "struct_vtime = CStruct ''vtime'' False
      [(''seqcount'', td_seqcount_t, None),
       (''starttime'', CUInt 8, None),
       (''state'', enum_vtime_state, None),
       (''cpu'', CUInt 4, None),
       (''utime'', td_u64, None),
       (''stime'', td_u64, None),
       (''gtime'', td_u64, None)]"

definition struct_timerqueue_head :: ctype where
  "struct_timerqueue_head = CStruct ''timerqueue_head'' False
      [(''rb_root'', struct_rb_root_cached, None)]"

definition struct_posix_cputimer_base :: ctype where
  "struct_posix_cputimer_base = CStruct ''posix_cputimer_base'' False
      [(''nextevt'', td_u64, None),
       (''tqhead'', struct_timerqueue_head, None)]"

definition struct_posix_cputimers :: ctype where
  "struct_posix_cputimers = CStruct ''posix_cputimers'' False
      [(''bases'', CArr (struct_posix_cputimer_base) 3, None),
       (''timers_active'', CUInt 4, None),
       (''expiry_active'', CUInt 4, None)]"

definition struct_posix_cputimers_work :: ctype where
  "struct_posix_cputimers_work = CStruct ''posix_cputimers_work'' False
      [(''work'', struct_callback_head, None),
       (''mutex'', struct_mutex, None),
       (''scheduled'', CUInt 4, None)]"

definition struct_sysv_sem :: ctype where
  "struct_sysv_sem = CStruct ''sysv_sem'' False
      [(''undo_list'', CPtr ''struct sem_undo_list'', None)]"

definition struct_sysv_shm :: ctype where
  "struct_sysv_shm = CStruct ''sysv_shm'' False
      [(''shm_clist'', struct_list_head, None)]"

definition td_sigset_t :: ctype where
  "td_sigset_t = CStruct '''' False
      [(''sig'', CArr (CUInt 8) 1, None)]"

definition struct_sigpending :: ctype where
  "struct_sigpending = CStruct ''sigpending'' False
      [(''list'', struct_list_head, None),
       (''signal'', td_sigset_t, None)]"

definition struct_seccomp :: ctype where
  "struct_seccomp = CStruct ''seccomp'' False
      [(''mode'', CSInt 4, None),
       (''filter_count'', td_atomic_t, None),
       (''filter'', CPtr ''struct seccomp_filter'', None)]"

definition struct_syscall_user_dispatch :: ctype where
  "struct_syscall_user_dispatch = CStruct ''syscall_user_dispatch'' False
      [(''selector'', CPtr ''char'', None),
       (''offset'', CUInt 8, None),
       (''len'', CUInt 8, None),
       (''on_dispatch'', td_bool, None)]"

definition struct_wake_q_node :: ctype where
  "struct_wake_q_node = CStruct ''wake_q_node'' False
      [(''next'', CPtr ''struct wake_q_node'', None)]"

definition struct_task_io_accounting :: ctype where
  "struct_task_io_accounting = CStruct ''task_io_accounting'' False
      [(''rchar'', td_u64, None),
       (''wchar'', td_u64, None),
       (''syscr'', td_u64, None),
       (''syscw'', td_u64, None),
       (''read_bytes'', td_u64, None),
       (''write_bytes'', td_u64, None),
       (''cancelled_write_bytes'', td_u64, None)]"

definition td_nodemask_t :: ctype where
  "td_nodemask_t = CStruct '''' False
      [(''bits'', CArr (CUInt 8) 16, None)]"

definition struct_arch_tlbflush_unmap_batch :: ctype where
  "struct_arch_tlbflush_unmap_batch = CStruct ''arch_tlbflush_unmap_batch'' False
      [(''cpumask'', struct_cpumask, None)]"

definition struct_tlbflush_unmap_batch :: ctype where
  "struct_tlbflush_unmap_batch = CStruct ''tlbflush_unmap_batch'' False
      [(''arch'', struct_arch_tlbflush_unmap_batch, None),
       (''flush_required'', td_bool, None),
       (''writable'', td_bool, None)]"

definition struct_page_frag :: ctype where
  "struct_page_frag = CStruct ''page_frag'' False
      [(''page'', CPtr ''struct page'', None),
       (''offset'', td___u32, None),
       (''size'', td___u32, None)]"

definition struct_latency_record :: ctype where
  "struct_latency_record = CStruct ''latency_record'' False
      [(''backtrace'', CArr (CUInt 8) 12, None),
       (''count'', CUInt 4, None),
       (''time'', CUInt 8, None),
       (''max'', CUInt 8, None)]"

definition struct_kmap_ctrl :: ctype where
  "struct_kmap_ctrl = CStruct ''kmap_ctrl'' False
      []"

definition struct_llist_head :: ctype where
  "struct_llist_head = CStruct ''llist_head'' False
      [(''first'', CPtr ''struct llist_node'', None)]"

definition struct_da_monitor :: ctype where
  "struct_da_monitor = CStruct ''da_monitor'' False
      [(''monitoring'', td_bool, None),
       (''curr_state'', CUInt 4, None)]"

definition union_rv_task_monitor :: ctype where
  "union_rv_task_monitor = CUnion ''rv_task_monitor'' False
      [(''da_mon'', struct_da_monitor, None)]"

definition struct_desc_struct :: ctype where
  "struct_desc_struct = CStruct ''desc_struct'' False
      [(''limit0'', td_u16, None),
       (''base0'', td_u16, None),
       (''base1'', td_u16, Some 8),
       (''type'', td_u16, Some 4),
       (''s'', td_u16, Some 1),
       (''dpl'', td_u16, Some 2),
       (''p'', td_u16, Some 1),
       (''limit1'', td_u16, Some 4),
       (''avl'', td_u16, Some 1),
       (''l'', td_u16, Some 1),
       (''d'', td_u16, Some 1),
       (''g'', td_u16, Some 1),
       (''base2'', td_u16, Some 8)]"

definition struct_thread_shstk :: ctype where
  "struct_thread_shstk = CStruct ''thread_shstk'' False
      [(''base'', td_u64, None),
       (''size'', td_u64, None)]"

definition struct_fpu_state_perm :: ctype where
  "struct_fpu_state_perm = CStruct ''fpu_state_perm'' False
      [(''__state_perm'', td_u64, None),
       (''__state_size'', CUInt 4, None),
       (''__user_state_size'', CUInt 4, None)]"

definition struct_fregs_state :: ctype where
  "struct_fregs_state = CStruct ''fregs_state'' False
      [(''cwd'', td_u32, None),
       (''swd'', td_u32, None),
       (''twd'', td_u32, None),
       (''fip'', td_u32, None),
       (''fcs'', td_u32, None),
       (''foo'', td_u32, None),
       (''fos'', td_u32, None),
       (''st_space'', CArr (td_u32) 20, None),
       (''status'', td_u32, None)]"

definition struct_fxregs_state :: ctype where
  "struct_fxregs_state = CStruct ''fxregs_state'' False
      [(''cwd'', td_u16, None),
       (''swd'', td_u16, None),
       (''twd'', td_u16, None),
       (''fop'', td_u16, None),
       ('''', CUnion '''' False
          [('''', CStruct '''' False
              [(''rip'', td_u64, None),
               (''rdp'', td_u64, None)], None),
           ('''', CStruct '''' False
              [(''fip'', td_u32, None),
               (''fcs'', td_u32, None),
               (''foo'', td_u32, None),
               (''fos'', td_u32, None)], None)], None),
       (''mxcsr'', td_u32, None),
       (''mxcsr_mask'', td_u32, None),
       (''st_space'', CArr (td_u32) 32, None),
       (''xmm_space'', CArr (td_u32) 64, None),
       (''padding'', CArr (td_u32) 12, None),
       ('''', CUnion '''' False
          [(''padding1'', CArr (td_u32) 12, None),
           (''sw_reserved'', CArr (td_u32) 12, None)], None)]"

definition struct_swregs_state :: ctype where
  "struct_swregs_state = CStruct ''swregs_state'' False
      [(''cwd'', td_u32, None),
       (''swd'', td_u32, None),
       (''twd'', td_u32, None),
       (''fip'', td_u32, None),
       (''fcs'', td_u32, None),
       (''foo'', td_u32, None),
       (''fos'', td_u32, None),
       (''st_space'', CArr (td_u32) 20, None),
       (''ftop'', td_u8, None),
       (''changed'', td_u8, None),
       (''lookahead'', td_u8, None),
       (''no_update'', td_u8, None),
       (''rm'', td_u8, None),
       (''alimit'', td_u8, None),
       (''info'', CPtr ''struct math_emu_info'', None),
       (''entry_eip'', td_u32, None)]"

definition struct_xstate_header :: ctype where
  "struct_xstate_header = CStruct ''xstate_header'' False
      [(''xfeatures'', td_u64, None),
       (''xcomp_bv'', td_u64, None),
       (''reserved'', CArr (td_u64) 6, None)]"

definition struct_xregs_state :: ctype where
  "struct_xregs_state = CStruct ''xregs_state'' False
      [(''i387'', struct_fxregs_state, None),
       (''header'', struct_xstate_header, None),
       (''extended_state_area'', CArr (td_u8) 0, None)]"

definition union_fpregs_state :: ctype where
  "union_fpregs_state = CUnion ''fpregs_state'' False
      [(''fsave'', struct_fregs_state, None),
       (''fxsave'', struct_fxregs_state, None),
       (''soft'', struct_swregs_state, None),
       (''xsave'', struct_xregs_state, None),
       (''__padding'', CArr (td_u8) 4096, None)]"

definition struct_fpstate :: ctype where
  "struct_fpstate = CStruct ''fpstate'' False
      [(''size'', CUInt 4, None),
       (''user_size'', CUInt 4, None),
       (''xfeatures'', td_u64, None),
       (''user_xfeatures'', td_u64, None),
       (''xfd'', td_u64, None),
       (''is_valloc'', CUInt 4, Some 1),
       (''is_guest'', CUInt 4, Some 1),
       (''is_confidential'', CUInt 4, Some 1),
       (''in_use'', CUInt 4, Some 1),
       ('''', CSInt 8, Some 64),
       ('''', CSInt 8, Some 64),
       ('''', CSInt 8, Some 64),
       (''regs'', union_fpregs_state, None)]"

definition struct_fpu :: ctype where
  "struct_fpu = CStruct ''fpu'' False
      [(''last_cpu'', CUInt 4, None),
       (''avx512_timestamp'', CUInt 8, None),
       (''fpstate'', CPtr ''struct fpstate'', None),
       (''__task_fpstate'', CPtr ''struct fpstate'', None),
       (''perm'', struct_fpu_state_perm, None),
       (''guest_perm'', struct_fpu_state_perm, None),
       (''__fpstate'', struct_fpstate, None)]"

definition struct_thread_struct :: ctype where
  "struct_thread_struct = CStruct ''thread_struct'' False
      [(''tls_array'', CArr (struct_desc_struct) 3, None),
       (''sp'', CUInt 8, None),
       (''es'', CUInt 2, None),
       (''ds'', CUInt 2, None),
       (''fsindex'', CUInt 2, None),
       (''gsindex'', CUInt 2, None),
       (''fsbase'', CUInt 8, None),
       (''gsbase'', CUInt 8, None),
       (''ptrace_bps'', CArr (CPtr ''struct perf_event'') 4, None),
       (''virtual_dr6'', CUInt 8, None),
       (''ptrace_dr7'', CUInt 8, None),
       (''cr2'', CUInt 8, None),
       (''trap_nr'', CUInt 8, None),
       (''error_code'', CUInt 8, None),
       (''io_bitmap'', CPtr ''struct io_bitmap'', None),
       (''iopl_emul'', CUInt 8, None),
       (''iopl_warn'', CUInt 4, Some 1),
       (''pkru'', td_u32, None),
       (''features'', CUInt 8, None),
       (''features_locked'', CUInt 8, None),
       (''shstk'', struct_thread_shstk, None),
       ('''', CSInt 8, Some 64),
       (''fpu'', struct_fpu, None)]"

definition struct_task_struct :: ctype where
  "struct_task_struct = CStruct ''task_struct'' False
      [(''thread_info'', struct_thread_info, None),
       (''__state'', CUInt 4, None),
       (''saved_state'', CUInt 4, None),
       (''stack'', CPtr ''void'', None),
       (''usage'', td_refcount_t, None),
       (''flags'', CUInt 4, None),
       (''ptrace'', CUInt 4, None),
       (''on_cpu'', CSInt 4, None),
       (''wake_entry'', struct___call_single_node, None),
       (''wakee_flips'', CUInt 4, None),
       (''wakee_flip_decay_ts'', CUInt 8, None),
       (''last_wakee'', CPtr ''struct task_struct'', None),
       (''recent_used_cpu'', CSInt 4, None),
       (''wake_cpu'', CSInt 4, None),
       (''on_rq'', CSInt 4, None),
       (''prio'', CSInt 4, None),
       (''static_prio'', CSInt 4, None),
       (''normal_prio'', CSInt 4, None),
       (''rt_priority'', CUInt 4, None),
       (''se'', struct_sched_entity, None),
       (''rt'', struct_sched_rt_entity, None),
       (''dl'', struct_sched_dl_entity, None),
       (''dl_server'', CPtr ''struct sched_dl_entity'', None),
       (''scx'', struct_sched_ext_entity, None),
       (''sched_class'', CPtr ''struct sched_class'', None),
       (''core_node'', struct_rb_node, None),
       (''core_cookie'', CUInt 8, None),
       (''core_occupation'', CUInt 4, None),
       (''sched_task_group'', CPtr ''struct task_group'', None),
       (''uclamp_req'', CArr (struct_uclamp_se) 2, None),
       (''uclamp'', CArr (struct_uclamp_se) 2, None),
       ('''', CSInt 8, Some 64),
       ('''', CSInt 8, Some 64),
       ('''', CSInt 8, Some 64),
       ('''', CSInt 8, Some 64),
       ('''', CSInt 8, Some 64),
       ('''', CSInt 8, Some 64),
       ('''', CSInt 8, Some 64),
       (''stats'', struct_sched_statistics, None),
       (''preempt_notifiers'', struct_hlist_head, None),
       (''btrace_seq'', CUInt 4, None),
       (''policy'', CUInt 4, None),
       (''max_allowed_capacity'', CUInt 8, None),
       (''nr_cpus_allowed'', CSInt 4, None),
       (''cpus_ptr'', CPtr ''cpumask_t'', None),
       (''user_cpus_ptr'', CPtr ''cpumask_t'', None),
       (''cpus_mask'', td_cpumask_t, None),
       (''migration_pending'', CPtr ''void'', None),
       (''migration_disabled'', CUInt 2, None),
       (''migration_flags'', CUInt 2, None),
       (''rcu_read_lock_nesting'', CSInt 4, None),
       (''rcu_read_unlock_special'', union_rcu_special, None),
       (''rcu_node_entry'', struct_list_head, None),
       (''rcu_blocked_node'', CPtr ''struct rcu_node'', None),
       (''rcu_tasks_nvcsw'', CUInt 8, None),
       (''rcu_tasks_holdout'', td_u8, None),
       (''rcu_tasks_idx'', td_u8, None),
       (''rcu_tasks_idle_cpu'', CSInt 4, None),
       (''rcu_tasks_holdout_list'', struct_list_head, None),
       (''rcu_tasks_exit_cpu'', CSInt 4, None),
       (''rcu_tasks_exit_list'', struct_list_head, None),
       (''trc_reader_nesting'', CSInt 4, None),
       (''trc_ipi_to_cpu'', CSInt 4, None),
       (''trc_reader_special'', union_rcu_special, None),
       (''trc_holdout_list'', struct_list_head, None),
       (''trc_blkd_node'', struct_list_head, None),
       (''trc_blkd_cpu'', CSInt 4, None),
       (''sched_info'', struct_sched_info, None),
       (''tasks'', struct_list_head, None),
       (''pushable_tasks'', struct_plist_node, None),
       (''pushable_dl_tasks'', struct_rb_node, None),
       (''mm'', CPtr ''struct mm_struct'', None),
       (''active_mm'', CPtr ''struct mm_struct'', None),
       (''faults_disabled_mapping'', CPtr ''struct address_space'', None),
       (''exit_state'', CSInt 4, None),
       (''exit_code'', CSInt 4, None),
       (''exit_signal'', CSInt 4, None),
       (''pdeath_signal'', CSInt 4, None),
       (''jobctl'', CUInt 8, None),
       (''personality'', CUInt 4, None),
       (''sched_reset_on_fork'', CUInt 4, Some 1),
       (''sched_contributes_to_load'', CUInt 4, Some 1),
       (''sched_migrated'', CUInt 4, Some 1),
       ('''', CSInt 8, Some 29),
       (''sched_remote_wakeup'', CUInt 4, Some 1),
       (''sched_rt_mutex'', CUInt 4, Some 1),
       (''in_execve'', CUInt 4, Some 1),
       (''in_iowait'', CUInt 4, Some 1),
       (''restore_sigmask'', CUInt 4, Some 1),
       (''in_lru_fault'', CUInt 4, Some 1),
       (''no_cgroup_migration'', CUInt 4, Some 1),
       (''frozen'', CUInt 4, Some 1),
       (''use_memdelay'', CUInt 4, Some 1),
       (''in_memstall'', CUInt 4, Some 1),
       (''in_eventfd'', CUInt 4, Some 1),
       (''pasid_activated'', CUInt 4, Some 1),
       (''reported_split_lock'', CUInt 4, Some 1),
       (''in_thrashing'', CUInt 4, Some 1),
       (''atomic_flags'', CUInt 8, None),
       (''restart_block'', struct_restart_block, None),
       (''pid'', td_pid_t, None),
       (''tgid'', td_pid_t, None),
       (''stack_canary'', CUInt 8, None),
       (''real_parent'', CPtr ''struct task_struct'', None),
       (''parent'', CPtr ''struct task_struct'', None),
       (''children'', struct_list_head, None),
       (''sibling'', struct_list_head, None),
       (''group_leader'', CPtr ''struct task_struct'', None),
       (''ptraced'', struct_list_head, None),
       (''ptrace_entry'', struct_list_head, None),
       (''thread_pid'', CPtr ''struct pid'', None),
       (''pid_links'', CArr (struct_hlist_node) 4, None),
       (''thread_node'', struct_list_head, None),
       (''vfork_done'', CPtr ''struct completion'', None),
       (''set_child_tid'', CPtr ''int'', None),
       (''clear_child_tid'', CPtr ''int'', None),
       (''worker_private'', CPtr ''void'', None),
       (''utime'', td_u64, None),
       (''stime'', td_u64, None),
       (''gtime'', td_u64, None),
       (''prev_cputime'', struct_prev_cputime, None),
       (''vtime'', struct_vtime, None),
       (''tick_dep_mask'', td_atomic_t, None),
       (''nvcsw'', CUInt 8, None),
       (''nivcsw'', CUInt 8, None),
       (''start_time'', td_u64, None),
       (''start_boottime'', td_u64, None),
       (''min_flt'', CUInt 8, None),
       (''maj_flt'', CUInt 8, None),
       (''posix_cputimers'', struct_posix_cputimers, None),
       (''posix_cputimers_work'', struct_posix_cputimers_work, None),
       (''ptracer_cred'', CPtr ''struct cred'', None),
       (''real_cred'', CPtr ''struct cred'', None),
       (''cred'', CPtr ''struct cred'', None),
       (''cached_requested_key'', CPtr ''struct key'', None),
       (''comm'', CArr (CSInt 1) 16, None),
       (''nameidata'', CPtr ''struct nameidata'', None),
       (''sysvsem'', struct_sysv_sem, None),
       (''sysvshm'', struct_sysv_shm, None),
       (''last_switch_count'', CUInt 8, None),
       (''last_switch_time'', CUInt 8, None),
       (''fs'', CPtr ''struct fs_struct'', None),
       (''files'', CPtr ''struct files_struct'', None),
       (''io_uring'', CPtr ''struct io_uring_task'', None),
       (''nsproxy'', CPtr ''struct nsproxy'', None),
       (''signal'', CPtr ''struct signal_struct'', None),
       (''sighand'', CPtr ''struct sighand_struct'', None),
       (''blocked'', td_sigset_t, None),
       (''real_blocked'', td_sigset_t, None),
       (''saved_sigmask'', td_sigset_t, None),
       (''pending'', struct_sigpending, None),
       (''sas_ss_sp'', CUInt 8, None),
       (''sas_ss_size'', td_size_t, None),
       (''sas_ss_flags'', CUInt 4, None),
       (''task_works'', CPtr ''struct callback_head'', None),
       (''audit_context'', CPtr ''struct audit_context'', None),
       (''loginuid'', td_kuid_t, None),
       (''sessionid'', CUInt 4, None),
       (''seccomp'', struct_seccomp, None),
       (''syscall_dispatch'', struct_syscall_user_dispatch, None),
       (''parent_exec_id'', td_u64, None),
       (''self_exec_id'', td_u64, None),
       (''alloc_lock'', td_spinlock_t, None),
       (''pi_lock'', td_raw_spinlock_t, None),
       (''wake_q'', struct_wake_q_node, None),
       (''pi_waiters'', struct_rb_root_cached, None),
       (''pi_top_task'', CPtr ''struct task_struct'', None),
       (''pi_blocked_on'', CPtr ''struct rt_mutex_waiter'', None),
       (''in_ubsan'', CUInt 4, None),
       (''journal_info'', CPtr ''void'', None),
       (''bio_list'', CPtr ''struct bio_list'', None),
       (''plug'', CPtr ''struct blk_plug'', None),
       (''reclaim_state'', CPtr ''struct reclaim_state'', None),
       (''io_context'', CPtr ''struct io_context'', None),
       (''capture_control'', CPtr ''struct capture_control'', None),
       (''ptrace_message'', CUInt 8, None),
       (''last_siginfo'', CPtr ''kernel_siginfo_t'', None),
       (''ioac'', struct_task_io_accounting, None),
       (''psi_flags'', CUInt 4, None),
       (''acct_rss_mem1'', td_u64, None),
       (''acct_vm_mem1'', td_u64, None),
       (''acct_timexpd'', td_u64, None),
       (''mems_allowed'', td_nodemask_t, None),
       (''mems_allowed_seq'', td_seqcount_spinlock_t, None),
       (''cpuset_mem_spread_rotor'', CSInt 4, None),
       (''cgroups'', CPtr ''struct css_set'', None),
       (''cg_list'', struct_list_head, None),
       (''closid'', td_u32, None),
       (''rmid'', td_u32, None),
       (''robust_list'', CPtr ''struct robust_list_head'', None),
       (''compat_robust_list'', CPtr ''struct compat_robust_list_head'', None),
       (''pi_state_list'', struct_list_head, None),
       (''pi_state_cache'', CPtr ''struct futex_pi_state'', None),
       (''futex_exit_mutex'', struct_mutex, None),
       (''futex_state'', CUInt 4, None),
       (''perf_recursion'', CArr (td_u8) 4, None),
       (''perf_event_ctxp'', CPtr ''struct perf_event_context'', None),
       (''perf_event_mutex'', struct_mutex, None),
       (''perf_event_list'', struct_list_head, None),
       (''mempolicy'', CPtr ''struct mempolicy'', None),
       (''il_prev'', CSInt 2, None),
       (''il_weight'', td_u8, None),
       (''pref_node_fork'', CSInt 2, None),
       (''numa_scan_seq'', CSInt 4, None),
       (''numa_scan_period'', CUInt 4, None),
       (''numa_scan_period_max'', CUInt 4, None),
       (''numa_preferred_nid'', CSInt 4, None),
       (''numa_migrate_retry'', CUInt 8, None),
       (''node_stamp'', td_u64, None),
       (''last_task_numa_placement'', td_u64, None),
       (''last_sum_exec_runtime'', td_u64, None),
       (''numa_work'', struct_callback_head, None),
       (''numa_group'', CPtr ''struct numa_group'', None),
       (''numa_faults'', CPtr ''long unsigned int'', None),
       (''total_numa_faults'', CUInt 8, None),
       (''numa_faults_locality'', CArr (CUInt 8) 3, None),
       (''numa_pages_migrated'', CUInt 8, None),
       (''rseq'', CPtr ''struct rseq'', None),
       (''rseq_len'', td_u32, None),
       (''rseq_sig'', td_u32, None),
       (''rseq_event_mask'', CUInt 8, None),
       (''mm_cid'', CSInt 4, None),
       (''last_mm_cid'', CSInt 4, None),
       (''migrate_from_cpu'', CSInt 4, None),
       (''mm_cid_active'', CSInt 4, None),
       (''cid_work'', struct_callback_head, None),
       (''tlb_ubc'', struct_tlbflush_unmap_batch, None),
       (''splice_pipe'', CPtr ''struct pipe_inode_info'', None),
       (''task_frag'', struct_page_frag, None),
       (''delays'', CPtr ''struct task_delay_info'', None),
       (''nr_dirtied'', CSInt 4, None),
       (''nr_dirtied_pause'', CSInt 4, None),
       (''dirty_paused_when'', CUInt 8, None),
       (''latency_record_count'', CSInt 4, None),
       (''latency_record'', CArr (struct_latency_record) 32, None),
       (''timer_slack_ns'', td_u64, None),
       (''default_timer_slack_ns'', td_u64, None),
       (''curr_ret_stack'', CSInt 4, None),
       (''curr_ret_depth'', CSInt 4, None),
       (''ret_stack'', CPtr ''long unsigned int'', None),
       (''ftrace_timestamp'', CUInt 8, None),
       (''trace_overrun'', td_atomic_t, None),
       (''tracing_graph_pause'', td_atomic_t, None),
       (''trace_recursion'', CUInt 8, None),
       (''memcg_nr_pages_over_high'', CUInt 4, None),
       (''active_memcg'', CPtr ''struct mem_cgroup'', None),
       (''objcg'', CPtr ''struct obj_cgroup'', None),
       (''throttle_disk'', CPtr ''struct gendisk'', None),
       (''utask'', CPtr ''struct uprobe_task'', None),
       (''sequential_io'', CUInt 4, None),
       (''sequential_io_avg'', CUInt 4, None),
       (''kmap_ctrl'', struct_kmap_ctrl, None),
       (''rcu'', struct_callback_head, None),
       (''rcu_users'', td_refcount_t, None),
       (''pagefault_disabled'', CSInt 4, None),
       (''oom_reaper_list'', CPtr ''struct task_struct'', None),
       (''oom_reaper_timer'', struct_timer_list, None),
       (''stack_vm_area'', CPtr ''struct vm_struct'', None),
       (''stack_refcount'', td_refcount_t, None),
       (''patch_state'', CSInt 4, None),
       (''security'', CPtr ''void'', None),
       (''bpf_storage'', CPtr ''struct bpf_local_storage'', None),
       (''bpf_ctx'', CPtr ''struct bpf_run_ctx'', None),
       (''bpf_net_context'', CPtr ''struct bpf_net_context'', None),
       (''mce_vaddr'', CPtr ''void'', None),
       (''mce_kflags'', td___u64, None),
       (''mce_addr'', td_u64, None),
       (''mce_ripv'', td___u64, Some 1),
       (''mce_whole_page'', td___u64, Some 1),
       (''__mce_reserved'', td___u64, Some 62),
       (''mce_kill_me'', struct_callback_head, None),
       (''mce_count'', CSInt 4, None),
       (''kretprobe_instances'', struct_llist_head, None),
       (''rethooks'', struct_llist_head, None),
       (''l1d_flush_kill'', struct_callback_head, None),
       (''rv'', CArr (union_rv_task_monitor) 1, None),
       (''user_event_mm'', CPtr ''struct user_event_mm'', None),
       ('''', CSInt 8, Some 64),
       (''thread'', struct_thread_struct, None)]"

subsection \<open>Alignment and size\<close>

lemma struct_thread_info_layout [simp]:
  "calign struct_thread_info = 8" "csize struct_thread_info = 24" "wf_ctype struct_thread_info" "unpacked struct_thread_info"
  by (simp_all add: struct_thread_info_def layout)

lemma struct___call_single_node_layout [simp]:
  "calign struct___call_single_node = 8" "csize struct___call_single_node = 16" "wf_ctype struct___call_single_node" "unpacked struct___call_single_node"
  by (simp_all add: struct___call_single_node_def layout)

lemma struct_load_weight_layout [simp]:
  "calign struct_load_weight = 8" "csize struct_load_weight = 16" "wf_ctype struct_load_weight" "unpacked struct_load_weight"
  by (simp_all add: struct_load_weight_def layout)

lemma struct_sched_avg_layout [simp]:
  "calign struct_sched_avg = 8" "csize struct_sched_avg = 64" "wf_ctype struct_sched_avg" "unpacked struct_sched_avg"
  by (simp_all add: struct_sched_avg_def layout)

lemma struct_sched_entity_layout [simp]:
  "calign struct_sched_entity = 8" "csize struct_sched_entity = 256" "wf_ctype struct_sched_entity" "unpacked struct_sched_entity"
  by (simp_all add: struct_sched_entity_def layout)

lemma struct_sched_rt_entity_layout [simp]:
  "calign struct_sched_rt_entity = 8" "csize struct_sched_rt_entity = 48" "wf_ctype struct_sched_rt_entity" "unpacked struct_sched_rt_entity"
  by (simp_all add: struct_sched_rt_entity_def layout)

lemma td_dl_server_has_tasks_f_layout [simp]:
  "calign td_dl_server_has_tasks_f = 8" "csize td_dl_server_has_tasks_f = 8" "wf_ctype td_dl_server_has_tasks_f" "unpacked td_dl_server_has_tasks_f"
  by (simp_all add: td_dl_server_has_tasks_f_def layout)

lemma td_dl_server_pick_f_layout [simp]:
  "calign td_dl_server_pick_f = 8" "csize td_dl_server_pick_f = 8" "wf_ctype td_dl_server_pick_f" "unpacked td_dl_server_pick_f"
  by (simp_all add: td_dl_server_pick_f_def layout)

lemma struct_sched_dl_entity_layout [simp]:
  "calign struct_sched_dl_entity = 8" "csize struct_sched_dl_entity = 248" "wf_ctype struct_sched_dl_entity" "unpacked struct_sched_dl_entity"
  by (simp_all add: struct_sched_dl_entity_def layout)

lemma struct_scx_dsq_list_node_layout [simp]:
  "calign struct_scx_dsq_list_node = 8" "csize struct_scx_dsq_list_node = 24" "wf_ctype struct_scx_dsq_list_node" "unpacked struct_scx_dsq_list_node"
  by (simp_all add: struct_scx_dsq_list_node_def layout)

lemma struct_sched_ext_entity_layout [simp]:
  "calign struct_sched_ext_entity = 8" "csize struct_sched_ext_entity = 208" "wf_ctype struct_sched_ext_entity" "unpacked struct_sched_ext_entity"
  by (simp_all add: struct_sched_ext_entity_def layout)

lemma struct_uclamp_se_layout [simp]:
  "calign struct_uclamp_se = 4" "csize struct_uclamp_se = 4" "wf_ctype struct_uclamp_se" "unpacked struct_uclamp_se"
  by (simp_all add: struct_uclamp_se_def layout)

lemma struct_sched_statistics_layout [simp]:
  "calign struct_sched_statistics = 8" "csize struct_sched_statistics = 256" "wf_ctype struct_sched_statistics" "unpacked struct_sched_statistics"
  by (simp_all add: struct_sched_statistics_def layout)

lemma struct_cpumask_layout [simp]:
  "calign struct_cpumask = 8" "csize struct_cpumask = 1024" "wf_ctype struct_cpumask" "unpacked struct_cpumask"
  by (simp_all add: struct_cpumask_def layout)

lemma td_cpumask_t_layout [simp]:
  "calign td_cpumask_t = 8" "csize td_cpumask_t = 1024" "wf_ctype td_cpumask_t" "unpacked td_cpumask_t"
  by (simp_all add: td_cpumask_t_def layout)

lemma union_rcu_special_layout [simp]:
  "calign union_rcu_special = 4" "csize union_rcu_special = 4" "wf_ctype union_rcu_special" "unpacked union_rcu_special"
  by (simp_all add: union_rcu_special_def layout)

lemma struct_sched_info_layout [simp]:
  "calign struct_sched_info = 8" "csize struct_sched_info = 32" "wf_ctype struct_sched_info" "unpacked struct_sched_info"
  by (simp_all add: struct_sched_info_def layout)

lemma struct_plist_node_layout [simp]:
  "calign struct_plist_node = 8" "csize struct_plist_node = 40" "wf_ctype struct_plist_node" "unpacked struct_plist_node"
  by (simp_all add: struct_plist_node_def layout)

lemma td___kernel_clockid_t_layout [simp]:
  "calign td___kernel_clockid_t = 4" "csize td___kernel_clockid_t = 4" "wf_ctype td___kernel_clockid_t" "unpacked td___kernel_clockid_t"
  by (simp_all add: td___kernel_clockid_t_def layout)

lemma td_clockid_t_layout [simp]:
  "calign td_clockid_t = 4" "csize td_clockid_t = 4" "wf_ctype td_clockid_t" "unpacked td_clockid_t"
  by (simp_all add: td_clockid_t_def layout)

lemma enum_timespec_type_layout [simp]:
  "calign enum_timespec_type = 4" "csize enum_timespec_type = 4" "wf_ctype enum_timespec_type" "unpacked enum_timespec_type"
  by (simp_all add: enum_timespec_type_def layout)

lemma struct_restart_block_layout [simp]:
  "calign struct_restart_block = 8" "csize struct_restart_block = 56" "wf_ctype struct_restart_block" "unpacked struct_restart_block"
  by (simp_all add: struct_restart_block_def layout)

lemma struct_prev_cputime_layout [simp]:
  "calign struct_prev_cputime = 8" "csize struct_prev_cputime = 24" "wf_ctype struct_prev_cputime" "unpacked struct_prev_cputime"
  by (simp_all add: struct_prev_cputime_def layout)

lemma enum_vtime_state_layout [simp]:
  "calign enum_vtime_state = 4" "csize enum_vtime_state = 4" "wf_ctype enum_vtime_state" "unpacked enum_vtime_state"
  by (simp_all add: enum_vtime_state_def layout)

lemma struct_vtime_layout [simp]:
  "calign struct_vtime = 8" "csize struct_vtime = 48" "wf_ctype struct_vtime" "unpacked struct_vtime"
  by (simp_all add: struct_vtime_def layout)

lemma struct_timerqueue_head_layout [simp]:
  "calign struct_timerqueue_head = 8" "csize struct_timerqueue_head = 16" "wf_ctype struct_timerqueue_head" "unpacked struct_timerqueue_head"
  by (simp_all add: struct_timerqueue_head_def layout)

lemma struct_posix_cputimer_base_layout [simp]:
  "calign struct_posix_cputimer_base = 8" "csize struct_posix_cputimer_base = 24" "wf_ctype struct_posix_cputimer_base" "unpacked struct_posix_cputimer_base"
  by (simp_all add: struct_posix_cputimer_base_def layout)

lemma struct_posix_cputimers_layout [simp]:
  "calign struct_posix_cputimers = 8" "csize struct_posix_cputimers = 80" "wf_ctype struct_posix_cputimers" "unpacked struct_posix_cputimers"
  by (simp_all add: struct_posix_cputimers_def layout)

lemma struct_posix_cputimers_work_layout [simp]:
  "calign struct_posix_cputimers_work = 8" "csize struct_posix_cputimers_work = 56" "wf_ctype struct_posix_cputimers_work" "unpacked struct_posix_cputimers_work"
  by (simp_all add: struct_posix_cputimers_work_def layout)

lemma struct_sysv_sem_layout [simp]:
  "calign struct_sysv_sem = 8" "csize struct_sysv_sem = 8" "wf_ctype struct_sysv_sem" "unpacked struct_sysv_sem"
  by (simp_all add: struct_sysv_sem_def layout)

lemma struct_sysv_shm_layout [simp]:
  "calign struct_sysv_shm = 8" "csize struct_sysv_shm = 16" "wf_ctype struct_sysv_shm" "unpacked struct_sysv_shm"
  by (simp_all add: struct_sysv_shm_def layout)

lemma td_sigset_t_layout [simp]:
  "calign td_sigset_t = 8" "csize td_sigset_t = 8" "wf_ctype td_sigset_t" "unpacked td_sigset_t"
  by (simp_all add: td_sigset_t_def layout)

lemma struct_sigpending_layout [simp]:
  "calign struct_sigpending = 8" "csize struct_sigpending = 24" "wf_ctype struct_sigpending" "unpacked struct_sigpending"
  by (simp_all add: struct_sigpending_def layout)

lemma struct_seccomp_layout [simp]:
  "calign struct_seccomp = 8" "csize struct_seccomp = 16" "wf_ctype struct_seccomp" "unpacked struct_seccomp"
  by (simp_all add: struct_seccomp_def layout)

lemma struct_syscall_user_dispatch_layout [simp]:
  "calign struct_syscall_user_dispatch = 8" "csize struct_syscall_user_dispatch = 32" "wf_ctype struct_syscall_user_dispatch" "unpacked struct_syscall_user_dispatch"
  by (simp_all add: struct_syscall_user_dispatch_def layout)

lemma struct_wake_q_node_layout [simp]:
  "calign struct_wake_q_node = 8" "csize struct_wake_q_node = 8" "wf_ctype struct_wake_q_node" "unpacked struct_wake_q_node"
  by (simp_all add: struct_wake_q_node_def layout)

lemma struct_task_io_accounting_layout [simp]:
  "calign struct_task_io_accounting = 8" "csize struct_task_io_accounting = 56" "wf_ctype struct_task_io_accounting" "unpacked struct_task_io_accounting"
  by (simp_all add: struct_task_io_accounting_def layout)

lemma td_nodemask_t_layout [simp]:
  "calign td_nodemask_t = 8" "csize td_nodemask_t = 128" "wf_ctype td_nodemask_t" "unpacked td_nodemask_t"
  by (simp_all add: td_nodemask_t_def layout)

lemma struct_arch_tlbflush_unmap_batch_layout [simp]:
  "calign struct_arch_tlbflush_unmap_batch = 8" "csize struct_arch_tlbflush_unmap_batch = 1024" "wf_ctype struct_arch_tlbflush_unmap_batch" "unpacked struct_arch_tlbflush_unmap_batch"
  by (simp_all add: struct_arch_tlbflush_unmap_batch_def layout)

lemma struct_tlbflush_unmap_batch_layout [simp]:
  "calign struct_tlbflush_unmap_batch = 8" "csize struct_tlbflush_unmap_batch = 1032" "wf_ctype struct_tlbflush_unmap_batch" "unpacked struct_tlbflush_unmap_batch"
  by (simp_all add: struct_tlbflush_unmap_batch_def layout)

lemma struct_page_frag_layout [simp]:
  "calign struct_page_frag = 8" "csize struct_page_frag = 16" "wf_ctype struct_page_frag" "unpacked struct_page_frag"
  by (simp_all add: struct_page_frag_def layout)

lemma struct_latency_record_layout [simp]:
  "calign struct_latency_record = 8" "csize struct_latency_record = 120" "wf_ctype struct_latency_record" "unpacked struct_latency_record"
  by (simp_all add: struct_latency_record_def layout)

lemma struct_kmap_ctrl_layout [simp]:
  "calign struct_kmap_ctrl = 1" "csize struct_kmap_ctrl = 0" "wf_ctype struct_kmap_ctrl" "unpacked struct_kmap_ctrl"
  by (simp_all add: struct_kmap_ctrl_def layout)

lemma struct_llist_head_layout [simp]:
  "calign struct_llist_head = 8" "csize struct_llist_head = 8" "wf_ctype struct_llist_head" "unpacked struct_llist_head"
  by (simp_all add: struct_llist_head_def layout)

lemma struct_da_monitor_layout [simp]:
  "calign struct_da_monitor = 4" "csize struct_da_monitor = 8" "wf_ctype struct_da_monitor" "unpacked struct_da_monitor"
  by (simp_all add: struct_da_monitor_def layout)

lemma union_rv_task_monitor_layout [simp]:
  "calign union_rv_task_monitor = 4" "csize union_rv_task_monitor = 8" "wf_ctype union_rv_task_monitor" "unpacked union_rv_task_monitor"
  by (simp_all add: union_rv_task_monitor_def layout)

lemma struct_desc_struct_layout [simp]:
  "calign struct_desc_struct = 2" "csize struct_desc_struct = 8" "wf_ctype struct_desc_struct" "unpacked struct_desc_struct"
  by (simp_all add: struct_desc_struct_def layout)

lemma struct_thread_shstk_layout [simp]:
  "calign struct_thread_shstk = 8" "csize struct_thread_shstk = 16" "wf_ctype struct_thread_shstk" "unpacked struct_thread_shstk"
  by (simp_all add: struct_thread_shstk_def layout)

lemma struct_fpu_state_perm_layout [simp]:
  "calign struct_fpu_state_perm = 8" "csize struct_fpu_state_perm = 16" "wf_ctype struct_fpu_state_perm" "unpacked struct_fpu_state_perm"
  by (simp_all add: struct_fpu_state_perm_def layout)

lemma struct_fregs_state_layout [simp]:
  "calign struct_fregs_state = 4" "csize struct_fregs_state = 112" "wf_ctype struct_fregs_state" "unpacked struct_fregs_state"
  by (simp_all add: struct_fregs_state_def layout)

lemma struct_fxregs_state_layout [simp]:
  "calign struct_fxregs_state = 8" "csize struct_fxregs_state = 512" "wf_ctype struct_fxregs_state" "unpacked struct_fxregs_state"
  by (simp_all add: struct_fxregs_state_def layout)

lemma struct_swregs_state_layout [simp]:
  "calign struct_swregs_state = 8" "csize struct_swregs_state = 136" "wf_ctype struct_swregs_state" "unpacked struct_swregs_state"
  by (simp_all add: struct_swregs_state_def layout)

lemma struct_xstate_header_layout [simp]:
  "calign struct_xstate_header = 8" "csize struct_xstate_header = 64" "wf_ctype struct_xstate_header" "unpacked struct_xstate_header"
  by (simp_all add: struct_xstate_header_def layout)

lemma struct_xregs_state_layout [simp]:
  "calign struct_xregs_state = 8" "csize struct_xregs_state = 576" "wf_ctype struct_xregs_state" "unpacked struct_xregs_state"
  by (simp_all add: struct_xregs_state_def layout)

lemma union_fpregs_state_layout [simp]:
  "calign union_fpregs_state = 8" "csize union_fpregs_state = 4096" "wf_ctype union_fpregs_state" "unpacked union_fpregs_state"
  by (simp_all add: union_fpregs_state_def layout)

lemma struct_fpstate_layout [simp]:
  "calign struct_fpstate = 8" "csize struct_fpstate = 4160" "wf_ctype struct_fpstate" "unpacked struct_fpstate"
  by (simp_all add: struct_fpstate_def layout)

lemma struct_fpu_layout [simp]:
  "calign struct_fpu = 8" "csize struct_fpu = 4224" "wf_ctype struct_fpu" "unpacked struct_fpu"
  by (simp_all add: struct_fpu_def layout)

lemma struct_thread_struct_layout [simp]:
  "calign struct_thread_struct = 8" "csize struct_thread_struct = 4416" "wf_ctype struct_thread_struct" "unpacked struct_thread_struct"
  by (simp_all add: struct_thread_struct_def layout)

lemma struct_task_struct_layout [simp]:
  "calign struct_task_struct = 8" "csize struct_task_struct = 13952" "wf_ctype struct_task_struct" "unpacked struct_task_struct"
  by (simp_all add: struct_task_struct_def layout)

end
