(* ===== verification/KernelAccess.thy ===== *)
theory KernelAccess
  imports CTypes
begin

text \<open>
  How the programs read kernel objects. Field offsets are CO-RE relocations: the compiler
  records each access with the member path and the loader patches in the offset of the
  running kernel, so a handler takes them as an argument (\<^verbatim>\<open>reloc\<close>);
  \<^verbatim>\<open>vmlinux_reloc\<close> is the kernel that \<^verbatim>\<open>bpf/headers/vmlinux.h\<close> describes. A tracepoint record
  is read directly; everything behind a pointer is copied out by the kernel's
  \<^verbatim>\<open>bpf_probe_read_kernel\<close>, which is an argument too (\<^verbatim>\<open>probe_read\<close>, the destination buffer
  after the call). The predicate \<^verbatim>\<open>object_at\<close> is what is known of it for an object in
  readable memory.
\<close>

type_synonym reloc = "ctype \<Rightarrow> string list \<Rightarrow> nat"
type_synonym probe_read = "u64 \<Rightarrow> nat \<Rightarrow> bytes"

definition vmlinux_reloc :: reloc where
  "vmlinux_reloc t p = (case offsetof t p of None \<Rightarrow> 0 | Some (off, _) \<Rightarrow> off)"

text \<open>One step of \<^verbatim>\<open>BPF_CORE_READ\<close>: copy a member of the object at \<^verbatim>\<open>a\<close>.\<close>

definition core_ptr :: "probe_read \<Rightarrow> reloc \<Rightarrow> ctype \<Rightarrow> string list \<Rightarrow> u64 \<Rightarrow> u64" where
  "core_ptr rd rl t p a = load_u64 (rd (a + of_nat (rl t p)) 8) 0"

definition core_u64 :: "probe_read \<Rightarrow> reloc \<Rightarrow> ctype \<Rightarrow> string list \<Rightarrow> u64 \<Rightarrow> u64" where
  "core_u64 rd rl t p a = load_u64 (rd (a + of_nat (rl t p)) 8) 0"

definition core_u32 :: "probe_read \<Rightarrow> reloc \<Rightarrow> ctype \<Rightarrow> string list \<Rightarrow> u64 \<Rightarrow> u32" where
  "core_u32 rd rl t p a = load_u32 (rd (a + of_nat (rl t p)) 4) 0"

text \<open>
  \<^verbatim>\<open>object_at rd t a bs\<close>: the object of type \<^verbatim>\<open>t\<close> at address \<^verbatim>\<open>a\<close> is mapped and has the
  bytes \<^verbatim>\<open>bs\<close>, so that every read inside it returns the bytes there.
\<close>

definition object_at :: "probe_read \<Rightarrow> ctype \<Rightarrow> u64 \<Rightarrow> bytes \<Rightarrow> bool" where
  "object_at rd t a bs \<longleftrightarrow>
     length bs = csize t \<and>
     (\<forall>off n. off + n \<le> csize t \<longrightarrow> rd (a + of_nat off) n = take n (drop off bs))"

lemma vmlinux_reloc_in_bounds:
  "wf_ctype t \<Longrightarrow> offsetof t p = Some (off, u) \<Longrightarrow> vmlinux_reloc t p + csize u \<le> csize t"
  using offsetof_in_bounds [of t p off u] by (simp add: vmlinux_reloc_def)

lemma load_take: "n = k \<Longrightarrow> load (take n (drop off bs)) 0 k = load bs off n"
  by (simp add: load_def)

lemma core_ptr_object:
  assumes "object_at rd t a bs" and "wf_ctype t" and "offsetof t p = Some (off, u)"
    and "csize u = 8"
  shows "core_ptr rd vmlinux_reloc t p a = load_u64 bs off"
proof -
  have "off + 8 \<le> csize t" using offsetof_in_bounds [OF assms(2,3)] assms(4) by simp
  then have "rd (a + of_nat off) 8 = take 8 (drop off bs)"
    using assms(1) by (simp add: object_at_def)
  then show ?thesis
    by (simp add: core_ptr_def vmlinux_reloc_def assms(3) load_u64_def load_take)
qed

lemma core_u64_object:
  assumes "object_at rd t a bs" and "wf_ctype t" and "offsetof t p = Some (off, u)"
    and "csize u = 8"
  shows "core_u64 rd vmlinux_reloc t p a = load_u64 bs off"
  using core_ptr_object [OF assms] by (simp add: core_ptr_def core_u64_def)

lemma core_u32_object:
  assumes "object_at rd t a bs" and "wf_ctype t" and "offsetof t p = Some (off, u)"
    and "csize u = 4"
  shows "core_u32 rd vmlinux_reloc t p a = load_u32 bs off"
proof -
  have "off + 4 \<le> csize t" using offsetof_in_bounds [OF assms(2,3)] assms(4) by simp
  then have "rd (a + of_nat off) 4 = take 4 (drop off bs)"
    using assms(1) by (simp add: object_at_def)
  then show ?thesis
    by (simp add: core_u32_def vmlinux_reloc_def assms(3) load_u32_def load_take)
qed

text \<open>Memory with one more object in it: \<^verbatim>\<open>bs\<close> at address \<^verbatim>\<open>base\<close>.\<close>

definition mem_at :: "u64 \<Rightarrow> bytes \<Rightarrow> probe_read \<Rightarrow> probe_read" where
  "mem_at base bs rd a n =
     (if unat (a - base) + n \<le> length bs then take n (drop (unat (a - base)) bs) else rd a n)"

lemma mem_at_object:
  assumes "length bs = csize t" and "csize t < 2 ^ 64"
  shows "object_at (mem_at base bs rd) t base bs"
proof -
  have "unat (of_nat off :: u64) = off" if "off \<le> csize t" for off
    using that assms(2) by (simp add: unat_of_nat)
  with assms(1) show ?thesis by (simp add: object_at_def mem_at_def)
qed

lemma mem_at_other:
  assumes "object_at rd t a xs" and "unat (a - base) \<ge> length bs"
    and "unat (a - base) + csize t < 2 ^ 64"
  shows "object_at (mem_at base bs rd) t a xs"
proof -
  have "length bs \<le> unat (a + of_nat off - base)" if "off \<le> csize t" for off
  proof -
    have u: "unat (of_nat off :: u64) = off" using that assms(3) by (simp add: unat_of_nat)
    have e: "a + of_nat off - base = (a - base) + of_nat off" by simp
    show ?thesis
      unfolding e unat_word_ariths(1) u using that assms(2,3) by simp
  qed
  note far = this
  have "mem_at base bs rd (a + of_nat off) n = take n (drop off xs)" if "off + n \<le> csize t" for off n
  proof -
    have "rd (a + of_nat off) n = take n (drop off xs)"
      using assms(1) that by (simp add: object_at_def)
    then show ?thesis using far [of off] that by (cases n) (auto simp: mem_at_def)
  qed
  then show ?thesis using assms(1) by (simp add: object_at_def)
qed

end
