(* ===== verification/KernelEnv.thy ===== *)
theory KernelEnv
  imports KTypes_Task KTypes_Trace KernelAccess
begin

text \<open>
  The structures and unions of \<^verbatim>\<open>bpf/headers/vmlinux.h\<close> that the programs can reach: the
  objects they read, what those embed, and what the members of those point to
  (\<^verbatim>\<open>kernel_env\<close>, by tag). \<^verbatim>\<open>chain_type\<close> is the type of a chain of member accesses, as
  \<^verbatim>\<open>BPF_CORE_READ\<close> follows it: every link but the last is a pointer whose target is looked
  up by its tag. Every declaration of the environment is well-formed, so the layout
  theorems hold for all of them.
\<close>

definition kernel_env :: "(string \<times> ctype) list" where
  "kernel_env =
      [(''struct trace_entry'', struct_trace_entry),
       (''struct trace_event_raw_block_rq'', struct_trace_event_raw_block_rq),
       (''struct trace_event_raw_block_rq_completion'', struct_trace_event_raw_block_rq_completion),
       (''struct bpf_raw_tracepoint_args'', struct_bpf_raw_tracepoint_args),
       (''struct list_head'', struct_list_head),
       (''struct nfs_write_verifier'', struct_nfs_write_verifier),
       (''struct nfs_writeverf'', struct_nfs_writeverf),
       (''struct work_struct'', struct_work_struct),
       (''struct rpc_wait'', struct_rpc_wait),
       (''struct rpc_message'', struct_rpc_message),
       (''struct rpc_task'', struct_rpc_task),
       (''struct nfs_fsid'', struct_nfs_fsid),
       (''struct timespec64'', struct_timespec64),
       (''struct nfs_fattr'', struct_nfs_fattr),
       (''struct nfs4_sequence_args'', struct_nfs4_sequence_args),
       (''struct nfs4_stateid_struct'', struct_nfs4_stateid_struct),
       (''struct nfs_pgio_args'', struct_nfs_pgio_args),
       (''struct nfs4_sequence_res'', struct_nfs4_sequence_res),
       (''struct nfs_pgio_res'', struct_nfs_pgio_res),
       (''struct nfs_page_array'', struct_nfs_page_array),
       (''struct nfs_pgio_header'', struct_nfs_pgio_header),
       (''struct qspinlock'', struct_qspinlock),
       (''struct raw_spinlock'', struct_raw_spinlock),
       (''struct spinlock'', struct_spinlock),
       (''struct optimistic_spin_queue'', struct_optimistic_spin_queue),
       (''struct rw_semaphore'', struct_rw_semaphore),
       (''struct hlist_node'', struct_hlist_node),
       (''struct hlist_head'', struct_hlist_head),
       (''struct callback_head'', struct_callback_head),
       (''struct xarray'', struct_xarray),
       (''struct rb_root'', struct_rb_root),
       (''struct rb_root_cached'', struct_rb_root_cached),
       (''struct address_space'', struct_address_space),
       (''struct inode'', struct_inode),
       (''struct hlist_bl_head'', struct_hlist_bl_head),
       (''struct mem_dqinfo'', struct_mem_dqinfo),
       (''struct quota_info'', struct_quota_info),
       (''struct wait_queue_head'', struct_wait_queue_head),
       (''struct rcu_sync'', struct_rcu_sync),
       (''struct rcuwait'', struct_rcuwait),
       (''struct percpu_rw_semaphore'', struct_percpu_rw_semaphore),
       (''struct sb_writers'', struct_sb_writers),
       (''struct mutex'', struct_mutex),
       (''struct list_lru'', struct_list_lru),
       (''struct super_block'', struct_super_block),
       (''struct kiocb'', struct_kiocb),
       (''struct path'', struct_path),
       (''struct llist_node'', struct_llist_node),
       (''struct file_ra_state'', struct_file_ra_state),
       (''struct file'', struct_file),
       (''struct seqcount'', struct_seqcount),
       (''struct seqcount_spinlock'', struct_seqcount_spinlock),
       (''struct hlist_bl_node'', struct_hlist_bl_node),
       (''struct qstr'', struct_qstr),
       (''struct lockref'', struct_lockref),
       (''struct dentry'', struct_dentry),
       (''struct rpc_procinfo'', struct_rpc_procinfo),
       (''struct cred'', struct_cred),
       (''struct timer_list'', struct_timer_list),
       (''struct delayed_work'', struct_delayed_work),
       (''struct rpc_timer'', struct_rpc_timer),
       (''struct rpc_wait_queue'', struct_rpc_wait_queue),
       (''struct rpc_call_ops'', struct_rpc_call_ops),
       (''struct refcount_struct'', struct_refcount_struct),
       (''struct xprtsec_parms'', struct_xprtsec_parms),
       (''struct rpc_pipe_dir_head'', struct_rpc_pipe_dir_head),
       (''struct rpc_rtt'', struct_rpc_rtt),
       (''struct rpc_timeout'', struct_rpc_timeout),
       (''struct rpc_xprt_iter'', struct_rpc_xprt_iter),
       (''struct rpc_clnt'', struct_rpc_clnt),
       (''struct kref'', struct_kref),
       (''struct __kernel_sockaddr_storage'', struct___kernel_sockaddr_storage),
       (''struct rpc_xprt'', struct_rpc_xprt),
       (''struct rpc_cred'', struct_rpc_cred),
       (''struct kvec'', struct_kvec),
       (''struct xdr_buf'', struct_xdr_buf),
       (''struct rb_node'', struct_rb_node),
       (''struct lwq_node'', struct_lwq_node),
       (''struct rpc_rqst'', struct_rpc_rqst),
       (''struct workqueue_struct'', struct_workqueue_struct),
       (''struct nfs4_string'', struct_nfs4_string),
       (''struct nfs4_threshold'', struct_nfs4_threshold),
       (''struct nfs4_label'', struct_nfs4_label),
       (''struct nfs_fh'', struct_nfs_fh),
       (''struct nfs_lock_context'', struct_nfs_lock_context),
       (''struct nfs_open_context'', struct_nfs_open_context),
       (''struct page'', struct_page),
       (''struct nfs_auth_info'', struct_nfs_auth_info),
       (''struct kobject'', struct_kobject),
       (''struct nfs_server'', struct_nfs_server),
       (''struct nfs_pgio_completion_ops'', struct_nfs_pgio_completion_ops),
       (''struct nfs_client'', struct_nfs_client),
       (''struct address_space_operations'', struct_address_space_operations),
       (''struct posix_acl_entry'', struct_posix_acl_entry),
       (''struct posix_acl'', struct_posix_acl),
       (''struct inode_operations'', struct_inode_operations),
       (''struct percpu_counter'', struct_percpu_counter),
       (''struct fprop_local_percpu'', struct_fprop_local_percpu),
       (''struct percpu_ref'', struct_percpu_ref),
       (''struct bdi_writeback'', struct_bdi_writeback),
       (''struct file_operations'', struct_file_operations),
       (''struct file_lock_context'', struct_file_lock_context),
       (''struct pipe_inode_info'', struct_pipe_inode_info),
       (''struct cdev'', struct_cdev),
       (''struct fsnotify_mark_connector'', struct_fsnotify_mark_connector),
       (''struct fscrypt_prepared_key'', struct_fscrypt_prepared_key),
       (''struct fscrypt_policy_v1'', struct_fscrypt_policy_v1),
       (''struct fscrypt_policy_v2'', struct_fscrypt_policy_v2),
       (''union fscrypt_policy'', union_fscrypt_policy),
       (''struct fscrypt_inode_info'', struct_fscrypt_inode_info),
       (''struct merkle_tree_params'', struct_merkle_tree_params),
       (''struct fsverity_info'', struct_fsverity_info),
       (''struct quota_format_type'', struct_quota_format_type),
       (''struct quota_format_ops'', struct_quota_format_ops),
       (''struct thread_info'', struct_thread_info),
       (''struct __call_single_node'', struct___call_single_node),
       (''struct load_weight'', struct_load_weight),
       (''struct sched_avg'', struct_sched_avg),
       (''struct sched_entity'', struct_sched_entity),
       (''struct sched_rt_entity'', struct_sched_rt_entity),
       (''struct timerqueue_node'', struct_timerqueue_node),
       (''struct hrtimer'', struct_hrtimer),
       (''struct sched_dl_entity'', struct_sched_dl_entity),
       (''struct scx_dsq_list_node'', struct_scx_dsq_list_node),
       (''struct sched_ext_entity'', struct_sched_ext_entity),
       (''struct uclamp_se'', struct_uclamp_se),
       (''struct sched_statistics'', struct_sched_statistics),
       (''struct cpumask'', struct_cpumask),
       (''union rcu_special'', union_rcu_special),
       (''struct sched_info'', struct_sched_info),
       (''struct plist_node'', struct_plist_node),
       (''struct restart_block'', struct_restart_block),
       (''struct prev_cputime'', struct_prev_cputime),
       (''struct vtime'', struct_vtime),
       (''struct timerqueue_head'', struct_timerqueue_head),
       (''struct posix_cputimer_base'', struct_posix_cputimer_base),
       (''struct posix_cputimers'', struct_posix_cputimers),
       (''struct posix_cputimers_work'', struct_posix_cputimers_work),
       (''struct sysv_sem'', struct_sysv_sem),
       (''struct sysv_shm'', struct_sysv_shm),
       (''struct sigpending'', struct_sigpending),
       (''struct seccomp'', struct_seccomp),
       (''struct syscall_user_dispatch'', struct_syscall_user_dispatch),
       (''struct wake_q_node'', struct_wake_q_node),
       (''struct task_io_accounting'', struct_task_io_accounting),
       (''struct arch_tlbflush_unmap_batch'', struct_arch_tlbflush_unmap_batch),
       (''struct tlbflush_unmap_batch'', struct_tlbflush_unmap_batch),
       (''struct page_frag'', struct_page_frag),
       (''struct latency_record'', struct_latency_record),
       (''struct kmap_ctrl'', struct_kmap_ctrl),
       (''struct llist_head'', struct_llist_head),
       (''struct da_monitor'', struct_da_monitor),
       (''union rv_task_monitor'', union_rv_task_monitor),
       (''struct desc_struct'', struct_desc_struct),
       (''struct thread_shstk'', struct_thread_shstk),
       (''struct fpu_state_perm'', struct_fpu_state_perm),
       (''struct fregs_state'', struct_fregs_state),
       (''struct fxregs_state'', struct_fxregs_state),
       (''struct swregs_state'', struct_swregs_state),
       (''struct xstate_header'', struct_xstate_header),
       (''struct xregs_state'', struct_xregs_state),
       (''union fpregs_state'', union_fpregs_state),
       (''struct fpstate'', struct_fpstate),
       (''struct fpu'', struct_fpu),
       (''struct thread_struct'', struct_thread_struct),
       (''struct task_struct'', struct_task_struct),
       (''struct list_lru_one'', struct_list_lru_one),
       (''struct list_lru_node'', struct_list_lru_node),
       (''struct lock_class_key'', struct_lock_class_key),
       (''struct file_system_type'', struct_file_system_type),
       (''struct super_operations'', struct_super_operations),
       (''struct dquot_operations'', struct_dquot_operations),
       (''struct quotactl_ops'', struct_quotactl_ops),
       (''struct export_operations'', struct_export_operations),
       (''struct xattr_handler'', struct_xattr_handler),
       (''struct fscrypt_operations'', struct_fscrypt_operations),
       (''struct fscrypt_keyring'', struct_fscrypt_keyring),
       (''struct fsverity_operations'', struct_fsverity_operations),
       (''struct unicode_map'', struct_unicode_map),
       (''struct dev_links_info'', struct_dev_links_info),
       (''struct pm_message'', struct_pm_message),
       (''struct swait_queue_head'', struct_swait_queue_head),
       (''struct completion'', struct_completion),
       (''struct dev_pm_info'', struct_dev_pm_info),
       (''struct dev_msi_info'', struct_dev_msi_info),
       (''struct dev_archdata'', struct_dev_archdata),
       (''struct device'', struct_device),
       (''struct block_device'', struct_block_device),
       (''struct backing_dev_info'', struct_backing_dev_info),
       (''struct fsnotify_sb_info'', struct_fsnotify_sb_info),
       (''struct dentry_operations'', struct_dentry_operations),
       (''struct shrinker'', struct_shrinker),
       (''struct uid_gid_extent'', struct_uid_gid_extent),
       (''struct uid_gid_map'', struct_uid_gid_map),
       (''struct ns_common'', struct_ns_common),
       (''struct ctl_table_header'', struct_ctl_table_header),
       (''struct ctl_dir'', struct_ctl_dir),
       (''struct ctl_table_set'', struct_ctl_table_set),
       (''struct user_namespace'', struct_user_namespace),
       (''struct wait_queue_entry'', struct_wait_queue_entry),
       (''struct wait_page_queue'', struct_wait_page_queue),
       (''struct vfsmount'', struct_vfsmount),
       (''struct qrwlock'', struct_qrwlock),
       (''struct fown_struct'', struct_fown_struct)]"

fun chain_type :: "(string \<times> ctype) list \<Rightarrow> ctype \<Rightarrow> string list list \<Rightarrow> ctype option" where
  "chain_type env t [] = Some t"
| "chain_type env t [p] = map_option snd (offsetof t p)"
| "chain_type env t (p # q # ps) =
     (case offsetof t p of
        Some (_, CPtr s) \<Rightarrow>
          (case map_of env s of None \<Rightarrow> None | Some u \<Rightarrow> chain_type env u (q # ps))
      | _ \<Rightarrow> None)"

text \<open>The members of a structure declaration, with its packing.\<close>

fun struct_fields :: "ctype \<Rightarrow> (bool \<times> cfield list) option" where
  "struct_fields (CStruct _ packed fs) = Some (packed, fs)"
| "struct_fields _ = None"

lemma kernel_env_list_wf: "list_all (\<lambda>p. wf_ctype (snd p)) kernel_env"
  by (simp add: kernel_env_def)

lemma kernel_env_member_wf: "map_of kernel_env s = Some t \<Longrightarrow> wf_ctype t"
  using kernel_env_list_wf by (fastforce simp: list_all_iff dest: map_of_SomeD)

end
