(* ===== verification/Bits.thy ===== *)
theory Bits
  imports Prelude
begin

text \<open>
  \<^verbatim>\<open>bpf/headers/bits.bpf.h\<close>: the branch-free base-two logarithm the programs use to
  choose a histogram slot. \<^verbatim>\<open>log2\<close> works on 32 bits, \<^verbatim>\<open>log2l\<close> on 64; the C
  comparison \<^verbatim>\<open>v > c\<close> is the integer \<^verbatim>\<open>of_bool (c < v)\<close>.
\<close>

definition log2 :: "u32 \<Rightarrow> u64" where
  "log2 v =
     (let r = push_bit 4 (of_bool (0xFFFF < v)) :: u32; v = drop_bit (unat r) v;
          shift = push_bit 3 (of_bool (0xFF < v)); v = drop_bit (unat shift) v; r = r OR shift;
          shift = push_bit 2 (of_bool (0xF < v)); v = drop_bit (unat shift) v; r = r OR shift;
          shift = push_bit 1 (of_bool (0x3 < v)); v = drop_bit (unat shift) v; r = r OR shift;
          r = r OR drop_bit 1 v
      in ucast r)"

definition log2l :: "u64 \<Rightarrow> u64" where
  "log2l v =
     (let hi = ucast (drop_bit 32 v) :: u32
      in if hi \<noteq> 0 then log2 hi + 32 else log2 (ucast v))"

subsection \<open>The reference: floor of the base-two logarithm\<close>

text \<open>\<^verbatim>\<open>is_log2 v r\<close>: \<^verbatim>\<open>r\<close> is the position of the highest set bit of \<^verbatim>\<open>v\<close>.\<close>

definition is_log2 :: "nat \<Rightarrow> nat \<Rightarrow> bool" where
  "is_log2 v r \<longleftrightarrow> 2 ^ r \<le> v \<and> v < 2 ^ Suc r"

text \<open>The same as a recursive function, the reference the C code is compared with.\<close>

fun flog2 :: "nat \<Rightarrow> nat" where
  "flog2 n = (if n < 2 then 0 else Suc (flog2 (n div 2)))"

declare flog2.simps [simp del]

lemma is_log2_unique: "is_log2 v r \<Longrightarrow> is_log2 v s \<Longrightarrow> r = s"
proof (rule ccontr)
  assume v: "is_log2 v r" "is_log2 v s" and "r \<noteq> s"
  then consider "Suc r \<le> s" | "Suc s \<le> r" by linarith
  then show False
  proof cases
    case 1
    then have "(2::nat) ^ Suc r \<le> 2 ^ s" by (rule power_increasing) simp
    with v show False by (simp add: is_log2_def)
  next
    case 2
    then have "(2::nat) ^ Suc s \<le> 2 ^ r" by (rule power_increasing) simp
    with v show False by (simp add: is_log2_def)
  qed
qed

text \<open>One halving step: shifting by \<^verbatim>\<open>s\<close> bits lowers the logarithm by \<^verbatim>\<open>s\<close>.\<close>

lemma is_log2_shift:
  assumes "is_log2 (v div 2 ^ s) r"
  shows "is_log2 v (r + s)"
proof -
  have "2 ^ r * 2 ^ s \<le> v"
    using assms by (simp add: is_log2_def less_eq_div_iff_mult_less_eq)
  moreover have "v < 2 ^ Suc r * 2 ^ s"
    using assms by (simp add: is_log2_def div_less_iff_less_mult)
  ultimately show ?thesis by (simp add: is_log2_def power_add)
qed

lemma flog2_is_log2: "0 < n \<Longrightarrow> is_log2 n (flog2 n)"
proof (induction n rule: flog2.induct)
  case (1 n)
  show ?case
  proof (cases "n < 2")
    case True
    with 1(2) show ?thesis by (simp add: is_log2_def flog2.simps [of n])
  next
    case False
    with 1 have "is_log2 (n div 2 ^ 1) (flog2 (n div 2))" by simp
    then have "is_log2 n (flog2 (n div 2) + 1)" by (rule is_log2_shift)
    with False show ?thesis by (simp add: flog2.simps [of n])
  qed
qed

lemma flog2_mono: "m \<le> n \<Longrightarrow> flog2 m \<le> flog2 n"
proof (induction m arbitrary: n rule: flog2.induct)
  case (1 m)
  show ?case
  proof (cases "m < 2")
    case False
    with 1 have "flog2 (m div 2) \<le> flog2 (n div 2)" by (simp add: div_le_mono)
    with False 1(2) show ?thesis by (simp add: flog2.simps [of m] flog2.simps [of n])
  qed (simp add: flog2.simps [of m])
qed

definition halve :: "nat \<Rightarrow> nat \<Rightarrow> nat \<times> nat" where
  "halve s v = (if 2 ^ s \<le> v then (s, v div 2 ^ s) else (0, v))"

lemma halve_less: "v < 2 ^ (2 * s) \<Longrightarrow> snd (halve s v) < 2 ^ s"
  by (auto simp: halve_def div_less_iff_less_mult mult_2 power_add)

lemma halve_pos: "0 < v \<Longrightarrow> 0 < snd (halve s v)"
  by (auto simp: halve_def div_greater_zero_iff)

lemma halve_log2: "is_log2 (snd (halve s v)) r \<Longrightarrow> is_log2 v (r + fst (halve s v))"
  by (auto simp: halve_def intro: is_log2_shift split: if_splits)

text \<open>The five steps on natural numbers.\<close>

definition log2_nat :: "nat \<Rightarrow> nat" where
  "log2_nat v =
     (let (a, v) = halve 16 v; (b, v) = halve 8 v; (c, v) = halve 4 v; (d, v) = halve 2 v
      in v div 2 + d + c + b + a)"

lemma log2_nat_is_log2:
  assumes "0 < v" and "v < 2 ^ 32"
  shows "is_log2 v (log2_nat v)"
proof -
  define v1 where "v1 = snd (halve 16 v)"
  define v2 where "v2 = snd (halve 8 v1)"
  define v3 where "v3 = snd (halve 4 v2)"
  define v4 where "v4 = snd (halve 2 v3)"
  have "0 < v4"
    using assms(1) by (simp add: v1_def v2_def v3_def v4_def halve_pos)
  moreover have "v4 < 4"
  proof -
    have "v1 < 2 ^ 16" using halve_less [of v 16] assms(2) by (simp add: v1_def)
    then have "v2 < 2 ^ 8" using halve_less [of v1 8] by (simp add: v2_def)
    then have "v3 < 2 ^ 4" using halve_less [of v2 4] by (simp add: v3_def)
    then show ?thesis using halve_less [of v3 2] by (simp add: v4_def)
  qed
  ultimately have "v4 = 1 \<or> v4 = 2 \<or> v4 = 3" by linarith
  then have "is_log2 v4 (v4 div 2)" by (auto simp: is_log2_def)
  then have "is_log2 v (v4 div 2 + fst (halve 2 v3) + fst (halve 4 v2)
      + fst (halve 8 v1) + fst (halve 16 v))"
    unfolding v4_def v3_def v2_def v1_def by (intro halve_log2)
  then show ?thesis
    by (simp add: log2_nat_def v4_def v3_def v2_def v1_def split_def Let_def)
qed

subsection \<open>The C functions compute it\<close>

lemma halve_word:
  fixes v c :: u32
  assumes "k < 5" and "unat c = 2 ^ (2 ^ k) - 1"
  defines "sh \<equiv> push_bit k (of_bool (c < v)) :: u32"
  shows "unat sh = fst (halve (2 ^ k) (unat v))"
    and "unat (drop_bit (unat sh) v) = snd (halve (2 ^ k) (unat v))"
proof -
  have k: "k = 0 \<or> k = 1 \<or> k = 2 \<or> k = 3 \<or> k = 4" using assms(1) by linarith
  have lt: "c < v \<longleftrightarrow> 2 ^ (2 ^ k) \<le> unat v"
  proof -
    obtain n where "(2::nat) ^ (2 ^ k) = Suc n" using gr0_conv_Suc [of "2 ^ (2 ^ k)"] by auto
    with assms(2) show ?thesis by (auto simp: word_less_nat_alt)
  qed
  have "unat (push_bit k (1 :: u32)) = 2 ^ k"
    using k by auto
  then show 1: "unat sh = fst (halve (2 ^ k) (unat v))"
    by (simp add: sh_def halve_def lt)
  show "unat (drop_bit (unat sh) v) = snd (halve (2 ^ k) (unat v))"
    unfolding 1 by (simp add: halve_def unat_drop_bit_div)
qed

lemma or_shifts:
  fixes a b c d e :: u32
  assumes "unat a = 0 \<or> unat a = 16" and "unat b = 0 \<or> unat b = 8" and "unat c = 0 \<or> unat c = 4"
    and "unat d = 0 \<or> unat d = 2" and "unat e = 0 \<or> unat e = 1"
  shows "unat (a OR b OR c OR d OR e) = unat e + unat d + unat c + unat b + unat a"
proof -
  have "a = 0 \<or> a = 16" "b = 0 \<or> b = 8" "c = 0 \<or> c = 4" "d = 0 \<or> d = 2" "e = 0 \<or> e = 1"
    using assms by (auto simp: word_unat_eq_iff)
  then show ?thesis by auto
qed

lemma fst_halve: "fst (halve s v) = 0 \<or> fst (halve s v) = s"
  by (simp add: halve_def)

lemma unat_log2: "unat (log2 v) = log2_nat (unat v)"
proof -
  define r where "r = (push_bit 4 (of_bool (0xFFFF < v)) :: u32)"
  define v1 where "v1 = drop_bit (unat r) v"
  define s1 where "s1 = (push_bit 3 (of_bool (0xFF < v1)) :: u32)"
  define v2 where "v2 = drop_bit (unat s1) v1"
  define s2 where "s2 = (push_bit 2 (of_bool (0xF < v2)) :: u32)"
  define v3 where "v3 = drop_bit (unat s2) v2"
  define s3 where "s3 = (push_bit 1 (of_bool (0x3 < v3)) :: u32)"
  define v4 where "v4 = drop_bit (unat s3) v3"
  note h16 = halve_word [of 4 "0xFFFF" v, folded r_def, folded v1_def, simplified]
  note h8 = halve_word [of 3 "0xFF" v1, folded s1_def, folded v2_def, simplified]
  note h4 = halve_word [of 2 "0xF" v2, folded s2_def, folded v3_def, simplified]
  note h2 = halve_word [of 1 "0x3" v3, folded s3_def, folded v4_def, simplified]
  have "unat v < 2 ^ 32" using unat_u32_less [of v] by simp
  then have "unat v1 < 2 ^ 16" using halve_less [of "unat v" 16] h16 by simp
  then have "unat v2 < 2 ^ 8" using halve_less [of "unat v1" 8] h8 by simp
  then have "unat v3 < 2 ^ 4" using halve_less [of "unat v2" 4] h4 by simp
  then have "unat v4 < 4" using halve_less [of "unat v3" 2] h2 by simp
  moreover have d: "unat (drop_bit 1 v4) = unat v4 div 2"
    by (simp only: unat_drop_bit_div power_one_right)
  ultimately have top: "unat (drop_bit 1 v4) = 0 \<or> unat (drop_bit 1 v4) = 1"
    by linarith
  have or: "unat (r OR s1 OR s2 OR s3 OR drop_bit 1 v4)
      = unat (drop_bit 1 v4) + unat s3 + unat s2 + unat s1 + unat r"
    by (rule or_shifts) (simp_all only: top h16 h8 h4 h2 fst_halve)
  have "log2 v = ucast (r OR s1 OR s2 OR s3 OR drop_bit 1 v4)"
    unfolding log2_def Let_def r_def s1_def s2_def s3_def v1_def v2_def v3_def v4_def
    by (simp add: or.assoc)
  then have "unat (log2 v) = unat (r OR s1 OR s2 OR s3 OR drop_bit 1 v4)"
    by (simp only: unat_ucast_u64)
  also have "\<dots> = log2_nat (unat v)"
    unfolding or log2_nat_def d by (simp add: split_def Let_def h16 h8 h4 h2)
  finally show ?thesis .
qed

lemma log2_is_log2: "v \<noteq> 0 \<Longrightarrow> is_log2 (unat v) (unat (log2 v))"
  unfolding unat_log2 using log2_nat_is_log2 [of "unat v"] unat_u32_less [of v]
  by (simp add: unat_gt_0)

lemma log2_less: "unat (log2 v) < 32"
proof (cases "v = 0")
  case False
  then have "2 ^ unat (log2 v) \<le> unat v" using log2_is_log2 by (simp add: is_log2_def)
  also have "\<dots> < 2 ^ 32" using unat_u32_less [of v] by simp
  finally show ?thesis by (rule power_less_imp_less_exp [rotated]) simp
qed (simp add: log2_def Let_def)

lemma unat_hi: "unat (ucast (drop_bit 32 (v :: u64)) :: u32) = unat v div 2 ^ 32"
proof -
  have "unat v div 2 ^ 32 < 2 ^ 32" using unat_u64_less [of v] by (simp add: div_less_iff_less_mult)
  then show ?thesis by (simp add: unsigned_ucast_eq unat_drop_bit_div take_bit_eq_mod)
qed

lemma unat_lo: "unat v < 2 ^ 32 \<Longrightarrow> unat (ucast (v :: u64) :: u32) = unat v"
  by (simp add: unsigned_ucast_eq take_bit_eq_mod)

lemma log2l_is_log2:
  assumes "v \<noteq> 0"
  shows "is_log2 (unat v) (unat (log2l v))"
proof -
  define hi where "hi = (ucast (drop_bit 32 v) :: u32)"
  have hi: "unat hi = unat v div 2 ^ 32" unfolding hi_def by (rule unat_hi)
  show ?thesis
  proof (cases "hi = 0")
    case False
    then have "is_log2 (unat v div 2 ^ 32) (unat (log2 hi))"
      using log2_is_log2 [of hi] hi by simp
    then have "is_log2 (unat v) (unat (log2 hi) + 32)" by (rule is_log2_shift)
    moreover have "unat (log2 hi + 32) = unat (log2 hi) + 32"
      using log2_less [of hi] by (simp add: unat_word_ariths)
    ultimately show ?thesis
      using False by (simp add: log2l_def flip: hi_def)
  next
    case True
    then have lt: "unat v < 2 ^ 32" using hi by (simp add: div_eq_0_iff)
    then have "(ucast v :: u32) \<noteq> 0" using assms unat_lo [of v]
      by (metis unat_eq_zero)
    with True lt show ?thesis
      using log2_is_log2 [of "ucast v"] unat_lo [of v] by (simp add: log2l_def flip: hi_def)
  qed
qed

lemma unat_log2l: "unat (log2l v) = flog2 (unat v)"
proof (cases "v = 0")
  case True
  then show ?thesis by (simp add: log2l_def log2_def Let_def flog2.simps [of 0])
next
  case False
  then have "is_log2 (unat v) (unat (log2l v))" by (rule log2l_is_log2)
  moreover have "is_log2 (unat v) (flog2 (unat v))"
    using False by (intro flog2_is_log2) (simp add: unat_gt_0)
  ultimately show ?thesis by (rule is_log2_unique)
qed

text \<open>
  C6: The branch-free logarithm of a 64-bit value is the position of its highest set bit: the
  result l is below 64, 2^l is at most the value and the value is below 2^(l+1); the logarithm
  of 0 is 0.
\<close>

theorem log2l_floor:
  "unat (log2l v) < 64 \<and>
   (if v = 0 then log2l v = 0
    else 2 ^ unat (log2l v) \<le> unat v \<and> unat v < 2 ^ (unat (log2l v) + 1))"
proof (cases "v = 0")
  case True
  then have "unat (log2l v) = 0" by (simp add: unat_log2l flog2.simps [of 0])
  with True show ?thesis by (simp add: unat_eq_zero)
next
  case False
  then have l: "2 ^ unat (log2l v) \<le> unat v" "unat v < 2 ^ (unat (log2l v) + 1)"
    using log2l_is_log2 [of v] by (simp_all add: is_log2_def)
  have "unat v < 2 ^ 64" using unat_u64_less [of v] by simp
  with l(1) have "(2::nat) ^ unat (log2l v) < 2 ^ 64" by (rule le_less_trans)
  then have "unat (log2l v) < 64" by (rule power_less_imp_less_exp [rotated]) simp
  with False l show ?thesis by simp
qed

end
