(* ===== verification/Common.thy ===== *)
theory Common
  imports KTypes_Core Bits
begin

text \<open>
  \<^verbatim>\<open>bpf/headers/common.h\<close>: the constants, histogram keys and histogram shared by the
  three programs, with the bytes a key or a histogram has in a map, and the reference
  functions the programs' latency arithmetic is compared with.
\<close>

subsection \<open>Constants and data\<close>

definition MAX_SLOTS :: nat where
  "MAX_SLOTS = 26"

definition MAX_BLOCK_ENTRIES :: nat where
  "MAX_BLOCK_ENTRIES = 10240"

definition MAX_NFS_ENTRIES :: nat where
  "MAX_NFS_ENTRIES = 10240"

definition MAX_NFS_KPROBE_ENTRIES :: nat where
  "MAX_NFS_KPROBE_ENTRIES = 10240"

definition MAX_HIST_ENTRIES :: nat where
  "MAX_HIST_ENTRIES = 1024"

record block_hist_key =
  bhk_dev :: u32
  bhk_op :: u8
  bhk_pad :: bytes

record nfs_hist_key =
  nhk_dev :: u32
  nhk_op :: u8
  nhk_pad :: bytes

record hist =
  slots :: "u64 list"

text \<open>\<^verbatim>\<open>struct ... hk = {}\<close>, and the file-scope \<^verbatim>\<open>static struct hist zero_hist\<close>.\<close>

definition zero_block_hist_key :: block_hist_key where
  "zero_block_hist_key = \<lparr>bhk_dev = 0, bhk_op = 0, bhk_pad = replicate 3 0\<rparr>"

definition zero_nfs_hist_key :: nfs_hist_key where
  "zero_nfs_hist_key = \<lparr>nhk_dev = 0, nhk_op = 0, nhk_pad = replicate 3 0\<rparr>"

definition zero_hist :: hist where
  "zero_hist = \<lparr>slots = replicate MAX_SLOTS 0\<rparr>"

text \<open>The declarations as C types.\<close>

definition struct_block_hist_key :: ctype where
  "struct_block_hist_key = CStruct ''block_hist_key'' False
      [(''dev'', td___u32, None),
       (''op'', td___u8, None),
       (''pad'', CArr td___u8 3, None)]"

definition struct_nfs_hist_key :: ctype where
  "struct_nfs_hist_key = CStruct ''nfs_hist_key'' False
      [(''dev'', td___u32, None),
       (''op'', td___u8, None),
       (''pad'', CArr td___u8 3, None)]"

definition struct_hist :: ctype where
  "struct_hist = CStruct ''hist'' False
      [(''slots'', CArr td___u64 MAX_SLOTS, None)]"

subsection \<open>C operators on 64-bit integers\<close>

text \<open>
  \<^verbatim>\<open>delta < 0\<close> and \<^verbatim>\<open>delta /= 1000U\<close> on \<^verbatim>\<open>__s64 delta\<close>: the unsigned constant is
  converted to the signed 64-bit type, so the division is signed and truncates.
\<close>

definition neg_s64 :: "s64 \<Rightarrow> bool" where
  "neg_s64 d \<longleftrightarrow> sint d < 0"

definition div_s64 :: "s64 \<Rightarrow> int \<Rightarrow> s64" where
  "div_s64 d n = word_of_int (sint d sdiv n)"

text \<open>\<^verbatim>\<open>__sync_fetch_and_add(&histp->slots[slot], 1)\<close>.\<close>

definition hist_add :: "u64 \<Rightarrow> hist \<Rightarrow> hist" where
  "hist_add slot h = h\<lparr>slots := (slots h)[unat slot := slots h ! unat slot + 1]\<rparr>"

subsection \<open>Bytes in a map\<close>

definition block_hist_key_bytes :: "block_hist_key \<Rightarrow> bytes" where
  "block_hist_key_bytes k = u32_bytes (bhk_dev k) @ bhk_op k # bhk_pad k"

definition nfs_hist_key_bytes :: "nfs_hist_key \<Rightarrow> bytes" where
  "nfs_hist_key_bytes k = u32_bytes (nhk_dev k) @ nhk_op k # nhk_pad k"

definition hist_bytes :: "hist \<Rightarrow> bytes" where
  "hist_bytes h = concat (map u64_bytes (slots h))"

subsection \<open>The reference arithmetic\<close>

text \<open>
  The latency of a request in microseconds, at least one; whether the clock seems to have
  run backwards, so that the sample is dropped; and the slot of a latency: slot \<^verbatim>\<open>i\<close> holds the latencies from \<^verbatim>\<open>2^i\<close> up to but not including \<^verbatim>\<open>2^(i+1)\<close>
  microseconds, the last slot everything above.
\<close>

definition spec_us :: "u64 \<Rightarrow> u64 \<Rightarrow> nat" where
  "spec_us now ts = max 1 (unat (now - ts) div 1000)"

definition spec_drop :: "u64 \<Rightarrow> u64 \<Rightarrow> bool" where
  "spec_drop now ts \<longleftrightarrow> 2 ^ 63 \<le> unat (now - ts)"

definition spec_slot :: "nat \<Rightarrow> nat" where
  "spec_slot us = min (MAX_SLOTS - 1) (flog2 us)"

definition bump :: "nat \<Rightarrow> hist \<Rightarrow> hist" where
  "bump i h = h\<lparr>slots := (slots h)[i := slots h ! i + 1]\<rparr>"

definition wf_hist :: "hist \<Rightarrow> bool" where
  "wf_hist h \<longleftrightarrow> length (slots h) = MAX_SLOTS"

text \<open>The number of samples in a histogram, modulo \<^verbatim>\<open>2^64\<close>.\<close>

definition samples :: "hist \<Rightarrow> u64" where
  "samples h = sum_list (slots h)"

lemma struct_hist_layout [simp]:
  "calign struct_hist = 8" "csize struct_hist = 208" "wf_ctype struct_hist"
  by (simp_all add: struct_hist_def MAX_SLOTS_def layout)

lemma struct_block_hist_key_layout [simp]:
  "calign struct_block_hist_key = 4" "csize struct_block_hist_key = 8"
  "wf_ctype struct_block_hist_key"
  by (simp_all add: struct_block_hist_key_def layout)

lemma struct_nfs_hist_key_layout [simp]:
  "calign struct_nfs_hist_key = 4" "csize struct_nfs_hist_key = 8"
  "wf_ctype struct_nfs_hist_key"
  by (simp_all add: struct_nfs_hist_key_def layout)

subsection \<open>Histograms\<close>

lemma wf_zero_hist [simp]: "wf_hist zero_hist"
  by (simp add: wf_hist_def zero_hist_def)

lemma wf_bump [simp]: "wf_hist (bump i h) = wf_hist h"
  by (simp add: wf_hist_def bump_def)

lemma samples_zero_hist [simp]: "samples zero_hist = 0"
  by (simp add: samples_def zero_hist_def sum_list_replicate)

lemma sum_list_update_word:
  fixes xs :: "'a :: comm_ring_1 list"
  shows "i < length xs \<Longrightarrow> sum_list (xs[i := xs ! i + 1]) = sum_list xs + 1"
  by (induction xs arbitrary: i) (auto split: nat.split simp: algebra_simps)

lemma samples_bump: "wf_hist h \<Longrightarrow> i < MAX_SLOTS \<Longrightarrow> samples (bump i h) = samples h + 1"
  by (simp add: samples_def bump_def wf_hist_def sum_list_update_word)

lemma spec_slot_less: "spec_slot us < MAX_SLOTS"
  by (simp add: spec_slot_def MAX_SLOTS_def)

subsection \<open>The programs' slot arithmetic is the reference\<close>

lemma neg_s64_iff: "neg_s64 d \<longleftrightarrow> 2 ^ 63 \<le> unat d"
proof -
  have lt: "unat d div 2 ^ 63 < 2"
    using unat_u64_less [of d] by (simp add: div_less_iff_less_mult)
  have "neg_s64 d \<longleftrightarrow> bit d 63"
    by (simp add: neg_s64_def bit_last_iff [of d, simplified])
  also have "\<dots> \<longleftrightarrow> bit (unat d) 63"
    by (simp add: bit_unsigned_iff)
  also have "\<dots> \<longleftrightarrow> odd (unat d div 2 ^ 63)"
    by (rule bit_iff_odd)
  also have "\<dots> \<longleftrightarrow> unat d div 2 ^ 63 = 1"
    using lt by (metis One_nat_def less_2_cases odd_one even_zero)
  also have "\<dots> \<longleftrightarrow> 2 ^ 63 \<le> unat d"
    using lt by (auto simp: div_eq_0_iff less_2_cases_iff)
  finally show ?thesis .
qed

lemma sint_nonneg:
  assumes "\<not> neg_s64 d"
  shows "sint d = int (unat d)"
proof -
  have "take_bit 64 (sint d) = sint d"
    using assms sint_lt [of d] by (intro take_bit_int_eq_self) (auto simp: neg_s64_def)
  then have "uint d = sint d" using uint_sint [of d] by simp
  then show ?thesis by simp
qed

lemma unat_div_s64:
  assumes "\<not> neg_s64 d"
  shows "unat (div_s64 d 1000) = unat d div 1000"
proof -
  have "sint d sdiv 1000 = int (unat d div 1000)"
    using assms by (cases "d = 0") (simp_all add: sint_nonneg signed_divide_int_def zdiv_int)
  moreover have "unat d div 1000 < 2 ^ 64"
    using unat_u64_less [of d] by (simp add: div_less_iff_less_mult)
  ultimately show ?thesis
    by (simp add: div_s64_def unat_of_nat)
qed

text \<open>The value the three programs clamp and store at, from a non-negative difference.\<close>

lemma slot_arith:
  fixes d :: s64
  assumes "\<not> neg_s64 d"
  defines "us \<equiv> (let q = div_s64 d 1000 in if q = 0 then 1 else q)"
  shows "unat (let s = log2l us in if of_nat MAX_SLOTS \<le> s then of_nat MAX_SLOTS - 1 else s)
    = spec_slot (max 1 (unat d div 1000))"
proof -
  have "div_s64 d 1000 = 0 \<longleftrightarrow> unat d div 1000 = 0"
    using unat_div_s64 [OF assms(1)] by (metis unat_eq_zero)
  then have "unat us = max 1 (unat d div 1000)"
    using unat_div_s64 [OF assms(1)] by (simp add: us_def Let_def max_def)
  then have "unat (log2l us) = flog2 (max 1 (unat d div 1000))"
    by (simp add: unat_log2l)
  then show ?thesis
    by (simp add: Let_def spec_slot_def MAX_SLOTS_def word_le_nat_alt)
qed

lemma neg_s64_drop: "neg_s64 (now - ts) \<longleftrightarrow> spec_drop now ts"
  by (simp add: neg_s64_iff spec_drop_def)

lemma hist_add_bump:
  assumes "\<not> spec_drop now ts"
  shows "hist_add
      (if of_nat MAX_SLOTS \<le> log2l (if div_s64 (now - ts) 1000 = 0 then 1 else div_s64 (now - ts) 1000)
       then of_nat MAX_SLOTS - 1
       else log2l (if div_s64 (now - ts) 1000 = 0 then 1 else div_s64 (now - ts) 1000)) h
    = bump (spec_slot (spec_us now ts)) h"
  using slot_arith [of "now - ts"] assms
  by (simp add: hist_add_def bump_def spec_us_def Let_def neg_s64_drop)

lemma spec_slot_bounds:
  assumes "0 < us"
  shows "2 ^ spec_slot us \<le> us" and "spec_slot us = 25 \<or> us < 2 ^ (spec_slot us + 1)"
proof -
  have lg: "2 ^ flog2 us \<le> us" "us < 2 ^ (flog2 us + 1)"
    using flog2_is_log2 [OF assms] by (simp_all add: is_log2_def)
  have "(2::nat) ^ spec_slot us \<le> 2 ^ flog2 us"
    by (rule power_increasing) (simp_all add: spec_slot_def)
  with lg(1) show "2 ^ spec_slot us \<le> us" by linarith
  show "spec_slot us = 25 \<or> us < 2 ^ (spec_slot us + 1)"
    using lg(2) by (simp add: spec_slot_def MAX_SLOTS_def min_def)
qed

lemma spec_slot_elapsed:
  fixes now ts :: u64
  assumes "ts \<le> now" and "unat now - unat ts < 2 ^ 63"
  defines "us \<equiv> max 1 ((unat now - unat ts) div 1000)"
  shows "\<not> spec_drop now ts" and "spec_us now ts = us"
    and "2 ^ spec_slot us \<le> us" and "spec_slot us = 25 \<or> us < 2 ^ (spec_slot us + 1)"
proof -
  have d: "unat (now - ts) = unat now - unat ts" using assms(1) by (rule unat_sub)
  then show "\<not> spec_drop now ts" "spec_us now ts = us"
    using assms(2) by (simp_all add: spec_drop_def spec_us_def us_def)
  have "0 < us" by (simp add: us_def)
  then show "2 ^ spec_slot us \<le> us" "spec_slot us = 25 \<or> us < 2 ^ (spec_slot us + 1)"
    by (rule spec_slot_bounds)+
qed

end
