(* ===== verification/BpfMap.thy ===== *)
theory BpfMap
  imports KTypes_Trace
begin

text \<open>
  The interface between the programs and the kernel's hash maps. The maps are kernel
  code, so the operations are an argument of every handler (\<^verbatim>\<open>map_ops\<close>); what the
  programs rely on is the locale \<^verbatim>\<open>bpf_lru\<close>, which is the documented behaviour of
  \<^verbatim>\<open>BPF_MAP_TYPE_LRU_HASH\<close>: an update may evict other entries or fail, a delete removes
  one entry, and a store through the pointer a lookup returned changes the entry in
  place. \<^verbatim>\<open>lru_ops\<close> is a least-recently-updated list of bounded length that satisfies the
  contract at every positive capacity.
\<close>

subsection \<open>Operations\<close>

record ('m, 'k, 'v) map_ops =
  lookup_elem :: "'m \<Rightarrow> 'k \<Rightarrow> 'v option"
  update_elem :: "'m \<Rightarrow> 'k \<Rightarrow> 'v \<Rightarrow> 'm"
  delete_elem :: "'m \<Rightarrow> 'k \<Rightarrow> 'm"
  write_elem :: "'m \<Rightarrow> 'k \<Rightarrow> 'v \<Rightarrow> 'm"

text \<open>A map declaration: the \<^verbatim>\<open>__uint\<close> and \<^verbatim>\<open>__type\<close> members of a \<^verbatim>\<open>.maps\<close> object.\<close>

record map_decl =
  md_type :: "int option"
  md_max_entries :: nat
  md_key :: ctype
  md_value :: ctype

fun enum_const :: "ctype \<Rightarrow> string \<Rightarrow> int option" where
  "enum_const (CEnum _ _ cs) c = map_of cs c"
| "enum_const _ c = None"

definition BPF_MAP_TYPE_LRU_HASH :: "int option" where
  "BPF_MAP_TYPE_LRU_HASH = enum_const enum_bpf_map_type ''BPF_MAP_TYPE_LRU_HASH''"

subsection \<open>The contract\<close>

text \<open>What an update of \<^verbatim>\<open>k\<close> to \<^verbatim>\<open>v\<close> may turn the contents \<^verbatim>\<open>m\<close> into.\<close>

definition lru_put :: "('k \<Rightarrow> 'v option) \<Rightarrow> 'k \<Rightarrow> 'v \<Rightarrow> ('k \<Rightarrow> 'v option) \<Rightarrow> bool" where
  "lru_put m k v m' \<longleftrightarrow>
     (m' k = Some v \<or> m' k = m k) \<and> (\<forall>k'. k' \<noteq> k \<longrightarrow> m' k' = m k' \<or> m' k' = None)"

locale bpf_lru =
  fixes ops :: "('m, 'k, 'v) map_ops"
  assumes update: "lru_put (lookup_elem ops m) k v (lookup_elem ops (update_elem ops m k v))"
    and delete: "lookup_elem ops (delete_elem ops m k) = (lookup_elem ops m)(k := None)"
    and overwrite: "lookup_elem ops m k \<noteq> None \<Longrightarrow>
      lookup_elem ops (write_elem ops m k v) = (lookup_elem ops m)(k \<mapsto> v)"

text \<open>A map that still has room accepts the update and evicts nothing.\<close>

locale bpf_lru_room = bpf_lru ops for ops :: "('m, 'k, 'v) map_ops" +
  fixes room :: "'m \<Rightarrow> bool"
  assumes update_room: "room m \<Longrightarrow>
    lookup_elem ops (update_elem ops m k v) = (lookup_elem ops m)(k \<mapsto> v)"

subsection \<open>A bounded list that satisfies it\<close>

definition lru_update :: "nat \<Rightarrow> ('k \<times> 'v) list \<Rightarrow> 'k \<Rightarrow> 'v \<Rightarrow> ('k \<times> 'v) list" where
  "lru_update cap m k v = take cap ((k, v) # filter (\<lambda>p. fst p \<noteq> k) m)"

definition lru_ops :: "nat \<Rightarrow> (('k \<times> 'v) list, 'k, 'v) map_ops" where
  "lru_ops cap =
     \<lparr>lookup_elem = map_of,
      update_elem = lru_update cap,
      delete_elem = (\<lambda>m k. filter (\<lambda>p. fst p \<noteq> k) m),
      write_elem = (\<lambda>m k v. map (\<lambda>p. if fst p = k then (k, v) else p) m)\<rparr>"

definition lru_room :: "nat \<Rightarrow> ('k \<times> 'v) list \<Rightarrow> bool" where
  "lru_room cap m \<longleftrightarrow> length m < cap"

lemma lru_put_same: "lru_put m k v (m(k \<mapsto> v))"
  by (simp add: lru_put_def)

lemma lru_put_fail: "lru_put m k v m"
  by (simp add: lru_put_def)

lemma map_of_filter_neq: "map_of (filter (\<lambda>p. fst p \<noteq> k) m) = (map_of m)(k := None)"
  by (induction m) auto

lemma map_of_take: "map_of (take n m) k = map_of m k \<or> map_of (take n m) k = None"
  by (induction m arbitrary: n) (auto simp: take_Cons split: nat.split)

lemma map_of_overwrite_None:
  "map_of m k = None \<Longrightarrow> map_of (map (\<lambda>p. if fst p = k then (k, v) else p) m) = map_of m"
  by (induction m) (auto split: if_splits)

lemma map_of_overwrite:
  "map_of m k \<noteq> None \<Longrightarrow>
     map_of (map (\<lambda>p. if fst p = k then (k, v) else p) m) = (map_of m)(k \<mapsto> v)"
proof (induction m)
  case (Cons p m)
  show ?case
  proof (cases "map_of m k")
    case None
    with Cons.prems show ?thesis by (auto simp: map_of_overwrite_None split: if_splits)
  next
    case (Some w)
    with Cons.IH show ?thesis by (auto simp: fun_eq_iff)
  qed
qed simp

lemma lru_ops_simps [simp]:
  "lookup_elem (lru_ops cap) = map_of"
  "update_elem (lru_ops cap) = lru_update cap"
  "delete_elem (lru_ops cap) m k = filter (\<lambda>p. fst p \<noteq> k) m"
  "write_elem (lru_ops cap) m k v = map (\<lambda>p. if fst p = k then (k, v) else p) m"
  by (simp_all add: lru_ops_def)

lemma length_lru_update: "length (lru_update cap m k v) \<le> cap"
  by (simp add: lru_update_def)

lemma lru_update_put:
  assumes "0 < cap"
  shows "lru_put (map_of m) k v (map_of (lru_update cap m k v))"
  unfolding lru_put_def
proof (intro conjI allI impI)
  show "map_of (lru_update cap m k v) k = Some v \<or> map_of (lru_update cap m k v) k = map_of m k"
    using assms by (cases cap) (simp_all add: lru_update_def)
next
  fix k' assume "k' \<noteq> k"
  then show "map_of (lru_update cap m k v) k' = map_of m k' \<or> map_of (lru_update cap m k v) k' = None"
    using map_of_take [of cap "(k, v) # filter (\<lambda>p. fst p \<noteq> k) m" k']
    by (auto simp: lru_update_def map_of_filter_neq)
qed

lemma lru_update_room:
  assumes "lru_room cap m"
  shows "map_of (lru_update cap m k v) = (map_of m)(k \<mapsto> v)"
proof -
  have "length ((k, v) # filter (\<lambda>p. fst p \<noteq> k) m) \<le> cap"
    using assms by (auto simp: lru_room_def Suc_le_eq intro: le_less_trans [OF length_filter_le])
  then show ?thesis by (simp add: lru_update_def map_of_filter_neq)
qed

lemma lru_ops_contract: "0 < cap \<Longrightarrow> bpf_lru_room (lru_ops cap) (lru_room cap)"
  by unfold_locales
    (simp_all add: lru_update_put lru_update_room map_of_filter_neq map_of_overwrite)

lemma lru_ops_bpf_lru: "0 < cap \<Longrightarrow> bpf_lru (lru_ops cap)"
  using lru_ops_contract by (rule bpf_lru_room.axioms(1))

end
