(* ===== verification/LatencyProbe.thy ===== *)
theory LatencyProbe
  imports Common BpfMap
begin

text \<open>
  The contract the three programs share. Each keeps a map of pending requests and a map
  of histograms; an event either starts a request, ends one, or does nothing. The locale
  \<^verbatim>\<open>latency_probe\<close> states what one event does to the two maps, whatever their keys are and
  however the maps evict; \<^verbatim>\<open>latency_probe_exact\<close> adds that a histogram map with room takes a
  new key. The facts about whole runs are proved here once and used through the
  interpretations in the program theories.
\<close>

subsection \<open>Runs\<close>

text \<open>How often \<^verbatim>\<open>P\<close> holds before an event of a run, and whether it always does.\<close>

primrec count_run :: "('e \<Rightarrow> 's \<Rightarrow> 's) \<Rightarrow> ('e \<Rightarrow> 's \<Rightarrow> bool) \<Rightarrow> 'e list \<Rightarrow> 's \<Rightarrow> nat" where
  "count_run step P [] s = 0"
| "count_run step P (e # es) s = of_bool (P e s) + count_run step P es (step e s)"

primrec all_run :: "('e \<Rightarrow> 's \<Rightarrow> 's) \<Rightarrow> ('s \<Rightarrow> bool) \<Rightarrow> 'e list \<Rightarrow> 's \<Rightarrow> bool" where
  "all_run step P [] s \<longleftrightarrow> True"
| "all_run step P (e # es) s \<longleftrightarrow> P s \<and> all_run step P es (step e s)"

definition total :: "hist option \<Rightarrow> u64" where
  "total x = (case x of None \<Rightarrow> 0 | Some h \<Rightarrow> samples h)"

definition hist_entry :: "hist option \<Rightarrow> hist" where
  "hist_entry x = (case x of None \<Rightarrow> zero_hist | Some h \<Rightarrow> h)"

definition hists_wf :: "('h \<Rightarrow> hist option) \<Rightarrow> bool" where
  "hists_wf m \<longleftrightarrow> (\<forall>h x. m h = Some x \<longrightarrow> wf_hist x)"

lemma total_entry: "total x = samples (hist_entry x)"
  by (simp add: total_def hist_entry_def split: option.split)

lemma count_run_le: "count_run step P es s \<le> length es"
proof (induction es arbitrary: s)
  case (Cons e es)
  then show ?case by (simp add: le_SucI)
qed simp

text \<open>
  The histogram an event records a sample in, if it records one: the event ends a request
  that is pending, the clock did not run backwards, and the sample has a histogram.
\<close>

definition recorded_in :: "('s \<Rightarrow> 'k \<Rightarrow> 'v option) \<Rightarrow> ('e \<Rightarrow> ('k \<times> u64) option) \<Rightarrow> ('v \<Rightarrow> u64) \<Rightarrow>
    ('e \<Rightarrow> 'v \<Rightarrow> 'h option) \<Rightarrow> 'e \<Rightarrow> 's \<Rightarrow> 'h option" where
  "recorded_in pend stops stamp target e s =
     (case stops e of None \<Rightarrow> None
      | Some (k, now) \<Rightarrow>
          (case pend s k of None \<Rightarrow> None
           | Some v \<Rightarrow> if spec_drop now (stamp v) then None else target e v))"

subsection \<open>Adding a sample\<close>

text \<open>
  Find the histogram, creating it from \<^verbatim>\<open>zero_hist\<close> when it is missing, and count one in slot
  \<^verbatim>\<open>i\<close>; nothing is counted when the map does not take the new entry.
\<close>

definition add_sample :: "('m, 'h, hist) map_ops \<Rightarrow> 'h \<Rightarrow> nat \<Rightarrow> 'm \<Rightarrow> 'm" where
  "add_sample hops h i m =
     (case lookup_elem hops m h of
        Some x \<Rightarrow> write_elem hops m h (bump i x)
      | None \<Rightarrow>
          let m' = update_elem hops m h zero_hist
          in (case lookup_elem hops m' h of
                None \<Rightarrow> m' | Some x \<Rightarrow> write_elem hops m' h (bump i x)))"

lemma add_sample_hit:
  assumes "bpf_lru hops" and "lookup_elem hops m h = Some x"
  shows "lookup_elem hops (add_sample hops h i m) = (lookup_elem hops m)(h \<mapsto> bump i x)"
  using assms by (simp add: add_sample_def bpf_lru.overwrite)

lemma add_sample_new:
  assumes "bpf_lru hops" and "lookup_elem hops m h = None"
  shows "\<exists>m'. lru_put (lookup_elem hops m) h zero_hist m' \<and>
    lookup_elem hops (add_sample hops h i m)
      = (case m' h of None \<Rightarrow> m' | Some x \<Rightarrow> m'(h \<mapsto> bump i x))"
proof (intro exI conjI)
  show "lru_put (lookup_elem hops m) h zero_hist (lookup_elem hops (update_elem hops m h zero_hist))"
    using assms(1) by (rule bpf_lru.update)
  show "lookup_elem hops (add_sample hops h i m)
      = (case lookup_elem hops (update_elem hops m h zero_hist) h of
           None \<Rightarrow> lookup_elem hops (update_elem hops m h zero_hist)
         | Some x \<Rightarrow> (lookup_elem hops (update_elem hops m h zero_hist))(h \<mapsto> bump i x))"
    using assms by (auto simp: add_sample_def Let_def bpf_lru.overwrite split: option.split)
qed

lemma add_sample_room:
  assumes "bpf_lru_room hops room" and "room m" and "lookup_elem hops m h = None"
  shows "lookup_elem hops (add_sample hops h i m) = (lookup_elem hops m)(h \<mapsto> bump i zero_hist)"
proof -
  have "bpf_lru hops" using assms(1) by (rule bpf_lru_room.axioms)
  then show ?thesis
    using assms by (simp add: add_sample_def bpf_lru_room.update_room bpf_lru.overwrite)
qed

lemma add_sample_frame:
  assumes "bpf_lru hops" and "h' \<noteq> h"
  shows "lookup_elem hops (add_sample hops h i m) h' \<in> {lookup_elem hops m h', None}"
proof (cases "lookup_elem hops m h")
  case None
  from add_sample_new [OF assms(1) None, of i] obtain m' where "lru_put (lookup_elem hops m) h zero_hist m'"
    "lookup_elem hops (add_sample hops h i m) = (case m' h of None \<Rightarrow> m' | Some x \<Rightarrow> m'(h \<mapsto> bump i x))"
    by blast
  with assms(2) show ?thesis by (auto simp: lru_put_def split: option.split)
next
  case (Some x)
  then show ?thesis using add_sample_hit [OF assms(1)] assms(2) by simp
qed

subsection \<open>The contract\<close>

text \<open>
  \<^verbatim>\<open>pend\<close> and \<^verbatim>\<open>cnt\<close> read the two maps of a state. \<^verbatim>\<open>starts e\<close> is the request an event
  records and what it stores, \<^verbatim>\<open>stops e\<close> the request it ends and the time, \<^verbatim>\<open>stamp v\<close> the
  start time in a stored value, and \<^verbatim>\<open>target e v\<close> the histogram the sample belongs to, if
  any.
\<close>

locale latency_probe =
  fixes pend :: "'s \<Rightarrow> 'k \<Rightarrow> 'v option"
    and cnt :: "'s \<Rightarrow> 'h \<Rightarrow> hist option"
    and step :: "'e \<Rightarrow> 's \<Rightarrow> 's"
    and starts :: "'e \<Rightarrow> ('k \<times> 'v) option"
    and stops :: "'e \<Rightarrow> ('k \<times> u64) option"
    and stamp :: "'v \<Rightarrow> u64"
    and target :: "'e \<Rightarrow> 'v \<Rightarrow> 'h option"
  assumes starts_not_stops: "starts e \<noteq> None \<Longrightarrow> stops e = None"
    and step_idle: "starts e = None \<Longrightarrow> stops e = None \<Longrightarrow> step e s = s"
    and step_start: "starts e = Some (k, v) \<Longrightarrow>
      lru_put (pend s) k v (pend (step e s)) \<and> cnt (step e s) = cnt s"
    and step_miss: "stops e = Some (k, now) \<Longrightarrow> pend s k = None \<Longrightarrow> step e s = s"
    and step_stop: "stops e = Some (k, now) \<Longrightarrow> pend s k = Some v \<Longrightarrow>
      pend (step e s) = (pend s)(k := None)"
    and step_drop: "stops e = Some (k, now) \<Longrightarrow> pend s k = Some v \<Longrightarrow>
      spec_drop now (stamp v) \<or> target e v = None \<Longrightarrow> cnt (step e s) = cnt s"
    and step_hit: "stops e = Some (k, now) \<Longrightarrow> pend s k = Some v \<Longrightarrow>
      \<not> spec_drop now (stamp v) \<Longrightarrow> target e v = Some h \<Longrightarrow> cnt s h = Some x \<Longrightarrow>
      cnt (step e s) = (cnt s)(h \<mapsto> bump (spec_slot (spec_us now (stamp v))) x)"
    and step_new: "stops e = Some (k, now) \<Longrightarrow> pend s k = Some v \<Longrightarrow>
      \<not> spec_drop now (stamp v) \<Longrightarrow> target e v = Some h \<Longrightarrow> cnt s h = None \<Longrightarrow>
      \<exists>m. lru_put (cnt s) h zero_hist m \<and>
        cnt (step e s) = (case m h of None \<Rightarrow> m
          | Some x \<Rightarrow> m(h \<mapsto> bump (spec_slot (spec_us now (stamp v))) x))"
begin

definition records :: "'e \<Rightarrow> 's \<Rightarrow> 'h option" where
  "records = recorded_in pend stops stamp target"

lemmas records_eq = records_def recorded_in_def

lemma stop_twice:
  assumes "stops e = Some (k, now)" and "stops e' = Some (k, now')"
  shows "step e' (step e s) = step e s"
proof -
  have "pend (step e s) k = None"
  proof (cases "pend s k")
    case None
    then show ?thesis using step_miss [OF assms(1)] by simp
  next
    case (Some v)
    then show ?thesis using step_stop [OF assms(1)] by simp
  qed
  then show ?thesis by (rule step_miss [OF assms(2)])
qed

lemma cnt_unchanged: "records e s = None \<Longrightarrow> cnt (step e s) = cnt s"
proof (cases "stops e")
  case None
  then show ?thesis
    using step_idle [of e s] step_start [of e] by (cases "starts e") auto
next
  case (Some p)
  obtain k now where p: "p = (k, now)" by (cases p)
  assume "records e s = None"
  with Some p show ?thesis
    using step_miss [of e k now s] step_drop [of e k now s]
    by (cases "pend s k") (auto simp: records_eq split: if_splits)
qed

lemma records_stop:
  assumes "records e s = Some h"
  obtains k now v where "stops e = Some (k, now)" "pend s k = Some v"
    "\<not> spec_drop now (stamp v)" "target e v = Some h"
  using assms by (auto simp: records_eq split: option.splits if_splits prod.splits)

text \<open>One event changes at most one histogram, and that by one sample in one slot.\<close>

lemma cnt_step:
  obtains (same) "cnt (step e s) h' = cnt s h'"
    | (evicted) "cnt (step e s) h' = None"
    | (bumped) i where "records e s = Some h'" "i < MAX_SLOTS"
        "cnt (step e s) h' = Some (bump i (hist_entry (cnt s h')))"
proof (cases "records e s")
  case None
  then show ?thesis using same cnt_unchanged by simp
next
  case (Some h)
  then obtain k now v where st: "stops e = Some (k, now)" "pend s k = Some v"
      "\<not> spec_drop now (stamp v)" "target e v = Some h"
    by (rule records_stop)
  define i where "i = spec_slot (spec_us now (stamp v))"
  have i: "i < MAX_SLOTS" by (simp add: i_def spec_slot_less)
  show ?thesis
  proof (cases "cnt s h")
    case (Some x)
    then have "cnt (step e s) = (cnt s)(h \<mapsto> bump i x)"
      using step_hit [OF st] i_def by simp
    then show ?thesis
      using same bumped [OF _ i] Some \<open>records e s = Some h\<close>
      by (cases "h' = h") (auto simp: hist_entry_def)
  next
    case None
    then obtain m where m: "lru_put (cnt s) h zero_hist m"
      "cnt (step e s) = (case m h of None \<Rightarrow> m | Some x \<Rightarrow> m(h \<mapsto> bump i x))"
      using step_new [OF st] i_def by auto
    show ?thesis
    proof (cases "h' = h")
      case True
      with m None show ?thesis
        using evicted bumped [OF _ i] \<open>records e s = Some h\<close>
        by (auto simp: lru_put_def hist_entry_def)
    next
      case False
      with m(1) have "m h' = cnt s h' \<or> m h' = None" by (simp add: lru_put_def)
      moreover have "cnt (step e s) h' = m h'"
        using m(2) False by (simp split: option.splits)
      ultimately show ?thesis using same evicted by auto
    qed
  qed
qed

lemma wf_step:
  assumes "hists_wf (cnt s)"
  shows "hists_wf (cnt (step e s))"
  unfolding hists_wf_def
proof (intro allI impI)
  fix h x
  assume "cnt (step e s) h = Some x"
  with assms show "wf_hist x"
    by (cases e s h rule: cnt_step)
      (auto simp: hists_wf_def hist_entry_def split: option.splits)
qed

lemma wf_run: "hists_wf (cnt s) \<Longrightarrow> hists_wf (cnt (fold step es s))"
  by (induction es arbitrary: s) (simp_all add: wf_step)

text \<open>Whatever is evicted, a histogram never holds more samples than were recorded into it.\<close>

lemma total_step_le:
  assumes "hists_wf (cnt s)"
  shows "unat (total (cnt (step e s) h)) \<le> unat (total (cnt s h)) + of_bool (records e s = Some h)"
proof (cases e s h rule: cnt_step)
  case (bumped i)
  have "wf_hist (hist_entry (cnt s h))"
    using assms by (auto simp: hists_wf_def hist_entry_def split: option.split)
  then have "total (cnt (step e s) h) = total (cnt s h) + 1"
    using bumped samples_bump [OF _ bumped(2)] by (simp add: total_entry) (simp add: hist_entry_def)
  then show ?thesis
    using bumped(1) by (simp add: unat_word_ariths mod_less_eq_dividend flip: Suc_eq_plus1)
qed (simp_all add: total_def)

lemma total_run_le:
  "hists_wf (cnt s) \<Longrightarrow> unat (total (cnt (fold step es s) h))
     \<le> unat (total (cnt s h)) + count_run step (\<lambda>e s. records e s = Some h) es s"
proof (induction es arbitrary: s)
  case (Cons e es)
  show ?case
    using Cons.IH [OF wf_step [OF Cons.prems, of e]] total_step_le [OF Cons.prems, of e h] by simp
qed simp

text \<open>A pending value was stored by a start event of the run.\<close>

lemma pend_step:
  "pend (step e s) k = Some v \<Longrightarrow> starts e = Some (k, v) \<or> pend s k = Some v"
proof (cases "stops e")
  case None
  assume *: "pend (step e s) k = Some v"
  show ?thesis
  proof (cases "starts e")
    case None
    with \<open>stops e = None\<close> * show ?thesis using step_idle by simp
  next
    case (Some p)
    obtain k' v' where p: "p = (k', v')" by (cases p)
    with Some have "lru_put (pend s) k' v' (pend (step e s))" using step_start by blast
    with * p Some show ?thesis by (cases "k = k'") (auto simp: lru_put_def)
  qed
next
  case (Some p)
  obtain k' now where p: "p = (k', now)" by (cases p)
  assume "pend (step e s) k = Some v"
  with Some p show ?thesis
    using step_miss [of e k' now s] step_stop [of e k' now s]
    by (cases "pend s k'") (auto split: if_splits)
qed

lemma pend_run:
  "pend (fold step es s) k = Some v \<Longrightarrow>
     (\<exists>e\<in>set es. starts e = Some (k, v)) \<or> pend s k = Some v"
proof (induction es arbitrary: s)
  case (Cons e es)
  then have "(\<exists>e\<in>set es. starts e = Some (k, v)) \<or> pend (step e s) k = Some v" by simp
  then show ?case using pend_step by fastforce
qed simp

end

subsection \<open>Exact counting\<close>

locale latency_probe_exact = latency_probe pend cnt step starts stops stamp target
  for pend :: "'s \<Rightarrow> 'k \<Rightarrow> 'v option" and cnt :: "'s \<Rightarrow> 'h \<Rightarrow> hist option"
    and step :: "'e \<Rightarrow> 's \<Rightarrow> 's" and starts :: "'e \<Rightarrow> ('k \<times> 'v) option"
    and stops :: "'e \<Rightarrow> ('k \<times> u64) option" and stamp :: "'v \<Rightarrow> u64"
    and target :: "'e \<Rightarrow> 'v \<Rightarrow> 'h option" +
  fixes hroom :: "'s \<Rightarrow> bool"
  assumes step_new_room: "stops e = Some (k, now) \<Longrightarrow> pend s k = Some v \<Longrightarrow>
      \<not> spec_drop now (stamp v) \<Longrightarrow> target e v = Some h \<Longrightarrow> cnt s h = None \<Longrightarrow> hroom s \<Longrightarrow>
      cnt (step e s) = (cnt s)(h \<mapsto> bump (spec_slot (spec_us now (stamp v))) zero_hist)"
begin

lemma cnt_step_room:
  assumes "hroom s" and "records e s = Some h"
  obtains i where "i < MAX_SLOTS" "cnt (step e s) = (cnt s)(h \<mapsto> bump i (hist_entry (cnt s h)))"
proof -
  from assms(2) obtain k now v where st: "stops e = Some (k, now)" "pend s k = Some v"
      "\<not> spec_drop now (stamp v)" "target e v = Some h"
    by (rule records_stop)
  show thesis
    using that [of "spec_slot (spec_us now (stamp v))"] step_hit [OF st] step_new_room [OF st]
      assms(1) spec_slot_less
    by (cases "cnt s h") (auto simp: hist_entry_def)
qed

text \<open>The samples of a histogram are the events that recorded into it.\<close>

lemma total_run:
  assumes "hists_wf (cnt s)" and "all_run step hroom es s"
  shows "total (cnt (fold step es s) h)
    = total (cnt s h) + of_nat (count_run step (\<lambda>e s. records e s = Some h) es s)"
  using assms
proof (induction es arbitrary: s)
  case (Cons e es)
  have wf: "hists_wf (cnt (step e s))" using Cons.prems(1) by (rule wf_step)
  have "total (cnt (step e s) h) = total (cnt s h) + of_bool (records e s = Some h)"
  proof (cases "records e s")
    case None
    then show ?thesis using cnt_unchanged by simp
  next
    case (Some h')
    have "hroom s" using Cons.prems(2) by simp
    from this Some obtain i where "i < MAX_SLOTS"
      "cnt (step e s) = (cnt s)(h' \<mapsto> bump i (hist_entry (cnt s h')))"
      by (rule cnt_step_room)
    moreover have "wf_hist (hist_entry (cnt s h'))"
      using Cons.prems(1) by (auto simp: hists_wf_def hist_entry_def split: option.split)
    ultimately show ?thesis
      using Some by (auto simp: total_entry samples_bump) (simp add: hist_entry_def samples_bump)
  qed
  with Cons.IH [OF wf] Cons.prems(2) show ?case by (simp add: algebra_simps)
qed simp

end

subsection \<open>The reference machine\<close>

text \<open>
  What a probe computes when its maps never run full: pending requests as a finite map and
  one histogram per key, all of them zero at first.
\<close>

type_synonym ('k, 'v, 'h) probe_state = "('k \<Rightarrow> 'v option) \<times> ('h \<Rightarrow> hist)"

definition probe_spec :: "('e \<Rightarrow> ('k \<times> 'v) option) \<Rightarrow> ('e \<Rightarrow> ('k \<times> u64) option) \<Rightarrow> ('v \<Rightarrow> u64) \<Rightarrow>
    ('e \<Rightarrow> 'v \<Rightarrow> 'h option) \<Rightarrow> 'e \<Rightarrow> ('k, 'v, 'h) probe_state \<Rightarrow> ('k, 'v, 'h) probe_state" where
  "probe_spec starts stops stamp target e = (\<lambda>(p, c).
     case (starts e, stops e) of
       (Some (k, v), _) \<Rightarrow> (p(k \<mapsto> v), c)
     | (None, None) \<Rightarrow> (p, c)
     | (None, Some (k, now)) \<Rightarrow>
         (case p k of
            None \<Rightarrow> (p, c)
          | Some v \<Rightarrow>
              (p(k := None),
               if spec_drop now (stamp v) then c
               else case target e v of
                 None \<Rightarrow> c
               | Some h \<Rightarrow> c(h := bump (spec_slot (spec_us now (stamp v))) (c h)))))"

text \<open>An event that starts or ends request \<^verbatim>\<open>k\<close>.\<close>

definition touches :: "('e \<Rightarrow> ('k \<times> 'v) option) \<Rightarrow> ('e \<Rightarrow> ('k \<times> u64) option) \<Rightarrow> 'k \<Rightarrow> 'e \<Rightarrow> bool" where
  "touches starts stops k e \<longleftrightarrow>
     map_option fst (starts e) = Some k \<or> map_option fst (stops e) = Some k"

locale latency_probe_room = latency_probe_exact pend cnt step starts stops stamp target hroom
  for pend :: "'s \<Rightarrow> 'k \<Rightarrow> 'v option" and cnt :: "'s \<Rightarrow> 'h \<Rightarrow> hist option"
    and step :: "'e \<Rightarrow> 's \<Rightarrow> 's" and starts :: "'e \<Rightarrow> ('k \<times> 'v) option"
    and stops :: "'e \<Rightarrow> ('k \<times> u64) option" and stamp :: "'v \<Rightarrow> u64"
    and target :: "'e \<Rightarrow> 'v \<Rightarrow> 'h option" and hroom :: "'s \<Rightarrow> bool" +
  fixes proom :: "'s \<Rightarrow> bool"
  assumes step_start_room: "starts e = Some (k, v) \<Longrightarrow> proom s \<Longrightarrow>
      pend (step e s) = (pend s)(k \<mapsto> v)"
begin

definition abs :: "'s \<Rightarrow> ('k, 'v, 'h) probe_state" where
  "abs s = (pend s, \<lambda>h. hist_entry (cnt s h))"

lemma abs_step:
  assumes "proom s" and "hroom s"
  shows "abs (step e s) = probe_spec starts stops stamp target e (abs s)"
proof (cases "starts e")
  case (Some q)
  then show ?thesis
    using step_start_room [OF _ assms(1)] step_start by (cases q) (auto simp: abs_def probe_spec_def)
next
  case None
  note start = this
  show ?thesis
  proof (cases "stops e")
    case None
    with start show ?thesis using step_idle by (simp add: probe_spec_def abs_def)
  next
    case (Some q)
    obtain k now where q: "stops e = Some (k, now)" using Some by (cases q) auto
    show ?thesis
    proof (cases "pend s k")
      case None
      with start q show ?thesis using step_miss by (simp add: probe_spec_def abs_def)
    next
      case (Some v)
      note st = q Some
      have p: "pend (step e s) = (pend s)(k := None)" by (rule step_stop [OF st])
      show ?thesis
      proof (cases "spec_drop now (stamp v) \<or> target e v = None")
        case True
        then have "cnt (step e s) = cnt s" by (rule step_drop [OF st])
        with True p start st show ?thesis by (auto simp: probe_spec_def abs_def)
      next
        case False
        then obtain h where h: "\<not> spec_drop now (stamp v)" "target e v = Some h" by auto
        have "cnt (step e s) = (cnt s)(h \<mapsto> bump (spec_slot (spec_us now (stamp v))) (hist_entry (cnt s h)))"
          using step_hit [OF st h] step_new_room [OF st h _ assms(2)]
          by (cases "cnt s h") (auto simp: hist_entry_def)
        with p start st h show ?thesis
          by (auto simp: probe_spec_def abs_def fun_eq_iff hist_entry_def)
      qed
    qed
  qed
qed

lemma abs_run:
  assumes "all_run step (\<lambda>s. proom s \<and> hroom s) es s"
  shows "abs (fold step es s) = fold (probe_spec starts stops stamp target) es (abs s)"
  using assms by (induction es arbitrary: s) (simp_all add: abs_step)

lemma pend_kept:
  assumes "\<not> touches starts stops k e" and "proom s"
  shows "pend (step e s) k = pend s k"
proof (cases "stops e")
  case None
  then show ?thesis
    using assms step_idle [of e s] step_start_room [of e _ _ s]
    by (cases "starts e") (auto simp: touches_def)
next
  case (Some q)
  then show ?thesis
    using assms step_miss [of e _ _ s] step_stop [of e _ _ s]
    by (cases q; cases "pend s (fst q)") (auto simp: touches_def)
qed

lemma pend_kept_run:
  "\<forall>e\<in>set es. \<not> touches starts stops k e \<Longrightarrow> all_run step proom es s \<Longrightarrow>
     pend (fold step es s) k = pend s k"
  by (induction es arbitrary: s) (simp_all add: pend_kept)

text \<open>A request that is not disturbed between its start and its end is counted exactly once.\<close>

lemma roundtrip:
  assumes "starts e0 = Some (k, v)" and "stops e1 = Some (k, now)" and "target e1 v = Some h"
    and "\<not> spec_drop now (stamp v)"
    and "\<forall>e\<in>set es. \<not> touches starts stops k e" and "all_run step proom (e0 # es) s"
    and "hroom (fold step (e0 # es) s)"
  defines "s1 \<equiv> fold step (e0 # es) s"
  shows "cnt (step e1 s1)
      = (cnt s1)(h \<mapsto> bump (spec_slot (spec_us now (stamp v))) (hist_entry (cnt s1 h)))
    \<and> pend (step e1 s1) = (pend s1)(k := None)"
proof -
  have "pend s1 k = pend (step e0 s) k"
    using pend_kept_run [OF assms(5)] assms(6) by (simp add: s1_def)
  then have p: "pend s1 k = Some v"
    using step_start_room [OF assms(1)] assms(6) by simp
  have "hroom s1" using assms(7) by (simp add: s1_def)
  then show ?thesis
    using step_hit [OF assms(2) p assms(4,3)] step_new_room [OF assms(2) p assms(4,3)]
      step_stop [OF assms(2) p]
    by (cases "cnt s1 h") (auto simp: hist_entry_def)
qed

end

end
