(* ===== verification/BlockLatency.thy ===== *)
theory BlockLatency
  imports LatencyProbe KernelAccess
begin

text \<open>
  \<^verbatim>\<open>bpf/block_latency.c\<close>: block request latency. \<^verbatim>\<open>block_rq_issue\<close> stores the time of a
  request under its device and sector; \<^verbatim>\<open>block_rq_complete\<close> takes the entry out and adds
  the latency to the histogram of the device and operation. A handler is a function of
  the map operations, the relocations, the clock value \<^verbatim>\<open>bpf_ktime_get_ns()\<close> returns, the
  bytes of the tracepoint record and the two maps; both C functions return 0.
\<close>

subsection \<open>Data\<close>

record req_key =
  rk_dev :: u32
  rk_sector :: u64

definition struct_req_key :: ctype where
  "struct_req_key = CStruct ''req_key'' False
      [(''dev'', td___u32, None),
       (''sector'', td___u64, None)]"

definition block_start_decl :: map_decl where
  "block_start_decl =
     \<lparr>md_type = BPF_MAP_TYPE_LRU_HASH, md_max_entries = MAX_BLOCK_ENTRIES,
      md_key = struct_req_key, md_value = td___u64\<rparr>"

definition block_hists_decl :: map_decl where
  "block_hists_decl =
     \<lparr>md_type = BPF_MAP_TYPE_LRU_HASH, md_max_entries = MAX_HIST_ENTRIES,
      md_key = struct_block_hist_key, md_value = struct_hist\<rparr>"

record ('ms, 'mh) block_maps =
  block_start :: 'ms
  block_hists :: 'mh

text \<open>
  The key as the map sees it: \<^verbatim>\<open>struct req_key rk = {}\<close> clears the four bytes between the
  members, so they are zero.
\<close>

definition req_key_bytes :: "req_key \<Rightarrow> bytes" where
  "req_key_bytes k = u32_bytes (rk_dev k) @ replicate 4 0 @ u64_bytes (rk_sector k)"

subsection \<open>Operations\<close>

definition classify_op :: "bytes \<Rightarrow> u8" where
  "classify_op rwbs =
     (let c = load_u8 rwbs 0
      in if c = of_char (CHR ''R'') then 0
         else if c = of_char (CHR ''W'') then 1
         else if c = of_char (CHR ''D'') then 2
         else if c = of_char (CHR ''F'') then 3
         else 0xff)"

definition tracepoint__block__block_rq_issue ::
    "('ms, req_key, u64) map_ops \<Rightarrow> reloc \<Rightarrow> u64 \<Rightarrow> bytes \<Rightarrow>
      ('ms, 'mh) block_maps \<Rightarrow> ('ms, 'mh) block_maps" where
  "tracepoint__block__block_rq_issue start_ops rl now ctx st =
     (let T = struct_trace_event_raw_block_rq
      in if classify_op (drop (rl T [''rwbs'']) ctx) = 0xff then st
      else
        let rk = \<lparr>rk_dev = load_u32 ctx (rl T [''dev'']), rk_sector = load_u64 ctx (rl T [''sector''])\<rparr>;
            ts = now
        in st\<lparr>block_start := update_elem start_ops (block_start st) rk ts\<rparr>)"

definition tracepoint__block__block_rq_complete ::
    "('ms, req_key, u64) map_ops \<Rightarrow> ('mh, block_hist_key, hist) map_ops \<Rightarrow> reloc \<Rightarrow> u64 \<Rightarrow> bytes \<Rightarrow>
      ('ms, 'mh) block_maps \<Rightarrow> ('ms, 'mh) block_maps" where
  "tracepoint__block__block_rq_complete start_ops hist_ops rl now ctx st =
     (let T = struct_trace_event_raw_block_rq_completion;
          rk = \<lparr>rk_dev = load_u32 ctx (rl T [''dev'']), rk_sector = load_u64 ctx (rl T [''sector''])\<rparr>
      in case lookup_elem start_ops (block_start st) rk of
        None \<Rightarrow> st
      | Some ts \<Rightarrow>
          let delta = now - ts :: s64;
              st = st\<lparr>block_start := delete_elem start_ops (block_start st) rk\<rparr>
          in if neg_s64 delta then st
          else
            let delta = div_s64 delta 1000;
                delta = (if delta = 0 then 1 else delta);
                hk = zero_block_hist_key\<lparr>bhk_dev := load_u32 ctx (rl T [''dev'']),
                       bhk_op := classify_op (drop (rl T [''rwbs'']) ctx)\<rparr>
            in if bhk_op hk = 0xff then st
            else
              let (histp, st) =
                    (case lookup_elem hist_ops (block_hists st) hk of
                       Some h \<Rightarrow> (Some h, st)
                     | None \<Rightarrow>
                         let st = st\<lparr>block_hists := update_elem hist_ops (block_hists st) hk zero_hist\<rparr>
                         in (lookup_elem hist_ops (block_hists st) hk, st))
              in case histp of
                None \<Rightarrow> st
              | Some h \<Rightarrow>
                  let slot = log2l delta;
                      slot = (if of_nat MAX_SLOTS \<le> slot then of_nat MAX_SLOTS - 1 else slot)
                  in st\<lparr>block_hists := write_elem hist_ops (block_hists st) hk (hist_add slot h)\<rparr>)"

subsection \<open>Events\<close>

datatype block_event = RqIssue bytes u64 | RqComplete bytes u64

fun block_step :: "('ms, req_key, u64) map_ops \<Rightarrow> ('mh, block_hist_key, hist) map_ops \<Rightarrow> reloc \<Rightarrow>
    block_event \<Rightarrow> ('ms, 'mh) block_maps \<Rightarrow> ('ms, 'mh) block_maps" where
  "block_step sops hops rl (RqIssue ctx now) st =
     tracepoint__block__block_rq_issue sops rl now ctx st"
| "block_step sops hops rl (RqComplete ctx now) st =
     tracepoint__block__block_rq_complete sops hops rl now ctx st"

text \<open>What the event is about: the request, the operation and the histogram.\<close>

definition issue_key :: "reloc \<Rightarrow> bytes \<Rightarrow> req_key" where
  "issue_key rl ctx =
     \<lparr>rk_dev = load_u32 ctx (rl struct_trace_event_raw_block_rq [''dev'']),
      rk_sector = load_u64 ctx (rl struct_trace_event_raw_block_rq [''sector''])\<rparr>"

definition issue_op :: "reloc \<Rightarrow> bytes \<Rightarrow> u8" where
  "issue_op rl ctx = classify_op (drop (rl struct_trace_event_raw_block_rq [''rwbs'']) ctx)"

definition complete_key :: "reloc \<Rightarrow> bytes \<Rightarrow> req_key" where
  "complete_key rl ctx =
     \<lparr>rk_dev = load_u32 ctx (rl struct_trace_event_raw_block_rq_completion [''dev'']),
      rk_sector = load_u64 ctx (rl struct_trace_event_raw_block_rq_completion [''sector''])\<rparr>"

definition complete_op :: "reloc \<Rightarrow> bytes \<Rightarrow> u8" where
  "complete_op rl ctx =
     classify_op (drop (rl struct_trace_event_raw_block_rq_completion [''rwbs'']) ctx)"

definition block_key :: "u32 \<Rightarrow> u8 \<Rightarrow> block_hist_key" where
  "block_key dev op = \<lparr>bhk_dev = dev, bhk_op = op, bhk_pad = replicate 3 0\<rparr>"

fun block_starts :: "reloc \<Rightarrow> block_event \<Rightarrow> (req_key \<times> u64) option" where
  "block_starts rl (RqIssue ctx now) =
     (if issue_op rl ctx = 0xff then None else Some (issue_key rl ctx, now))"
| "block_starts rl (RqComplete ctx now) = None"

fun block_stops :: "reloc \<Rightarrow> block_event \<Rightarrow> (req_key \<times> u64) option" where
  "block_stops rl (RqIssue ctx now) = None"
| "block_stops rl (RqComplete ctx now) = Some (complete_key rl ctx, now)"

fun block_target :: "reloc \<Rightarrow> block_event \<Rightarrow> u64 \<Rightarrow> block_hist_key option" where
  "block_target rl (RqIssue ctx now) ts = None"
| "block_target rl (RqComplete ctx now) ts =
     (if complete_op rl ctx = 0xff then None
      else Some (block_key (rk_dev (complete_key rl ctx)) (complete_op rl ctx)))"

subsection \<open>The program meets the probe contract\<close>

lemma issue_eq:
  "tracepoint__block__block_rq_issue sops rl now ctx st =
     (if issue_op rl ctx = 0xff then st
      else st\<lparr>block_start := update_elem sops (block_start st) (issue_key rl ctx) now\<rparr>)"
  by (simp add: tracepoint__block__block_rq_issue_def issue_op_def issue_key_def Let_def)

lemma zero_key_upd:
  "zero_block_hist_key\<lparr>bhk_dev := d, bhk_op := op\<rparr> = block_key d op"
  by (simp add: zero_block_hist_key_def block_key_def)

lemma block_key_simps [simp]: "bhk_dev (block_key d op) = d" "bhk_op (block_key d op) = op"
  by (simp_all add: block_key_def)

lemma complete_dev:
  "rk_dev (complete_key rl ctx) = load_u32 ctx (rl struct_trace_event_raw_block_rq_completion [''dev''])"
  by (simp add: complete_key_def)

lemma complete_eq:
  "tracepoint__block__block_rq_complete sops hops rl now ctx st =
     (case lookup_elem sops (block_start st) (complete_key rl ctx) of
        None \<Rightarrow> st
      | Some ts \<Rightarrow>
          (let st' = st\<lparr>block_start := delete_elem sops (block_start st) (complete_key rl ctx)\<rparr>
           in if spec_drop now ts \<or> complete_op rl ctx = 0xff then st'
              else st'\<lparr>block_hists := add_sample hops
                    (block_key (rk_dev (complete_key rl ctx)) (complete_op rl ctx))
                    (spec_slot (spec_us now ts)) (block_hists st')\<rparr>))"
proof (cases "lookup_elem sops (block_start st) (complete_key rl ctx)")
  case None
  then show ?thesis
    by (simp add: tracepoint__block__block_rq_complete_def complete_key_def Let_def)
next
  case (Some ts)
  note defs = tracepoint__block__block_rq_complete_def Let_def neg_s64_drop zero_key_upd
  show ?thesis
  proof (cases "spec_drop now ts \<or> complete_op rl ctx = 0xff")
    case True
    with Some show ?thesis by (auto simp: defs complete_key_def complete_op_def)
  next
    case False
    define hk where "hk = block_key (rk_dev (complete_key rl ctx)) (complete_op rl ctx)"
    note folds = hk_def [unfolded complete_dev, symmetric] complete_key_def [symmetric]
      complete_op_def [symmetric] hk_def [symmetric]
    have op: "bhk_op hk \<noteq> 0xff" using False by (simp add: hk_def)
    show ?thesis
    proof (cases "lookup_elem hops (block_hists st) hk")
      case None
      with Some False op show ?thesis
        by (cases "lookup_elem hops (update_elem hops (block_hists st) hk zero_hist) hk")
          (simp_all add: defs folds hist_add_bump add_sample_def)
    next
      case (Some h)
      with \<open>lookup_elem sops _ _ = Some ts\<close> False op show ?thesis
        by (simp add: defs folds hist_add_bump add_sample_def)
    qed
  qed
qed

lemmas block_step_simps = issue_eq complete_eq Let_def

lemma block_latency_probe:
  assumes "bpf_lru sops" and "bpf_lru hops"
  shows "latency_probe (\<lambda>s. lookup_elem sops (block_start s)) (\<lambda>s. lookup_elem hops (block_hists s))
    (block_step sops hops rl) (block_starts rl) (block_stops rl) id (block_target rl)"
proof (unfold_locales, goal_cases)
  case (1 e)
  then show ?case by (cases e) auto
next
  case (2 e s)
  then show ?case by (cases e) (auto simp: block_step_simps split: if_splits)
next
  case (3 e k v s)
  then show ?case
    using assms(1) by (cases e) (auto simp: block_step_simps bpf_lru.update split: if_splits)
next
  case (4 e k now s)
  then show ?case by (cases e) (auto simp: block_step_simps)
next
  case (5 e k now s v)
  then show ?case
    using assms(1) by (cases e) (auto simp: block_step_simps bpf_lru.delete)
next
  case (6 e k now s v)
  then show ?case by (cases e) (auto simp: block_step_simps split: if_splits)
next
  case (7 e k now s v h x)
  then show ?case
    using add_sample_hit [OF assms(2)]
    by (cases e) (auto simp: block_step_simps split: if_splits)
next
  case (8 e k now s v h)
  then have "block_hists (block_step sops hops rl e s)
      = add_sample hops h (spec_slot (spec_us now (id v))) (block_hists s)"
    by (cases e) (auto simp: block_step_simps split: if_splits)
  with 8 show ?case
    using add_sample_new [OF assms(2), of "block_hists s" h] unfolding id_apply by simp
qed

lemma block_latency_probe_exact:
  assumes "bpf_lru sops" and "bpf_lru_room hops room"
  shows "latency_probe_exact (\<lambda>s. lookup_elem sops (block_start s))
    (\<lambda>s. lookup_elem hops (block_hists s))
    (block_step sops hops rl) (block_starts rl) (block_stops rl) id (block_target rl)
    (\<lambda>s. room (block_hists s))"
proof (intro latency_probe_exact.intro latency_probe_exact_axioms.intro block_latency_probe)
  show "bpf_lru sops" by (rule assms(1))
  show "bpf_lru hops" using assms(2) by (rule bpf_lru_room.axioms)
next
  fix e k now v h and s :: "('a, 'b) block_maps"
  assume "block_stops rl e = Some (k, now)" "lookup_elem sops (block_start s) k = Some v"
    "\<not> spec_drop now (id v)" "block_target rl e v = Some h"
    "lookup_elem hops (block_hists s) h = None" "room (block_hists s)"
  then show "lookup_elem hops (block_hists (block_step sops hops rl e s))
      = (lookup_elem hops (block_hists s))(h \<mapsto> bump (spec_slot (spec_us now (id v))) zero_hist)"
    using add_sample_room [OF assms(2)]
    by (cases e) (auto simp: block_step_simps split: if_splits)
qed

lemma block_latency_probe_room:
  assumes "bpf_lru_room sops sroom" and "bpf_lru_room hops hroom"
  shows "latency_probe_room (\<lambda>s. lookup_elem sops (block_start s))
    (\<lambda>s. lookup_elem hops (block_hists s))
    (block_step sops hops rl) (block_starts rl) (block_stops rl) id (block_target rl)
    (\<lambda>s. hroom (block_hists s)) (\<lambda>s. sroom (block_start s))"
proof (intro latency_probe_room.intro latency_probe_room_axioms.intro block_latency_probe_exact)
  show "bpf_lru sops" using assms(1) by (rule bpf_lru_room.axioms)
  show "bpf_lru_room hops hroom" by (rule assms(2))
next
  fix e k v and s :: "('a, 'b) block_maps"
  assume "block_starts rl e = Some (k, v)" "sroom (block_start s)"
  then show "lookup_elem sops (block_start (block_step sops hops rl e s))
      = (lookup_elem sops (block_start s))(k \<mapsto> v)"
    using bpf_lru_room.update_room [OF assms(1)] by (cases e) (auto simp: block_step_simps split: if_splits)
qed

text \<open>The maps of the program, at the sizes it declares.\<close>

interpretation block_lru: latency_probe_room
  "\<lambda>s. map_of (block_start s)" "\<lambda>s. map_of (block_hists s)"
  "block_step (lru_ops MAX_BLOCK_ENTRIES) (lru_ops MAX_HIST_ENTRIES) vmlinux_reloc"
  "block_starts vmlinux_reloc" "block_stops vmlinux_reloc" id "block_target vmlinux_reloc"
  "\<lambda>s. lru_room MAX_HIST_ENTRIES (block_hists s)" "\<lambda>s. lru_room MAX_BLOCK_ENTRIES (block_start s)"
proof -
  have "bpf_lru_room (lru_ops MAX_BLOCK_ENTRIES) (lru_room MAX_BLOCK_ENTRIES)"
    "bpf_lru_room (lru_ops MAX_HIST_ENTRIES) (lru_room MAX_HIST_ENTRIES)"
    by (simp_all add: lru_ops_contract MAX_BLOCK_ENTRIES_def MAX_HIST_ENTRIES_def)
  from block_latency_probe_room [OF this, of vmlinux_reloc]
  show "latency_probe_room (\<lambda>s. map_of (block_start s)) (\<lambda>s. map_of (block_hists s))
      (block_step (lru_ops MAX_BLOCK_ENTRIES) (lru_ops MAX_HIST_ENTRIES) vmlinux_reloc)
      (block_starts vmlinux_reloc) (block_stops vmlinux_reloc) id (block_target vmlinux_reloc)
      (\<lambda>s. lru_room MAX_HIST_ENTRIES (block_hists s)) (\<lambda>s. lru_room MAX_BLOCK_ENTRIES (block_start s))"
    by simp
qed

subsection \<open>Reading the tracepoint records\<close>

lemma block_rq_offsets:
  "offsetof struct_trace_event_raw_block_rq [''dev''] = Some (8, td_dev_t)"
  "offsetof struct_trace_event_raw_block_rq [''sector''] = Some (16, td_sector_t)"
  "offsetof struct_trace_event_raw_block_rq [''rwbs''] = Some (34, CArr (CSInt 1) 8)"
  by (simp_all add: struct_trace_event_raw_block_rq_def layout)

lemma block_rq_completion_offsets:
  "offsetof struct_trace_event_raw_block_rq_completion [''dev''] = Some (8, td_dev_t)"
  "offsetof struct_trace_event_raw_block_rq_completion [''sector''] = Some (16, td_sector_t)"
  "offsetof struct_trace_event_raw_block_rq_completion [''rwbs''] = Some (34, CArr (CSInt 1) 8)"
  by (simp_all add: struct_trace_event_raw_block_rq_completion_def layout)

lemma block_reloc [simp]:
  "vmlinux_reloc struct_trace_event_raw_block_rq [''dev''] = 8"
  "vmlinux_reloc struct_trace_event_raw_block_rq [''sector''] = 16"
  "vmlinux_reloc struct_trace_event_raw_block_rq [''rwbs''] = 34"
  "vmlinux_reloc struct_trace_event_raw_block_rq_completion [''dev''] = 8"
  "vmlinux_reloc struct_trace_event_raw_block_rq_completion [''sector''] = 16"
  "vmlinux_reloc struct_trace_event_raw_block_rq_completion [''rwbs''] = 34"
  by (simp_all only: vmlinux_reloc_def block_rq_offsets block_rq_completion_offsets
        option.case prod.case)

lemma classify_op_head: "classify_op (drop n bs) = classify_op [load_u8 bs n]"
  by (simp add: classify_op_def load_u8_def load_def le_nat_def)

text \<open>
  A record with the members the handlers read stored at the places the kernel's structure
  gives them, over arbitrary bytes.
\<close>

definition fill_rq :: "ctype \<Rightarrow> u32 \<Rightarrow> u64 \<Rightarrow> u8 \<Rightarrow> bytes \<Rightarrow> bytes" where
  "fill_rq t dev sector c bs =
     store (store (store bs (vmlinux_reloc t [''dev'']) (u32_bytes dev))
       (vmlinux_reloc t [''sector'']) (u64_bytes sector))
       (vmlinux_reloc t [''rwbs'']) [c]"

text \<open>
  A tracepoint record laid out as the kernel's structure, with a device, a sector and the
  first operation character stored in it over arbitrary bytes, is read back by both block
  handlers: they compute the same request key and the class of that character, so an issue and
  a completion of one request meet under one key.
\<close>

theorem block_record_read_back:
  assumes "length ictx = csize struct_trace_event_raw_block_rq"
    and "length cctx = csize struct_trace_event_raw_block_rq_completion"
  shows "issue_key vmlinux_reloc (fill_rq struct_trace_event_raw_block_rq dev sector c ictx)
      = \<lparr>rk_dev = dev, rk_sector = sector\<rparr>
    \<and> complete_key vmlinux_reloc (fill_rq struct_trace_event_raw_block_rq_completion dev sector c cctx)
      = \<lparr>rk_dev = dev, rk_sector = sector\<rparr>
    \<and> issue_op vmlinux_reloc (fill_rq struct_trace_event_raw_block_rq dev sector c ictx)
      = classify_op [c]
    \<and> complete_op vmlinux_reloc (fill_rq struct_trace_event_raw_block_rq_completion dev sector c cctx)
      = classify_op [c]"
  using assms
  by (simp add: fill_rq_def issue_key_def complete_key_def issue_op_def complete_op_def
      classify_op_head length_store)

theorem block_record_read_back_witness:
  "issue_key vmlinux_reloc
     (fill_rq struct_trace_event_raw_block_rq 0x800010 2048 (of_char (CHR ''R'')) (replicate 64 7))
   = \<lparr>rk_dev = 0x800010, rk_sector = 2048\<rparr>"
  using block_record_read_back [of "replicate 64 7" "replicate 48 7" "0x800010" 2048 "of_char (CHR ''R'')"]
  by simp

subsection \<open>Properties\<close>

text \<open>The state of the program as the reference machine sees it.\<close>

definition block_view :: "('ms, req_key, u64) map_ops \<Rightarrow> ('mh, block_hist_key, hist) map_ops \<Rightarrow>
    ('ms, 'mh) block_maps \<Rightarrow> (req_key, u64, block_hist_key) probe_state" where
  "block_view sops hops s =
     (lookup_elem sops (block_start s), \<lambda>h. hist_entry (lookup_elem hops (block_hists s) h))"

definition block_spec :: "reloc \<Rightarrow> block_event \<Rightarrow> (req_key, u64, block_hist_key) probe_state \<Rightarrow>
    (req_key, u64, block_hist_key) probe_state" where
  "block_spec rl = probe_spec (block_starts rl) (block_stops rl) id (block_target rl)"

text \<open>Concrete events: a read of sector 2048 of device 8:16, 70 microseconds long.\<close>

definition ex_issue :: bytes where
  "ex_issue = fill_rq struct_trace_event_raw_block_rq 0x800010 2048 (of_char (CHR ''R'')) (replicate 64 0)"

definition ex_complete :: bytes where
  "ex_complete =
     fill_rq struct_trace_event_raw_block_rq_completion 0x800010 2048 (of_char (CHR ''R'')) (replicate 48 0)"

definition ex_other :: bytes where
  "ex_other = fill_rq struct_trace_event_raw_block_rq 0x800010 4096 (of_char (CHR ''W'')) (replicate 64 0)"

definition ex_run :: "block_event list" where
  "ex_run = [RqIssue ex_issue 1000000, RqIssue ex_other 1001000, RqComplete ex_complete 1070000,
     RqComplete ex_complete 1080000]"

definition ex_empty :: "((req_key \<times> u64) list, (block_hist_key \<times> hist) list) block_maps" where
  "ex_empty = \<lparr>block_start = [], block_hists = []\<rparr>"

lemma classify_op_RW [simp]: "classify_op [82] = 0" "classify_op [87] = 1"
  by (simp_all add: classify_op_def load_u8_def load_def)

lemma ex_simps [simp]:
  "issue_key vmlinux_reloc ex_issue = \<lparr>rk_dev = 0x800010, rk_sector = 2048\<rparr>"
  "complete_key vmlinux_reloc ex_complete = \<lparr>rk_dev = 0x800010, rk_sector = 2048\<rparr>"
  "issue_key vmlinux_reloc ex_other = \<lparr>rk_dev = 0x800010, rk_sector = 4096\<rparr>"
  "issue_op vmlinux_reloc ex_other = 1" "issue_op vmlinux_reloc ex_issue = 0"
  "complete_op vmlinux_reloc ex_complete = 0"
  by (simp_all add: ex_issue_def ex_complete_def ex_other_def fill_rq_def issue_key_def complete_key_def
      issue_op_def complete_op_def classify_op_head length_store)

text \<open>
  C1: Refinement. As long as neither map is full, any sequence of issue and completion events
  leaves the two maps exactly as the reference machine leaves its pending requests and
  histograms.
\<close>

theorem block_refines_spec:
  assumes "bpf_lru_room sops sroom" and "bpf_lru_room hops hroom"
    and "all_run (block_step sops hops rl) (\<lambda>s. sroom (block_start s) \<and> hroom (block_hists s)) es st"
  shows "block_view sops hops (fold (block_step sops hops rl) es st)
    = fold (block_spec rl) es (block_view sops hops st)"
proof -
  note P = block_latency_probe_room [OF assms(1,2), of rl]
  show ?thesis
    using latency_probe_room.abs_run [OF P assms(3)]
    unfolding latency_probe_room.abs_def [OF P] block_view_def block_spec_def .
qed

theorem block_refines_spec_witness:
  "block_view (lru_ops 8) (lru_ops 8)
     (fold (block_step (lru_ops 8) (lru_ops 8) vmlinux_reloc)
       [RqIssue ex_issue 1000000, RqComplete ex_complete 1070000] \<lparr>block_start = [], block_hists = []\<rparr>)
   = fold (block_spec vmlinux_reloc) [RqIssue ex_issue 1000000, RqComplete ex_complete 1070000]
       (Map.empty, \<lambda>_. zero_hist)"
  using block_refines_spec [of "lru_ops 8" "lru_room 8" "lru_ops 8" "lru_room 8" vmlinux_reloc
      "[RqIssue ex_issue 1000000, RqComplete ex_complete 1070000]" "\<lparr>block_start = [], block_hists = []\<rparr>"]
  by (simp add: lru_ops_contract block_step_simps lru_room_def lru_update_def block_view_def
      hist_entry_def)

text \<open>
  C2: A request that is issued, not touched by the events in between (whatever else happens to
  other requests), and then completed adds exactly one sample, in the slot of its latency in
  microseconds, to the histogram of its device and operation; every other histogram is as it
  was, and the request is no longer pending.
\<close>

theorem block_roundtrip:
  assumes "bpf_lru_room sops sroom" and "bpf_lru_room hops hroom"
    and "issue_op rl ictx \<noteq> 0xff" and "complete_op rl cctx \<noteq> 0xff"
    and "complete_key rl cctx = issue_key rl ictx" and "\<not> spec_drop now ts"
    and "\<forall>e\<in>set es. \<not> touches (block_starts rl) (block_stops rl) (issue_key rl ictx) e"
    and "all_run (block_step sops hops rl) (\<lambda>s. sroom (block_start s)) (RqIssue ictx ts # es) st"
    and "st1 = fold (block_step sops hops rl) (RqIssue ictx ts # es) st" and "hroom (block_hists st1)"
    and "st2 = block_step sops hops rl (RqComplete cctx now) st1"
    and "hk = block_key (rk_dev (issue_key rl ictx)) (complete_op rl cctx)"
  shows "lookup_elem hops (block_hists st2)
      = (lookup_elem hops (block_hists st1))
          (hk \<mapsto> bump (spec_slot (spec_us now ts)) (hist_entry (lookup_elem hops (block_hists st1) hk)))
    \<and> lookup_elem sops (block_start st2) = (lookup_elem sops (block_start st1))(issue_key rl ictx := None)"
  using latency_probe_room.roundtrip [OF block_latency_probe_room [OF assms(1,2), of rl],
      of "RqIssue ictx ts" "issue_key rl ictx" ts "RqComplete cctx now" now hk es st]
    assms
  by (simp del: block_step.simps)

theorem block_roundtrip_witness:
  "map_of (block_hists (fold (block_step (lru_ops 8) (lru_ops 8) vmlinux_reloc)
       [RqIssue ex_issue 1000000, RqIssue ex_other 1001000, RqComplete ex_complete 1070000]
       \<lparr>block_start = [], block_hists = []\<rparr>))
   = [block_key 0x800010 0 \<mapsto> bump (spec_slot 70) zero_hist]"
  using block_roundtrip [OF _ _ _ _ _ _ _ _ refl _ refl refl, where sops = "lru_ops 8"
      and sroom = "lru_room 8" and hops = "lru_ops 8" and hroom = "lru_room 8" and rl = vmlinux_reloc
      and ictx = ex_issue and cctx = ex_complete and now = 1070000 and ts = 1000000
      and es = "[RqIssue ex_other 1001000]" and st = "\<lparr>block_start = [], block_hists = []\<rparr>"]
  by (simp add: lru_ops_contract spec_drop_def spec_us_def touches_def hist_entry_def issue_eq
      lru_room_def lru_update_def)

text \<open>
  Conservation. While the histogram map has room, the number of samples in a histogram
  grows by exactly the number of completions of the run that found their request pending, with
  a time that did not go backwards and a known operation, for that device and operation.
\<close>

theorem block_counts_conserved:
  assumes "bpf_lru sops" and "bpf_lru_room hops hroom"
    and "hists_wf (lookup_elem hops (block_hists st))"
    and "all_run (block_step sops hops rl) (\<lambda>s. hroom (block_hists s)) es st"
  shows "total (lookup_elem hops (block_hists (fold (block_step sops hops rl) es st)) h)
    = total (lookup_elem hops (block_hists st) h) +
      of_nat (count_run (block_step sops hops rl)
        (\<lambda>e s. recorded_in (\<lambda>s. lookup_elem sops (block_start s)) (block_stops rl) id (block_target rl) e s
           = Some h) es st)"
proof -
  note P = block_latency_probe_exact [OF assms(1,2), of rl]
  show ?thesis
    using latency_probe_exact.total_run [OF P assms(3,4)]
    unfolding latency_probe.records_def [OF latency_probe_exact.axioms(1) [OF P]] .
qed

theorem block_counts_conserved_witness:
  "total (map_of (block_hists (fold (block_step (lru_ops 8) (lru_ops 8) vmlinux_reloc) ex_run ex_empty))
       (block_key 0x800010 0)) = 1"
  using block_counts_conserved [of "lru_ops 8" "lru_ops 8" "lru_room 8" ex_empty vmlinux_reloc ex_run
      "block_key 0x800010 0"]
  by (simp add: lru_ops_contract lru_ops_bpf_lru ex_run_def ex_empty_def block_step_simps hists_wf_def
      add_sample_def lru_room_def lru_update_def total_def recorded_in_def spec_drop_def)

text \<open>
  C31: Whatever the maps evict or refuse, every histogram keeps its 26 slots over any run, and
  no histogram gains more samples than completions were recorded for it.
\<close>

theorem block_never_overcounts:
  assumes "bpf_lru sops" and "bpf_lru hops" and "hists_wf (lookup_elem hops (block_hists st))"
  shows "hists_wf (lookup_elem hops (block_hists (fold (block_step sops hops rl) es st)))
    \<and> unat (total (lookup_elem hops (block_hists (fold (block_step sops hops rl) es st)) h))
      \<le> unat (total (lookup_elem hops (block_hists st) h)) +
        count_run (block_step sops hops rl)
        (\<lambda>e s. recorded_in (\<lambda>s. lookup_elem sops (block_start s)) (block_stops rl) id (block_target rl) e s
           = Some h) es st"
proof -
  note P = block_latency_probe [OF assms(1,2), of rl]
  show ?thesis
    using latency_probe.total_run_le [OF P assms(3), of es h] latency_probe.wf_run [OF P assms(3), of es]
    unfolding latency_probe.records_def [OF P] by blast
qed

theorem block_never_overcounts_witness:
  "unat (total (map_of (block_hists (fold (block_step (lru_ops 1) (lru_ops 1) vmlinux_reloc) ex_run ex_empty))
       (block_key 0x800010 0))) \<le> 1"
  using block_never_overcounts [of "lru_ops 1" "lru_ops 1" ex_empty vmlinux_reloc ex_run
      "block_key 0x800010 0"]
  by (simp add: lru_ops_bpf_lru ex_run_def ex_empty_def block_step_simps hists_wf_def
      lru_update_def total_def recorded_in_def spec_drop_def)

text \<open>
  A completion consumes its request: a second completion of the same request changes
  neither map.
\<close>

theorem block_completion_idempotent:
  assumes "bpf_lru sops" and "bpf_lru hops" and "complete_key rl ctx' = complete_key rl ctx"
  shows "tracepoint__block__block_rq_complete sops hops rl now' ctx'
      (tracepoint__block__block_rq_complete sops hops rl now ctx st)
    = tracepoint__block__block_rq_complete sops hops rl now ctx st"
  using latency_probe.stop_twice [OF block_latency_probe [OF assms(1,2), of rl],
      of "RqComplete ctx now" _ _ "RqComplete ctx' now'"] assms(3) by simp

theorem block_completion_idempotent_witness:
  "tracepoint__block__block_rq_complete (lru_ops 8) (lru_ops 8) vmlinux_reloc 1080000 ex_complete
     (tracepoint__block__block_rq_complete (lru_ops 8) (lru_ops 8) vmlinux_reloc 1070000 ex_complete
       \<lparr>block_start = [(\<lparr>rk_dev = 0x800010, rk_sector = 2048\<rparr>, 1000000)], block_hists = []\<rparr>)
   = tracepoint__block__block_rq_complete (lru_ops 8) (lru_ops 8) vmlinux_reloc 1070000 ex_complete
       \<lparr>block_start = [(\<lparr>rk_dev = 0x800010, rk_sector = 2048\<rparr>, 1000000)], block_hists = []\<rparr>"
  by (rule block_completion_idempotent) (simp_all add: lru_ops_bpf_lru)

text \<open>
  Every pending entry comes from an issue event of the run with a known operation for that
  request, and holds that event's time.
\<close>

theorem block_pending_from_issue:
  assumes "bpf_lru sops" and "bpf_lru hops"
    and "lookup_elem sops (block_start st) k = None"
    and "lookup_elem sops (block_start (fold (block_step sops hops rl) es st)) k = Some ts"
  shows "\<exists>ctx. RqIssue ctx ts \<in> set es \<and> issue_key rl ctx = k \<and> issue_op rl ctx \<noteq> 0xff"
proof -
  obtain e where "e \<in> set es" "block_starts rl e = Some (k, ts)"
    using latency_probe.pend_run [OF block_latency_probe [OF assms(1,2), of rl] assms(4)] assms(3)
    by auto
  then show ?thesis by (cases e rule: block_event.exhaust) (auto split: if_splits)
qed

theorem block_pending_from_issue_witness:
  "\<exists>ctx. RqIssue ctx 1000000 \<in> set [RqIssue ex_issue 1000000] \<and>
     issue_key vmlinux_reloc ctx = \<lparr>rk_dev = 0x800010, rk_sector = 2048\<rparr> \<and> issue_op vmlinux_reloc ctx \<noteq> 0xff"
  by (rule block_pending_from_issue [of "lru_ops 8" "lru_ops 8" ex_empty])
    (simp_all add: lru_ops_bpf_lru ex_empty_def issue_eq lru_update_def)

text \<open>
  The slot of a sample. A completion that finds its request pending at an earlier time
  counts in slot i, where 2^i is at most the elapsed microseconds (never less than 1) and,
  except in the last slot 25, the elapsed microseconds are below 2^(i+1).
\<close>

theorem block_sample_slot:
  assumes "bpf_lru hops" and "lookup_elem sops (block_start st) (complete_key rl ctx) = Some ts"
    and "ts \<le> now" and "unat now - unat ts < 2 ^ 63" and "complete_op rl ctx \<noteq> 0xff"
    and "hk = block_key (rk_dev (complete_key rl ctx)) (complete_op rl ctx)"
    and "lookup_elem hops (block_hists st) hk = Some x"
  shows "\<exists>i x'. lookup_elem hops (block_hists (tracepoint__block__block_rq_complete sops hops rl now ctx st)) hk
        = Some x' \<and> slots x' = (slots x)[i := slots x ! i + 1]
      \<and> i < 26 \<and> 2 ^ i \<le> max 1 ((unat now - unat ts) div 1000)
      \<and> (i = 25 \<or> max 1 ((unat now - unat ts) div 1000) < 2 ^ (i + 1))"
proof -
  define us where "us = max 1 ((unat now - unat ts) div 1000)"
  note e = spec_slot_elapsed [OF assms(3,4), folded us_def]
  have "lookup_elem hops (block_hists (tracepoint__block__block_rq_complete sops hops rl now ctx st)) hk
      = Some (bump (spec_slot us) x)"
    using assms(2,5) e(1) add_sample_hit [OF assms(1,7)] by (simp add: complete_eq e(2) assms(6))
  then show ?thesis
    unfolding us_def [symmetric] using e(3,4) spec_slot_less [of us]
    by (auto simp: bump_def MAX_SLOTS_def)
qed

theorem block_sample_slot_witness:
  "\<exists>i x'. lookup_elem (lru_ops 8) (block_hists
        (tracepoint__block__block_rq_complete (lru_ops 8) (lru_ops 8) vmlinux_reloc 1070000 ex_complete
          \<lparr>block_start = [(\<lparr>rk_dev = 0x800010, rk_sector = 2048\<rparr>, 1000000)],
           block_hists = [(block_key 0x800010 0, zero_hist)]\<rparr>)) (block_key 0x800010 0) = Some x'
      \<and> slots x' = (slots zero_hist)[i := slots zero_hist ! i + 1]
      \<and> i < 26 \<and> 2 ^ i \<le> max 1 ((unat (1070000 :: u64) - unat (1000000 :: u64)) div 1000)
      \<and> (i = 25 \<or> max 1 ((unat (1070000 :: u64) - unat (1000000 :: u64)) div 1000) < 2 ^ (i + 1))"
  by (rule block_sample_slot [OF lru_ops_bpf_lru]) simp_all

end
