(* ===== verification/NfsObjects.thy ===== *)
theory NfsObjects
  imports KernelAccess KTypes_Vfs
begin

text \<open>
  The end of every pointer chain of the NFS programs: from an inode to its super block to the
  device number of the file system.
\<close>

lemma inode_offsets:
  "offsetof struct_inode [''i_sb''] = Some (40, CPtr ''struct super_block'')"
  "offsetof struct_super_block [''s_dev''] = Some (16, td_dev_t)"
  by (simp_all add: struct_inode_def struct_super_block_def layout)

lemma inode_device:
  assumes "object_at rd struct_inode i ibs" and "object_at rd struct_super_block (load_u64 ibs 40) sbs"
  shows "core_u32 rd vmlinux_reloc struct_super_block [''s_dev'']
      (core_ptr rd vmlinux_reloc struct_inode [''i_sb''] i) = load_u32 sbs 16"
  using core_ptr_object [OF assms(1) _ inode_offsets(1)] core_u32_object [OF assms(2) _ inode_offsets(2)]
  by simp

end
