(* ===== verification/NfsLatency.thy ===== *)
theory NfsLatency
  imports LatencyProbe NfsObjects KTypes_Nfs
begin

text \<open>
  \<^verbatim>\<open>bpf/nfs_latency.c\<close>: NFS client latency. The initiate tracepoints store the time of a
  transfer under device, range and operation, the done tracepoints take the entry out and
  add the latency to the histogram of the device and operation. A handler is a function of
  the map operations, \<^verbatim>\<open>bpf_probe_read_kernel\<close> at the time of the event, the relocations,
  the clock value, the bytes of the raw tracepoint arguments and the two maps; every C
  handler returns 0.
\<close>

subsection \<open>Data\<close>

record nfs_req_key =
  nrk_dev :: u32
  nrk_count :: u32
  nrk_offset :: u64
  nrk_op :: u8
  nrk_pad :: bytes

definition zero_nfs_req_key :: nfs_req_key where
  "zero_nfs_req_key =
     \<lparr>nrk_dev = 0, nrk_count = 0, nrk_offset = 0, nrk_op = 0, nrk_pad = replicate 7 0\<rparr>"

definition struct_nfs_req_key :: ctype where
  "struct_nfs_req_key = CStruct ''nfs_req_key'' False
      [(''dev'', td___u32, None),
       (''count'', td___u32, None),
       (''offset'', td___u64, None),
       (''op'', td___u8, None),
       (''pad'', CArr td___u8 7, None)]"

definition nfs_start_decl :: map_decl where
  "nfs_start_decl =
     \<lparr>md_type = BPF_MAP_TYPE_LRU_HASH, md_max_entries = MAX_NFS_ENTRIES,
      md_key = struct_nfs_req_key, md_value = td___u64\<rparr>"

definition nfs_hists_decl :: map_decl where
  "nfs_hists_decl =
     \<lparr>md_type = BPF_MAP_TYPE_LRU_HASH, md_max_entries = 256,
      md_key = struct_nfs_hist_key, md_value = struct_hist\<rparr>"

record ('ms, 'mh) nfs_maps =
  nfs_start :: 'ms
  nfs_hists :: 'mh

definition nfs_req_key_bytes :: "nfs_req_key \<Rightarrow> bytes" where
  "nfs_req_key_bytes k =
     u32_bytes (nrk_dev k) @ u32_bytes (nrk_count k) @ u64_bytes (nrk_offset k) @
       nrk_op k # nrk_pad k"

subsection \<open>Operations\<close>

definition nfs_fill_key ::
    "probe_read \<Rightarrow> reloc \<Rightarrow> u64 \<Rightarrow> nfs_req_key \<Rightarrow> u8 \<Rightarrow> nfs_req_key" where
  "nfs_fill_key rd rl hdr nk op =
     nk\<lparr>nrk_dev :=
          core_u32 rd rl struct_super_block [''s_dev'']
            (core_ptr rd rl struct_inode [''i_sb'']
              (core_ptr rd rl struct_nfs_pgio_header [''inode''] hdr)),
        nrk_offset := core_u64 rd rl struct_nfs_pgio_header [''args'', ''offset''] hdr,
        nrk_count := core_u32 rd rl struct_nfs_pgio_header [''args'', ''count''] hdr,
        nrk_op := op\<rparr>"

definition nfs_record_latency ::
    "('ms, nfs_req_key, u64) map_ops \<Rightarrow> ('mh, nfs_hist_key, hist) map_ops \<Rightarrow> u64 \<Rightarrow>
      nfs_req_key \<Rightarrow> nfs_hist_key \<Rightarrow> ('ms, 'mh) nfs_maps \<Rightarrow> ('ms, 'mh) nfs_maps" where
  "nfs_record_latency start_ops hist_ops now nk hk st =
     (case lookup_elem start_ops (nfs_start st) nk of
        None \<Rightarrow> st
      | Some ts \<Rightarrow>
          let delta = now - ts :: s64;
              st = st\<lparr>nfs_start := delete_elem start_ops (nfs_start st) nk\<rparr>
          in if neg_s64 delta then st
          else
            let delta = div_s64 delta 1000;
                delta = (if delta = 0 then 1 else delta);
                (histp, st) =
                  (case lookup_elem hist_ops (nfs_hists st) hk of
                     Some h \<Rightarrow> (Some h, st)
                   | None \<Rightarrow>
                       let st = st\<lparr>nfs_hists := update_elem hist_ops (nfs_hists st) hk zero_hist\<rparr>
                       in (lookup_elem hist_ops (nfs_hists st) hk, st))
            in case histp of
              None \<Rightarrow> st
            | Some h \<Rightarrow>
                let slot = log2l delta;
                    slot = (if of_nat MAX_SLOTS \<le> slot then of_nat MAX_SLOTS - 1 else slot)
                in st\<lparr>nfs_hists := write_elem hist_ops (nfs_hists st) hk (hist_add slot h)\<rparr>)"

text \<open>\<^verbatim>\<open>ctx->args[i]\<close>.\<close>

definition raw_tp_arg :: "reloc \<Rightarrow> bytes \<Rightarrow> nat \<Rightarrow> u64" where
  "raw_tp_arg rl ctx i = load_u64 ctx (rl struct_bpf_raw_tracepoint_args [''args''] + 8 * i)"

definition raw_tp_nfs_initiate_read ::
    "('ms, nfs_req_key, u64) map_ops \<Rightarrow> probe_read \<Rightarrow> reloc \<Rightarrow> u64 \<Rightarrow> bytes \<Rightarrow>
      ('ms, 'mh) nfs_maps \<Rightarrow> ('ms, 'mh) nfs_maps" where
  "raw_tp_nfs_initiate_read start_ops rd rl now ctx st =
     (let ts = now; nk = nfs_fill_key rd rl (raw_tp_arg rl ctx 0) zero_nfs_req_key 0
      in st\<lparr>nfs_start := update_elem start_ops (nfs_start st) nk ts\<rparr>)"

definition raw_tp_nfs_initiate_write ::
    "('ms, nfs_req_key, u64) map_ops \<Rightarrow> probe_read \<Rightarrow> reloc \<Rightarrow> u64 \<Rightarrow> bytes \<Rightarrow>
      ('ms, 'mh) nfs_maps \<Rightarrow> ('ms, 'mh) nfs_maps" where
  "raw_tp_nfs_initiate_write start_ops rd rl now ctx st =
     (let ts = now; nk = nfs_fill_key rd rl (raw_tp_arg rl ctx 0) zero_nfs_req_key 1
      in st\<lparr>nfs_start := update_elem start_ops (nfs_start st) nk ts\<rparr>)"

definition raw_tp_nfs_readpage_done ::
    "('ms, nfs_req_key, u64) map_ops \<Rightarrow> ('mh, nfs_hist_key, hist) map_ops \<Rightarrow> probe_read \<Rightarrow> reloc \<Rightarrow>
      u64 \<Rightarrow> bytes \<Rightarrow> ('ms, 'mh) nfs_maps \<Rightarrow> ('ms, 'mh) nfs_maps" where
  "raw_tp_nfs_readpage_done start_ops hist_ops rd rl now ctx st =
     (let nk = nfs_fill_key rd rl (raw_tp_arg rl ctx 1) zero_nfs_req_key 0;
          hk = zero_nfs_hist_key\<lparr>nhk_dev := nrk_dev nk, nhk_op := 0\<rparr>
      in nfs_record_latency start_ops hist_ops now nk hk st)"

definition raw_tp_nfs_writeback_done ::
    "('ms, nfs_req_key, u64) map_ops \<Rightarrow> ('mh, nfs_hist_key, hist) map_ops \<Rightarrow> probe_read \<Rightarrow> reloc \<Rightarrow>
      u64 \<Rightarrow> bytes \<Rightarrow> ('ms, 'mh) nfs_maps \<Rightarrow> ('ms, 'mh) nfs_maps" where
  "raw_tp_nfs_writeback_done start_ops hist_ops rd rl now ctx st =
     (let nk = nfs_fill_key rd rl (raw_tp_arg rl ctx 1) zero_nfs_req_key 1;
          hk = zero_nfs_hist_key\<lparr>nhk_dev := nrk_dev nk, nhk_op := 1\<rparr>
      in nfs_record_latency start_ops hist_ops now nk hk st)"

subsection \<open>Events\<close>

datatype nfs_event =
    InitiateRead probe_read bytes u64
  | InitiateWrite probe_read bytes u64
  | ReadpageDone probe_read bytes u64
  | WritebackDone probe_read bytes u64

fun nfs_step :: "('ms, nfs_req_key, u64) map_ops \<Rightarrow> ('mh, nfs_hist_key, hist) map_ops \<Rightarrow> reloc \<Rightarrow>
    nfs_event \<Rightarrow> ('ms, 'mh) nfs_maps \<Rightarrow> ('ms, 'mh) nfs_maps" where
  "nfs_step sops hops rl (InitiateRead rd ctx now) st =
     raw_tp_nfs_initiate_read sops rd rl now ctx st"
| "nfs_step sops hops rl (InitiateWrite rd ctx now) st =
     raw_tp_nfs_initiate_write sops rd rl now ctx st"
| "nfs_step sops hops rl (ReadpageDone rd ctx now) st =
     raw_tp_nfs_readpage_done sops hops rd rl now ctx st"
| "nfs_step sops hops rl (WritebackDone rd ctx now) st =
     raw_tp_nfs_writeback_done sops hops rd rl now ctx st"

text \<open>The transfer a tracepoint is about, from the header at the given argument.\<close>

definition nfs_key :: "probe_read \<Rightarrow> reloc \<Rightarrow> bytes \<Rightarrow> nat \<Rightarrow> u8 \<Rightarrow> nfs_req_key" where
  "nfs_key rd rl ctx i op = nfs_fill_key rd rl (raw_tp_arg rl ctx i) zero_nfs_req_key op"

definition nfs_hist_of :: "u32 \<Rightarrow> u8 \<Rightarrow> nfs_hist_key" where
  "nfs_hist_of dev op = \<lparr>nhk_dev = dev, nhk_op = op, nhk_pad = replicate 3 0\<rparr>"

fun nfs_starts :: "reloc \<Rightarrow> nfs_event \<Rightarrow> (nfs_req_key \<times> u64) option" where
  "nfs_starts rl (InitiateRead rd ctx now) = Some (nfs_key rd rl ctx 0 0, now)"
| "nfs_starts rl (InitiateWrite rd ctx now) = Some (nfs_key rd rl ctx 0 1, now)"
| "nfs_starts rl e = None"

fun nfs_stops :: "reloc \<Rightarrow> nfs_event \<Rightarrow> (nfs_req_key \<times> u64) option" where
  "nfs_stops rl (ReadpageDone rd ctx now) = Some (nfs_key rd rl ctx 1 0, now)"
| "nfs_stops rl (WritebackDone rd ctx now) = Some (nfs_key rd rl ctx 1 1, now)"
| "nfs_stops rl e = None"

fun nfs_target :: "reloc \<Rightarrow> nfs_event \<Rightarrow> u64 \<Rightarrow> nfs_hist_key option" where
  "nfs_target rl (ReadpageDone rd ctx now) ts =
     Some (nfs_hist_of (nrk_dev (nfs_key rd rl ctx 1 0)) 0)"
| "nfs_target rl (WritebackDone rd ctx now) ts =
     Some (nfs_hist_of (nrk_dev (nfs_key rd rl ctx 1 1)) 1)"
| "nfs_target rl e ts = None"

subsection \<open>The program meets the probe contract\<close>

lemma record_latency_eq:
  "nfs_record_latency sops hops now nk hk st =
     (case lookup_elem sops (nfs_start st) nk of
        None \<Rightarrow> st
      | Some ts \<Rightarrow>
          (let st' = st\<lparr>nfs_start := delete_elem sops (nfs_start st) nk\<rparr>
           in if spec_drop now ts then st'
              else st'\<lparr>nfs_hists := add_sample hops hk (spec_slot (spec_us now ts)) (nfs_hists st')\<rparr>))"
proof (cases "lookup_elem sops (nfs_start st) nk")
  case None
  then show ?thesis by (simp add: nfs_record_latency_def)
next
  case (Some ts)
  note defs = nfs_record_latency_def Let_def neg_s64_drop add_sample_def
  show ?thesis
  proof (cases "spec_drop now ts")
    case True
    with Some show ?thesis by (simp add: defs)
  next
    case False
    show ?thesis
    proof (cases "lookup_elem hops (nfs_hists st) hk")
      case None
      with Some False show ?thesis
        by (cases "lookup_elem hops (update_elem hops (nfs_hists st) hk zero_hist) hk")
          (simp_all add: defs hist_add_bump)
    next
      case (Some h)
      with \<open>lookup_elem sops _ _ = Some ts\<close> False show ?thesis
        by (simp add: defs hist_add_bump)
    qed
  qed
qed

lemma zero_nfs_key_upd: "zero_nfs_hist_key\<lparr>nhk_dev := d, nhk_op := op\<rparr> = nfs_hist_of d op"
  by (simp add: zero_nfs_hist_key_def nfs_hist_of_def)

lemmas nfs_step_simps = record_latency_eq Let_def zero_nfs_key_upd nfs_key_def
  raw_tp_nfs_initiate_read_def raw_tp_nfs_initiate_write_def
  raw_tp_nfs_readpage_done_def raw_tp_nfs_writeback_done_def

lemma nfs_latency_probe:
  assumes "bpf_lru sops" and "bpf_lru hops"
  shows "latency_probe (\<lambda>s. lookup_elem sops (nfs_start s)) (\<lambda>s. lookup_elem hops (nfs_hists s))
    (nfs_step sops hops rl) (nfs_starts rl) (nfs_stops rl) id (nfs_target rl)"
proof (unfold_locales, goal_cases)
  case (1 e)
  then show ?case by (cases e) auto
next
  case (2 e s)
  then show ?case by (cases e) auto
next
  case (3 e k v s)
  then show ?case
    using assms(1) by (cases e) (auto simp: nfs_step_simps bpf_lru.update)
next
  case (4 e k now s)
  then show ?case by (cases e) (auto simp: nfs_step_simps)
next
  case (5 e k now s v)
  then show ?case
    using assms(1) by (cases e) (auto simp: nfs_step_simps bpf_lru.delete)
next
  case (6 e k now s v)
  then show ?case by (cases e) (auto simp: nfs_step_simps)
next
  case (7 e k now s v h x)
  then show ?case
    using add_sample_hit [OF assms(2)] by (cases e) (auto simp: nfs_step_simps)
next
  case (8 e k now s v h)
  then have "nfs_hists (nfs_step sops hops rl e s)
      = add_sample hops h (spec_slot (spec_us now (id v))) (nfs_hists s)"
    by (cases e) (auto simp: nfs_step_simps)
  with 8 show ?case
    using add_sample_new [OF assms(2), of "nfs_hists s" h] unfolding id_apply by simp
qed

lemma nfs_latency_probe_exact:
  assumes "bpf_lru sops" and "bpf_lru_room hops room"
  shows "latency_probe_exact (\<lambda>s. lookup_elem sops (nfs_start s))
    (\<lambda>s. lookup_elem hops (nfs_hists s))
    (nfs_step sops hops rl) (nfs_starts rl) (nfs_stops rl) id (nfs_target rl)
    (\<lambda>s. room (nfs_hists s))"
proof (intro latency_probe_exact.intro latency_probe_exact_axioms.intro nfs_latency_probe)
  show "bpf_lru sops" by (rule assms(1))
  show "bpf_lru hops" using assms(2) by (rule bpf_lru_room.axioms)
next
  fix e k now v h and s :: "('a, 'b) nfs_maps"
  assume "nfs_stops rl e = Some (k, now)" "lookup_elem sops (nfs_start s) k = Some v"
    "\<not> spec_drop now (id v)" "nfs_target rl e v = Some h"
    "lookup_elem hops (nfs_hists s) h = None" "room (nfs_hists s)"
  then show "lookup_elem hops (nfs_hists (nfs_step sops hops rl e s))
      = (lookup_elem hops (nfs_hists s))(h \<mapsto> bump (spec_slot (spec_us now (id v))) zero_hist)"
    using add_sample_room [OF assms(2)] by (cases e) (auto simp: nfs_step_simps)
qed

lemma nfs_latency_probe_room:
  assumes "bpf_lru_room sops sroom" and "bpf_lru_room hops hroom"
  shows "latency_probe_room (\<lambda>s. lookup_elem sops (nfs_start s))
    (\<lambda>s. lookup_elem hops (nfs_hists s))
    (nfs_step sops hops rl) (nfs_starts rl) (nfs_stops rl) id (nfs_target rl)
    (\<lambda>s. hroom (nfs_hists s)) (\<lambda>s. sroom (nfs_start s))"
proof (intro latency_probe_room.intro latency_probe_room_axioms.intro nfs_latency_probe_exact)
  show "bpf_lru sops" using assms(1) by (rule bpf_lru_room.axioms)
  show "bpf_lru_room hops hroom" by (rule assms(2))
next
  fix e k v and s :: "('a, 'b) nfs_maps"
  assume "nfs_starts rl e = Some (k, v)" "sroom (nfs_start s)"
  then show "lookup_elem sops (nfs_start (nfs_step sops hops rl e s))
      = (lookup_elem sops (nfs_start s))(k \<mapsto> v)"
    using bpf_lru_room.update_room [OF assms(1)] by (cases e) (auto simp: nfs_step_simps)
qed

text \<open>The maps of the program, at the sizes it declares.\<close>

interpretation nfs_lru: latency_probe_room
  "\<lambda>s. map_of (nfs_start s)" "\<lambda>s. map_of (nfs_hists s)"
  "nfs_step (lru_ops MAX_NFS_ENTRIES) (lru_ops 256) vmlinux_reloc"
  "nfs_starts vmlinux_reloc" "nfs_stops vmlinux_reloc" id "nfs_target vmlinux_reloc"
  "\<lambda>s. lru_room 256 (nfs_hists s)" "\<lambda>s. lru_room MAX_NFS_ENTRIES (nfs_start s)"
proof -
  have "bpf_lru_room (lru_ops MAX_NFS_ENTRIES) (lru_room MAX_NFS_ENTRIES)"
    "bpf_lru_room (lru_ops 256) (lru_room 256)"
    by (simp_all add: lru_ops_contract MAX_NFS_ENTRIES_def)
  from nfs_latency_probe_room [OF this, of vmlinux_reloc]
  show "latency_probe_room (\<lambda>s. map_of (nfs_start s)) (\<lambda>s. map_of (nfs_hists s))
      (nfs_step (lru_ops MAX_NFS_ENTRIES) (lru_ops 256) vmlinux_reloc)
      (nfs_starts vmlinux_reloc) (nfs_stops vmlinux_reloc) id (nfs_target vmlinux_reloc)
      (\<lambda>s. lru_room 256 (nfs_hists s)) (\<lambda>s. lru_room MAX_NFS_ENTRIES (nfs_start s))"
    by simp
qed

subsection \<open>Reading the transfer header\<close>

lemma pgio_header_offsets:
  "offsetof struct_nfs_pgio_header [''inode''] = Some (0, CPtr ''struct inode'')"
  "offsetof struct_nfs_pgio_header [''args'', ''offset''] = Some (664, td___u64)"
  "offsetof struct_nfs_pgio_header [''args'', ''count''] = Some (672, td___u32)"
  by (simp_all add: struct_nfs_pgio_header_def struct_nfs_pgio_args_def layout)

text \<open>
  Given a transfer header, its inode and its super block in readable memory, the key holds
  the device number of the super block, the byte offset and count of the transfer and the
  operation, whatever the key held before.
\<close>

lemma nfs_fill_key_reads_header:
  assumes "object_at rd struct_nfs_pgio_header hdr hbs"
    and "object_at rd struct_inode (load_u64 hbs 0) ibs"
    and "object_at rd struct_super_block (load_u64 ibs 40) sbs"
  shows "nfs_fill_key rd vmlinux_reloc hdr nk op
    = nk\<lparr>nrk_dev := load_u32 sbs 16, nrk_offset := load_u64 hbs 664, nrk_count := load_u32 hbs 672,
        nrk_op := op\<rparr>"
  using core_ptr_object [OF assms(1) _ pgio_header_offsets(1)]
    core_u64_object [OF assms(1) _ pgio_header_offsets(2)]
    core_u32_object [OF assms(1) _ pgio_header_offsets(3)]
    inode_device [OF assms(2,3)]
  by (simp add: nfs_fill_key_def)

text \<open>
  Concrete memory: a header at \<^verbatim>\<open>0x1000\<close>, its inode at \<^verbatim>\<open>0x4000\<close> and its super block at
  \<^verbatim>\<open>0x6000\<close>; reads elsewhere give zeros.
\<close>

definition ex_header :: bytes where
  "ex_header = store (store (store (replicate (csize struct_nfs_pgio_header) 0) 0 (u64_bytes 0x4000))
     664 (u64_bytes 65536)) 672 (u32_bytes 4096)"

definition ex_inode :: bytes where
  "ex_inode = store (replicate (csize struct_inode) 0) 40 (u64_bytes 0x6000)"

definition ex_sb :: bytes where
  "ex_sb = store (replicate (csize struct_super_block) 0) 16 (u32_bytes 0x2A)"

definition ex_mem :: probe_read where
  "ex_mem = mem_at 0x1000 ex_header (mem_at 0x4000 ex_inode (mem_at 0x6000 ex_sb (\<lambda>a n. replicate n 0)))"

lemma ex_mem_objects:
  "object_at ex_mem struct_nfs_pgio_header 0x1000 ex_header"
  "object_at ex_mem struct_inode 0x4000 ex_inode"
  "object_at ex_mem struct_super_block 0x6000 ex_sb"
  unfolding ex_mem_def
  by (intro mem_at_other mem_at_object; simp add: ex_header_def ex_inode_def ex_sb_def length_store)+

subsection \<open>Properties\<close>

definition nfs_view :: "('ms, nfs_req_key, u64) map_ops \<Rightarrow> ('mh, nfs_hist_key, hist) map_ops \<Rightarrow>
    ('ms, 'mh) nfs_maps \<Rightarrow> (nfs_req_key, u64, nfs_hist_key) probe_state" where
  "nfs_view sops hops s =
     (lookup_elem sops (nfs_start s), \<lambda>h. hist_entry (lookup_elem hops (nfs_hists s) h))"

definition nfs_spec :: "reloc \<Rightarrow> nfs_event \<Rightarrow> (nfs_req_key, u64, nfs_hist_key) probe_state \<Rightarrow>
    (nfs_req_key, u64, nfs_hist_key) probe_state" where
  "nfs_spec rl = probe_spec (nfs_starts rl) (nfs_stops rl) id (nfs_target rl)"

text \<open>
  Concrete events: the header at \<^verbatim>\<open>0x1000\<close> is the first argument of an initiate and the second
  of a done tracepoint.
\<close>

definition ex_args :: bytes where
  "ex_args = u64_bytes 0x1000 @ u64_bytes 0x1000"

definition ex_key :: "u8 \<Rightarrow> nfs_req_key" where
  "ex_key op = \<lparr>nrk_dev = 0x2A, nrk_count = 4096, nrk_offset = 65536, nrk_op = op, nrk_pad = replicate 7 0\<rparr>"

definition ex_maps :: "((nfs_req_key \<times> u64) list, (nfs_hist_key \<times> hist) list) nfs_maps" where
  "ex_maps = \<lparr>nfs_start = [], nfs_hists = []\<rparr>"

lemma ex_mem_header:
  "core_ptr ex_mem vmlinux_reloc struct_nfs_pgio_header [''inode''] 0x1000 = 0x4000"
  "core_u64 ex_mem vmlinux_reloc struct_nfs_pgio_header [''args'', ''offset''] 0x1000 = 65536"
  "core_u32 ex_mem vmlinux_reloc struct_nfs_pgio_header [''args'', ''count''] 0x1000 = 4096"
  "core_u32 ex_mem vmlinux_reloc struct_super_block [''s_dev'']
     (core_ptr ex_mem vmlinux_reloc struct_inode [''i_sb''] 0x4000) = 0x2A"
  using core_ptr_object [OF ex_mem_objects(1) _ pgio_header_offsets(1)]
    core_u64_object [OF ex_mem_objects(1) _ pgio_header_offsets(2)]
    core_u32_object [OF ex_mem_objects(1) _ pgio_header_offsets(3)]
    inode_device [OF ex_mem_objects(2), of ex_sb] ex_mem_objects(3)
  by (simp_all add: ex_header_def ex_inode_def ex_sb_def length_store)

lemma ex_args_header: "i < 2 \<Longrightarrow> raw_tp_arg vmlinux_reloc ex_args i = 0x1000"
  by (auto simp: raw_tp_arg_def vmlinux_reloc_def struct_bpf_raw_tracepoint_args_def layout
      load_u64_def load_def ex_args_def less_2_cases_iff)

lemma raw_tp_arg_offset: "raw_tp_arg vmlinux_reloc ctx i = load_u64 ctx (8 * i)"
  by (simp add: raw_tp_arg_def vmlinux_reloc_def struct_bpf_raw_tracepoint_args_def layout)

text \<open>
  C39: The NFS handlers read the members they name. Let the raw tracepoint arguments hold the address
  of a transfer header, as the first argument where a transfer is initiated and as the second
  where it is done, and let the header, its inode and its super block be in memory as the
  kernel lays them out, with nothing known of memory outside these three objects. Then the
  handlers pair a transfer by the device number of its super block, its byte offset and count
  and its direction, and count it under that device.
\<close>

theorem nfs_handlers_read_header:
  assumes "object_at rd struct_nfs_pgio_header hdr hbs"
    and "object_at rd struct_inode (load_u64 hbs 0) ibs"
    and "object_at rd struct_super_block (load_u64 ibs 40) sbs"
    and "load_u64 ictx 0 = hdr" and "load_u64 dctx 8 = hdr"
    and "nk = (\<lambda>op. \<lparr>nrk_dev = load_u32 sbs 16, nrk_count = load_u32 hbs 672, nrk_offset = load_u64 hbs 664, nrk_op = op,
      nrk_pad = replicate 7 0\<rparr>)"
    and "hk = (\<lambda>op. \<lparr>nhk_dev = load_u32 sbs 16, nhk_op = op, nhk_pad = replicate 3 0\<rparr>)"
  shows "raw_tp_nfs_initiate_read sops rd vmlinux_reloc now ictx st = st\<lparr>nfs_start := update_elem sops (nfs_start st) (nk 0) now\<rparr>
    \<and> raw_tp_nfs_initiate_write sops rd vmlinux_reloc now ictx st = st\<lparr>nfs_start := update_elem sops (nfs_start st) (nk 1) now\<rparr>
    \<and> raw_tp_nfs_readpage_done sops hops rd vmlinux_reloc now dctx st = nfs_record_latency sops hops now (nk 0) (hk 0) st
    \<and> raw_tp_nfs_writeback_done sops hops rd vmlinux_reloc now dctx st = nfs_record_latency sops hops now (nk 1) (hk 1) st"
  using assms(4-7) nfs_fill_key_reads_header [OF assms(1-3)]
  by (simp add: raw_tp_nfs_initiate_read_def raw_tp_nfs_initiate_write_def raw_tp_nfs_readpage_done_def raw_tp_nfs_writeback_done_def
      raw_tp_arg_offset zero_nfs_req_key_def zero_nfs_hist_key_def)

theorem nfs_handlers_read_header_witness:
  "raw_tp_nfs_initiate_write (lru_ops 8) ex_mem vmlinux_reloc 7 ex_args ex_maps =
     ex_maps\<lparr>nfs_start := lru_update 8 (nfs_start ex_maps) (ex_key 1) 7\<rparr>"
proof -
  have "load_u64 ex_args 0 = 0x1000" "load_u64 ex_args 8 = 0x1000"
    using ex_args_header [of 0] ex_args_header [of 1] by (simp_all add: raw_tp_arg_offset)
  moreover have "load_u64 ex_header 0 = 0x4000" "load_u64 ex_inode 40 = 0x6000"
    by (simp_all add: ex_header_def ex_inode_def length_store)
  ultimately show ?thesis
    using nfs_handlers_read_header [of ex_mem "0x1000" ex_header ex_inode ex_sb ex_args ex_args, OF _ _ _ _ _ refl refl,
        of "lru_ops 8" 7 ex_maps "lru_ops 8"] ex_mem_objects
    by (simp add: ex_header_def ex_sb_def length_store ex_key_def lru_ops_def)
qed

lemma ex_nfs_key [simp]: "i < 2 \<Longrightarrow> nfs_key ex_mem vmlinux_reloc ex_args i op = ex_key op"
  by (simp add: nfs_key_def nfs_fill_key_def ex_args_header ex_mem_header ex_key_def zero_nfs_req_key_def)

lemma ex_key_simps [simp]: "nrk_dev (ex_key op) = 0x2A" "nrk_op (ex_key op) = op"
  by (simp_all add: ex_key_def)

text \<open>
  C3: Refinement. As long as neither map is full, any sequence of initiate and done events
  leaves the two NFS maps exactly as the reference machine leaves its pending transfers and
  histograms.
\<close>

theorem nfs_refines_spec:
  assumes "bpf_lru_room sops sroom" and "bpf_lru_room hops hroom"
    and "all_run (nfs_step sops hops rl) (\<lambda>s. sroom (nfs_start s) \<and> hroom (nfs_hists s)) es st"
  shows "nfs_view sops hops (fold (nfs_step sops hops rl) es st)
    = fold (nfs_spec rl) es (nfs_view sops hops st)"
proof -
  note P = nfs_latency_probe_room [OF assms(1,2), of rl]
  show ?thesis
    using latency_probe_room.abs_run [OF P assms(3)]
    unfolding latency_probe_room.abs_def [OF P] nfs_view_def nfs_spec_def .
qed

theorem nfs_refines_spec_witness:
  "nfs_view (lru_ops 8) (lru_ops 8)
     (fold (nfs_step (lru_ops 8) (lru_ops 8) vmlinux_reloc)
       [InitiateWrite ex_mem ex_args 1000000, WritebackDone ex_mem ex_args 1070000] ex_maps)
   = fold (nfs_spec vmlinux_reloc)
       [InitiateWrite ex_mem ex_args 1000000, WritebackDone ex_mem ex_args 1070000]
       (Map.empty, \<lambda>_. zero_hist)"
  using nfs_refines_spec [of "lru_ops 8" "lru_room 8" "lru_ops 8" "lru_room 8" vmlinux_reloc
      "[InitiateWrite ex_mem ex_args 1000000, WritebackDone ex_mem ex_args 1070000]" ex_maps]
  by (simp add: lru_ops_contract ex_maps_def lru_room_def lru_update_def nfs_view_def hist_entry_def
      raw_tp_nfs_initiate_write_def Let_def)

text \<open>
  A transfer, read or write, that is initiated, not touched by the events in between and
  then done with the same device, range and operation adds exactly one sample, in the slot of
  its latency, to the histogram of its device and operation; every other histogram is as it
  was, and the transfer is no longer pending.
\<close>

theorem nfs_roundtrip:
  assumes "bpf_lru_room sops sroom" and "bpf_lru_room hops hroom"
    and "(ei, ed, op) \<in> {(InitiateRead rd ictx ts, ReadpageDone rd' cctx now, 0),
      (InitiateWrite rd ictx ts, WritebackDone rd' cctx now, 1)}"
    and "nfs_key rd' rl cctx 1 op = nfs_key rd rl ictx 0 op" and "k = nfs_key rd rl ictx 0 op"
    and "\<not> spec_drop now ts"
    and "\<forall>e\<in>set es. \<not> touches (nfs_starts rl) (nfs_stops rl) k e"
    and "all_run (nfs_step sops hops rl) (\<lambda>s. sroom (nfs_start s)) (ei # es) st"
    and "st1 = fold (nfs_step sops hops rl) (ei # es) st" and "hroom (nfs_hists st1)"
    and "st2 = nfs_step sops hops rl ed st1" and "hk = nfs_hist_of (nrk_dev k) op"
  shows "lookup_elem hops (nfs_hists st2)
      = (lookup_elem hops (nfs_hists st1))
          (hk \<mapsto> bump (spec_slot (spec_us now ts)) (hist_entry (lookup_elem hops (nfs_hists st1) hk)))
    \<and> lookup_elem sops (nfs_start st2) = (lookup_elem sops (nfs_start st1))(k := None)"
  using latency_probe_room.roundtrip [OF nfs_latency_probe_room [OF assms(1,2), of rl], of ei k ts ed now hk es st]
    assms
  by (auto simp del: nfs_step.simps)

theorem nfs_roundtrip_witness:
  "map_of (nfs_hists (fold (nfs_step (lru_ops 8) (lru_ops 8) vmlinux_reloc)
       [InitiateWrite ex_mem ex_args 1000000, InitiateRead ex_mem ex_args 1001000,
        WritebackDone ex_mem ex_args 1070000] ex_maps))
   = [nfs_hist_of 0x2A 1 \<mapsto> bump (spec_slot 70) zero_hist]"
  using nfs_roundtrip [OF _ _ _ _ refl _ _ _ refl _ refl refl, where sops = "lru_ops 8"
      and sroom = "lru_room 8" and hops = "lru_ops 8" and hroom = "lru_room 8" and rl = vmlinux_reloc
      and rd = ex_mem and rd' = ex_mem and ictx = ex_args and cctx = ex_args and op = 1
      and ei = "InitiateWrite ex_mem ex_args 1000000" and ed = "WritebackDone ex_mem ex_args 1070000"
      and now = 1070000 and ts = 1000000 and es = "[InitiateRead ex_mem ex_args 1001000]" and st = ex_maps]
  by (simp add: lru_ops_contract spec_drop_def spec_us_def touches_def hist_entry_def ex_maps_def
      lru_room_def lru_update_def raw_tp_nfs_initiate_write_def raw_tp_nfs_initiate_read_def Let_def ex_key_def)

lemma ex_step:
  "nfs_step sops hops vmlinux_reloc (InitiateRead ex_mem ex_args t) st
     = st\<lparr>nfs_start := update_elem sops (nfs_start st) (ex_key 0) t\<rparr>"
  "nfs_step sops hops vmlinux_reloc (ReadpageDone ex_mem ex_args t) st
     = nfs_record_latency sops hops t (ex_key 0) (nfs_hist_of 0x2A 0) st"
  "nfs_step sops hops vmlinux_reloc (WritebackDone ex_mem ex_args t) st
     = nfs_record_latency sops hops t (ex_key 1) (nfs_hist_of 0x2A 1) st"
  by (simp_all add: raw_tp_nfs_initiate_read_def raw_tp_nfs_readpage_done_def raw_tp_nfs_writeback_done_def
      Let_def zero_nfs_key_upd nfs_key_def [symmetric])

lemma fill_key_op [simp]: "nrk_op (nfs_fill_key rd rl hdr nk op) = op"
  by (simp add: nfs_fill_key_def)

lemma record_latency_frame:
  assumes "bpf_lru sops" and "bpf_lru hops"
  shows "k \<noteq> nk \<Longrightarrow> lookup_elem sops (nfs_start (nfs_record_latency sops hops now nk hk st)) k
      = lookup_elem sops (nfs_start st) k"
    and "h \<noteq> hk \<Longrightarrow> lookup_elem hops (nfs_hists (nfs_record_latency sops hops now nk hk st)) h
      \<in> {lookup_elem hops (nfs_hists st) h, None}"
proof -
  show "k \<noteq> nk \<Longrightarrow> lookup_elem sops (nfs_start (nfs_record_latency sops hops now nk hk st)) k
      = lookup_elem sops (nfs_start st) k"
    using bpf_lru.delete [OF assms(1)]
    by (cases "lookup_elem sops (nfs_start st) nk") (simp_all add: record_latency_eq Let_def)
  assume h: "h \<noteq> hk"
  show "lookup_elem hops (nfs_hists (nfs_record_latency sops hops now nk hk st)) h
      \<in> {lookup_elem hops (nfs_hists st) h, None}"
    using add_sample_frame [OF assms(2) h]
    by (cases "lookup_elem sops (nfs_start st) nk") (auto simp: record_latency_eq Let_def)
qed

text \<open>
  The end of a read never takes out a pending entry of another operation and never changes
  a histogram of another operation, apart from what the map may evict when it makes room for a
  new histogram.
\<close>

theorem nfs_read_write_separate:
  assumes "bpf_lru sops" and "bpf_lru hops" and "nrk_op k \<noteq> 0" and "nhk_op h \<noteq> 0"
    and "st' = raw_tp_nfs_readpage_done sops hops rd rl now ctx st"
  shows "lookup_elem sops (nfs_start st') k = lookup_elem sops (nfs_start st) k
    \<and> (lookup_elem hops (nfs_hists st') h = lookup_elem hops (nfs_hists st) h
       \<or> lookup_elem hops (nfs_hists st') h = None)"
proof -
  define nk where "nk = nfs_fill_key rd rl (raw_tp_arg rl ctx 1) zero_nfs_req_key 0"
  define hk where "hk = nfs_hist_of (nrk_dev nk) 0"
  have "k \<noteq> nk" "h \<noteq> hk" using assms(3,4) by (auto simp: nk_def hk_def nfs_hist_of_def)
  moreover have "st' = nfs_record_latency sops hops now nk hk st"
    by (simp add: assms(5) raw_tp_nfs_readpage_done_def Let_def zero_nfs_key_upd nk_def hk_def)
  ultimately show ?thesis using record_latency_frame [OF assms(1,2)] by auto
qed

theorem nfs_read_write_separate_witness:
  "map_of (nfs_start (raw_tp_nfs_readpage_done (lru_ops 8) (lru_ops 8) ex_mem vmlinux_reloc 1070000 ex_args
     \<lparr>nfs_start = [(ex_key 0, 1000000), (ex_key 1, 1000000)], nfs_hists = []\<rparr>)) (ex_key 1) = Some 1000000"
  using nfs_read_write_separate [OF lru_ops_bpf_lru lru_ops_bpf_lru _ _ refl, of 8 8 "ex_key 1" "nfs_hist_of 0x2A 1"
     ex_mem vmlinux_reloc 1070000 ex_args "\<lparr>nfs_start = [(ex_key 0, 1000000), (ex_key 1, 1000000)], nfs_hists = []\<rparr>"]
  by (simp add: nfs_hist_of_def ex_key_def)

text \<open>
  Conservation for NFS. While the histogram map has room, the samples of a histogram grow
  by exactly the number of done events of the run that found their transfer pending with a
  time that did not go backwards.
\<close>

theorem nfs_counts_conserved:
  assumes "bpf_lru sops" and "bpf_lru_room hops hroom"
    and "hists_wf (lookup_elem hops (nfs_hists st))"
    and "all_run (nfs_step sops hops rl) (\<lambda>s. hroom (nfs_hists s)) es st"
  shows "total (lookup_elem hops (nfs_hists (fold (nfs_step sops hops rl) es st)) h)
    = total (lookup_elem hops (nfs_hists st) h) +
      of_nat (count_run (nfs_step sops hops rl)
        (\<lambda>e s. recorded_in (\<lambda>s. lookup_elem sops (nfs_start s)) (nfs_stops rl) id (nfs_target rl) e s
           = Some h) es st)"
proof -
  note P = nfs_latency_probe_exact [OF assms(1,2), of rl]
  show ?thesis
    using latency_probe_exact.total_run [OF P assms(3,4)]
    unfolding latency_probe.records_def [OF latency_probe_exact.axioms(1) [OF P]] .
qed

theorem nfs_counts_conserved_witness:
  "total (map_of (nfs_hists (fold (nfs_step (lru_ops 8) (lru_ops 8) vmlinux_reloc)
     [InitiateRead ex_mem ex_args 1000000, WritebackDone ex_mem ex_args 1001000,
      ReadpageDone ex_mem ex_args 1070000, ReadpageDone ex_mem ex_args 1080000] ex_maps)) (nfs_hist_of 0x2A 0)) = 1"
  using nfs_counts_conserved [of "lru_ops 8" "lru_ops 8" "lru_room 8" ex_maps vmlinux_reloc
     "[InitiateRead ex_mem ex_args 1000000, WritebackDone ex_mem ex_args 1001000,
      ReadpageDone ex_mem ex_args 1070000, ReadpageDone ex_mem ex_args 1080000]" "nfs_hist_of 0x2A 0"]
  by (simp add: lru_ops_contract lru_ops_bpf_lru ex_maps_def hists_wf_def add_sample_def
      lru_room_def lru_update_def total_def recorded_in_def spec_drop_def ex_step record_latency_eq ex_key_def del: nfs_step.simps)

end
