(* ===== verification/NfsKprobe.thy ===== *)
theory NfsKprobe
  imports LatencyProbe NfsObjects
begin

text \<open>
  \<^verbatim>\<open>bpf/nfs_kprobe_latency.c\<close>: latency of the NFS file operations. The entry probes store
  the time, device and operation of a call under the calling thread; the one return probe,
  attached to every traced function, takes the entry out and adds the latency to the
  histogram the entry names. A handler is a function of the map operations,
  \<^verbatim>\<open>bpf_probe_read_kernel\<close>, the relocations, the clock value, the thread
  (\<^verbatim>\<open>bpf_get_current_pid_tgid()\<close>), the traced function's argument and the two maps; every C
  handler returns 0.
\<close>

subsection \<open>Data\<close>

record nfs_kprobe_start_val =
  ksv_ts :: u64
  ksv_dev :: u32
  ksv_op :: u8
  ksv_pad :: bytes

definition struct_nfs_kprobe_start_val :: ctype where
  "struct_nfs_kprobe_start_val = CStruct ''nfs_kprobe_start_val'' False
      [(''ts'', td___u64, None),
       (''dev'', td___u32, None),
       (''op'', td___u8, None),
       (''pad'', CArr td___u8 3, None)]"

definition nfs_kprobe_start_decl :: map_decl where
  "nfs_kprobe_start_decl =
     \<lparr>md_type = BPF_MAP_TYPE_LRU_HASH, md_max_entries = MAX_NFS_KPROBE_ENTRIES,
      md_key = td___u64, md_value = struct_nfs_kprobe_start_val\<rparr>"

definition nfs_kprobe_hists_decl :: map_decl where
  "nfs_kprobe_hists_decl =
     \<lparr>md_type = BPF_MAP_TYPE_LRU_HASH, md_max_entries = MAX_HIST_ENTRIES,
      md_key = struct_nfs_hist_key, md_value = struct_hist\<rparr>"

record ('ms, 'mh) nfs_kprobe_maps =
  nfs_kprobe_start :: 'ms
  nfs_kprobe_hists :: 'mh

subsection \<open>Operations\<close>

definition record_start ::
    "('ms, u64, nfs_kprobe_start_val) map_ops \<Rightarrow> u64 \<Rightarrow> u64 \<Rightarrow> u32 \<Rightarrow> u8 \<Rightarrow>
      ('ms, 'mh) nfs_kprobe_maps \<Rightarrow> ('ms, 'mh) nfs_kprobe_maps" where
  "record_start start_ops now pid_tgid dev op st =
     (let start = \<lparr>ksv_ts = now, ksv_dev = dev, ksv_op = op, ksv_pad = replicate 3 0\<rparr>
      in st\<lparr>nfs_kprobe_start := update_elem start_ops (nfs_kprobe_start st) pid_tgid start\<rparr>)"

definition kprobe_nfs_file_read ::
    "('ms, u64, nfs_kprobe_start_val) map_ops \<Rightarrow> probe_read \<Rightarrow> reloc \<Rightarrow> u64 \<Rightarrow> u64 \<Rightarrow> u64 \<Rightarrow>
      ('ms, 'mh) nfs_kprobe_maps \<Rightarrow> ('ms, 'mh) nfs_kprobe_maps" where
  "kprobe_nfs_file_read start_ops rd rl now pid_tgid iocb st =
     record_start start_ops now pid_tgid
       (core_u32 rd rl struct_super_block [''s_dev'']
         (core_ptr rd rl struct_inode [''i_sb'']
           (core_ptr rd rl struct_file [''f_inode'']
             (core_ptr rd rl struct_kiocb [''ki_filp''] iocb)))) 0 st"

definition kprobe_nfs_file_write ::
    "('ms, u64, nfs_kprobe_start_val) map_ops \<Rightarrow> probe_read \<Rightarrow> reloc \<Rightarrow> u64 \<Rightarrow> u64 \<Rightarrow> u64 \<Rightarrow>
      ('ms, 'mh) nfs_kprobe_maps \<Rightarrow> ('ms, 'mh) nfs_kprobe_maps" where
  "kprobe_nfs_file_write start_ops rd rl now pid_tgid iocb st =
     record_start start_ops now pid_tgid
       (core_u32 rd rl struct_super_block [''s_dev'']
         (core_ptr rd rl struct_inode [''i_sb'']
           (core_ptr rd rl struct_file [''f_inode'']
             (core_ptr rd rl struct_kiocb [''ki_filp''] iocb)))) 1 st"

definition kprobe_nfs_file_open ::
    "('ms, u64, nfs_kprobe_start_val) map_ops \<Rightarrow> probe_read \<Rightarrow> reloc \<Rightarrow> u64 \<Rightarrow> u64 \<Rightarrow> u64 \<Rightarrow>
      ('ms, 'mh) nfs_kprobe_maps \<Rightarrow> ('ms, 'mh) nfs_kprobe_maps" where
  "kprobe_nfs_file_open start_ops rd rl now pid_tgid inode st =
     record_start start_ops now pid_tgid
       (core_u32 rd rl struct_super_block [''s_dev''] (core_ptr rd rl struct_inode [''i_sb''] inode))
       2 st"

definition kprobe_nfs4_file_open ::
    "('ms, u64, nfs_kprobe_start_val) map_ops \<Rightarrow> probe_read \<Rightarrow> reloc \<Rightarrow> u64 \<Rightarrow> u64 \<Rightarrow> u64 \<Rightarrow>
      ('ms, 'mh) nfs_kprobe_maps \<Rightarrow> ('ms, 'mh) nfs_kprobe_maps" where
  "kprobe_nfs4_file_open start_ops rd rl now pid_tgid inode st =
     record_start start_ops now pid_tgid
       (core_u32 rd rl struct_super_block [''s_dev''] (core_ptr rd rl struct_inode [''i_sb''] inode))
       2 st"

text \<open>The first argument of \<^verbatim>\<open>nfs_getattr\<close> is not read; the path is the second.\<close>

definition kprobe_nfs_getattr ::
    "('ms, u64, nfs_kprobe_start_val) map_ops \<Rightarrow> probe_read \<Rightarrow> reloc \<Rightarrow> u64 \<Rightarrow> u64 \<Rightarrow> u64 \<Rightarrow>
      ('ms, 'mh) nfs_kprobe_maps \<Rightarrow> ('ms, 'mh) nfs_kprobe_maps" where
  "kprobe_nfs_getattr start_ops rd rl now pid_tgid path st =
     record_start start_ops now pid_tgid
       (core_u32 rd rl struct_super_block [''s_dev'']
         (core_ptr rd rl struct_inode [''i_sb'']
           (core_ptr rd rl struct_dentry [''d_inode'']
             (core_ptr rd rl struct_path [''dentry''] path)))) 3 st"

definition kretprobe_nfs_vfs ::
    "('ms, u64, nfs_kprobe_start_val) map_ops \<Rightarrow> ('mh, nfs_hist_key, hist) map_ops \<Rightarrow> u64 \<Rightarrow> u64 \<Rightarrow>
      ('ms, 'mh) nfs_kprobe_maps \<Rightarrow> ('ms, 'mh) nfs_kprobe_maps" where
  "kretprobe_nfs_vfs start_ops hist_ops now pid_tgid st =
     (case lookup_elem start_ops (nfs_kprobe_start st) pid_tgid of
        None \<Rightarrow> st
      | Some start \<Rightarrow>
          let delta = now - ksv_ts start :: s64;
              hk = zero_nfs_hist_key\<lparr>nhk_dev := ksv_dev start, nhk_op := ksv_op start\<rparr>;
              st = st\<lparr>nfs_kprobe_start := delete_elem start_ops (nfs_kprobe_start st) pid_tgid\<rparr>
          in if neg_s64 delta then st
          else
            let delta = div_s64 delta 1000;
                delta = (if delta = 0 then 1 else delta);
                (histp, st) =
                  (case lookup_elem hist_ops (nfs_kprobe_hists st) hk of
                     Some h \<Rightarrow> (Some h, st)
                   | None \<Rightarrow>
                       let st = st\<lparr>nfs_kprobe_hists :=
                             update_elem hist_ops (nfs_kprobe_hists st) hk zero_hist\<rparr>
                       in (lookup_elem hist_ops (nfs_kprobe_hists st) hk, st))
            in case histp of
              None \<Rightarrow> st
            | Some h \<Rightarrow>
                let slot = log2l delta;
                    slot = (if of_nat MAX_SLOTS \<le> slot then of_nat MAX_SLOTS - 1 else slot)
                in st\<lparr>nfs_kprobe_hists :=
                      write_elem hist_ops (nfs_kprobe_hists st) hk (hist_add slot h)\<rparr>)"

subsection \<open>Events\<close>

text \<open>An entry event is the probe's memory, the time, the thread and the argument.\<close>

datatype kprobe_event =
    FileRead probe_read u64 u64 u64
  | FileWrite probe_read u64 u64 u64
  | FileOpen probe_read u64 u64 u64
  | File4Open probe_read u64 u64 u64
  | Getattr probe_read u64 u64 u64
  | VfsReturn u64 u64

fun kprobe_step :: "('ms, u64, nfs_kprobe_start_val) map_ops \<Rightarrow> ('mh, nfs_hist_key, hist) map_ops \<Rightarrow>
    reloc \<Rightarrow> kprobe_event \<Rightarrow> ('ms, 'mh) nfs_kprobe_maps \<Rightarrow> ('ms, 'mh) nfs_kprobe_maps" where
  "kprobe_step sops hops rl (FileRead rd now pid a) st = kprobe_nfs_file_read sops rd rl now pid a st"
| "kprobe_step sops hops rl (FileWrite rd now pid a) st = kprobe_nfs_file_write sops rd rl now pid a st"
| "kprobe_step sops hops rl (FileOpen rd now pid a) st = kprobe_nfs_file_open sops rd rl now pid a st"
| "kprobe_step sops hops rl (File4Open rd now pid a) st = kprobe_nfs4_file_open sops rd rl now pid a st"
| "kprobe_step sops hops rl (Getattr rd now pid a) st = kprobe_nfs_getattr sops rd rl now pid a st"
| "kprobe_step sops hops rl (VfsReturn now pid) st = kretprobe_nfs_vfs sops hops now pid st"

definition start_val :: "u64 \<Rightarrow> u32 \<Rightarrow> u8 \<Rightarrow> nfs_kprobe_start_val" where
  "start_val now dev op = \<lparr>ksv_ts = now, ksv_dev = dev, ksv_op = op, ksv_pad = replicate 3 0\<rparr>"

definition inode_dev :: "probe_read \<Rightarrow> reloc \<Rightarrow> u64 \<Rightarrow> u32" where
  "inode_dev rd rl inode =
     core_u32 rd rl struct_super_block [''s_dev''] (core_ptr rd rl struct_inode [''i_sb''] inode)"

definition iocb_dev :: "probe_read \<Rightarrow> reloc \<Rightarrow> u64 \<Rightarrow> u32" where
  "iocb_dev rd rl iocb =
     inode_dev rd rl (core_ptr rd rl struct_file [''f_inode'']
       (core_ptr rd rl struct_kiocb [''ki_filp''] iocb))"

definition path_dev :: "probe_read \<Rightarrow> reloc \<Rightarrow> u64 \<Rightarrow> u32" where
  "path_dev rd rl path =
     inode_dev rd rl (core_ptr rd rl struct_dentry [''d_inode'']
       (core_ptr rd rl struct_path [''dentry''] path))"

fun kprobe_starts :: "reloc \<Rightarrow> kprobe_event \<Rightarrow> (u64 \<times> nfs_kprobe_start_val) option" where
  "kprobe_starts rl (FileRead rd now pid a) = Some (pid, start_val now (iocb_dev rd rl a) 0)"
| "kprobe_starts rl (FileWrite rd now pid a) = Some (pid, start_val now (iocb_dev rd rl a) 1)"
| "kprobe_starts rl (FileOpen rd now pid a) = Some (pid, start_val now (inode_dev rd rl a) 2)"
| "kprobe_starts rl (File4Open rd now pid a) = Some (pid, start_val now (inode_dev rd rl a) 2)"
| "kprobe_starts rl (Getattr rd now pid a) = Some (pid, start_val now (path_dev rd rl a) 3)"
| "kprobe_starts rl (VfsReturn now pid) = None"

fun kprobe_stops :: "kprobe_event \<Rightarrow> (u64 \<times> u64) option" where
  "kprobe_stops (VfsReturn now pid) = Some (pid, now)"
| "kprobe_stops e = None"

definition kprobe_hist_of :: "u32 \<Rightarrow> u8 \<Rightarrow> nfs_hist_key" where
  "kprobe_hist_of dev op = \<lparr>nhk_dev = dev, nhk_op = op, nhk_pad = replicate 3 0\<rparr>"

fun kprobe_target :: "kprobe_event \<Rightarrow> nfs_kprobe_start_val \<Rightarrow> nfs_hist_key option" where
  "kprobe_target (VfsReturn now pid) v = Some (kprobe_hist_of (ksv_dev v) (ksv_op v))"
| "kprobe_target e v = None"

subsection \<open>The program meets the probe contract\<close>

lemma zero_kprobe_key_upd: "zero_nfs_hist_key\<lparr>nhk_dev := d, nhk_op := op\<rparr> = kprobe_hist_of d op"
  by (simp add: zero_nfs_hist_key_def kprobe_hist_of_def)

lemma kretprobe_eq:
  "kretprobe_nfs_vfs sops hops now pid st =
     (case lookup_elem sops (nfs_kprobe_start st) pid of
        None \<Rightarrow> st
      | Some v \<Rightarrow>
          (let st' = st\<lparr>nfs_kprobe_start := delete_elem sops (nfs_kprobe_start st) pid\<rparr>
           in if spec_drop now (ksv_ts v) then st'
              else st'\<lparr>nfs_kprobe_hists := add_sample hops (kprobe_hist_of (ksv_dev v) (ksv_op v))
                    (spec_slot (spec_us now (ksv_ts v))) (nfs_kprobe_hists st')\<rparr>))"
proof (cases "lookup_elem sops (nfs_kprobe_start st) pid")
  case None
  then show ?thesis by (simp add: kretprobe_nfs_vfs_def)
next
  case (Some v)
  define hk where "hk = kprobe_hist_of (ksv_dev v) (ksv_op v)"
  note defs = kretprobe_nfs_vfs_def Let_def neg_s64_drop add_sample_def zero_kprobe_key_upd
    hk_def [symmetric]
  show ?thesis
  proof (cases "spec_drop now (ksv_ts v)")
    case True
    with Some show ?thesis by (simp add: defs)
  next
    case False
    show ?thesis
    proof (cases "lookup_elem hops (nfs_kprobe_hists st) hk")
      case None
      with Some False show ?thesis
        by (cases "lookup_elem hops (update_elem hops (nfs_kprobe_hists st) hk zero_hist) hk")
          (simp_all add: defs hist_add_bump)
    next
      case (Some h)
      with \<open>lookup_elem sops _ _ = Some v\<close> False show ?thesis
        by (simp add: defs hist_add_bump)
    qed
  qed
qed

lemmas kprobe_step_simps = kretprobe_eq Let_def record_start_def start_val_def
  inode_dev_def iocb_dev_def path_dev_def
  kprobe_nfs_file_read_def kprobe_nfs_file_write_def kprobe_nfs_file_open_def
  kprobe_nfs4_file_open_def kprobe_nfs_getattr_def

lemma kprobe_latency_probe:
  assumes "bpf_lru sops" and "bpf_lru hops"
  shows "latency_probe (\<lambda>s. lookup_elem sops (nfs_kprobe_start s)) (\<lambda>s. lookup_elem hops (nfs_kprobe_hists s))
    (kprobe_step sops hops rl) (kprobe_starts rl) kprobe_stops ksv_ts kprobe_target"
proof (unfold_locales, goal_cases)
  case (1 e)
  then show ?case by (cases e) auto
next
  case (2 e s)
  then show ?case by (cases e) auto
next
  case (3 e k v s)
  then show ?case
    using assms(1) by (cases e) (auto simp: kprobe_step_simps bpf_lru.update)
next
  case (4 e k now s)
  then show ?case by (cases e) (auto simp: kprobe_step_simps)
next
  case (5 e k now s v)
  then show ?case
    using assms(1) by (cases e) (auto simp: kprobe_step_simps bpf_lru.delete)
next
  case (6 e k now s v)
  then show ?case by (cases e) (auto simp: kprobe_step_simps)
next
  case (7 e k now s v h x)
  then show ?case
    using add_sample_hit [OF assms(2)] by (cases e) (auto simp: kprobe_step_simps)
next
  case (8 e k now s v h)
  then have "nfs_kprobe_hists (kprobe_step sops hops rl e s)
      = add_sample hops h (spec_slot (spec_us now (ksv_ts v))) (nfs_kprobe_hists s)"
    by (cases e) (auto simp: kprobe_step_simps)
  with 8 show ?case
    using add_sample_new [OF assms(2), of "nfs_kprobe_hists s" h] unfolding id_apply by simp
qed

lemma kprobe_latency_probe_exact:
  assumes "bpf_lru sops" and "bpf_lru_room hops room"
  shows "latency_probe_exact (\<lambda>s. lookup_elem sops (nfs_kprobe_start s))
    (\<lambda>s. lookup_elem hops (nfs_kprobe_hists s))
    (kprobe_step sops hops rl) (kprobe_starts rl) kprobe_stops ksv_ts kprobe_target
    (\<lambda>s. room (nfs_kprobe_hists s))"
proof (intro latency_probe_exact.intro latency_probe_exact_axioms.intro kprobe_latency_probe)
  show "bpf_lru sops" by (rule assms(1))
  show "bpf_lru hops" using assms(2) by (rule bpf_lru_room.axioms)
next
  fix e k now v h and s :: "('a, 'b) nfs_kprobe_maps"
  assume "kprobe_stops e = Some (k, now)" "lookup_elem sops (nfs_kprobe_start s) k = Some v"
    "\<not> spec_drop now (ksv_ts v)" "kprobe_target e v = Some h"
    "lookup_elem hops (nfs_kprobe_hists s) h = None" "room (nfs_kprobe_hists s)"
  then show "lookup_elem hops (nfs_kprobe_hists (kprobe_step sops hops rl e s))
      = (lookup_elem hops (nfs_kprobe_hists s))(h \<mapsto> bump (spec_slot (spec_us now (ksv_ts v))) zero_hist)"
    using add_sample_room [OF assms(2)] by (cases e) (auto simp: kprobe_step_simps)
qed

lemma kprobe_latency_probe_room:
  assumes "bpf_lru_room sops sroom" and "bpf_lru_room hops hroom"
  shows "latency_probe_room (\<lambda>s. lookup_elem sops (nfs_kprobe_start s))
    (\<lambda>s. lookup_elem hops (nfs_kprobe_hists s))
    (kprobe_step sops hops rl) (kprobe_starts rl) kprobe_stops ksv_ts kprobe_target
    (\<lambda>s. hroom (nfs_kprobe_hists s)) (\<lambda>s. sroom (nfs_kprobe_start s))"
proof (intro latency_probe_room.intro latency_probe_room_axioms.intro kprobe_latency_probe_exact)
  show "bpf_lru sops" using assms(1) by (rule bpf_lru_room.axioms)
  show "bpf_lru_room hops hroom" by (rule assms(2))
next
  fix e k v and s :: "('a, 'b) nfs_kprobe_maps"
  assume "kprobe_starts rl e = Some (k, v)" "sroom (nfs_kprobe_start s)"
  then show "lookup_elem sops (nfs_kprobe_start (kprobe_step sops hops rl e s))
      = (lookup_elem sops (nfs_kprobe_start s))(k \<mapsto> v)"
    using bpf_lru_room.update_room [OF assms(1)] by (cases e) (auto simp: kprobe_step_simps)
qed

text \<open>The maps of the program, at the sizes it declares.\<close>

interpretation kprobe_lru: latency_probe_room
  "\<lambda>s. map_of (nfs_kprobe_start s)" "\<lambda>s. map_of (nfs_kprobe_hists s)"
  "kprobe_step (lru_ops MAX_NFS_KPROBE_ENTRIES) (lru_ops MAX_HIST_ENTRIES) vmlinux_reloc"
  "kprobe_starts vmlinux_reloc" kprobe_stops ksv_ts kprobe_target
  "\<lambda>s. lru_room MAX_HIST_ENTRIES (nfs_kprobe_hists s)" "\<lambda>s. lru_room MAX_NFS_KPROBE_ENTRIES (nfs_kprobe_start s)"
proof -
  have "bpf_lru_room (lru_ops MAX_NFS_KPROBE_ENTRIES) (lru_room MAX_NFS_KPROBE_ENTRIES)"
    "bpf_lru_room (lru_ops MAX_HIST_ENTRIES) (lru_room MAX_HIST_ENTRIES)"
    by (simp_all add: lru_ops_contract MAX_NFS_KPROBE_ENTRIES_def MAX_HIST_ENTRIES_def)
  from kprobe_latency_probe_room [OF this, of vmlinux_reloc]
  show "latency_probe_room (\<lambda>s. map_of (nfs_kprobe_start s)) (\<lambda>s. map_of (nfs_kprobe_hists s))
      (kprobe_step (lru_ops MAX_NFS_KPROBE_ENTRIES) (lru_ops MAX_HIST_ENTRIES) vmlinux_reloc)
      (kprobe_starts vmlinux_reloc) kprobe_stops ksv_ts kprobe_target
      (\<lambda>s. lru_room MAX_HIST_ENTRIES (nfs_kprobe_hists s)) (\<lambda>s. lru_room MAX_NFS_KPROBE_ENTRIES (nfs_kprobe_start s))"
    by simp
qed

subsection \<open>Reading the traced function's argument\<close>

lemma vfs_offsets:
  "offsetof struct_kiocb [''ki_filp''] = Some (0, CPtr ''struct file'')"
  "offsetof struct_file [''f_inode''] = Some (40, CPtr ''struct inode'')"
  "offsetof struct_path [''dentry''] = Some (8, CPtr ''struct dentry'')"
  "offsetof struct_dentry [''d_inode''] = Some (48, CPtr ''struct inode'')"
  by (simp_all add: struct_kiocb_def struct_file_def struct_path_def struct_dentry_def layout)

text \<open>
  C40: The entry probes read the members they name. Let a file, its I/O control block, a path with its
  directory entry, and the inode and super block of both be in memory as the kernel lays them
  out, with nothing known of memory outside these objects. Then each probe stores under the
  thread the time, the operation and the device number of the super block: found through the
  inode given to an open, through the file of the control block given to a read or a write, and
  through the directory entry of the path given to a getattr.
\<close>

theorem kprobe_reads_device:
  assumes "object_at rd struct_kiocb iocb kbs" and "object_at rd struct_file (load_u64 kbs 0) fbs"
    and "object_at rd struct_path path pbs" and "object_at rd struct_dentry (load_u64 pbs 8) dbs"
    and "object_at rd struct_inode inode ibs" and "object_at rd struct_super_block (load_u64 ibs 40) sbs"
    and "load_u64 fbs 40 = inode" and "load_u64 dbs 48 = inode"
    and "entered = (\<lambda>op. st\<lparr>nfs_kprobe_start := update_elem sops (nfs_kprobe_start st) pid
      \<lparr>ksv_ts = now, ksv_dev = load_u32 sbs 16, ksv_op = op, ksv_pad = replicate 3 0\<rparr>\<rparr>)"
  shows "kprobe_nfs_file_read sops rd vmlinux_reloc now pid iocb st = entered 0
    \<and> kprobe_nfs_file_write sops rd vmlinux_reloc now pid iocb st = entered 1
    \<and> kprobe_nfs_file_open sops rd vmlinux_reloc now pid inode st = entered 2
    \<and> kprobe_nfs4_file_open sops rd vmlinux_reloc now pid inode st = entered 2
    \<and> kprobe_nfs_getattr sops rd vmlinux_reloc now pid path st = entered 3"
  using core_ptr_object [OF assms(1) _ vfs_offsets(1)] core_ptr_object [OF assms(2) _ vfs_offsets(2)]
    core_ptr_object [OF assms(3) _ vfs_offsets(3)] core_ptr_object [OF assms(4) _ vfs_offsets(4)]
    inode_device [OF assms(5,6)] assms(7-9)
  by (simp add: kprobe_nfs_file_read_def kprobe_nfs_file_write_def kprobe_nfs_file_open_def
      kprobe_nfs4_file_open_def kprobe_nfs_getattr_def record_start_def)

text \<open>Concrete memory with one object of each kind, all of them on device 42.\<close>

definition kx_kiocb :: bytes where
  "kx_kiocb = store (replicate (csize struct_kiocb) 0) 0 (u64_bytes 0x2000)"

definition kx_file :: bytes where
  "kx_file = store (replicate (csize struct_file) 0) 40 (u64_bytes 0x5000)"

definition kx_path :: bytes where
  "kx_path = store (replicate (csize struct_path) 0) 8 (u64_bytes 0x4000)"

definition kx_dentry :: bytes where
  "kx_dentry = store (replicate (csize struct_dentry) 0) 48 (u64_bytes 0x5000)"

definition kx_inode :: bytes where
  "kx_inode = store (replicate (csize struct_inode) 0) 40 (u64_bytes 0x6000)"

definition kx_sb :: bytes where
  "kx_sb = store (replicate (csize struct_super_block) 0) 16 (u32_bytes 0x2A)"

definition kx_maps :: "((u64 \<times> nfs_kprobe_start_val) list, (nfs_hist_key \<times> hist) list) nfs_kprobe_maps" where
  "kx_maps = \<lparr>nfs_kprobe_start = [], nfs_kprobe_hists = []\<rparr>"

lemmas kx_defs = kx_kiocb_def kx_file_def kx_path_def kx_dentry_def kx_inode_def kx_sb_def

definition kx_mem :: probe_read where
  "kx_mem =
     mem_at 0x1000 kx_kiocb (mem_at 0x2000 kx_file (mem_at 0x3000 kx_path
       (mem_at 0x4000 kx_dentry (mem_at 0x5000 kx_inode (mem_at 0x6000 kx_sb (\<lambda>a n. replicate n 0))))))"

lemma kx_mem_objects:
  "object_at kx_mem struct_kiocb 0x1000 kx_kiocb"
  "object_at kx_mem struct_file 0x2000 kx_file"
  "object_at kx_mem struct_path 0x3000 kx_path"
  "object_at kx_mem struct_dentry 0x4000 kx_dentry"
  "object_at kx_mem struct_inode 0x5000 kx_inode"
  "object_at kx_mem struct_super_block 0x6000 kx_sb"
  unfolding kx_mem_def
  by (intro mem_at_other mem_at_object; simp add: kx_defs length_store)+

theorem kprobe_reads_device_witness:
  "kprobe_nfs_getattr (lru_ops 8) kx_mem vmlinux_reloc 1000000 77 0x3000 kx_maps =
     kx_maps\<lparr>nfs_kprobe_start := lru_update 8 (nfs_kprobe_start kx_maps) 77
       \<lparr>ksv_ts = 1000000, ksv_dev = 0x2A, ksv_op = 3, ksv_pad = replicate 3 0\<rparr>\<rparr>"
  using kprobe_reads_device [of kx_mem "0x1000" kx_kiocb kx_file "0x3000" kx_path kx_dentry "0x5000" kx_inode kx_sb,
      OF _ _ _ _ _ _ _ _ refl, of "lru_ops 8" 1000000 77 kx_maps] kx_mem_objects
  by (simp add: kx_defs length_store lru_ops_def)

subsection \<open>Properties\<close>

definition kprobe_view :: "('ms, u64, nfs_kprobe_start_val) map_ops \<Rightarrow> ('mh, nfs_hist_key, hist) map_ops \<Rightarrow>
    ('ms, 'mh) nfs_kprobe_maps \<Rightarrow> (u64, nfs_kprobe_start_val, nfs_hist_key) probe_state" where
  "kprobe_view sops hops s =
     (lookup_elem sops (nfs_kprobe_start s), \<lambda>h. hist_entry (lookup_elem hops (nfs_kprobe_hists s) h))"

definition kprobe_spec :: "reloc \<Rightarrow> kprobe_event \<Rightarrow> (u64, nfs_kprobe_start_val, nfs_hist_key) probe_state \<Rightarrow>
    (u64, nfs_kprobe_start_val, nfs_hist_key) probe_state" where
  "kprobe_spec rl = probe_spec (kprobe_starts rl) kprobe_stops ksv_ts kprobe_target"

text \<open>The thread an event runs on.\<close>

fun kprobe_pid :: "kprobe_event \<Rightarrow> u64" where
  "kprobe_pid (FileRead rd now pid a) = pid"
| "kprobe_pid (FileWrite rd now pid a) = pid"
| "kprobe_pid (FileOpen rd now pid a) = pid"
| "kprobe_pid (File4Open rd now pid a) = pid"
| "kprobe_pid (Getattr rd now pid a) = pid"
| "kprobe_pid (VfsReturn now pid) = pid"

lemma kprobe_touches: "touches (kprobe_starts rl) kprobe_stops pid e \<longleftrightarrow> kprobe_pid e = pid"
  by (cases e) (simp_all add: touches_def)

lemma kx_dev [simp]:
  "iocb_dev kx_mem vmlinux_reloc 0x1000 = 0x2A" "path_dev kx_mem vmlinux_reloc 0x3000 = 0x2A"
  using core_ptr_object [OF kx_mem_objects(1) _ vfs_offsets(1)] core_ptr_object [OF kx_mem_objects(2) _ vfs_offsets(2)]
    core_ptr_object [OF kx_mem_objects(3) _ vfs_offsets(3)] core_ptr_object [OF kx_mem_objects(4) _ vfs_offsets(4)]
    inode_device [OF kx_mem_objects(5), of kx_sb] kx_mem_objects(6)
  by (simp_all add: iocb_dev_def path_dev_def inode_dev_def kx_defs length_store)

lemma kx_step [simp]:
  "kprobe_step sops hops vmlinux_reloc (FileRead kx_mem now pid 0x1000) s
    = record_start sops now pid 0x2A 0 s"
  "kprobe_step sops hops vmlinux_reloc (Getattr kx_mem now pid 0x3000) s
    = record_start sops now pid 0x2A 3 s"
  using kx_dev
  by (simp_all add: kprobe_nfs_file_read_def kprobe_nfs_getattr_def iocb_dev_def path_dev_def inode_dev_def)

lemma start_val_simps [simp]:
  "ksv_ts (start_val t d op) = t" "ksv_dev (start_val t d op) = d" "ksv_op (start_val t d op) = op"
  by (simp_all add: start_val_def)

lemma record_start_val:
  "record_start sops now pid d op s
    = s\<lparr>nfs_kprobe_start := update_elem sops (nfs_kprobe_start s) pid (start_val now d op)\<rparr>"
  by (simp add: record_start_def start_val_def)

text \<open>
  C4: Refinement. As long as neither map is full, any sequence of entry and return probes of
  any threads leaves the two maps exactly as the reference machine leaves its pending calls
  and histograms.
\<close>

theorem kprobe_refines_spec:
  assumes "bpf_lru_room sops sroom" and "bpf_lru_room hops hroom"
    and "all_run (kprobe_step sops hops rl)
      (\<lambda>s. sroom (nfs_kprobe_start s) \<and> hroom (nfs_kprobe_hists s)) es st"
  shows "kprobe_view sops hops (fold (kprobe_step sops hops rl) es st)
    = fold (kprobe_spec rl) es (kprobe_view sops hops st)"
proof -
  note P = kprobe_latency_probe_room [OF assms(1,2), of rl]
  show ?thesis
    using latency_probe_room.abs_run [OF P assms(3)]
    unfolding latency_probe_room.abs_def [OF P] kprobe_view_def kprobe_spec_def .
qed

theorem kprobe_refines_spec_witness:
  "kprobe_view (lru_ops 8) (lru_ops 8)
     (fold (kprobe_step (lru_ops 8) (lru_ops 8) vmlinux_reloc)
       [FileRead kx_mem 1000000 77 0x1000, VfsReturn 1070000 77] kx_maps)
   = fold (kprobe_spec vmlinux_reloc) [FileRead kx_mem 1000000 77 0x1000, VfsReturn 1070000 77]
       (Map.empty, \<lambda>_. zero_hist)"
  using kprobe_refines_spec [of "lru_ops 8" "lru_room 8" "lru_ops 8" "lru_room 8" vmlinux_reloc
      "[FileRead kx_mem 1000000 77 0x1000, VfsReturn 1070000 77]" kx_maps]
  by (simp add: lru_ops_contract kx_maps_def lru_room_def lru_update_def kprobe_view_def hist_entry_def
      record_start_val del: kprobe_step.simps(1))

text \<open>
  A traced call on one thread, whatever events other threads produce before it returns,
  adds exactly one sample, in the slot of its latency, to the histogram of the device and
  operation recorded at entry; every other histogram is as it was, and the thread has no
  pending call.
\<close>

theorem kprobe_roundtrip:
  assumes "bpf_lru_room sops sroom" and "bpf_lru_room hops hroom"
    and "kprobe_starts rl entry = Some (pid, v)" and "\<not> spec_drop now (ksv_ts v)"
    and "\<forall>e\<in>set es. kprobe_pid e \<noteq> pid"
    and "all_run (kprobe_step sops hops rl) (\<lambda>s. sroom (nfs_kprobe_start s)) (entry # es) st"
    and "st1 = fold (kprobe_step sops hops rl) (entry # es) st" and "hroom (nfs_kprobe_hists st1)"
    and "st2 = kretprobe_nfs_vfs sops hops now pid st1"
    and "hk = kprobe_hist_of (ksv_dev v) (ksv_op v)"
  shows "lookup_elem hops (nfs_kprobe_hists st2)
      = (lookup_elem hops (nfs_kprobe_hists st1))
          (hk \<mapsto> bump (spec_slot (spec_us now (ksv_ts v)))
             (hist_entry (lookup_elem hops (nfs_kprobe_hists st1) hk)))
    \<and> lookup_elem sops (nfs_kprobe_start st2) = (lookup_elem sops (nfs_kprobe_start st1))(pid := None)"
  using latency_probe_room.roundtrip [OF kprobe_latency_probe_room [OF assms(1,2), of rl],
      of entry pid v "VfsReturn now pid" now hk es st] assms
  by (simp add: kprobe_touches)

theorem kprobe_roundtrip_witness:
  "map_of (nfs_kprobe_hists (fold (kprobe_step (lru_ops 8) (lru_ops 8) vmlinux_reloc)
       [FileRead kx_mem 1000000 77 0x1000, Getattr kx_mem 1001000 78 0x3000, VfsReturn 1070000 77] kx_maps))
   = [kprobe_hist_of 0x2A 0 \<mapsto> bump (spec_slot 70) zero_hist]"
  using kprobe_roundtrip [OF _ _ _ _ _ _ refl _ refl refl, where sops = "lru_ops 8"
      and sroom = "lru_room 8" and hops = "lru_ops 8" and hroom = "lru_room 8" and rl = vmlinux_reloc
      and entry = "FileRead kx_mem 1000000 77 0x1000" and pid = 77 and v = "start_val 1000000 0x2A 0"
      and now = 1070000 and es = "[Getattr kx_mem 1001000 78 0x3000]" and st = kx_maps]
  by (simp add: lru_ops_contract spec_drop_def spec_us_def hist_entry_def kx_maps_def
      lru_room_def lru_update_def record_start_val del: kprobe_step.simps(1,5))

text \<open>
  When a traced function calls another one on the same thread, the entry of the inner call
  replaces that of the outer one: the first return counts the inner call only, and the return
  of the outer call changes nothing, so the outer call is not counted.
\<close>

theorem kprobe_nested_call:
  assumes "bpf_lru_room sops sroom" and "bpf_lru_room hops hroom"
    and "kprobe_starts rl outer = Some (pid, v)" and "kprobe_starts rl inner = Some (pid, v')"
    and "sroom (nfs_kprobe_start (kprobe_step sops hops rl outer st))"
    and "hroom (nfs_kprobe_hists st)" and "\<not> spec_drop now (ksv_ts v')"
    and "st1 = kretprobe_nfs_vfs sops hops now pid (kprobe_step sops hops rl inner (kprobe_step sops hops rl outer st))"
    and "hk = kprobe_hist_of (ksv_dev v') (ksv_op v')"
  shows "lookup_elem hops (nfs_kprobe_hists st1)
      = (lookup_elem hops (nfs_kprobe_hists st))
          (hk \<mapsto> bump (spec_slot (spec_us now (ksv_ts v')))
             (hist_entry (lookup_elem hops (nfs_kprobe_hists st) hk)))
    \<and> kretprobe_nfs_vfs sops hops now' pid st1 = st1"
proof -
  note P = kprobe_latency_probe_room [OF assms(1,2), of rl]
  note L = latency_probe_exact.axioms(1) [OF latency_probe_room.axioms(1) [OF P]]
  have h: "nfs_kprobe_hists (kprobe_step sops hops rl e s) = nfs_kprobe_hists s"
    if "kprobe_starts rl e = Some q" for e q s
    using that by (cases e) (simp_all add: kprobe_step_simps)
  show ?thesis
    using latency_probe_room.roundtrip [OF P assms(4), of "VfsReturn now pid" now hk "[]"
        "kprobe_step sops hops rl outer st"]
      latency_probe.stop_twice [OF L, of "VfsReturn now pid" pid now "VfsReturn now' pid" now'
        "kprobe_step sops hops rl inner (kprobe_step sops hops rl outer st)"]
      h [OF assms(3)] h [OF assms(4)] assms(5-)
    by simp
qed

theorem kprobe_nested_call_witness:
  "map_of (nfs_kprobe_hists (fold (kprobe_step (lru_ops 8) (lru_ops 8) vmlinux_reloc)
       [FileRead kx_mem 1000000 77 0x1000, Getattr kx_mem 1001000 77 0x3000, VfsReturn 1071000 77] kx_maps))
   = [kprobe_hist_of 0x2A 3 \<mapsto> bump (spec_slot 70) zero_hist]"
  using kprobe_nested_call [OF _ _ _ _ _ _ _ refl refl, where sops = "lru_ops 8"
      and sroom = "lru_room 8" and hops = "lru_ops 8" and hroom = "lru_room 8" and rl = vmlinux_reloc
      and outer = "FileRead kx_mem 1000000 77 0x1000" and inner = "Getattr kx_mem 1001000 77 0x3000"
      and pid = 77 and v = "start_val 1000000 0x2A 0" and v' = "start_val 1001000 0x2A 3"
      and now = 1071000 and now' = 1080000 and st = kx_maps]
  by (simp add: lru_ops_contract spec_drop_def spec_us_def hist_entry_def kx_maps_def
      lru_room_def lru_update_def record_start_val del: kprobe_step.simps(1,5))

text \<open>
  Conservation for the file operations. While the histogram map has room, the samples of a
  histogram grow by exactly the number of returns of the run that found a call of their thread
  pending with a time that did not go backwards.
\<close>

theorem kprobe_counts_conserved:
  assumes "bpf_lru sops" and "bpf_lru_room hops hroom"
    and "hists_wf (lookup_elem hops (nfs_kprobe_hists st))"
    and "all_run (kprobe_step sops hops rl) (\<lambda>s. hroom (nfs_kprobe_hists s)) es st"
  shows "total (lookup_elem hops (nfs_kprobe_hists (fold (kprobe_step sops hops rl) es st)) h)
    = total (lookup_elem hops (nfs_kprobe_hists st) h) +
      of_nat (count_run (kprobe_step sops hops rl)
        (\<lambda>e s. recorded_in (\<lambda>s. lookup_elem sops (nfs_kprobe_start s)) kprobe_stops ksv_ts kprobe_target e s
           = Some h) es st)"
proof -
  note P = kprobe_latency_probe_exact [OF assms(1,2), of rl]
  show ?thesis
    using latency_probe_exact.total_run [OF P assms(3,4)]
    unfolding latency_probe.records_def [OF latency_probe_exact.axioms(1) [OF P]] .
qed

theorem kprobe_counts_conserved_witness:
  "total (map_of (nfs_kprobe_hists (fold (kprobe_step (lru_ops 8) (lru_ops 8) vmlinux_reloc)
       [FileRead kx_mem 1000000 77 0x1000, VfsReturn 1001000 78, VfsReturn 1070000 77] kx_maps))
     (kprobe_hist_of 0x2A 0)) = 1"
  using kprobe_counts_conserved [of "lru_ops 8" "lru_ops 8" "lru_room 8" kx_maps vmlinux_reloc
      "[FileRead kx_mem 1000000 77 0x1000, VfsReturn 1001000 78, VfsReturn 1070000 77]" "kprobe_hist_of 0x2A 0"]
  by (simp add: lru_ops_contract lru_ops_bpf_lru kx_maps_def hists_wf_def add_sample_def kretprobe_eq
      lru_room_def lru_update_def total_def recorded_in_def spec_drop_def record_start_val
      del: kprobe_step.simps(1))

end
