(* ===== verification/Concurrent.thy ===== *)
theory Concurrent
  imports BlockLatency
begin

text \<open>
  Completions that run at the same time on several CPUs. A handler of
  \<^verbatim>\<open>bpf/block_latency.c\<close> is not atomic: only its single map operations and the
  \<^verbatim>\<open>__sync_fetch_and_add\<close> are. Here the completion handler is cut at those points
  (\<^verbatim>\<open>cpu_step\<close>), several invocations share the two maps, and a run follows a schedule that
  names the invocation to move next, or the relation \<^verbatim>\<open>cstep\<close>. Uninterrupted, an invocation
  computes what \<^verbatim>\<open>BlockLatency\<close> says of the handler. The value behind the pointer of a lookup
  is the one the map held at the lookup, and the add goes to the entry the map holds under
  the key.
\<close>

subsection \<open>One invocation\<close>

datatype cpu =
    CLookup bytes u64
  | CDelete bytes u64 u64
  | CFind bytes s64
  | CCreate block_hist_key s64
  | CRefind block_hist_key s64
  | CAdd block_hist_key s64
  | CDone "block_hist_key option"

text \<open>Nanoseconds to whole microseconds, never 0.\<close>

definition elapsed :: "s64 \<Rightarrow> s64" where
  "elapsed delta = (if div_s64 delta 1000 = 0 then 1 else div_s64 delta 1000)"

type_synonym ('ms, 'mh) cpu_state = "cpu \<times> ('ms, 'mh) block_maps"

fun cpu_step :: "('ms, req_key, u64) map_ops \<Rightarrow> ('mh, block_hist_key, hist) map_ops \<Rightarrow> reloc \<Rightarrow>
    ('ms, 'mh) cpu_state \<Rightarrow> ('ms, 'mh) cpu_state" where
  "cpu_step sops hops rl (CLookup ctx now, st) =
     (case lookup_elem sops (block_start st) (complete_key rl ctx) of
        None \<Rightarrow> (CDone None, st)
      | Some ts \<Rightarrow> (CDelete ctx now ts, st))"
| "cpu_step sops hops rl (CDelete ctx now ts, st) =
     (CFind ctx (now - ts),
      st\<lparr>block_start := delete_elem sops (block_start st) (complete_key rl ctx)\<rparr>)"
| "cpu_step sops hops rl (CFind ctx delta, st) =
     (if neg_s64 delta then (CDone None, st)
      else
        let delta = elapsed delta;
            hk = zero_block_hist_key\<lparr>bhk_dev := rk_dev (complete_key rl ctx), bhk_op := complete_op rl ctx\<rparr>
        in if bhk_op hk = 0xff then (CDone None, st)
        else (case lookup_elem hops (block_hists st) hk of
                Some _ \<Rightarrow> (CAdd hk delta, st)
              | None \<Rightarrow> (CCreate hk delta, st)))"
| "cpu_step sops hops rl (CCreate hk delta, st) =
     (CRefind hk delta, st\<lparr>block_hists := update_elem hops (block_hists st) hk zero_hist\<rparr>)"
| "cpu_step sops hops rl (CRefind hk delta, st) =
     (case lookup_elem hops (block_hists st) hk of
        None \<Rightarrow> (CDone None, st)
      | Some _ \<Rightarrow> (CAdd hk delta, st))"
| "cpu_step sops hops rl (CAdd hk delta, st) =
     (let slot = log2l delta;
          slot = (if of_nat MAX_SLOTS \<le> slot then of_nat MAX_SLOTS - 1 else slot)
      in (CDone (Some hk),
          case lookup_elem hops (block_hists st) hk of
            None \<Rightarrow> st
          | Some h \<Rightarrow> st\<lparr>block_hists := write_elem hops (block_hists st) hk (hist_add slot h)\<rparr>))"
| "cpu_step sops hops rl (CDone r, st) = (CDone r, st)"

subsection \<open>Several invocations\<close>

type_synonym ('ms, 'mh) smp = "cpu list \<times> ('ms, 'mh) block_maps"

definition smp_step :: "('ms, req_key, u64) map_ops \<Rightarrow> ('mh, block_hist_key, hist) map_ops \<Rightarrow> reloc \<Rightarrow>
    nat \<Rightarrow> ('ms, 'mh) smp \<Rightarrow> ('ms, 'mh) smp" where
  "smp_step sops hops rl i c =
     (if i < length (fst c)
      then let (l, st) = cpu_step sops hops rl (fst c ! i, snd c) in ((fst c)[i := l], st)
      else c)"

inductive cstep :: "('ms, req_key, u64) map_ops \<Rightarrow> ('mh, block_hist_key, hist) map_ops \<Rightarrow> reloc \<Rightarrow>
    ('ms, 'mh) smp \<Rightarrow> ('ms, 'mh) smp \<Rightarrow> bool" for sops hops rl where
  move: "i < length ls \<Longrightarrow> cpu_step sops hops rl (ls ! i, st) = (l', st') \<Longrightarrow>
    cstep sops hops rl (ls, st) (ls[i := l'], st')"

inductive_cases cstepE: "cstep sops hops rl c c'"

lemma smp_step_cstep: "i < length (fst c) \<Longrightarrow> cstep sops hops rl c (smp_step sops hops rl i c)"
  by (cases c) (auto simp: smp_step_def split: prod.split intro: cstep.move)

lemma cstep_smp_step:
  assumes "cstep sops hops rl c c'"
  obtains i where "i < length (fst c)" "c' = smp_step sops hops rl i c"
  using assms by (rule cstepE) (auto simp: smp_step_def intro!: that)

subsection \<open>Uninterrupted, an invocation is the handler\<close>

text \<open>
  Six steps of one invocation with nothing in between end it, and leave the maps as the
  completion handler does.
\<close>

theorem uninterrupted_is_handler:
  "\<exists>r. (cpu_step sops hops rl ^^ 6) (CLookup ctx now, st)
     = (CDone r, tracepoint__block__block_rq_complete sops hops rl now ctx st)"
proof (cases "lookup_elem sops (block_start st) (complete_key rl ctx)")
  case None
  then show ?thesis
    by (simp add: numeral_eq_Suc tracepoint__block__block_rq_complete_def complete_key_def Let_def)
next
  case (Some ts)
  define st1 where "st1 = st\<lparr>block_start := delete_elem sops (block_start st) (complete_key rl ctx)\<rparr>"
  define hk where "hk = block_key (rk_dev (complete_key rl ctx)) (complete_op rl ctx)"
  have two: "(cpu_step sops hops rl ^^ 6) (CLookup ctx now, st)
      = (cpu_step sops hops rl ^^ 4) (CFind ctx (now - ts), st1)"
    using Some by (simp add: numeral_eq_Suc funpow_swap1 st1_def)
  note eq = complete_eq [of sops hops rl now ctx st, unfolded Some option.case Let_def, folded st1_def hk_def]
  show ?thesis
  proof (cases "spec_drop now ts \<or> complete_op rl ctx = 0xff")
    case True
    then have "cpu_step sops hops rl (CFind ctx (now - ts), st1) = (CDone None, st1)"
      by (auto simp: neg_s64_drop Let_def)
    with True show ?thesis
      unfolding two eq by (simp add: numeral_eq_Suc funpow_swap1 del: cpu_step.simps(3))
  next
    case False
    then have f: "cpu_step sops hops rl (CFind ctx (now - ts), st1)
        = (case lookup_elem hops (block_hists st1) hk of
             Some _ \<Rightarrow> (CAdd hk (elapsed (now - ts)), st1) | None \<Rightarrow> (CCreate hk (elapsed (now - ts)), st1))"
      by (simp add: neg_s64_drop Let_def zero_key_upd hk_def split: option.split)
    from False have hb: "hist_add (if of_nat MAX_SLOTS \<le> log2l (elapsed (now - ts)) then of_nat MAX_SLOTS - 1
        else log2l (elapsed (now - ts))) h = bump (spec_slot (spec_us now ts)) h" for h
      unfolding elapsed_def by (intro hist_add_bump) simp
    from False show ?thesis
      unfolding two eq
      by (simp add: numeral_eq_Suc funpow_swap1 f add_sample_def Let_def hb
          del: cpu_step.simps(3) split: option.split)
  qed
qed

subsection \<open>Interleavings\<close>

text \<open>The invocations that counted their sample in histogram \<^verbatim>\<open>h\<close>.\<close>

definition counted :: "block_hist_key \<Rightarrow> cpu list \<Rightarrow> nat" where
  "counted h ls = length (filter (\<lambda>l. l = CDone (Some h)) ls)"

text \<open>An invocation that will not have to create a histogram.\<close>

fun ready :: "('mh, block_hist_key, hist) map_ops \<Rightarrow> reloc \<Rightarrow> 'mh \<Rightarrow> cpu \<Rightarrow> bool" where
  "ready hops rl m (CLookup ctx now) \<longleftrightarrow> complete_op rl ctx = 0xff \<or>
     lookup_elem hops m (block_key (rk_dev (complete_key rl ctx)) (complete_op rl ctx)) \<noteq> None"
| "ready hops rl m (CDelete ctx now ts) \<longleftrightarrow> complete_op rl ctx = 0xff \<or>
     lookup_elem hops m (block_key (rk_dev (complete_key rl ctx)) (complete_op rl ctx)) \<noteq> None"
| "ready hops rl m (CFind ctx delta) \<longleftrightarrow> complete_op rl ctx = 0xff \<or>
     lookup_elem hops m (block_key (rk_dev (complete_key rl ctx)) (complete_op rl ctx)) \<noteq> None"
| "ready hops rl m (CCreate hk delta) \<longleftrightarrow> False"
| "ready hops rl m (CRefind hk delta) \<longleftrightarrow> False"
| "ready hops rl m (CAdd hk delta) \<longleftrightarrow> lookup_elem hops m hk \<noteq> None"
| "ready hops rl m (CDone r) \<longleftrightarrow> True"

lemma ready_dom:
  "dom (lookup_elem hops m') = dom (lookup_elem hops m) \<Longrightarrow> ready hops rl m' l = ready hops rl m l"
  by (cases l) (auto simp: dom_def set_eq_iff)

lemma hist_add_clamp:
  "\<exists>i < MAX_SLOTS. \<forall>h. hist_add (if of_nat MAX_SLOTS \<le> s then of_nat MAX_SLOTS - 1 else s) h = bump i h"
proof -
  have "unat (if of_nat MAX_SLOTS \<le> s then of_nat MAX_SLOTS - 1 else s) < MAX_SLOTS"
    by (auto simp: MAX_SLOTS_def word_le_nat_alt)
  then show ?thesis by (auto simp: hist_add_def bump_def)
qed

text \<open>What one step of a ready invocation does to the histograms.\<close>

lemma cpu_step_keeps:
  assumes "ready hops rl (block_hists st) l" and "cpu_step sops hops rl (l, st) = (l', st')"
    and "\<forall>hk delta. l \<noteq> CAdd hk delta"
  shows "block_hists st' = block_hists st \<and> (\<forall>h. l' = CDone (Some h) \<longleftrightarrow> l = CDone (Some h))
    \<and> ready hops rl (block_hists st') l'"
proof (cases l)
  case (CFind ctx delta)
  with assms show ?thesis
    by (auto simp: Let_def zero_key_upd split: if_splits option.splits)
qed (use assms in \<open>auto split: option.splits\<close>)

lemma cpu_step_adds:
  assumes "bpf_lru hops" and "ready hops rl (block_hists st) (CAdd h delta)"
    and "cpu_step sops hops rl (CAdd h delta, st) = (l', st')"
  shows "\<exists>i x. l' = CDone (Some h) \<and> i < MAX_SLOTS \<and> lookup_elem hops (block_hists st) h = Some x \<and>
    lookup_elem hops (block_hists st') = (lookup_elem hops (block_hists st))(h \<mapsto> bump i x)"
proof -
  from assms(2) obtain x where x: "lookup_elem hops (block_hists st) h = Some x" by auto
  obtain i where "i < MAX_SLOTS"
    "\<And>h. hist_add (if of_nat MAX_SLOTS \<le> log2l delta then of_nat MAX_SLOTS - 1 else log2l delta) h = bump i h"
    using hist_add_clamp by blast
  with assms(1,3) x show ?thesis by (auto simp: Let_def bpf_lru.overwrite)
qed

definition smp_inv :: "('mh, block_hist_key, hist) map_ops \<Rightarrow> reloc \<Rightarrow> ('ms, 'mh) smp \<Rightarrow> bool" where
  "smp_inv hops rl c \<longleftrightarrow>
     hists_wf (lookup_elem hops (block_hists (snd c))) \<and>
     list_all (ready hops rl (block_hists (snd c))) (fst c)"

lemma counted_update:
  "i < length ls \<Longrightarrow> counted h (ls[i := l]) + of_bool (ls ! i = CDone (Some h))
     = counted h ls + of_bool (l = CDone (Some h))"
proof (induction ls arbitrary: i)
  case (Cons x ls)
  then show ?case using Cons.IH [of "i - 1"] by (cases i) (auto simp: counted_def)
qed simp

lemma cstep_inv:
  assumes "bpf_lru hops" and "cstep sops hops rl c c'" and "smp_inv hops rl c"
  shows "smp_inv hops rl c' \<and>
    total (lookup_elem hops (block_hists (snd c')) h) + of_nat (counted h (fst c))
      = total (lookup_elem hops (block_hists (snd c)) h) + of_nat (counted h (fst c'))"
  using assms(2)
proof (cases rule: cstep.cases)
  case (move i ls st l' st')
  have wf: "hists_wf (lookup_elem hops (block_hists st))"
    and rd: "\<forall>l \<in> set ls. ready hops rl (block_hists st) l"
    using assms(3) move by (auto simp: smp_inv_def list_all_iff)
  then have "ready hops rl (block_hists st) (ls ! i)" using move by simp
  note cnt = counted_update [OF move(3), of h l']
  have inv: "smp_inv hops rl c'"
    if "hists_wf (lookup_elem hops (block_hists st'))" "ready hops rl (block_hists st') l'"
      "dom (lookup_elem hops (block_hists st')) = dom (lookup_elem hops (block_hists st))"
    using that rd ready_dom [OF that(3)] set_update_subset_insert [of ls i l']
    by (auto simp: smp_inv_def list_all_iff move)
  show ?thesis
  proof (cases "\<exists>h' delta. ls ! i = CAdd h' delta")
    case True
    then obtain h' delta where l: "ls ! i = CAdd h' delta" by blast
    then obtain k x where adds: "l' = CDone (Some h')" "k < MAX_SLOTS"
      "lookup_elem hops (block_hists st) h' = Some x"
      "lookup_elem hops (block_hists st') = (lookup_elem hops (block_hists st))(h' \<mapsto> bump k x)"
      using cpu_step_adds [OF assms(1), of rl st h' delta] \<open>ready hops rl (block_hists st) (ls ! i)\<close> move(4)
      by auto
    have "wf_hist x" using wf adds(3) by (simp add: hists_wf_def)
    then have "total (lookup_elem hops (block_hists st') h)
        = total (lookup_elem hops (block_hists st) h) + of_bool (h = h')"
      using adds(2-4) by (simp add: total_def samples_bump)
    moreover have "counted h (ls[i := l']) = counted h ls + of_bool (h = h')"
      using cnt adds(1) l by auto
    moreover have "smp_inv hops rl c'"
      using adds \<open>wf_hist x\<close> wf by (intro inv) (auto simp: hists_wf_def)
    ultimately show ?thesis by (simp add: move)
  next
    case False
    then have keeps: "block_hists st' = block_hists st" "l' = CDone (Some h) \<longleftrightarrow> ls ! i = CDone (Some h)"
      "ready hops rl (block_hists st') l'"
      using cpu_step_keeps [OF \<open>ready hops rl (block_hists st) (ls ! i)\<close> move(4)] by auto
    then have "smp_inv hops rl c'" using wf by (intro inv) simp_all
    with cnt keeps show ?thesis by (simp add: move)
  qed
qed

lemma add_chain:
  fixes a :: "'a :: ab_group_add"
  assumes "a + x = b + y" and "c + y = a + z"
  shows "c + x = b + z"
proof -
  have "a = b + y - x" "c = a + z - y" using assms by (simp_all add: eq_diff_eq)
  then show ?thesis by simp
qed

lemma csteps_inv:
  assumes "bpf_lru hops" and "rtranclp (cstep sops hops rl) c c'" and "smp_inv hops rl c"
  shows "smp_inv hops rl c' \<and>
    total (lookup_elem hops (block_hists (snd c')) h) + of_nat (counted h (fst c))
      = total (lookup_elem hops (block_hists (snd c)) h) + of_nat (counted h (fst c'))"
  using assms(2)
proof (induction rule: rtranclp_induct)
  case base
  then show ?case using assms(3) by simp
next
  case (step d d')
  from step(3) cstep_inv [OF assms(1) step(2), of h] show ?case
    by (blast intro: add_chain)
qed

lemma smp_run_reaches: "rtranclp (cstep sops hops rl) c (fold (smp_step sops hops rl) sched c)"
proof (induction sched arbitrary: c)
  case (Cons i sched)
  have "rtranclp (cstep sops hops rl) c (smp_step sops hops rl i c)"
    using smp_step_cstep [of i c] by (cases "i < length (fst c)") (auto simp: smp_step_def)
  with Cons.IH show ?case by (simp add: rtranclp_trans)
qed simp

text \<open>
  C32: Completions on any number of CPUs, interleaved in any way, lose and invent no sample as
  long as the histograms they count in exist: a histogram's samples grow by exactly the
  number of invocations that counted in it.
\<close>

theorem concurrent_adds_not_lost:
  assumes "bpf_lru hops" and "hists_wf (lookup_elem hops (block_hists st))"
    and "list_all (ready hops rl (block_hists st)) ls"
    and "rtranclp (cstep sops hops rl) (ls, st) (ls', st')"
  shows "total (lookup_elem hops (block_hists st') h) + of_nat (counted h ls)
    = total (lookup_elem hops (block_hists st) h) + of_nat (counted h ls')"
  using csteps_inv [OF assms(1,4), of h] assms(2,3) by (simp add: smp_inv_def)

text \<open>Two reads of device 8:16 complete at the same time.\<close>

definition ex_complete2 :: bytes where
  "ex_complete2 =
     fill_rq struct_trace_event_raw_block_rq_completion 0x800010 4096 (of_char (CHR ''R'')) (replicate 48 0)"

lemma ex_complete2_simps [simp]:
  "complete_key vmlinux_reloc ex_complete2 = \<lparr>rk_dev = 0x800010, rk_sector = 4096\<rparr>"
  "complete_op vmlinux_reloc ex_complete2 = 0"
  by (simp_all add: ex_complete2_def fill_rq_def complete_key_def complete_op_def classify_op_head
      length_store)

definition ex_pending :: "(req_key \<times> u64) list" where
  "ex_pending = [(\<lparr>rk_dev = 0x800010, rk_sector = 2048\<rparr>, 1000000), (\<lparr>rk_dev = 0x800010, rk_sector = 4096\<rparr>, 1000000)]"

definition ex_cpus :: "cpu list" where
  "ex_cpus = [CLookup ex_complete 1070000, CLookup ex_complete2 1080000]"

lemma ex_not_neg [simp]: "\<not> neg_s64 70000" "\<not> neg_s64 80000"
  by (simp_all add: neg_s64_iff)

lemma ex_slots [simp]: "log2l (elapsed 70000) = 6" "log2l (elapsed 80000) = 6"
proof -
  have "div_s64 70000 1000 = 70" "div_s64 80000 1000 = 80"
    using unat_div_s64 [of 70000] unat_div_s64 [of 80000]
    by (simp_all add: neg_s64_iff word_unat_eq_iff)
  then show "log2l (elapsed 70000) = 6" "log2l (elapsed 80000) = 6"
    by (simp_all add: elapsed_def log2l_def log2_def Let_def)
qed

lemma ex_fits [simp]: "\<not> of_nat MAX_SLOTS \<le> (6 :: u64)"
  by (simp add: MAX_SLOTS_def)

lemmas ex_smp_defs = ex_cpus_def ex_pending_def smp_step_def Let_def zero_key_upd lru_update_def counted_def

lemma ex_race_run:
  "fold (smp_step (lru_ops 8) (lru_ops 8) vmlinux_reloc) [0, 1, 0, 1, 0, 1, 1, 0]
     (ex_cpus, \<lparr>block_start = ex_pending, block_hists = [(block_key 0x800010 0, zero_hist)]\<rparr>)
   = ([CDone (Some (block_key 0x800010 0)), CDone (Some (block_key 0x800010 0))],
      \<lparr>block_start = [], block_hists = [(block_key 0x800010 0, hist_add 6 (hist_add 6 zero_hist))]\<rparr>)"
  by (simp add: ex_smp_defs)

theorem concurrent_adds_not_lost_witness:
  "total (map_of (block_hists (snd (fold (smp_step (lru_ops 8) (lru_ops 8) vmlinux_reloc) [0, 1, 0, 1, 0, 1, 1, 0]
     (ex_cpus, \<lparr>block_start = ex_pending, block_hists = [(block_key 0x800010 0, zero_hist)]\<rparr>))))
     (block_key 0x800010 0)) = 2"
  unfolding ex_race_run
  using concurrent_adds_not_lost [OF lru_ops_bpf_lru _ _ smp_run_reaches [where sched = "[0, 1, 0, 1, 0, 1, 1, 0]",
      of "lru_ops 8" "lru_ops 8" vmlinux_reloc "(ex_cpus, \<lparr>block_start = ex_pending,
        block_hists = [(block_key 0x800010 0, zero_hist)]\<rparr>)", unfolded ex_race_run], of "block_key 0x800010 0"]
  by (simp add: ex_cpus_def counted_def hists_wf_def total_def)

text \<open>
  C34: When the histogram does not exist yet, a sample can be lost: two completions both find no
  histogram, the first creates it and counts, and the second then overwrites it with zeros.
  Both invocations have counted, the histogram holds one sample.
\<close>

theorem concurrent_create_loses_sample:
  "\<exists>sched st. fold (smp_step (lru_ops 8) (lru_ops 8) vmlinux_reloc) sched
      (ex_cpus, \<lparr>block_start = ex_pending, block_hists = []\<rparr>)
      = ([CDone (Some (block_key 0x800010 0)), CDone (Some (block_key 0x800010 0))], st)
    \<and> total (map_of (block_hists st) (block_key 0x800010 0)) = 1"
proof (intro exI conjI)
  show "fold (smp_step (lru_ops 8) (lru_ops 8) vmlinux_reloc) [0, 0, 0, 1, 1, 1, 0, 0, 0, 1, 1, 1]
      (ex_cpus, \<lparr>block_start = ex_pending, block_hists = []\<rparr>)
    = ([CDone (Some (block_key 0x800010 0)), CDone (Some (block_key 0x800010 0))],
       \<lparr>block_start = [], block_hists = [(block_key 0x800010 0, hist_add 6 zero_hist)]\<rparr>)"
    by (simp add: ex_smp_defs)
  show "total (map_of (block_hists \<lparr>block_start = [],
      block_hists = [(block_key 0x800010 0, hist_add 6 zero_hist)]\<rparr>) (block_key 0x800010 0)) = 1"
    by (simp add: total_def hist_add_def samples_bump MAX_SLOTS_def flip: bump_def)
qed

end
