(* ===== verification/GoFloat.thy ===== *)
theory GoFloat
  imports Complex_Main Bits
begin

text \<open>
  The \<^verbatim>\<open>float64\<close> arithmetic the Go packages use, on finite non-negative values. A value is
  the rational it denotes; \<^verbatim>\<open>f64\<close> rounds a rational to the nearest value with a 53-bit
  significand, ties to even, and every operation is the exact one followed by \<^verbatim>\<open>f64\<close>. The
  exponent is not bounded: the packages stay far inside the normal range of the type.
\<close>

subsection \<open>Rounding\<close>

text \<open>The exponent of a positive rational: the power of two at or below it.\<close>

definition exponent :: "rat \<Rightarrow> int" where
  "exponent x =
     (let (a, b) = quotient_of x;
          e = int (flog2 (nat a)) - int (flog2 (nat b))
      in if 2 powi e \<le> x then e else e - 1)"

definition round_even :: "rat \<Rightarrow> int" where
  "round_even y =
     (let q = \<lfloor>y\<rfloor>; r = y - of_int q
      in if r < 1 / 2 then q else if 1 / 2 < r then q + 1 else if even q then q else q + 1)"

definition f64 :: "rat \<Rightarrow> rat" where
  "f64 x =
     (if x \<le> 0 then 0
      else let u = 2 powi (exponent x - 52) in of_int (round_even (x / u)) * u)"

definition f64_add :: "rat \<Rightarrow> rat \<Rightarrow> rat" where
  "f64_add x y = f64 (x + y)"

definition f64_mul :: "rat \<Rightarrow> rat \<Rightarrow> rat" where
  "f64_mul x y = f64 (x * y)"

definition f64_div :: "rat \<Rightarrow> rat \<Rightarrow> rat" where
  "f64_div x y = f64 (x / y)"

definition f64_of_u64 :: "u64 \<Rightarrow> rat" where
  "f64_of_u64 w = f64 (of_nat (unat w))"

text \<open>The rounded quotient of a value of either sign.\<close>

definition f64_quot :: "rat \<Rightarrow> rat \<Rightarrow> rat" where
  "f64_quot x y = (if x < 0 then - f64_div (- x) y else f64_div x y)"

subsection \<open>Rounding is monotone\<close>

lemma exponent_bounds:
  assumes "0 < x"
  shows "2 powi exponent x \<le> x" and "x < 2 powi (exponent x + 1)"
proof -
  obtain a b where q: "quotient_of x = (a, b)" by (cases "quotient_of x")
  then have b: "0 < b" and x: "x = of_int a / of_int b"
    using quotient_of_denom_pos quotient_of_div by blast+
  then have a: "0 < a" using assms by (simp add: zero_less_divide_iff)
  define la lb where "la = flog2 (nat a)" and "lb = flog2 (nat b)"
  define e where "e = int la - int lb"
  have "is_log2 (nat a) la" "is_log2 (nat b) lb"
    using flog2_is_log2 [of "nat a"] flog2_is_log2 [of "nat b"] a b by (simp_all add: la_def lb_def)
  then have "2 ^ la \<le> nat a" "nat a < 2 ^ (la + 1)" "2 ^ lb \<le> nat b" "nat b < 2 ^ (lb + 1)"
    by (simp_all add: is_log2_def)
  then have A: "2 ^ la \<le> a" "a < 2 ^ (la + 1)" and B: "2 ^ lb \<le> b" "b < 2 ^ (lb + 1)"
    using a b by (simp_all add: le_nat_iff nat_less_iff nat_power_eq)
  have A': "(2::rat) ^ la \<le> of_int a" "of_int a < (2::rat) ^ (la + 1)"
    using A by (metis of_int_le_iff of_int_less_iff of_int_numeral of_int_power)+
  have B': "(2::rat) ^ lb \<le> of_int b" "of_int b < (2::rat) ^ (lb + 1)"
    using B by (metis of_int_le_iff of_int_less_iff of_int_numeral of_int_power)+
  have pe: "(2::rat) powi e = 2 ^ la / 2 ^ lb"
    by (simp add: e_def power_int_diff)
  have up: "x < 2 powi (e + 1)"
  proof -
    have "x < 2 ^ (la + 1) / of_int b" unfolding x using A'(2) b by (simp add: divide_strict_right_mono)
    also have "\<dots> \<le> 2 ^ (la + 1) / 2 ^ lb" using B'(1) b by (intro divide_left_mono) simp_all
    finally show ?thesis by (simp add: power_int_add pe mult.commute)
  qed
  have lo: "2 powi (e - 1) \<le> x"
  proof -
    have "2 ^ la / 2 ^ (lb + 1) \<le> 2 ^ la / (of_int b :: rat)"
      using B'(2) b by (intro divide_left_mono) (simp_all add: order.strict_implies_order)
    also have "\<dots> \<le> x" unfolding x using A'(1) b by (simp add: divide_right_mono)
    finally show ?thesis by (simp add: power_int_diff pe)
  qed
  have ex: "exponent x = (if 2 powi e \<le> x then e else e - 1)"
    by (simp add: exponent_def q e_def la_def lb_def)
  show "2 powi exponent x \<le> x" using lo by (simp add: ex)
  show "x < 2 powi (exponent x + 1)" using up by (simp add: ex)
qed

lemma exponent_mono:
  assumes "0 < x" and "x \<le> y"
  shows "exponent x \<le> exponent y"
proof (rule ccontr)
  assume "\<not> exponent x \<le> exponent y"
  then have "(2::rat) powi (exponent y + 1) \<le> 2 powi exponent x"
    by (intro power_int_increasing) simp_all
  with exponent_bounds(2) [of y] exponent_bounds(1) [OF assms(1)] assms show False by simp
qed

lemma round_even_bounds: "\<lfloor>y\<rfloor> \<le> round_even y" "round_even y \<le> \<lfloor>y\<rfloor> + 1"
  by (simp_all add: round_even_def Let_def)

lemma round_even_int [simp]: "round_even (of_int k) = k"
  by (simp add: round_even_def)

lemma round_even_mono:
  assumes "x \<le> y"
  shows "round_even x \<le> round_even y"
proof (cases "\<lfloor>x\<rfloor> = \<lfloor>y\<rfloor>")
  case True
  with assms show ?thesis by (auto simp: round_even_def Let_def)
next
  case False
  with assms have "\<lfloor>x\<rfloor> + 1 \<le> \<lfloor>y\<rfloor>" using floor_mono [OF assms] by simp
  then show ?thesis using round_even_bounds [of x] round_even_bounds [of y] by linarith
qed

lemma f64_nonneg: "0 \<le> f64 x"
proof (cases "x \<le> 0")
  case False
  define u :: rat where "u = 2 powi (exponent x - 52)"
  have "0 \<le> round_even (x / u)"
    using False round_even_bounds(1) [of "x / u"] by (simp add: u_def order_trans [rotated])
  then show ?thesis using False by (simp add: f64_def Let_def u_def)
qed (simp add: f64_def)

lemma f64_range:
  assumes "0 < x"
  shows "2 powi exponent x \<le> f64 x" and "f64 x \<le> 2 powi (exponent x + 1)"
proof -
  define u :: rat where "u = 2 powi (exponent x - 52)"
  have u: "0 < u" by (simp add: u_def)
  have lo: "2 powi exponent x = of_int (2 ^ 52) * u" and hi: "2 powi (exponent x + 1) = of_int (2 ^ 53) * u"
    by (simp_all add: u_def power_int_diff power_int_add)
  have "of_int (2 ^ 52) \<le> x / u" "x / u \<le> of_int (2 ^ 53)"
    using exponent_bounds [OF assms] u unfolding lo hi by (simp_all add: field_simps)
  then have "2 ^ 52 \<le> round_even (x / u)" "round_even (x / u) \<le> 2 ^ 53"
    using round_even_mono [of "of_int (2 ^ 52)" "x / u"] round_even_mono [of "x / u" "of_int (2 ^ 53)"]
    by (simp_all only: round_even_int)
  moreover have "f64 x = of_int (round_even (x / u)) * u" using assms by (simp add: f64_def Let_def u_def)
  ultimately show "2 powi exponent x \<le> f64 x" "f64 x \<le> 2 powi (exponent x + 1)"
    unfolding lo hi using u by (simp_all only: mult_le_cancel_right_pos of_int_le_iff)
qed

lemma f64_mono: "x \<le> y \<Longrightarrow> f64 x \<le> f64 y"
proof (cases "x \<le> 0")
  case True
  then show ?thesis using f64_nonneg by (simp add: f64_def)
next
  case False
  assume xy: "x \<le> y"
  then have e: "exponent x \<le> exponent y" using False by (intro exponent_mono) simp_all
  show ?thesis
  proof (cases "exponent x = exponent y")
    case True
    with xy False show ?thesis
      by (simp add: f64_def Let_def round_even_mono divide_right_mono)
  next
    case ne: False
    have "f64 x \<le> 2 powi (exponent x + 1)" using False by (intro f64_range) simp
    also have "\<dots> \<le> 2 powi exponent y" using e ne by (intro power_int_increasing) simp_all
    also have "\<dots> \<le> f64 y" using False xy by (intro f64_range) simp
    finally show ?thesis .
  qed
qed

subsection \<open>Small integers are exact\<close>

lemma f64_of_nat:
  assumes "n < 2 ^ 53"
  shows "f64 (of_nat n) = of_nat n"
proof (cases "n = 0")
  case False
  define e where "e = exponent (of_nat n)"
  have p: "2 powi e \<le> (of_nat n :: rat)" using exponent_bounds(1) [of "of_nat n"] False by (simp add: e_def)
  also have "(of_nat n :: rat) < 2 powi 53" using assms
    by (metis of_nat_less_iff of_nat_numeral of_nat_power power_int_numeral)
  finally have lt: "(2::rat) powi e < 2 powi 53" .
  have "e < 53"
  proof (rule ccontr)
    assume "\<not> e < 53"
    then have "(2::rat) powi 53 \<le> 2 powi e" by (intro power_int_increasing) simp_all
    with lt show False by simp
  qed
  define k where "k = nat (52 - e)"
  have k: "e - 52 = - int k" using \<open>e < 53\<close> by (simp add: k_def)
  have "of_nat n / 2 powi (e - 52) = (of_int (int n * 2 ^ k) :: rat)"
    by (simp add: k power_int_minus field_simps)
  then have "round_even (of_nat n / 2 powi (e - 52)) = int n * 2 ^ k" by (simp only: round_even_int)
  then show ?thesis using \<open>n \<noteq> 0\<close> by (simp add: f64_def Let_def e_def [symmetric] k power_int_minus)
qed (simp add: f64_def)

subsection \<open>The error of rounding\<close>

lemma round_even_error: "\<bar>of_int (round_even y) - y\<bar> \<le> 1 / 2"
proof -
  have "of_int \<lfloor>y\<rfloor> \<le> y" "y < of_int \<lfloor>y\<rfloor> + 1" by linarith+
  then show ?thesis by (auto simp: round_even_def Let_def)
qed

text \<open>Rounding changes a value by at most one part in \<^verbatim>\<open>2^53\<close>.\<close>

lemma f64_error:
  assumes "0 \<le> x"
  shows "\<bar>f64 x - x\<bar> \<le> x / 2 ^ 53"
proof (cases "x = 0")
  case False
  then have x: "0 < x" using assms by simp
  define u where "u = (2::rat) powi (exponent x - 52)"
  have u: "0 < u" by (simp add: u_def)
  have "u * 2 ^ 52 = 2 powi exponent x"
    using power_int_add [of "2::rat" "exponent x - 52" 52] by (simp add: u_def)
  then have ux: "u \<le> x / 2 ^ 52" using exponent_bounds(1) [OF x] by (simp add: pos_le_divide_eq)
  have "f64 x - x = (of_int (round_even (x / u)) - x / u) * u"
    using x u by (simp add: f64_def u_def [symmetric] Let_def algebra_simps)
  then have "\<bar>f64 x - x\<bar> = \<bar>of_int (round_even (x / u)) - x / u\<bar> * u"
    using u by (simp add: abs_mult)
  also have "\<dots> \<le> 1 / 2 * u" using round_even_error [of "x / u"] u by (intro mult_right_mono) simp_all
  also have "\<dots> \<le> x / 2 ^ 53" using ux by simp
  finally show ?thesis .
qed (simp add: f64_def)

lemma f64_bounds: "0 \<le> x \<Longrightarrow> x / 2 \<le> f64 x" "0 \<le> x \<Longrightarrow> f64 x \<le> 2 * x"
proof -
  assume "0 \<le> x"
  have "\<bar>f64 x - x\<bar> \<le> x / 2 ^ 53" using \<open>0 \<le> x\<close> by (rule f64_error)
  moreover have "x / 2 ^ 53 \<le> x / 2" using \<open>0 \<le> x\<close> by simp
  ultimately have "\<bar>f64 x - x\<bar> \<le> x / 2" by linarith
  then show "x / 2 \<le> f64 x" "f64 x \<le> 2 * x" using \<open>0 \<le> x\<close> by linarith+
qed

text \<open>Two roundings in a row stay within one part in \<^verbatim>\<open>2^51\<close>.\<close>

lemma f64_div2_error:
  assumes "0 \<le> x" and "0 < y" and "0 < z"
  shows "\<bar>f64_div (f64_div x y) z - x / y / z\<bar> \<le> x / y / z / 2 ^ 51"
proof -
  define q where "q = x / y"
  have q: "0 \<le> q" using assms by (simp add: q_def)
  have 1: "\<bar>f64 q - q\<bar> \<le> q / 2 ^ 53" by (rule f64_error [OF q])
  have "0 \<le> f64 q / z" using assms(3) f64_nonneg [of q] by simp
  then have 2: "\<bar>f64 (f64 q / z) - f64 q / z\<bar> \<le> f64 q / z / 2 ^ 53" by (rule f64_error)
  have "f64 q \<le> 2 * q" by (rule f64_bounds(2) [OF q])
  then have 3: "f64 q / z / 2 ^ 53 \<le> 2 * q / z / 2 ^ 53" using assms(3) by (intro divide_right_mono) simp_all
  have "f64 q / z - q / z = (f64 q - q) / z" by (simp add: diff_divide_distrib)
  then have "\<bar>f64 q / z - q / z\<bar> = \<bar>f64 q - q\<bar> / z" using assms(3) by simp
  also have "\<dots> \<le> q / 2 ^ 53 / z" using 1 assms(3) by (intro divide_right_mono) simp_all
  finally have 4: "\<bar>f64 q / z - q / z\<bar> \<le> q / z / 2 ^ 53" by simp
  have "\<bar>f64 (f64 q / z) - q / z\<bar> \<le> \<bar>f64 (f64 q / z) - f64 q / z\<bar> + \<bar>f64 q / z - q / z\<bar>" by linarith
  also have "\<dots> \<le> 2 * q / z / 2 ^ 53 + q / z / 2 ^ 53" by (rule add_mono [OF order_trans [OF 2 3] 4])
  also have "2 * q / z / 2 ^ 53 + q / z / 2 ^ 53 = 3 * (q / z) / 2 ^ 53" by (simp add: field_simps)
  also have "3 * (q / z) / 2 ^ 53 \<le> q / z / 2 ^ 51" using q assms(3) by (simp add: field_simps)
  finally show ?thesis by (simp add: f64_div_def q_def)
qed

end
