(* ===== verification/SlotHistogram.thy ===== *)
theory SlotHistogram
  imports GoFloat Common
begin

text \<open>
  \<^verbatim>\<open>pkg/ebpf/histogram.go\<close>: the conversion of the 26 counters of a kernel histogram to the
  count, sum and cumulative buckets of a Prometheus histogram.
\<close>

subsection \<open>The code\<close>

definition MaxSlots :: nat where
  "MaxSlots = 26"

definition slotCeiling :: "nat \<Rightarrow> rat" where
  "slotCeiling i = f64_div (f64_of_u64 (push_bit i 1)) 1000000"

text \<open>\<^verbatim>\<open>math.Sqrt2\<close> as a \<^verbatim>\<open>float64\<close>.\<close>

definition Sqrt2 :: rat where
  "Sqrt2 = 6369051672525773 / 4503599627370496"

record slot_acc =
  sa_runningTotal :: "u64 list"
  sa_cumulative :: u64
  sa_count :: u64
  sa_sum :: rat

definition slot_body :: "u64 list \<Rightarrow> nat \<Rightarrow> slot_acc \<Rightarrow> slot_acc" where
  "slot_body sl i a =
     (let cumulative = sa_cumulative a + sl ! i;
          midpointUS = (if i = 0 then 1 / 2 else f64_mul (f64_of_u64 (push_bit (i - 1) 1)) Sqrt2)
      in \<lparr>sa_runningTotal = (sa_runningTotal a)[i := cumulative],
          sa_cumulative = cumulative,
          sa_count = sa_count a + sl ! i,
          sa_sum = f64_add (sa_sum a) (f64_mul (f64_of_u64 (sl ! i)) (f64_div midpointUS 1000000))\<rparr>)"

definition bucket_slot :: "rat \<Rightarrow> int" where
  "bucket_slot b = fold (\<lambda>i slot. if slotCeiling i \<le> b then int i else slot) [0..<MaxSlots] (- 1)"

definition SlotsToConstHistogram ::
    "u64 list \<Rightarrow> rat list \<Rightarrow> u64 \<times> rat \<times> (rat \<Rightarrow> u64 option)" where
  "SlotsToConstHistogram sl promBuckets =
     (let a = fold (slot_body sl) [0..<MaxSlots]
            \<lparr>sa_runningTotal = replicate MaxSlots 0, sa_cumulative = 0, sa_count = 0, sa_sum = 0\<rparr>;
          buckets = fold (\<lambda>b m.
              let slot = bucket_slot b
              in m(b \<mapsto> (if 0 \<le> slot then sa_runningTotal a ! nat slot else 0)))
            promBuckets Map.empty
      in (sa_count a, sa_sum a, buckets))"

subsection \<open>The loops\<close>

lemma f64_of_shift:
  assumes "k < 53"
  shows "f64_of_u64 (push_bit k 1) = 2 ^ k"
proof -
  have "(push_bit k 1 :: u64) = of_nat (2 ^ k)" by (simp add: push_bit_eq_mult)
  moreover have "(2::nat) ^ k < 2 ^ 64" using assms by (intro power_strict_increasing) simp_all
  ultimately have "unat (push_bit k 1 :: u64) = 2 ^ k" by (simp add: unat_of_nat del: of_nat_power)
  moreover have "f64 (of_nat (2 ^ k)) = of_nat (2 ^ k)"
    using assms by (intro f64_of_nat power_strict_increasing) simp_all
  ultimately show ?thesis by (simp add: f64_of_u64_def)
qed

lemma slotCeiling_eq: "i < 53 \<Longrightarrow> slotCeiling i = f64 (2 ^ i / 1000000)"
  by (simp only: slotCeiling_def f64_div_def f64_of_shift)

lemma slotCeiling_mono: "i \<le> j \<Longrightarrow> j < 53 \<Longrightarrow> slotCeiling i \<le> slotCeiling j"
  by (simp add: slotCeiling_eq f64_mono divide_right_mono power_increasing)

definition slot_loop :: "u64 list \<Rightarrow> nat \<Rightarrow> slot_acc" where
  "slot_loop sl n = fold (slot_body sl) [0..<n]
     \<lparr>sa_runningTotal = replicate MaxSlots 0, sa_cumulative = 0, sa_count = 0, sa_sum = 0\<rparr>"

lemma slot_loop_Suc: "slot_loop sl (Suc n) = slot_body sl n (slot_loop sl n)"
  by (simp add: slot_loop_def)

lemma slot_loop_inv:
  "length sl = MaxSlots \<Longrightarrow> n \<le> MaxSlots \<Longrightarrow>
     sa_cumulative (slot_loop sl n) = sum_list (take n sl) \<and>
     sa_count (slot_loop sl n) = sum_list (take n sl) \<and>
     length (sa_runningTotal (slot_loop sl n)) = MaxSlots \<and>
     (\<forall>i < n. sa_runningTotal (slot_loop sl n) ! i = sum_list (take (Suc i) sl))"
proof (induction n)
  case 0
  then show ?case by (simp add: slot_loop_def)
next
  case (Suc n)
  then have "take (Suc n) sl = take n sl @ [sl ! n]" by (simp add: take_Suc_conv_app_nth)
  with Suc show ?case
    by (auto simp: slot_loop_Suc slot_body_def Let_def nth_list_update less_Suc_eq)
qed

text \<open>The slots whose ceiling is at most \<^verbatim>\<open>b\<close> are the first \<^verbatim>\<open>slot_bound b\<close> ones.\<close>

definition slot_bound :: "rat \<Rightarrow> nat" where
  "slot_bound b = length (filter (\<lambda>i. slotCeiling i \<le> b) [0..<MaxSlots])"

lemma filter_prefix:
  assumes "\<And>i j. i \<le> j \<Longrightarrow> j < n \<Longrightarrow> P j \<Longrightarrow> P i"
  shows "filter P [0..<n] = [0..<length (filter P [0..<n])]"
  using assms
proof (induction n)
  case (Suc n)
  then have IH: "filter P [0..<n] = [0..<length (filter P [0..<n])]" by (metis less_Suc_eq)
  show ?case
  proof (cases "P n")
    case True
    with Suc.prems have "\<forall>i < n. P i" by (metis less_Suc_eq_le less_imp_le lessI)
    then have "filter P [0..<n] = [0..<n]" by (simp add: filter_id_conv)
    with True show ?thesis by simp
  next
    case False
    with IH show ?thesis by simp
  qed
qed simp

lemma ceilings_prefix: "filter (\<lambda>i. slotCeiling i \<le> b) [0..<MaxSlots] = [0..<slot_bound b]"
  unfolding slot_bound_def
  by (rule filter_prefix) (use slotCeiling_mono in \<open>fastforce simp: MaxSlots_def intro: order_trans\<close>)

lemma slotCeiling_le_iff: "i < MaxSlots \<Longrightarrow> slotCeiling i \<le> b \<longleftrightarrow> i < slot_bound b"
proof -
  assume "i < MaxSlots"
  then have "slotCeiling i \<le> b \<longleftrightarrow> i \<in> set (filter (\<lambda>i. slotCeiling i \<le> b) [0..<MaxSlots])" by simp
  then show ?thesis by (simp only: ceilings_prefix) simp
qed

lemma slot_bound_le: "slot_bound b \<le> MaxSlots"
  unfolding slot_bound_def using length_filter_le [of _ "[0..<MaxSlots]"] by simp

lemma slot_bound_mono: "b \<le> b' \<Longrightarrow> slot_bound b \<le> slot_bound b'"
proof (rule ccontr)
  assume "b \<le> b'" and "\<not> slot_bound b \<le> slot_bound b'"
  then have "slot_bound b' < MaxSlots" "slot_bound b' < slot_bound b"
    using slot_bound_le [of b] by simp_all
  then show False
    using slotCeiling_le_iff [of "slot_bound b'" b] slotCeiling_le_iff [of "slot_bound b'" b'] \<open>b \<le> b'\<close>
    by simp
qed

lemma fold_last_index:
  assumes "\<And>i. i < n \<Longrightarrow> P i \<longleftrightarrow> i < m"
  shows "fold (\<lambda>i slot. if P i then int i else slot) [0..<n] (- 1) = int (min n m) - 1"
  using assms by (induction n) auto

lemma bucket_slot_eq: "bucket_slot b = int (slot_bound b) - 1"
  unfolding bucket_slot_def
  using fold_last_index [of MaxSlots "\<lambda>i. slotCeiling i \<le> b" "slot_bound b"] slotCeiling_le_iff
    slot_bound_le [of b] by (simp add: min_def)

lemma fold_upd_map: "fold (\<lambda>b m. m(b \<mapsto> f b)) bs m b = (if b \<in> set bs then Some (f b) else m b)"
  by (induction bs arbitrary: m) auto

text \<open>What the function returns.\<close>

lemma SlotsToConstHistogram_eq:
  assumes "length sl = MaxSlots"
  shows "\<exists>sum. SlotsToConstHistogram sl bs
    = (sum_list sl, sum, \<lambda>b. if b \<in> set bs then Some (sum_list (take (slot_bound b) sl)) else None)"
proof -
  define a where "a = slot_loop sl MaxSlots"
  note L = slot_loop_inv [OF assms order_refl, folded a_def]
  have b: "(if 0 \<le> bucket_slot b then sa_runningTotal a ! nat (bucket_slot b) else 0)
      = sum_list (take (slot_bound b) sl)" for b
  proof (cases "slot_bound b")
    case (Suc k)
    then show ?thesis using L slot_bound_le [of b] by (simp add: bucket_slot_eq)
  qed (simp add: bucket_slot_eq)
  show ?thesis
    using L assms
    by (simp add: SlotsToConstHistogram_def Let_def b fold_upd_map fun_eq_iff
        flip: a_def [unfolded slot_loop_def])
qed

subsection \<open>Properties\<close>

lemma take_eq_map_nth: "n \<le> length xs \<Longrightarrow> take n xs = map ((!) xs) [0..<n]"
  by (rule nth_equalityI) simp_all

text \<open>
  C7: The count is the sum of the 26 counters, every requested boundary gets a bucket and no
  other does, and the bucket of a boundary is the sum of exactly the counters whose ceiling
  (2^i microseconds in seconds, as a float64) is at most the boundary.
\<close>

theorem histogram_buckets:
  assumes "length sl = MaxSlots" and "SlotsToConstHistogram sl bs = (count, sm, buckets)"
  shows "count = sum_list sl \<and> dom buckets = set bs \<and>
    (\<forall>b \<in> set bs. buckets b = Some (\<Sum>i \<leftarrow> filter (\<lambda>i. slotCeiling i \<le> b) [0..<MaxSlots]. sl ! i))"
proof -
  obtain s where e: "SlotsToConstHistogram sl bs
      = (sum_list sl, s, \<lambda>b. if b \<in> set bs then Some (sum_list (take (slot_bound b) sl)) else None)"
    using SlotsToConstHistogram_eq [OF assms(1)] by blast
  moreover have "take (slot_bound b) sl = map ((!) sl) [0..<slot_bound b]" for b
    using slot_bound_le [of b] assms(1) by (simp add: take_eq_map_nth)
  ultimately show ?thesis
    using assms(2) by (auto simp: ceilings_prefix dom_def split: if_splits)
qed

definition ex_counts :: "u64 list" where
  "ex_counts = replicate MaxSlots 10"

theorem histogram_buckets_witness:
  "length ex_counts = MaxSlots \<and>
   fst (SlotsToConstHistogram ex_counts [f64 (1 / 100), 1]) = sum_list ex_counts \<and>
   snd (snd (SlotsToConstHistogram ex_counts [f64 (1 / 100), 1])) 1
     = Some (\<Sum>i \<leftarrow> filter (\<lambda>i. slotCeiling i \<le> 1) [0..<MaxSlots]. ex_counts ! i)"
  using histogram_buckets [of ex_counts "[f64 (1 / 100), 1]"]
  by (cases "SlotsToConstHistogram ex_counts [f64 (1 / 100), 1]") (simp add: ex_counts_def)

lemma unat_sum_list:
  "(\<Sum>x\<leftarrow>xs. unat x) < 2 ^ 64 \<Longrightarrow> unat (sum_list xs :: u64) = (\<Sum>x\<leftarrow>xs. unat x)"
  by (induction xs) (simp_all add: unat_word_ariths)

lemma sum_unat_take_le: "(\<Sum>x\<leftarrow>take n xs. unat x) \<le> (\<Sum>x\<leftarrow>xs. unat (x :: u64))"
  by (induction xs arbitrary: n) (auto simp: take_Cons split: nat.split)

lemma sum_unat_take_mono: "m \<le> n \<Longrightarrow> (\<Sum>x\<leftarrow>take m xs. unat x) \<le> (\<Sum>x\<leftarrow>take n xs. unat (x :: u64))"
  using sum_unat_take_le [of m "take n xs"] by (simp add: min_def)

text \<open>
  The result is a well-formed Prometheus histogram as long as the counters do not add up to
  2^64: a larger boundary never has a smaller bucket, and no bucket exceeds the count.
\<close>

theorem histogram_cumulative:
  assumes "length sl = MaxSlots" and "(\<Sum>x\<leftarrow>sl. unat x) < 2 ^ 64"
    and "SlotsToConstHistogram sl bs = (count, sm, buckets)"
    and "buckets b = Some m" and "buckets b' = Some n" and "b \<le> b'"
  shows "unat m \<le> unat n \<and> unat n \<le> unat count"
proof -
  obtain s where e: "SlotsToConstHistogram sl bs
      = (sum_list sl, s, \<lambda>b. if b \<in> set bs then Some (sum_list (take (slot_bound b) sl)) else None)"
    using SlotsToConstHistogram_eq [OF assms(1)] by blast
  then have v: "count = sum_list sl" "m = sum_list (take (slot_bound b) sl)"
    "n = sum_list (take (slot_bound b') sl)"
    using assms(3-5) by (auto split: if_splits)
  have u: "unat (sum_list (take k sl)) = (\<Sum>x\<leftarrow>take k sl. unat x)" for k
    using assms(2) sum_unat_take_le [of k sl] by (intro unat_sum_list) linarith
  show ?thesis
    unfolding v using u sum_unat_take_mono [OF slot_bound_mono [OF assms(6)], of sl]
      sum_unat_take_le [of "slot_bound b'" sl] unat_sum_list [OF assms(2)] by simp
qed

theorem histogram_cumulative_witness:
  "unat (the (snd (snd (SlotsToConstHistogram ex_counts [f64 (1 / 100), 1])) (f64 (1 / 100))))
   \<le> unat (the (snd (snd (SlotsToConstHistogram ex_counts [f64 (1 / 100), 1])) 1))"
proof -
  obtain c s bk where e: "SlotsToConstHistogram ex_counts [f64 (1 / 100), 1] = (c, s, bk)"
    by (cases "SlotsToConstHistogram ex_counts [f64 (1 / 100), 1]")
  have l: "length ex_counts = MaxSlots" by (simp add: ex_counts_def)
  have "(\<Sum>x\<leftarrow>ex_counts. unat x) < 2 ^ 64"
    by (simp add: ex_counts_def MaxSlots_def sum_list_replicate)
  moreover obtain m n where "bk (f64 (1 / 100)) = Some m" "bk 1 = Some n"
    using SlotsToConstHistogram_eq [OF l, of "[f64 (1 / 100), 1]"] e by auto
  moreover have "f64 (1 / 100) \<le> 1" using f64_mono [of "1 / 100" 1] f64_of_nat [of 1] by simp
  ultimately have "unat m \<le> unat n"
    using histogram_cumulative [OF l _ e, of "f64 (1 / 100)" m 1 n] by blast
  with e \<open>bk (f64 (1 / 100)) = Some m\<close> \<open>bk 1 = Some n\<close> show ?thesis by simp
qed

lemma take_bump:
  "i < length xs \<Longrightarrow> sum_list (take n (xs[i := xs ! i + 1])) = sum_list (take n (xs :: u64 list)) + of_bool (i < n)"
proof (cases "i < n")
  case True
  assume "i < length xs"
  with True show ?thesis
    using sum_list_update_word [of i "take n xs"] by (simp add: take_update_swap)
qed (simp add: take_update_cancel)

text \<open>One more sample in slot \<^verbatim>\<open>i\<close>.\<close>

lemma bucket_bump:
  assumes "wf_hist h" and "i < MaxSlots" and "b \<in> set bs"
  shows "\<exists>m. snd (snd (SlotsToConstHistogram (slots h) bs)) b = Some m \<and>
    snd (snd (SlotsToConstHistogram (slots (bump i h)) bs)) b = Some (m + of_bool (slotCeiling i \<le> b))"
proof -
  have l: "length (slots h) = MaxSlots" "length (slots (bump i h)) = MaxSlots"
    using assms(1) by (simp_all add: wf_hist_def MaxSlots_def MAX_SLOTS_def bump_def)
  show ?thesis
    using SlotsToConstHistogram_eq [OF l(1), of bs] SlotsToConstHistogram_eq [OF l(2), of bs] assms(2,3) l(1)
    by (auto simp: bump_def take_bump slotCeiling_le_iff)
qed

text \<open>
  From the kernel to the exporter. A sample of a latency counted by the programs increments
  every bucket whose boundary is at or above that latency: no I/O is missing from a bucket it
  belongs to.
\<close>

theorem bucket_counts_fast_io:
  assumes "wf_hist h" and "0 < us" and "b \<in> set bs" and "f64 b = b" and "of_nat us / 1000000 \<le> b"
  shows "\<exists>m. snd (snd (SlotsToConstHistogram (slots h) bs)) b = Some m \<and>
    snd (snd (SlotsToConstHistogram (slots (bump (spec_slot us) h)) bs)) b = Some (m + 1)"
proof -
  have i: "spec_slot us < MaxSlots" using spec_slot_less [of us] by (simp add: MaxSlots_def MAX_SLOTS_def)
  have "(2 ^ spec_slot us :: rat) \<le> of_nat us"
    using spec_slot_bounds(1) [OF assms(2)] by (metis of_nat_le_iff of_nat_numeral of_nat_power)
  then have "(2 ^ spec_slot us :: rat) / 1000000 \<le> of_nat us / 1000000" by (rule divide_right_mono) simp
  with assms(5) have "f64 (2 ^ spec_slot us / 1000000) \<le> f64 b" by (intro f64_mono) (rule order_trans)
  then have "slotCeiling (spec_slot us) \<le> b" using i assms(4) by (simp add: slotCeiling_eq MaxSlots_def)
  then show ?thesis using bucket_bump [OF assms(1) i assms(3)] by simp
qed

theorem bucket_counts_fast_io_witness:
  "\<exists>m. snd (snd (SlotsToConstHistogram (slots zero_hist) [1])) 1 = Some m \<and>
    snd (snd (SlotsToConstHistogram (slots (bump (spec_slot 70) zero_hist)) [1])) 1 = Some (m + 1)"
  by (rule bucket_counts_fast_io) (use f64_of_nat [of 1] in simp_all)

lemma spec_slot_16ms: "spec_slot 16000 = 13"
proof -
  have "flog2 16000 = 13"
    by (rule is_log2_unique [OF flog2_is_log2]) (simp_all add: is_log2_def)
  then show ?thesis by (simp add: spec_slot_def MAX_SLOTS_def)
qed

text \<open>
  C35: A bucket also counts slower I/O. A counter is attributed to the lower end of its range of
  latencies, so an I/O of 16 milliseconds is counted in the bucket of all I/O up to 10
  milliseconds.
\<close>

theorem bucket_counts_slow_io:
  "f64 (1 / 100) < 16000 / 1000000 \<and>
   (\<exists>m. snd (snd (SlotsToConstHistogram (slots zero_hist) [f64 (1 / 100)])) (f64 (1 / 100)) = Some m \<and>
     snd (snd (SlotsToConstHistogram (slots (bump (spec_slot 16000) zero_hist)) [f64 (1 / 100)])) (f64 (1 / 100))
       = Some (m + 1))"
proof
  have "exponent (1 / 100) \<le> - 7"
  proof (rule ccontr)
    assume "\<not> exponent (1 / 100) \<le> - 7"
    then have "(2::rat) powi (- 6) \<le> 2 powi exponent (1 / 100)" by (intro power_int_increasing) simp_all
    with exponent_bounds(1) [of "1 / 100"] show False by (simp add: power_int_minus)
  qed
  then have "(2::rat) powi (exponent (1 / 100) + 1) \<le> 2 powi (- 6)" by (intro power_int_increasing) simp_all
  with f64_range(2) [of "1 / 100"] show "f64 (1 / 100) < 16000 / 1000000" by (simp add: power_int_minus)
next
  have "slotCeiling 13 \<le> f64 (1 / 100)" unfolding slotCeiling_eq [of 13, simplified] by (rule f64_mono) simp
  then show "\<exists>m. snd (snd (SlotsToConstHistogram (slots zero_hist) [f64 (1 / 100)])) (f64 (1 / 100)) = Some m \<and>
     snd (snd (SlotsToConstHistogram (slots (bump (spec_slot 16000) zero_hist)) [f64 (1 / 100)])) (f64 (1 / 100))
       = Some (m + 1)"
    using bucket_bump [of zero_hist 13 "f64 (1 / 100)" "[f64 (1 / 100)]"]
    by (simp add: spec_slot_16ms MaxSlots_def)
qed

end
