(* ===== verification/GoStrings.thy ===== *)
theory GoStrings
  imports Prelude
begin

text \<open>
  The parts of Go's \<^verbatim>\<open>strings\<close>, \<^verbatim>\<open>strconv\<close> and \<^verbatim>\<open>fmt\<close> packages the exporter uses, on strings of
  single-byte characters: splitting at white space or at a separator, decimal numbers in
  both directions, and the round trips between them.
\<close>

subsection \<open>Splitting\<close>

primrec split_by :: "(char \<Rightarrow> bool) \<Rightarrow> string \<Rightarrow> string list" where
  "split_by P [] = [[]]"
| "split_by P (c # cs) =
     (if P c then [] # split_by P cs
      else case split_by P cs of [] \<Rightarrow> [[c]] | w # ws \<Rightarrow> (c # w) # ws)"

definition is_space :: "char \<Rightarrow> bool" where
  "is_space c \<longleftrightarrow> (let n = of_char c :: nat in n = 32 \<or> 9 \<le> n \<and> n \<le> 13)"

text \<open>\<^verbatim>\<open>strings.Fields\<close>, \<^verbatim>\<open>strings.Split\<close> and \<^verbatim>\<open>strings.SplitN(s, sep, 2)\<close> for a one-byte separator.\<close>

definition Fields :: "string \<Rightarrow> string list" where
  "Fields s = filter (\<lambda>w. w \<noteq> []) (split_by is_space s)"

definition Split :: "string \<Rightarrow> char \<Rightarrow> string list" where
  "Split s sep = split_by (\<lambda>c. c = sep) s"

definition SplitN2 :: "string \<Rightarrow> char \<Rightarrow> string list" where
  "SplitN2 s sep =
     (let a = takeWhile (\<lambda>c. c \<noteq> sep) s
      in if a = s then [s] else [a, drop (Suc (length a)) s])"

subsection \<open>Decimal numbers\<close>

definition digit :: "nat \<Rightarrow> char" where
  "digit n = char_of (48 + n)"

definition digit_val :: "char \<Rightarrow> nat option" where
  "digit_val c = (let n = of_char c :: nat in if 48 \<le> n \<and> n \<le> 57 then Some (n - 48) else None)"

text \<open>\<^verbatim>\<open>%d\<close> of a non-negative number.\<close>

fun Itoa :: "nat \<Rightarrow> string" where
  "Itoa n = (if n < 10 then [digit n] else Itoa (n div 10) @ [digit (n mod 10)])"

declare Itoa.simps [simp del]

fun digits_val :: "nat \<Rightarrow> string \<Rightarrow> nat option" where
  "digits_val acc [] = Some acc"
| "digits_val acc (c # cs) =
     (case digit_val c of None \<Rightarrow> None | Some d \<Rightarrow> digits_val (10 * acc + d) cs)"

text \<open>\<^verbatim>\<open>strconv.ParseUint(s, 10, bits)\<close>: no sign, at least one digit, in range.\<close>

definition ParseUint :: "string \<Rightarrow> nat \<Rightarrow> nat option" where
  "ParseUint s bits =
     (if s = [] then None
      else case digits_val 0 s of
        None \<Rightarrow> None
      | Some n \<Rightarrow> if n < 2 ^ bits then Some n else None)"

text \<open>\<^verbatim>\<open>strconv.Atoi\<close>: an optional sign, then digits, in the range of a 64-bit \<^verbatim>\<open>int\<close>.\<close>

definition Atoi :: "string \<Rightarrow> int option" where
  "Atoi s =
     (let (neg, ds) = (case s of
            [] \<Rightarrow> (False, [])
          | c # cs \<Rightarrow> if c = CHR ''-'' then (True, cs) else if c = CHR ''+'' then (False, cs) else (False, s))
      in if ds = [] then None
      else case digits_val 0 ds of
        None \<Rightarrow> None
      | Some n \<Rightarrow>
          let v = (if neg then - int n else int n)
          in if - (2 ^ 63) \<le> v \<and> v < 2 ^ 63 then Some v else None)"

subsection \<open>Round trips\<close>

lemma split_by_ne [simp]: "split_by P s \<noteq> []"
  by (cases s) (simp_all split: list.split)

lemma split_by_word: "\<forall>c \<in> set w. \<not> P c \<Longrightarrow> split_by P w = [w]"
  by (induction w) simp_all

lemma split_by_append: "\<forall>c \<in> set w. \<not> P c \<Longrightarrow> P c \<Longrightarrow> split_by P (w @ c # s) = w # split_by P s"
  by (induction w) simp_all

primrec unwords :: "string list \<Rightarrow> string" where
  "unwords [] = []"
| "unwords (w # ws) = (if ws = [] then w else w @ CHR '' '' # unwords ws)"

definition word :: "string \<Rightarrow> bool" where
  "word w \<longleftrightarrow> w \<noteq> [] \<and> (\<forall>c \<in> set w. \<not> is_space c)"

lemma Fields_unwords: "\<forall>w \<in> set ws. word w \<Longrightarrow> Fields (unwords ws) = ws"
proof (induction ws)
  case (Cons w ws)
  then have w: "\<forall>c \<in> set w. \<not> is_space c" "w \<noteq> []" by (simp_all add: word_def)
  have "is_space CHR '' ''" by (simp add: is_space_def)
  with Cons w show ?case
    by (cases ws) (simp_all add: Fields_def split_by_word split_by_append)
qed (simp add: Fields_def)

lemma SplitN2_join:
  assumes "sep \<notin> set a"
  shows "SplitN2 (a @ sep # b) sep = [a, b]"
proof -
  have "takeWhile (\<lambda>c. c \<noteq> sep) (a @ sep # b) = a" using assms by (induction a) auto
  then show ?thesis by (simp add: SplitN2_def Let_def)
qed

lemma digit_val_digit [simp]: "n < 10 \<Longrightarrow> digit_val (digit n) = Some n"
  by (simp add: digit_val_def digit_def Let_def)

lemma digits_val_append:
  "digits_val acc (xs @ ys) = (case digits_val acc xs of None \<Rightarrow> None | Some n \<Rightarrow> digits_val n ys)"
  by (induction xs arbitrary: acc) (simp_all split: option.split)

lemma digits_val_Itoa [simp]: "digits_val 0 (Itoa n) = Some n"
proof (induction n rule: Itoa.induct)
  case (1 n)
  then show ?case by (simp add: Itoa.simps [of n] digits_val_append)
qed

lemma Itoa_ne [simp]: "Itoa n \<noteq> []"
  by (simp add: Itoa.simps [of n])

lemma digit_range: "n < 10 \<Longrightarrow> (of_char (digit n) :: nat) = 48 + n"
  by (simp add: digit_def)

lemma Itoa_digits: "\<forall>c \<in> set (Itoa n). 48 \<le> (of_char c :: nat) \<and> (of_char c :: nat) \<le> 57"
proof (induction n rule: Itoa.induct)
  case (1 n)
  then show ?case by (auto simp: Itoa.simps [of n] digit_range)
qed

lemma word_Itoa [simp]: "word (Itoa n)"
  using Itoa_digits [of n] by (auto simp: word_def is_space_def)

lemma colon_notin_Itoa [simp]: "CHR '':'' \<notin> set (Itoa n)"
  using Itoa_digits [of n] by auto

lemma ParseUint_Itoa [simp]: "n < 2 ^ bits \<Longrightarrow> ParseUint (Itoa n) bits = Some n"
  by (simp add: ParseUint_def)

lemma Atoi_Itoa [simp]:
  assumes "n < 2 ^ 63"
  shows "Atoi (Itoa n) = Some (int n)"
proof -
  obtain c cs where c: "Itoa n = c # cs" by (cases "Itoa n") simp_all
  then have "48 \<le> (of_char c :: nat)" using Itoa_digits [of n] by simp
  then have "c \<noteq> CHR ''-''" "c \<noteq> CHR ''+''" by auto
  moreover have "int n < 2 ^ 63" using assms by simp
  ultimately show ?thesis using digits_val_Itoa [of n] by (simp add: Atoi_def c)
qed

subsection \<open>Trimming, prefixes, case\<close>

definition TrimLeft :: "string \<Rightarrow> string" where
  "TrimLeft s = dropWhile is_space s"

definition TrimSpace :: "string \<Rightarrow> string" where
  "TrimSpace s = rev (dropWhile is_space (rev (dropWhile is_space s)))"

definition HasPrefix :: "string \<Rightarrow> string \<Rightarrow> bool" where
  "HasPrefix s pre \<longleftrightarrow> take (length pre) s = pre"

definition TrimPrefix :: "string \<Rightarrow> string \<Rightarrow> string" where
  "TrimPrefix s pre = (if HasPrefix s pre then drop (length pre) s else s)"

definition lower :: "char \<Rightarrow> char" where
  "lower c = (let n = of_char c :: nat in if 65 \<le> n \<and> n \<le> 90 then char_of (n + 32) else c)"

definition ToLower :: "string \<Rightarrow> string" where
  "ToLower s = map lower s"

definition EqualFold :: "string \<Rightarrow> string \<Rightarrow> bool" where
  "EqualFold s t \<longleftrightarrow> ToLower s = ToLower t"

text \<open>\<^verbatim>\<open>strings.Contains\<close> and \<^verbatim>\<open>strings.LastIndex\<close>.\<close>

fun Contains :: "string \<Rightarrow> string \<Rightarrow> bool" where
  "Contains [] sub = (sub = [])"
| "Contains (c # cs) sub = (HasPrefix (c # cs) sub \<or> Contains cs sub)"

fun LastIndex :: "string \<Rightarrow> string \<Rightarrow> nat option" where
  "LastIndex [] sub = (if sub = [] then Some 0 else None)"
| "LastIndex (c # cs) sub =
     (case LastIndex cs sub of
        Some i \<Rightarrow> Some (Suc i)
      | None \<Rightarrow> if HasPrefix (c # cs) sub then Some 0 else None)"

text \<open>Lines as \<^verbatim>\<open>bufio\<close> and \<^verbatim>\<open>encoding/csv\<close> see them: one carriage return before the line end is dropped.\<close>

definition drop_cr :: "string \<Rightarrow> string" where
  "drop_cr l = (if l \<noteq> [] \<and> last l = CHR 0x0D then butlast l else l)"

fun replace_crlf :: "string \<Rightarrow> string" where
  "replace_crlf (a # b # cs) =
     (if a = CHR 0x0D \<and> b = CHR 0x0A then CHR 0x0A # replace_crlf cs else a # replace_crlf (b # cs))"
| "replace_crlf s = s"

primrec join :: "char \<Rightarrow> string list \<Rightarrow> string" where
  "join sep [] = []"
| "join sep (w # ws) = (if ws = [] then w else w @ sep # join sep ws)"

text \<open>\<^verbatim>\<open>strconv.ParseInt(s, base, bits)\<close> for base 10 and 16.\<close>

definition digit_val_base :: "nat \<Rightarrow> char \<Rightarrow> nat option" where
  "digit_val_base base c =
     (let n = of_char c :: nat;
          d = (if 48 \<le> n \<and> n \<le> 57 then n - 48
               else if 97 \<le> n \<and> n \<le> 122 then n - 87
               else if 65 \<le> n \<and> n \<le> 90 then n - 55 else 36)
      in if d < base then Some d else None)"

fun digits_val_base :: "nat \<Rightarrow> nat \<Rightarrow> string \<Rightarrow> nat option" where
  "digits_val_base base acc [] = Some acc"
| "digits_val_base base acc (c # cs) =
     (case digit_val_base base c of None \<Rightarrow> None | Some d \<Rightarrow> digits_val_base base (base * acc + d) cs)"

definition ParseInt :: "string \<Rightarrow> nat \<Rightarrow> nat \<Rightarrow> int option" where
  "ParseInt s base bits =
     (let (neg, ds) = (case s of
            [] \<Rightarrow> (False, [])
          | c # cs \<Rightarrow> if c = CHR ''-'' then (True, cs) else if c = CHR ''+'' then (False, cs) else (False, s))
      in if ds = [] then None
      else case digits_val_base base 0 ds of
        None \<Rightarrow> None
      | Some n \<Rightarrow>
          let v = (if neg then - int n else int n)
          in if - (2 ^ (bits - 1)) \<le> v \<and> v < 2 ^ (bits - 1) then Some v else None)"

lemma HasPrefix_append [simp]: "HasPrefix (pre @ s) pre"
  by (simp add: HasPrefix_def)

lemma TrimPrefix_append [simp]: "TrimPrefix (pre @ s) pre = s"
  by (simp add: TrimPrefix_def)

lemma TrimPrefix_eq_iff: "pre \<noteq> [] \<Longrightarrow> TrimPrefix s pre \<noteq> s \<longleftrightarrow> (\<exists>t. s = pre @ t)"
proof -
  assume pre: "pre \<noteq> []"
  show ?thesis
  proof (cases "HasPrefix s pre")
    case True
    then have s: "s = pre @ drop (length pre) s" by (metis HasPrefix_def append_take_drop_id)
    moreover have "drop (length pre) s \<noteq> s" using pre by (metis s append_self_conv2)
    ultimately show ?thesis using True by (auto simp: TrimPrefix_def)
  qed (auto simp: TrimPrefix_def)
qed

lemma dropWhile_word: "\<forall>c \<in> set w. \<not> P c \<Longrightarrow> dropWhile P w = w"
  by (cases w) simp_all

lemma TrimSpace_pad:
  assumes "\<forall>c \<in> set a. is_space c" and "\<forall>c \<in> set b. is_space c" and "\<forall>c \<in> set w. \<not> is_space c"
  shows "TrimSpace (a @ w @ b) = w"
proof (cases "w = []")
  case True
  then show ?thesis using assms by (auto simp: TrimSpace_def dropWhile_eq_Nil_conv dest: set_dropWhileD)
next
  case False
  have "dropWhile is_space (a @ w @ b) = w @ b"
    using assms(1,3) False by (simp add: dropWhile_append2) (cases w; simp)
  moreover have "dropWhile is_space (rev b @ rev w) = rev w"
    using dropWhile_append2 [of "rev b" is_space "rev w"] dropWhile_word [of "rev w" is_space] assms(2,3) by simp
  ultimately show ?thesis by (simp add: TrimSpace_def)
qed

lemma TrimSpace_word [simp]: "word w \<Longrightarrow> TrimSpace w = w"
  using TrimSpace_pad [of "[]" "[]" w] by (simp add: word_def)

lemma Split_append: "sep \<notin> set w \<Longrightarrow> Split (w @ sep # s) sep = w # Split s sep"
  unfolding Split_def by (rule split_by_append) auto

lemma Split_word: "sep \<notin> set w \<Longrightarrow> Split w sep = [w]"
  unfolding Split_def by (rule split_by_word) auto

lemma Split_join:
  assumes "ws \<noteq> []" and "\<forall>w \<in> set ws. sep \<notin> set w"
  shows "Split (join sep ws) sep = ws"
  using assms
proof (induction ws)
  case (Cons w ws)
  then show ?case
    by (cases ws) (simp_all add: Split_word Split_append)
qed simp

lemma digit_val_base_10 [simp]: "digit_val_base 10 c = digit_val c"
  by (auto simp: digit_val_base_def digit_val_def Let_def)

lemma digits_val_base_10 [simp]: "digits_val_base 10 acc s = digits_val acc s"
  by (induction s arbitrary: acc) (simp_all split: option.split)

lemma ParseInt_Itoa [simp]:
  assumes "n < 2 ^ 63"
  shows "ParseInt (Itoa n) 10 64 = Some (int n)"
proof -
  obtain c cs where c: "Itoa n = c # cs" by (cases "Itoa n") simp_all
  then have "48 \<le> (of_char c :: nat)" using Itoa_digits [of n] by simp
  then have "c \<noteq> CHR ''-''" "c \<noteq> CHR ''+''" by auto
  moreover have "int n < 2 ^ 63" using assms by simp
  ultimately show ?thesis
    using digits_val_Itoa [of n] by (simp add: ParseInt_def c del: digits_val_base.simps digits_val.simps)
qed

end
