(* ===== verification/Device.thy ===== *)
theory Device
  imports GoStrings
begin

unbundle bit_operations_syntax

text \<open>
  \<^verbatim>\<open>pkg/device\<close>: which pod and volume a device number belongs to. \<^verbatim>\<open>procmounts.go\<close> parses the
  lines of \<^verbatim>\<open>/proc/1/mountinfo\<close>; \<^verbatim>\<open>resolver.go\<close> finds the kubelet volumes among the mounts and
  keeps a map from device number to pod, namespace and claim. The file system, the pod store
  and the claim index are arguments.
\<close>

subsection \<open>Device numbers\<close>

definition MkDev :: "u32 \<Rightarrow> u32 \<Rightarrow> u32" where
  "MkDev major minor = push_bit 20 major OR minor"

definition DevToString :: "u32 \<Rightarrow> string" where
  "DevToString dev =
     (let major = drop_bit 20 dev; minor = dev AND (push_bit 20 1 - 1)
      in Itoa (unat major) @ '':'' @ Itoa (unat minor))"

record Stat_t =
  st_Mode :: u32
  st_Rdev :: u64

datatype stat_error = StatFailed | NotBlockDevice

definition S_IFBLK :: u32 where
  "S_IFBLK = 0x6000"

definition statBlockDevice :: "(string \<Rightarrow> Stat_t option) \<Rightarrow> string \<Rightarrow> stat_error + u32" where
  "statBlockDevice stat path =
     (case stat path of
        None \<Rightarrow> Inl StatFailed
      | Some st \<Rightarrow>
          if st_Mode st AND S_IFBLK = 0 then Inl NotBlockDevice
          else
            let major = ucast (drop_bit 8 (st_Rdev st) AND 0xfff) :: u32;
                minor = ucast ((st_Rdev st AND 0xff) OR (drop_bit 12 (st_Rdev st) AND 0xfff00)) :: u32
            in Inr (MkDev major minor))"

subsection \<open>Mount table\<close>

record MountEntry =
  me_MountID :: int
  me_ParentID :: int
  me_Major :: u32
  me_Minor :: u32
  me_Root :: string
  me_MountPoint :: string
  me_FSType :: string
  me_Source :: string

datatype mount_error = TooFewFields | NumError | InvalidDevice | MissingSeparator

definition parseMountInfoLine :: "string \<Rightarrow> mount_error + MountEntry" where
  "parseMountInfoLine line =
     (let fields = Fields line
      in if length fields < 7 then Inl TooFewFields
      else case Atoi (fields ! 0) of None \<Rightarrow> Inl NumError
      | Some mountID \<Rightarrow>
      (case Atoi (fields ! 1) of None \<Rightarrow> Inl NumError
      | Some parentID \<Rightarrow>
      let devParts = SplitN2 (fields ! 2) (CHR '':'')
      in if length devParts \<noteq> 2 then Inl InvalidDevice
      else case ParseUint (devParts ! 0) 32 of None \<Rightarrow> Inl NumError
      | Some major \<Rightarrow>
      (case ParseUint (devParts ! 1) 32 of None \<Rightarrow> Inl NumError
      | Some minor \<Rightarrow>
      (case find (\<lambda>i. fields ! i = ''-'') [6..<length fields] of
         None \<Rightarrow> Inl MissingSeparator
       | Some sepIdx \<Rightarrow>
           if length fields \<le> sepIdx + 2 then Inl MissingSeparator
           else Inr \<lparr>me_MountID = mountID, me_ParentID = parentID,
                     me_Major = of_nat major, me_Minor = of_nat minor,
                     me_Root = fields ! 3, me_MountPoint = fields ! 4,
                     me_FSType = fields ! (sepIdx + 1), me_Source = fields ! (sepIdx + 2)\<rparr>))))"

text \<open>
  \<^verbatim>\<open>bufio.Scanner\<close> over the file: lines end in a newline, a carriage return before it is
  dropped, nothing follows the last newline, and a line of 64 KiB stops the scan with an
  error.
\<close>

datatype file_error = OpenFailed | TokenTooLong

definition scan_lines :: "string \<Rightarrow> string list" where
  "scan_lines content =
     (let ls = Split content (CHR 0x0A) in if last ls = [] then butlast ls else ls)"

fun mount_entries :: "string list \<Rightarrow> MountEntry list \<times> file_error option" where
  "mount_entries [] = ([], None)"
| "mount_entries (l # ls) =
     (if 65536 \<le> length l then ([], Some TokenTooLong)
      else
        let (es, err) = mount_entries ls
        in case parseMountInfoLine (drop_cr l) of
          Inl _ \<Rightarrow> (es, err)
        | Inr e \<Rightarrow> (e # es, err))"

definition ParseMountInfo :: "(string \<Rightarrow> string option) \<Rightarrow> string \<Rightarrow> MountEntry list \<times> file_error option" where
  "ParseMountInfo open_file path =
     (case open_file path of
        None \<Rightarrow> ([], Some OpenFailed)
      | Some content \<Rightarrow> mount_entries (scan_lines content))"

subsection \<open>Kubelet paths\<close>

text \<open>
  The regular expressions \<^verbatim>\<open>kubeletVolumeRe\<close> and \<^verbatim>\<open>kubeletBlockDeviceRe\<close> on the components of a
  path, last one first. Both end at the end of the path and start with \<^verbatim>\<open>.*/\<close>, so a component
  precedes the first one they name.
\<close>

definition is_hex :: "char \<Rightarrow> bool" where
  "is_hex c \<longleftrightarrow> (let n = of_char c :: nat in 48 \<le> n \<and> n \<le> 57 \<or> 97 \<le> n \<and> n \<le> 102)"

definition is_uid :: "string \<Rightarrow> bool" where
  "is_uid s \<longleftrightarrow> map length (Split s (CHR ''-'')) = [8, 4, 4, 4, 12] \<and>
     list_all is_hex (concat (Split s (CHR ''-'')))"

fun match_volume :: "string list \<Rightarrow> (string \<times> string) option" where
  "match_volume (v # p # vols # uid # pods # c # cs) =
     (if vols = ''volumes'' \<and> pods = ''pods'' \<and> is_uid uid \<and> p \<noteq> [] \<and> v \<noteq> []
      then Some (uid, v) else None)"
| "match_volume _ = None"

definition parseKubeletVolumePath :: "string \<Rightarrow> (string \<times> string) option" where
  "parseKubeletVolumePath mountPoint =
     (let cs = rev (Split mountPoint (CHR ''/''))
      in case (if hd cs = ''mount'' then match_volume (tl cs) else None) of
        Some r \<Rightarrow> Some r
      | None \<Rightarrow> match_volume cs)"

fun match_block :: "string list \<Rightarrow> (string \<times> string) option" where
  "match_block (uid # pv # pub # vd # c # cs) =
     (if vd = ''volumeDevices'' \<and> pub = ''publish'' \<and> is_uid uid \<and> pv \<noteq> []
      then Some (uid, pv) else None)"
| "match_block _ = None"

definition parseKubeletBlockDevicePath :: "string \<Rightarrow> (string \<times> string) option" where
  "parseKubeletBlockDevicePath mountPoint = match_block (rev (Split mountPoint (CHR ''/'')))"

subsection \<open>The resolver\<close>

record DeviceInfo =
  di_PVCName :: string
  di_PodName :: string
  di_Namespace :: string
  di_NodeName :: string
  di_MountPath :: string
  di_DevPath :: string
  di_IsNFS :: bool

record podMeta =
  pm_Name :: string
  pm_Namespace :: string

text \<open>Objects of the Kubernetes caches, as far as the resolver looks at them.\<close>

datatype kobj =
    Pod (pod_uid: string) (pod_name: string) (pod_ns: string)
  | PVC (pvc_name: string) (pvc_volume: string)
  | OtherObj

definition PVCByPVIndexFunc :: "kobj \<Rightarrow> string list" where
  "PVCByPVIndexFunc obj =
     (case obj of PVC _ vol \<Rightarrow> if vol = [] then [] else [vol] | _ \<Rightarrow> [])"

record Resolver =
  r_devices :: "u32 \<Rightarrow> DeviceInfo option"
  r_nodeName :: string
  r_procPath :: string
  r_podStore :: "kobj list option"
  r_pvcIndexer :: "(string \<Rightarrow> kobj list option) option"

definition NewResolver :: "string \<Rightarrow> string \<Rightarrow> kobj list option \<Rightarrow>
    (string \<Rightarrow> kobj list option) option \<Rightarrow> Resolver" where
  "NewResolver nodeName procPath podStore pvcIndexer =
     \<lparr>r_devices = Map.empty, r_nodeName = nodeName, r_procPath = procPath,
      r_podStore = podStore, r_pvcIndexer = pvcIndexer\<rparr>"

definition Lookup :: "Resolver \<Rightarrow> u32 \<Rightarrow> DeviceInfo option" where
  "Lookup r dev = r_devices r dev"

definition podMetaMap :: "Resolver \<Rightarrow> string \<Rightarrow> podMeta option" where
  "podMetaMap r =
     (case r_podStore r of
        None \<Rightarrow> Map.empty
      | Some objs \<Rightarrow>
          fold (\<lambda>obj m. case obj of
              Pod uid name ns \<Rightarrow> m(uid \<mapsto> \<lparr>pm_Name = name, pm_Namespace = ns\<rparr>)
            | _ \<Rightarrow> m) objs Map.empty)"

definition resolvePVCName :: "Resolver \<Rightarrow> string \<Rightarrow> string" where
  "resolvePVCName r pvName =
     (case r_pvcIndexer r of
        None \<Rightarrow> pvName
      | Some byIndex \<Rightarrow>
          (case byIndex pvName of
             None \<Rightarrow> pvName
           | Some [] \<Rightarrow> pvName
           | Some (PVC name _ # _) \<Rightarrow> name
           | Some (_ # _) \<Rightarrow> pvName))"

definition scan_mount :: "(string \<Rightarrow> Stat_t option) \<Rightarrow> Resolver \<Rightarrow> MountEntry \<Rightarrow>
    (u32 \<Rightarrow> DeviceInfo option) \<Rightarrow> u32 \<Rightarrow> DeviceInfo option" where
  "scan_mount stat r m devices =
     (let blk = parseKubeletBlockDevicePath (me_MountPoint m);
          isBlock = (blk \<noteq> None)
      in case (if isBlock then blk else parseKubeletVolumePath (me_MountPoint m)) of
        None \<Rightarrow> devices
      | Some (podUID, pvcName) \<Rightarrow>
          (case (if isBlock then statBlockDevice stat (r_procPath r @ ''/1/root'' @ me_MountPoint m)
                 else Inr (MkDev (me_Major m) (me_Minor m))) of
             Inl _ \<Rightarrow> devices
           | Inr dev \<Rightarrow>
               let pvcName = resolvePVCName r pvcName
               in case podMetaMap r podUID of
                 None \<Rightarrow> devices
               | Some meta \<Rightarrow>
                   devices(dev \<mapsto>
                     \<lparr>di_PVCName = pvcName, di_PodName = pm_Name meta, di_Namespace = pm_Namespace meta,
                      di_NodeName = r_nodeName r, di_MountPath = me_MountPoint m,
                      di_DevPath = me_Source m,
                      di_IsNFS = (me_FSType m = ''nfs'' \<or> me_FSType m = ''nfs4'')\<rparr>)))"

definition scan :: "(string \<Rightarrow> string option) \<Rightarrow> (string \<Rightarrow> Stat_t option) \<Rightarrow> Resolver \<Rightarrow> Resolver" where
  "scan open_file stat r =
     (case ParseMountInfo open_file (r_procPath r @ ''/1/mountinfo'') of
        (_, Some _) \<Rightarrow> r
      | (mounts, None) \<Rightarrow> r\<lparr>r_devices := fold (scan_mount stat r) mounts Map.empty\<rparr>)"

text \<open>\<^verbatim>\<open>Run\<close>: one scan at the start and one per tick; each sees the files as they are then.\<close>

definition resolver_run :: "((string \<Rightarrow> string option) \<times> (string \<Rightarrow> Stat_t option)) list \<Rightarrow> Resolver \<Rightarrow> Resolver" where
  "resolver_run ticks r = fold (\<lambda>(open_file, stat). scan open_file stat) ticks r"

subsection \<open>Device numbers: properties\<close>

lemma bit_bound:
  fixes w :: "'a :: len word"
  assumes "unat w < 2 ^ n" and "bit w k"
  shows "k < n"
proof (rule ccontr)
  assume "\<not> k < n"
  have "take_bit n w = w" using assms(1)
    by (simp add: word_unat_eq_iff unsigned_take_bit_eq take_bit_nat_eq_self_iff)
  then have "bit (take_bit n w) k" using assms(2) by simp
  with \<open>\<not> k < n\<close> show False by (simp add: bit_take_bit_iff)
qed

lemma low_mask20: "(push_bit 20 1 - 1 :: u32) = mask 20"
  by (simp add: mask_eq_exp_minus_1)

lemma MkDev_parts:
  assumes "unat major < 2 ^ 12" and "unat minor < 2 ^ 20"
  shows "drop_bit 20 (MkDev major minor) = major" and "MkDev major minor AND (push_bit 20 1 - 1) = minor"
proof -
  note b = bit_bound [OF assms(1)] bit_bound [OF assms(2)]
  show "drop_bit 20 (MkDev major minor) = major"
    by (rule bit_word_eqI) (auto simp: MkDev_def bit_simps dest: b)
  show "MkDev major minor AND (push_bit 20 1 - 1) = minor"
    unfolding low_mask20
    by (rule bit_word_eqI) (auto simp: MkDev_def bit_simps dest: b)
qed

text \<open>
  A device number made of a 12-bit major and a 20-bit minor number is printed as those two
  numbers, and two devices have the same number only if both parts agree.
\<close>

theorem MkDev_roundtrip:
  assumes "unat major < 2 ^ 12" and "unat minor < 2 ^ 20"
    and "unat major' < 2 ^ 12" and "unat minor' < 2 ^ 20"
  shows "DevToString (MkDev major minor) = Itoa (unat major) @ '':'' @ Itoa (unat minor)
    \<and> (MkDev major minor = MkDev major' minor' \<longleftrightarrow> major = major' \<and> minor = minor')"
  using MkDev_parts [OF assms(1,2)] MkDev_parts [OF assms(3,4)]
  by (auto simp: DevToString_def Let_def)

theorem MkDev_roundtrip_witness: "DevToString (MkDev 8 16) = ''8:16''"
proof -
  have "DevToString (MkDev 8 16) = Itoa (unat (8::u32)) @ '':'' @ Itoa (unat (16::u32))"
    using MkDev_roundtrip [of 8 16 8 16] by simp
  moreover have "Itoa 8 = ''8''" "Itoa 16 = ''16''" by code_simp+
  ultimately show ?thesis by simp
qed

text \<open>The kernel's encoding of a device number in \<^verbatim>\<open>st_rdev\<close>.\<close>

definition new_encode_dev :: "u64 \<Rightarrow> u64 \<Rightarrow> u64" where
  "new_encode_dev major minor =
     (minor AND 0xff) OR push_bit 8 major OR push_bit 12 (minor AND NOT 0xff)"

lemma mask_ff: "(0xff :: u64) = mask 8" "(0xfff :: u64) = mask 12" "(0xfff00 :: u64) = push_bit 8 (mask 12)"
  by (simp_all add: mask_eq_exp_minus_1)

text \<open>
  The device number read from a block device node is the one the block tracepoints and the
  mount table use: decoding the 32-bit encoding of \<^verbatim>\<open>st_rdev\<close> and packing it gives the number of
  the major and minor it was made from.
\<close>

theorem stat_decodes_rdev:
  fixes major minor :: u32
  assumes "unat major < 2 ^ 12" and "unat minor < 2 ^ 20"
    and "stat path = Some \<lparr>st_Mode = mode, st_Rdev = new_encode_dev (ucast major) (ucast minor)\<rparr>"
    and "mode AND S_IFBLK \<noteq> 0"
  shows "statBlockDevice stat path = Inr (MkDev major minor)"
proof -
  define rdev where "rdev = new_encode_dev (ucast major) (ucast minor)"
  note b = bit_bound [OF assms(1)] bit_bound [OF assms(2)]
  have "ucast (drop_bit 8 rdev AND 0xfff) = major"
    unfolding rdev_def new_encode_dev_def mask_ff
    by (rule bit_word_eqI) (auto simp: bit_simps dest: b)
  moreover have "ucast ((rdev AND 0xff) OR (drop_bit 12 rdev AND 0xfff00)) = minor"
    unfolding rdev_def new_encode_dev_def mask_ff
    by (rule bit_word_eqI) (auto simp: bit_simps dest: b)
  ultimately show ?thesis
    using assms(3,4) by (simp add: statBlockDevice_def rdev_def Let_def)
qed

theorem stat_decodes_rdev_witness:
  "statBlockDevice (\<lambda>p. if p = ''/dev/sdb'' then Some \<lparr>st_Mode = 0x6000, st_Rdev = new_encode_dev 8 16\<rparr> else None)
     ''/dev/sdb'' = Inr (MkDev 8 16)"
  using stat_decodes_rdev [of 8 16 "\<lambda>p. if p = ''/dev/sdb'' then Some \<lparr>st_Mode = 0x6000, st_Rdev = new_encode_dev 8 16\<rparr> else None" "''/dev/sdb''" "0x6000"]
  by (simp add: S_IFBLK_def)

text \<open>
  The test for a block device also accepts a directory, whose mode shares a bit with the
  mode of a block device.
\<close>

theorem stat_accepts_directory:
  "statBlockDevice (\<lambda>p. Some \<lparr>st_Mode = 0x41ed, st_Rdev = 0\<rparr>) path = Inr 0"
  by (simp add: statBlockDevice_def S_IFBLK_def MkDev_def)

subsection \<open>Mount lines: properties\<close>

text \<open>A line as the kernel prints it: six fields, optional ones, a dash, three more.\<close>

definition mount_line :: "nat \<Rightarrow> nat \<Rightarrow> nat \<Rightarrow> nat \<Rightarrow> string \<Rightarrow> string \<Rightarrow> string \<Rightarrow> string list \<Rightarrow>
    string \<Rightarrow> string \<Rightarrow> string \<Rightarrow> string" where
  "mount_line mid pid major minor root mp opts optional fstype source sopts =
     unwords ([Itoa mid, Itoa pid, Itoa major @ '':'' @ Itoa minor, root, mp, opts] @ optional @
       [''-'', fstype, source, sopts])"

lemma word_append: "word a \<Longrightarrow> word b \<Longrightarrow> \<not> is_space c \<Longrightarrow> word (a @ c # b)"
  by (auto simp: word_def)

lemma find_append: "find P (xs @ ys) = (case find P xs of None \<Rightarrow> find P ys | Some x \<Rightarrow> Some x)"
  by (induction xs) simp_all

lemma find_dash:
  assumes "''-'' \<notin> set optional" and "length h6 = 6"
  shows "find (\<lambda>i. (h6 @ optional @ ''-'' # rest) ! i = ''-'')
      [6..<length (h6 @ optional @ ''-'' # rest)] = Some (6 + length optional)"
proof -
  define fs where "fs = h6 @ optional @ ''-'' # rest"
  have "length fs = 6 + length optional + Suc (length rest)" using assms(2) by (simp add: fs_def)
  then have l: "[6..<length fs] = [6..<6 + length optional] @ [6 + length optional..<length fs]"
    using upt_add_eq_append [of 6 "6 + length optional" "Suc (length rest)"] by simp
  have "find (\<lambda>i. fs ! i = ''-'') [6..<6 + length optional] = None"
    using assms by (auto simp: find_None_iff fs_def nth_append in_set_conv_nth)
  moreover have "[6 + length optional..<length fs] = (6 + length optional) # [7 + length optional..<length fs]"
    using assms(2) by (simp add: fs_def upt_conv_Cons)
  moreover have "fs ! (6 + length optional) = ''-''" using assms(2) by (simp add: fs_def nth_append)
  ultimately show ?thesis unfolding fs_def [symmetric] l by (simp add: find_append)
qed

text \<open>
  C11: Round trip of the mount table. A line in the format of the kernel, with any number of
  optional fields, parses to exactly the numbers, root, mount point, file system type and
  source it was printed from.
\<close>

theorem parse_mount_line:
  assumes "mid < 2 ^ 63" and "pid < 2 ^ 63" and "major < 2 ^ 32" and "minor < 2 ^ 32"
    and "list_all word ([root, mp, opts] @ optional @ [fstype, source, sopts])"
    and "''-'' \<notin> set optional"
  shows "parseMountInfoLine (mount_line mid pid major minor root mp opts optional fstype source sopts)
    = Inr \<lparr>me_MountID = int mid, me_ParentID = int pid, me_Major = of_nat major, me_Minor = of_nat minor,
        me_Root = root, me_MountPoint = mp, me_FSType = fstype, me_Source = source\<rparr>"
proof -
  define dev where "dev = Itoa major @ '':'' @ Itoa minor"
  define fs where "fs = [Itoa mid, Itoa pid, dev, root, mp, opts] @ optional @ [''-'', fstype, source, sopts]"
  have "\<not> is_space CHR '':''" "word ''-''" by (simp_all add: is_space_def word_def)
  then have "\<forall>w \<in> set fs. word w"
    using assms(5) word_append [of "Itoa major" "Itoa minor" "CHR '':''"]
    by (auto simp: fs_def dev_def list_all_iff)
  then have f: "Fields (mount_line mid pid major minor root mp opts optional fstype source sopts) = fs"
    unfolding mount_line_def fs_def dev_def by (rule Fields_unwords)
  have d: "SplitN2 dev CHR '':'' = [Itoa major, Itoa minor]"
    by (simp add: dev_def SplitN2_join)
  have s: "find (\<lambda>i. fs ! i = ''-'') [6..<length fs] = Some (6 + length optional)"
    using find_dash [OF assms(6), of "[Itoa mid, Itoa pid, dev, root, mp, opts]" "[fstype, source, sopts]"]
    by (simp add: fs_def)
  have n: "fs ! 0 = Itoa mid" "fs ! 1 = Itoa pid" "fs ! 2 = dev" "fs ! 3 = root" "fs ! 4 = mp"
    "fs ! (7 + length optional) = fstype" "fs ! (8 + length optional) = source"
    "length fs = 10 + length optional"
    by (simp_all add: fs_def nth_append numeral_eq_Suc)
  show ?thesis
    using assms(1-4) unfolding parseMountInfoLine_def f Let_def n(1-3) d s
    by (simp add: n)
qed

theorem parse_mount_line_witness:
  "parseMountInfoLine (mount_line 36 35 8 1 ''/'' ''/mnt/data'' ''rw,noatime'' [''shared:1''] ''ext4'' ''/dev/sda1'' ''rw'')
    = Inr \<lparr>me_MountID = 36, me_ParentID = 35, me_Major = 8, me_Minor = 1, me_Root = ''/'',
        me_MountPoint = ''/mnt/data'', me_FSType = ''ext4'', me_Source = ''/dev/sda1''\<rparr>"
  using parse_mount_line [of 36 35 8 1 "''/''" "''/mnt/data''" "''rw,noatime''" "[''shared:1'']" "''ext4''" "''/dev/sda1''" "''rw''"]
  by (simp add: word_def is_space_def)

subsection \<open>Kubelet paths: properties\<close>

lemma split_by_append_any: "P c \<Longrightarrow> split_by P (s @ c # t) = split_by P s @ split_by P t"
  by (induction s) (auto split: list.split)

lemma Split_append_any: "Split (s @ sep # t) sep = Split s sep @ Split t sep"
  by (simp add: Split_def split_by_append_any)

lemma in_Split: "c \<in> set s \<Longrightarrow> c \<noteq> sep \<Longrightarrow> c \<in> set (concat (Split s sep))"
proof (induction s)
  case (Cons d s)
  obtain w ws where "Split s sep = w # ws" by (cases "Split s sep") (simp_all add: Split_def)
  with Cons show ?case by (auto simp: Split_def)
qed simp

lemma is_uid_no_slash: "is_uid u \<Longrightarrow> CHR ''/'' \<notin> set u"
proof
  assume "is_uid u" and "CHR ''/'' \<in> set u"
  then have "is_hex (CHR ''/'')" using in_Split [of "CHR ''/''" u "CHR ''-''"]
    by (auto simp: is_uid_def list_all_iff)
  then show False by (simp add: is_hex_def)
qed

lemma is_uid_not [simp]: "\<not> is_uid ''pods''" "\<not> is_uid ''volumes''" "\<not> is_uid ''mount''"
  by (simp_all add: is_uid_def Split_def)

lemma Split_ne: "Split s sep \<noteq> []"
  by (simp add: Split_def)

lemma rev_Split_cons: "\<exists>c cs. rev (Split s sep) = c # cs"
  by (metis Split_ne neq_Nil_conv rev_is_Nil_conv)

text \<open>
  Kubelet volume paths. The mount point of a file system volume, with or without a final
  \<^verbatim>\<open>/mount\<close>, below any directory, gives the pod and the volume in it; the publish path of a
  block volume gives the pod and the volume in it.
\<close>

theorem kubelet_paths_parse:
  assumes "is_uid uid" and "pv \<noteq> []" and "CHR ''/'' \<notin> set pv" and "plugin \<noteq> []" and "CHR ''/'' \<notin> set plugin"
  shows "parseKubeletVolumePath (dir @ ''/pods/'' @ uid @ ''/volumes/'' @ plugin @ ''/'' @ pv) = Some (uid, pv)
    \<and> parseKubeletVolumePath (dir @ ''/pods/'' @ uid @ ''/volumes/'' @ plugin @ ''/'' @ pv @ ''/mount'') = Some (uid, pv)
    \<and> parseKubeletBlockDevicePath (dir @ ''/volumeDevices/publish/'' @ pv @ ''/'' @ uid) = Some (uid, pv)"
proof -
  obtain c cs where r: "rev (Split dir CHR ''/'') = c # cs" using rev_Split_cons by blast
  note u = is_uid_no_slash [OF assms(1)]
  have w: "Split (''pods/'' @ uid @ ''/volumes/'' @ plugin @ ''/'' @ s) CHR ''/''
      = ''pods'' # uid # ''volumes'' # plugin # Split s CHR ''/''" for s
    using Split_append [of "CHR ''/''" "''pods''"] Split_append [OF u] Split_append [of "CHR ''/''" "''volumes''"]
      Split_append [OF assms(5)] by simp
  have v: "Split (dir @ ''/pods/'' @ uid @ ''/volumes/'' @ plugin @ ''/'' @ s) CHR ''/''
      = Split dir CHR ''/'' @ ''pods'' # uid # ''volumes'' # plugin # Split s CHR ''/''" for s
    using Split_append_any [of dir "CHR ''/''"] w by simp
  have b: "Split (dir @ ''/volumeDevices/publish/'' @ pv @ ''/'' @ uid) CHR ''/''
      = Split dir CHR ''/'' @ [''volumeDevices'', ''publish'', pv, uid]"
    using Split_append_any [of dir "CHR ''/''"] Split_append [of "CHR ''/''" "''volumeDevices''"]
      Split_append [of "CHR ''/''" "''publish''"] Split_append [OF assms(3)] Split_word [OF u] by simp
  have m: "Split (pv @ ''/mount'') CHR ''/'' = [pv, ''mount'']"
    using Split_append [OF assms(3), of "''mount''"] Split_word [of "CHR ''/''" "''mount''"] by simp
  show ?thesis
    unfolding parseKubeletVolumePath_def parseKubeletBlockDevicePath_def v b m Split_word [OF assms(3)]
    using assms r by (cases cs) (auto simp: Let_def)
qed

definition ex_uid :: string where
  "ex_uid = ''01234567-89ab-cdef-0123-456789abcdef''"

lemma is_uid_ex: "is_uid ex_uid"
  by (simp add: is_uid_def ex_uid_def Split_def is_hex_def)

theorem kubelet_paths_parse_witness:
  "parseKubeletVolumePath (''/var/lib/kubelet/pods/'' @ ex_uid @ ''/volumes/kubernetes.io~csi/pvc-1/mount'')
   = Some (ex_uid, ''pvc-1'')"
  using kubelet_paths_parse [OF is_uid_ex, of "''pvc-1''" "''kubernetes.io~csi''" "''/var/lib/kubelet''"] by simp

subsection \<open>The resolver: properties\<close>

text \<open>The device and description a mount contributes to a scan, if any.\<close>

definition mount_volume :: "(string \<Rightarrow> Stat_t option) \<Rightarrow> Resolver \<Rightarrow> MountEntry \<Rightarrow> (u32 \<times> DeviceInfo) option" where
  "mount_volume stat r m =
     (let info = (\<lambda>uid pv. case podMetaMap r uid of
            None \<Rightarrow> None
          | Some meta \<Rightarrow> Some \<lparr>di_PVCName = resolvePVCName r pv, di_PodName = pm_Name meta,
              di_Namespace = pm_Namespace meta, di_NodeName = r_nodeName r, di_MountPath = me_MountPoint m,
              di_DevPath = me_Source m, di_IsNFS = (me_FSType m \<in> {''nfs'', ''nfs4''})\<rparr>)
      in case parseKubeletBlockDevicePath (me_MountPoint m) of
        Some (uid, pv) \<Rightarrow>
          (case (statBlockDevice stat (r_procPath r @ ''/1/root'' @ me_MountPoint m), info uid pv) of
             (Inr dev, Some i) \<Rightarrow> Some (dev, i) | _ \<Rightarrow> None)
      | None \<Rightarrow>
          (case parseKubeletVolumePath (me_MountPoint m) of
             None \<Rightarrow> None
           | Some (uid, pv) \<Rightarrow> map_option (Pair (MkDev (me_Major m) (me_Minor m))) (info uid pv)))"

lemma scan_mount_eq:
  "scan_mount stat r m ds = (case mount_volume stat r m of None \<Rightarrow> ds | Some (dev, i) \<Rightarrow> ds(dev \<mapsto> i))"
  by (auto simp: scan_mount_def mount_volume_def Let_def split: option.splits sum.splits prod.splits)

lemma fold_scan_mount:
  "fold (scan_mount stat r) ms ds = ds ++ map_of (rev (List.map_filter (mount_volume stat r) ms))"
  by (induction ms arbitrary: ds)
    (auto simp: scan_mount_eq map_filter_simps map_add_def fun_eq_iff split: option.splits)

lemma podMetaMap_store:
  "podMetaMap r uid = Some meta \<Longrightarrow>
     \<exists>objs. r_podStore r = Some objs \<and> Pod uid (pm_Name meta) (pm_Namespace meta) \<in> set objs"
proof -
  have "fold (\<lambda>obj m. case obj of Pod u name ns \<Rightarrow> m(u \<mapsto> \<lparr>pm_Name = name, pm_Namespace = ns\<rparr>) | _ \<Rightarrow> m) objs m0 uid
      = Some meta \<Longrightarrow> Pod uid (pm_Name meta) (pm_Namespace meta) \<in> set objs \<or> m0 uid = Some meta" for objs m0
    by (induction objs arbitrary: m0) (fastforce split: kobj.splits if_splits)+
  moreover assume "podMetaMap r uid = Some meta"
  ultimately show ?thesis by (auto simp: podMetaMap_def split: option.splits)
qed

text \<open>
  A successful scan replaces the map by exactly what the mounts say, a later mount of the
  same device taking precedence; a scan that cannot read the mount table keeps the map it has.
\<close>

theorem scan_devices:
  "r_devices (scan open_file stat r) =
     (case ParseMountInfo open_file (r_procPath r @ ''/1/mountinfo'') of
        (_, Some _) \<Rightarrow> r_devices r
      | (mounts, None) \<Rightarrow> map_of (rev (List.map_filter (mount_volume stat r) mounts)))"
  by (auto simp: scan_def fold_scan_mount split: option.split prod.split)

text \<open>
  C9: Attribution is sound. What a lookup returns after a scan that read the mount table
  describes a pod of the pod store whose identifier is the one in the path of a mounted
  volume, and the device is that volume's.
\<close>

theorem lookup_sound:
  assumes "ParseMountInfo open_file (r_procPath r @ ''/1/mountinfo'') = (mounts, None)"
    and "Lookup (scan open_file stat r) dev = Some info"
  shows "\<exists>m \<in> set mounts. \<exists>uid pv objs. di_MountPath info = me_MountPoint m
    \<and> di_PVCName info = resolvePVCName r pv
    \<and> r_podStore r = Some objs \<and> Pod uid (di_PodName info) (di_Namespace info) \<in> set objs
    \<and> (parseKubeletBlockDevicePath (me_MountPoint m) = Some (uid, pv)
        \<and> statBlockDevice stat (r_procPath r @ ''/1/root'' @ me_MountPoint m) = Inr dev
      \<or> parseKubeletVolumePath (me_MountPoint m) = Some (uid, pv) \<and> dev = MkDev (me_Major m) (me_Minor m))"
proof -
  have "map_of (rev (List.map_filter (mount_volume stat r) mounts)) dev = Some info"
    using assms by (simp add: Lookup_def scan_def fold_scan_mount)
  then have "(dev, info) \<in> set (List.map_filter (mount_volume stat r) mounts)"
    using map_of_SomeD by fastforce
  then obtain m where m: "m \<in> set mounts" "mount_volume stat r m = Some (dev, info)"
    by (auto simp: map_filter_def)
  then show ?thesis
    using podMetaMap_store [of r]
    by (intro bexI [OF _ m(1)])
      (fastforce simp: mount_volume_def Let_def split: option.splits prod.splits sum.splits)
qed

definition ex_mountinfo :: string where
  "ex_mountinfo = ''36 35 8:16 / /var/lib/kubelet/pods/'' @ ex_uid @
     ''/volumes/kubernetes.io~csi/pvc-1/mount rw - ext4 /dev/sdb rw'' @ [CHR 0x0A]"

definition ex_resolver :: Resolver where
  "ex_resolver = NewResolver ''node'' ''/proc'' (Some [OtherObj, Pod ex_uid ''vm-0'' ''default'']) None"

definition ex_open :: "string \<Rightarrow> string option" where
  "ex_open p = (if p = ''/proc/1/mountinfo'' then Some ex_mountinfo else None)"

definition ex_mount :: MountEntry where
  "ex_mount = \<lparr>me_MountID = 36, me_ParentID = 35, me_Major = 8, me_Minor = 16, me_Root = ''/'',
     me_MountPoint = ''/var/lib/kubelet/pods/'' @ ex_uid @ ''/volumes/kubernetes.io~csi/pvc-1/mount'',
     me_FSType = ''ext4'', me_Source = ''/dev/sdb''\<rparr>"

lemma ex_parse: "ParseMountInfo ex_open ''/proc/1/mountinfo'' = ([ex_mount], None)"
  by (simp add: ParseMountInfo_def ex_open_def ex_mountinfo_def scan_lines_def Split_def ex_uid_def drop_cr_def
     parseMountInfoLine_def Fields_def is_space_def Let_def Atoi_def ParseUint_def digit_val_def SplitN2_def ex_mount_def)

lemma ex_volume_path: "parseKubeletVolumePath (me_MountPoint ex_mount) = Some (ex_uid, ''pvc-1'')"
  "parseKubeletBlockDevicePath (me_MountPoint ex_mount) = None"
  by (simp_all add: parseKubeletVolumePath_def parseKubeletBlockDevicePath_def ex_mount_def ex_uid_def Split_def
      Let_def is_uid_def is_hex_def)

lemma ex_lookup:
  "Lookup (scan ex_open (\<lambda>_. None) ex_resolver) (MkDev 8 16)
   = Some \<lparr>di_PVCName = ''pvc-1'', di_PodName = ''vm-0'', di_Namespace = ''default'', di_NodeName = ''node'',
       di_MountPath = me_MountPoint ex_mount, di_DevPath = ''/dev/sdb'', di_IsNFS = False\<rparr>"
proof -
  have "me_Major ex_mount = 8" "me_Minor ex_mount = 16" "me_Source ex_mount = ''/dev/sdb''" "me_FSType ex_mount = ''ext4''"
    by (simp_all add: ex_mount_def)
  then show ?thesis
    by (simp add: Lookup_def scan_def ex_resolver_def NewResolver_def ex_parse scan_mount_def ex_volume_path
      podMetaMap_def resolvePVCName_def)
qed

theorem lookup_sound_witness:
  "\<exists>m \<in> set [ex_mount]. \<exists>uid pv objs. me_MountPoint ex_mount = me_MountPoint m
    \<and> ''pvc-1'' = resolvePVCName ex_resolver pv
    \<and> r_podStore ex_resolver = Some objs \<and> Pod uid ''vm-0'' ''default'' \<in> set objs
    \<and> (parseKubeletBlockDevicePath (me_MountPoint m) = Some (uid, pv)
        \<and> statBlockDevice (\<lambda>_. None) (r_procPath ex_resolver @ ''/1/root'' @ me_MountPoint m) = Inr (MkDev 8 16)
      \<or> parseKubeletVolumePath (me_MountPoint m) = Some (uid, pv) \<and> MkDev 8 16 = MkDev (me_Major m) (me_Minor m))"
  using lookup_sound [of ex_open ex_resolver "[ex_mount]", OF _ ex_lookup] ex_parse
  by (simp add: ex_resolver_def NewResolver_def)

end
