(* ===== verification/Loader.thy ===== *)
theory Loader
  imports Common
begin

text \<open>
  \<^verbatim>\<open>pkg/ebpf/loader.go\<close>: loading the three programs into the kernel, attaching them, retrying
  what failed, and closing. The kernel and the eBPF library are seen through the handles
  they give out: \<^verbatim>\<open>kernel\<close> holds the open ones, \<^verbatim>\<open>kenv\<close> says which requests succeed when they
  are made. A collection of loaded objects is one handle, which also stands for its
  histogram map.
\<close>

subsection \<open>The kernel side\<close>

type_synonym handle = nat

record kernel =
  k_next :: handle
  k_open :: "handle list"
  k_maxEntries :: "handle \<Rightarrow> u32 option"

record kenv =
  spec_ok :: "string \<Rightarrow> bool"
  objects_ok :: "string \<Rightarrow> bool"
  tracepoint_ok :: "string \<Rightarrow> bool"
  raw_tracepoint_ok :: "string \<Rightarrow> bool"
  kprobe_ok :: "string \<Rightarrow> bool"
  kretprobe_ok :: "string \<Rightarrow> bool"

definition open_handle :: "bool \<Rightarrow> kernel \<Rightarrow> handle option \<times> kernel" where
  "open_handle ok k =
     (if ok then (Some (k_next k), k\<lparr>k_next := k_next k + 1, k_open := k_next k # k_open k\<rparr>)
      else (None, k))"

definition close_handle :: "handle \<Rightarrow> kernel \<Rightarrow> kernel" where
  "close_handle h k = k\<lparr>k_open := removeAll h (k_open k)\<rparr>"

definition close_all :: "handle list \<Rightarrow> kernel \<Rightarrow> kernel" where
  "close_all hs k = fold close_handle hs k"

subsection \<open>Programs\<close>

record Programs =
  p_blockObjs :: "handle option"
  p_nfsObjs :: "handle option"
  p_nfsKprobeObjs :: "handle option"
  p_links :: "handle list"
  p_BlockHists :: "handle option"
  p_NfsHists :: "handle option"
  p_NfsKprobeHists :: "handle option"
  p_BlockActive :: bool
  p_NFSActive :: bool
  p_NFSKprobeActive :: bool
  p_retryNFS :: bool
  p_retryNFSKprobe :: bool
  p_nfsMapSize :: int
  p_nfsKprobeMapSize :: int

datatype load_error = SpecError | ObjectsError | AttachError string

type_synonym loader = "Programs \<times> kernel"

definition Programs_Close :: "loader \<Rightarrow> loader" where
  "Programs_Close s =
     (let (p, k) = s;
          k = close_all (p_links p) k;
          k = (case p_blockObjs p of None \<Rightarrow> k | Some h \<Rightarrow> close_handle h k);
          k = (case p_nfsObjs p of None \<Rightarrow> k | Some h \<Rightarrow> close_handle h k);
          k = (case p_nfsKprobeObjs p of None \<Rightarrow> k | Some h \<Rightarrow> close_handle h k)
      in (p, k))"

text \<open>\<^verbatim>\<open>LoadAndAssign\<close> with the size of the start map set from the option, when it is positive.\<close>

definition start_entries :: "int \<Rightarrow> nat \<Rightarrow> u32" where
  "start_entries mapSize declared = (if 0 < mapSize then word_of_int mapSize else of_nat declared)"

definition load_objects :: "bool \<Rightarrow> u32 \<Rightarrow> kernel \<Rightarrow> handle option \<times> kernel" where
  "load_objects ok entries k =
     (case open_handle ok k of
        (None, k) \<Rightarrow> (None, k)
      | (Some h, k) \<Rightarrow> (Some h, k\<lparr>k_maxEntries := (k_maxEntries k)(h \<mapsto> entries)\<rparr>))"

definition loadBlock :: "kenv \<Rightarrow> int \<Rightarrow> loader \<Rightarrow> load_error option \<times> loader" where
  "loadBlock env mapSize s =
     (let (p, k) = s
      in if \<not> spec_ok env ''block'' then (Some SpecError, p, k)
      else case load_objects (objects_ok env ''block'') (start_entries mapSize MAX_BLOCK_ENTRIES) k of
        (None, k) \<Rightarrow> (Some ObjectsError, p, k)
      | (Some objs, k) \<Rightarrow>
          let p = p\<lparr>p_blockObjs := Some objs, p_BlockHists := Some objs\<rparr>
          in case open_handle (tracepoint_ok env ''block_rq_issue'') k of
            (None, k) \<Rightarrow> (Some (AttachError ''block_rq_issue''), p, close_handle objs k)
          | (Some l, k) \<Rightarrow>
              let p = p\<lparr>p_links := p_links p @ [l]\<rparr>
              in case open_handle (tracepoint_ok env ''block_rq_complete'') k of
                (None, k) \<Rightarrow> (Some (AttachError ''block_rq_complete''), Programs_Close (p, k))
              | (Some l, k) \<Rightarrow> (None, p\<lparr>p_links := p_links p @ [l]\<rparr>, k))"

definition nfsTracepoints :: "string list" where
  "nfsTracepoints = [''nfs_initiate_read'', ''nfs_initiate_write'', ''nfs_readpage_done'', ''nfs_writeback_done'']"

text \<open>
  Attach to the named targets in order; an error closes the links made so far. An optional
  target that is missing is skipped.
\<close>

fun attach_links :: "(string \<Rightarrow> bool) \<Rightarrow> (string \<times> bool) list \<Rightarrow> (string \<times> handle) list \<Rightarrow> kernel \<Rightarrow>
    (string + (string \<times> handle) list) \<times> kernel" where
  "attach_links ok [] links k = (Inr links, k)"
| "attach_links ok ((name, optional) # ts) links k =
     (case open_handle (ok name) k of
        (None, k) \<Rightarrow>
          if optional then attach_links ok ts links k
          else (Inl name, close_all (map snd links) k)
      | (Some l, k) \<Rightarrow> attach_links ok ts (links @ [(name, l)]) k)"

definition loadNFS :: "kenv \<Rightarrow> int \<Rightarrow> loader \<Rightarrow> load_error option \<times> loader" where
  "loadNFS env mapSize s =
     (let (p, k) = s
      in if \<not> spec_ok env ''nfs'' then (Some SpecError, p, k)
      else case load_objects (objects_ok env ''nfs'') (start_entries mapSize MAX_NFS_ENTRIES) k of
        (None, k) \<Rightarrow> (Some ObjectsError, p, k)
      | (Some objs, k) \<Rightarrow>
          (case attach_links (raw_tracepoint_ok env) (map (\<lambda>n. (n, False)) nfsTracepoints) [] k of
             (Inl name, k) \<Rightarrow> (Some (AttachError name), p, close_handle objs k)
           | (Inr nfsLinks, k) \<Rightarrow>
               (None, p\<lparr>p_nfsObjs := Some objs, p_NfsHists := Some objs,
                  p_links := p_links p @ map snd nfsLinks\<rparr>, k)))"

definition kprobeTargets :: "(string \<times> bool) list" where
  "kprobeTargets = [(''nfs_file_read'', False), (''nfs_file_write'', False), (''nfs_file_open'', False),
     (''nfs4_file_open'', True), (''nfs_getattr'', False)]"

definition loadNFSKprobe :: "kenv \<Rightarrow> int \<Rightarrow> loader \<Rightarrow> load_error option \<times> loader" where
  "loadNFSKprobe env mapSize s =
     (let (p, k) = s
      in if \<not> spec_ok env ''nfs_kprobe'' then (Some SpecError, p, k)
      else case load_objects (objects_ok env ''nfs_kprobe'') (start_entries mapSize MAX_NFS_KPROBE_ENTRIES) k of
        (None, k) \<Rightarrow> (Some ObjectsError, p, k)
      | (Some objs, k) \<Rightarrow>
          (case attach_links (kprobe_ok env) kprobeTargets [] k of
             (Inl name, k) \<Rightarrow> (Some (AttachError name), p, close_handle objs k)
           | (Inr kprobeLinks, k) \<Rightarrow>
               (case attach_links (kretprobe_ok env) (map (\<lambda>(fn, _). (fn, False)) kprobeLinks) kprobeLinks k of
                  (Inl name, k) \<Rightarrow> (Some (AttachError name), p, close_handle objs k)
                | (Inr links, k) \<Rightarrow>
                    (None, p\<lparr>p_nfsKprobeObjs := Some objs, p_NfsKprobeHists := Some objs,
                       p_links := p_links p @ map snd links\<rparr>, k))))"

definition zero_Programs :: Programs where
  "zero_Programs =
     \<lparr>p_blockObjs = None, p_nfsObjs = None, p_nfsKprobeObjs = None, p_links = [],
      p_BlockHists = None, p_NfsHists = None, p_NfsKprobeHists = None,
      p_BlockActive = False, p_NFSActive = False, p_NFSKprobeActive = False,
      p_retryNFS = False, p_retryNFSKprobe = False, p_nfsMapSize = 0, p_nfsKprobeMapSize = 0\<rparr>"

definition try_block :: "kenv \<Rightarrow> int \<Rightarrow> loader \<Rightarrow> loader" where
  "try_block env mapSize s =
     (case loadBlock env mapSize s of
        (Some _, s) \<Rightarrow> s
      | (None, p, k) \<Rightarrow> (p\<lparr>p_BlockActive := True\<rparr>, k))"

definition try_nfs :: "kenv \<Rightarrow> int \<Rightarrow> loader \<Rightarrow> loader" where
  "try_nfs env mapSize s =
     (case loadNFS env mapSize s of
        (Some _, p, k) \<Rightarrow> (p\<lparr>p_retryNFS := True\<rparr>, k)
      | (None, p, k) \<Rightarrow> (p\<lparr>p_NFSActive := True\<rparr>, k))"

definition try_kprobe :: "kenv \<Rightarrow> int \<Rightarrow> loader \<Rightarrow> loader" where
  "try_kprobe env mapSize s =
     (case loadNFSKprobe env mapSize s of
        (Some _, p, k) \<Rightarrow> (p\<lparr>p_retryNFSKprobe := True\<rparr>, k)
      | (None, p, k) \<Rightarrow> (p\<lparr>p_NFSKprobeActive := True\<rparr>, k))"

text \<open>The result is the programs, or None for the error that everything failed.\<close>

definition LoadAndAttach :: "kenv \<Rightarrow> bool \<Rightarrow> bool \<Rightarrow> bool \<Rightarrow> int \<Rightarrow> int \<Rightarrow> int \<Rightarrow> kernel \<Rightarrow>
    Programs option \<times> kernel" where
  "LoadAndAttach env enableBlock enableNFS enableNFSKprobe blockMapSize nfsMapSize nfsKprobeMapSize k =
     (let s = (zero_Programs\<lparr>p_nfsMapSize := nfsMapSize, p_nfsKprobeMapSize := nfsKprobeMapSize\<rparr>, k);
          s = (if enableBlock then try_block env blockMapSize s else s);
          s = (if enableNFS then try_nfs env nfsMapSize s else s);
          s = (if enableNFSKprobe then try_kprobe env nfsKprobeMapSize s else s);
          (p, k) = s;
          requested = (enableBlock \<or> enableNFS \<or> enableNFSKprobe);
          active = (p_BlockActive p \<or> p_NFSActive p \<or> p_NFSKprobeActive p)
      in if requested \<and> \<not> active \<and> \<not> p_retryNFS p \<and> \<not> p_retryNFSKprobe p then (None, k)
         else (Some p, k))"

definition retry_nfs :: "kenv \<Rightarrow> loader \<Rightarrow> loader" where
  "retry_nfs env s =
     (if p_retryNFS (fst s) then
        (case loadNFS env (p_nfsMapSize (fst s)) s of
           (None, p, k) \<Rightarrow> (p\<lparr>p_NFSActive := True, p_retryNFS := False\<rparr>, k)
         | (Some _, s) \<Rightarrow> s)
      else s)"

definition retry_kprobe :: "kenv \<Rightarrow> loader \<Rightarrow> loader" where
  "retry_kprobe env s =
     (if p_retryNFSKprobe (fst s) then
        (case loadNFSKprobe env (p_nfsKprobeMapSize (fst s)) s of
           (None, p, k) \<Rightarrow> (p\<lparr>p_NFSKprobeActive := True, p_retryNFSKprobe := False\<rparr>, k)
         | (Some _, s) \<Rightarrow> s)
      else s)"

text \<open>One tick of \<^verbatim>\<open>RetryFailed\<close>, with what the kernel can do at that time.\<close>

definition retry_tick :: "kenv \<Rightarrow> loader \<Rightarrow> loader" where
  "retry_tick env s = retry_kprobe env (retry_nfs env s)"

text \<open>The loop returns when nothing is left to retry.\<close>

fun RetryFailed :: "kenv list \<Rightarrow> loader \<Rightarrow> loader" where
  "RetryFailed [] s = s"
| "RetryFailed (env # envs) s =
     (if \<not> p_retryNFS (fst s) \<and> \<not> p_retryNFSKprobe (fst s) then s
      else RetryFailed envs (retry_tick env s))"

subsection \<open>Handles\<close>

text \<open>Handles are fresh and distinct, and no closed handle comes back.\<close>

definition kernel_ok :: "kernel \<Rightarrow> bool" where
  "kernel_ok k \<longleftrightarrow> distinct (k_open k) \<and> (\<forall>h \<in> set (k_open k). h < k_next k)"

lemma close_all_open [simp]: "k_open (close_all hs k) = filter (\<lambda>h. h \<notin> set hs) (k_open k)"
  unfolding close_all_def
  by (induction hs arbitrary: k) (auto simp: close_handle_def removeAll_filter_not_eq intro!: filter_cong)

lemma close_handle_open [simp]: "k_open (close_handle h k) = filter (\<lambda>x. x \<noteq> h) (k_open k)"
  by (auto simp: close_handle_def removeAll_filter_not_eq intro!: filter_cong)

lemma close_next [simp]: "k_next (close_handle h k) = k_next k" "k_next (close_all hs k) = k_next k"
proof -
  show "k_next (close_handle h k) = k_next k" for h and k :: kernel by (simp add: close_handle_def)
  then show "k_next (close_all hs k) = k_next k"
    unfolding close_all_def by (induction hs arbitrary: k) simp_all
qed

lemma filter_fresh: "kernel_ok k \<Longrightarrow> k_next k \<le> h \<Longrightarrow> filter (\<lambda>x. x \<noteq> h) (k_open k) = k_open k"
  by (auto simp: kernel_ok_def filter_id_conv)

text \<open>
  Attaching: on success the new links are open on top of what was open, on failure exactly
  what was open before is open again.
\<close>

lemma attach_links_spec:
  assumes "k_open k = rev (map snd links) @ base" and "kernel_ok k"
    and "attach_links ok ts links k = (r, k')"
  shows "kernel_ok k' \<and> k_next k \<le> k_next k' \<and>
    (case r of
       Inl n \<Rightarrow> k_open k' = base \<and> (n, False) \<in> set ts \<and> \<not> ok n
     | Inr ls \<Rightarrow> k_open k' = rev (map snd ls) @ base \<and>
         map fst ls = map fst links @ map fst (filter (\<lambda>t. ok (fst t)) ts) \<and>
         (\<forall>t \<in> set ts. ok (fst t) \<or> snd t))"
  using assms
proof (induction ok ts links k rule: attach_links.induct)
  case (1 ok links k)
  then show ?case by auto
next
  case (2 ok name optional ts links k)
  show ?case
  proof (cases "ok name")
    case False
    then have o: "open_handle (ok name) k = (None, k)" by (simp add: open_handle_def)
    show ?thesis
    proof (cases optional)
      case True
      with 2 o False show ?thesis by (auto split: sum.splits)
    next
      case nopt: False
      have "set (map snd links) \<inter> set base = {}"
        using 2(3,4) by (auto simp: kernel_ok_def)
      then have "filter (\<lambda>h. h \<notin> set (map snd links)) (k_open k) = base"
        using 2(3) by (auto simp: filter_id_conv)
      with 2(4,5) o nopt False show ?thesis by (auto simp: kernel_ok_def)
    qed
  next
    case True
    then obtain k1 where o: "open_handle (ok name) k = (Some (k_next k), k1)"
        "k_next k1 = k_next k + 1" "k_open k1 = k_next k # k_open k"
      by (auto simp: open_handle_def)
    have ok1: "kernel_ok k1" using 2(4) o by (auto simp: kernel_ok_def)
    from 2(5) o have r: "attach_links ok ts (links @ [(name, k_next k)]) k1 = (r, k')" by simp
    have "k_open k1 = rev (map snd (links @ [(name, k_next k)])) @ base" using 2(3) o by simp
    from 2(2) [OF o(1) [symmetric] refl this ok1 r] o(2) True show ?thesis
      by (auto split: sum.splits)
  qed
qed

lemmas attach_new = attach_links_spec [where links = "[]", simplified, OF refl]

lemma load_objects_cases:
  assumes "kernel_ok k"
  obtains (failed) "\<not> ok" "load_objects ok n k = (None, k)"
    | (loaded) k' where "ok" "load_objects ok n k = (Some (k_next k), k')" "kernel_ok k'"
        "k_next k' = k_next k + 1" "k_open k' = k_next k # k_open k"
proof (cases ok)
  case True
  have "kernel_ok (snd (load_objects ok n k))"
    using assms True by (auto simp: load_objects_def open_handle_def kernel_ok_def)
  then show thesis using True loaded by (simp add: load_objects_def open_handle_def)
qed (simp add: failed load_objects_def open_handle_def)

text \<open>A subsystem is loaded completely or not at all.\<close>

definition all_or_nothing :: "(handle \<Rightarrow> handle list \<Rightarrow> Programs \<Rightarrow> Programs) \<Rightarrow> loader \<Rightarrow>
    load_error option \<Rightarrow> loader \<Rightarrow> bool" where
  "all_or_nothing upd s err s' \<longleftrightarrow>
     kernel_ok (snd s') \<and> k_next (snd s) \<le> k_next (snd s') \<and>
     (case err of
        Some _ \<Rightarrow> fst s' = fst s \<and> k_open (snd s') = k_open (snd s)
      | None \<Rightarrow> \<exists>objs ls. fst s' = upd objs ls (fst s) \<and>
          k_open (snd s') = rev ls @ objs # k_open (snd s))"

definition nfs_loaded :: "handle \<Rightarrow> handle list \<Rightarrow> Programs \<Rightarrow> Programs" where
  "nfs_loaded objs ls p =
     p\<lparr>p_nfsObjs := Some objs, p_NfsHists := Some objs, p_links := p_links p @ ls\<rparr>"

definition kprobe_loaded :: "handle \<Rightarrow> handle list \<Rightarrow> Programs \<Rightarrow> Programs" where
  "kprobe_loaded objs ls p =
     p\<lparr>p_nfsKprobeObjs := Some objs, p_NfsKprobeHists := Some objs, p_links := p_links p @ ls\<rparr>"

lemma filter_last_opened: "kernel_ok k \<Longrightarrow> k_open k = h # xs \<Longrightarrow> filter (\<lambda>x. x \<noteq> h) (k_open k) = xs"
  by (auto simp: kernel_ok_def filter_id_conv)

lemma kernel_ok_close [simp]: "kernel_ok k \<Longrightarrow> kernel_ok (close_handle h k)"
  by (auto simp: kernel_ok_def)

lemma loadNFS_spec:
  assumes "kernel_ok (snd s)"
  shows "all_or_nothing nfs_loaded s (fst (loadNFS env n s)) (snd (loadNFS env n s))"
proof (cases "spec_ok env ''nfs''")
  case True
  obtain p k where s: "s = (p, k)" by (cases s)
  then have ok: "kernel_ok k" using assms by simp
  from ok show ?thesis
  proof (cases rule: load_objects_cases [of k "objects_ok env ''nfs''" "start_entries n MAX_NFS_ENTRIES"])
    case failed
    with True assms s show ?thesis by (simp add: loadNFS_def all_or_nothing_def)
  next
    case (loaded k1)
    obtain r k2 where a: "attach_links (raw_tracepoint_ok env) (map (\<lambda>n. (n, False)) nfsTracepoints) [] k1 = (r, k2)"
      by fastforce
    note A = attach_new [OF \<open>kernel_ok k1\<close> a]
    show ?thesis
    proof (cases r)
      case (Inl name)
      then have "filter (\<lambda>x. x \<noteq> k_next k) (k_open k2) = k_open k"
        using A loaded filter_last_opened [of k2 "k_next k" "k_open k"] by simp
      with True loaded a A Inl s show ?thesis by (simp add: loadNFS_def all_or_nothing_def)
    next
      case (Inr ls)
      with True loaded a A s show ?thesis
        by (auto simp: loadNFS_def all_or_nothing_def nfs_loaded_def)
    qed
  qed
qed (use assms in \<open>cases s; simp add: loadNFS_def all_or_nothing_def\<close>)

lemma loadNFSKprobe_spec:
  assumes "kernel_ok (snd s)"
  shows "all_or_nothing kprobe_loaded s (fst (loadNFSKprobe env n s)) (snd (loadNFSKprobe env n s))"
proof (cases "spec_ok env ''nfs_kprobe''")
  case True
  obtain p k where s: "s = (p, k)" by (cases s)
  then have ok: "kernel_ok k" using assms by simp
  from ok show ?thesis
  proof (cases rule: load_objects_cases [of k "objects_ok env ''nfs_kprobe''" "start_entries n MAX_NFS_KPROBE_ENTRIES"])
    case failed
    with True assms s show ?thesis by (simp add: loadNFSKprobe_def all_or_nothing_def)
  next
    case (loaded k1)
    obtain r k2 where a: "attach_links (kprobe_ok env) kprobeTargets [] k1 = (r, k2)" by fastforce
    note A = attach_new [OF \<open>kernel_ok k1\<close> a]
    show ?thesis
    proof (cases r)
      case (Inl name)
      then have "filter (\<lambda>x. x \<noteq> k_next k) (k_open k2) = k_open k"
        using A loaded filter_last_opened [of k2 "k_next k" "k_open k"] by simp
      with True loaded a A Inl s show ?thesis by (simp add: loadNFSKprobe_def all_or_nothing_def)
    next
      case (Inr ls)
      obtain r' k3 where b: "attach_links (kretprobe_ok env) (map (\<lambda>(fn, _). (fn, False)) ls) ls k2 = (r', k3)"
        by fastforce
      have "k_open k2 = rev (map snd ls) @ k_open k1" "kernel_ok k2" using A Inr by simp_all
      note B = attach_links_spec [OF this b]
      show ?thesis
      proof (cases r')
        case (Inl name)
        then have "filter (\<lambda>x. x \<noteq> k_next k) (k_open k3) = k_open k"
          using B loaded filter_last_opened [of k3 "k_next k" "k_open k"] by simp
        with True loaded a A B Inl Inr b s show ?thesis by (simp add: loadNFSKprobe_def all_or_nothing_def)
      next
        case (Inr ls')
        with True loaded a A B \<open>r = Inr ls\<close> b s show ?thesis
          by (auto simp: loadNFSKprobe_def all_or_nothing_def kprobe_loaded_def)
      qed
    qed
  qed
qed (use assms in \<open>cases s; simp add: loadNFSKprobe_def all_or_nothing_def\<close>)

subsection \<open>Ownership\<close>

definition held :: "Programs \<Rightarrow> handle set" where
  "held p = set (p_links p) \<union> set_option (p_blockObjs p) \<union> set_option (p_nfsObjs p) \<union>
     set_option (p_nfsKprobeObjs p)"

definition map_open :: "handle option \<Rightarrow> kernel \<Rightarrow> bool" where
  "map_open m k \<longleftrightarrow> (case m of None \<Rightarrow> False | Some h \<Rightarrow> h \<in> set (k_open k))"

text \<open>
  The invariant of the loader from the kernel it started in: it closed nothing that was open
  before, holds everything that it opened since, and a subsystem is active only with its
  histogram map open.
\<close>

definition loader_inv :: "kernel \<Rightarrow> loader \<Rightarrow> bool" where
  "loader_inv k0 s \<longleftrightarrow> (case s of (p, k) \<Rightarrow>
     kernel_ok k \<and> set (k_open k0) \<subseteq> set (k_open k) \<and> set (k_open k) \<subseteq> set (k_open k0) \<union> held p \<and>
     held p \<inter> set (k_open k0) = {} \<and>
     (p_BlockActive p \<longrightarrow> map_open (p_BlockHists p) k) \<and>
     (p_NFSActive p \<longrightarrow> map_open (p_NfsHists p) k) \<and>
     (p_NFSKprobeActive p \<longrightarrow> map_open (p_NfsKprobeHists p) k) \<and>
     (\<not> p_NFSActive p \<longrightarrow> p_nfsObjs p = None) \<and>
     (p_retryNFS p \<longrightarrow> \<not> p_NFSActive p) \<and>
     (\<not> p_NFSKprobeActive p \<longrightarrow> p_nfsKprobeObjs p = None) \<and>
     (p_retryNFSKprobe p \<longrightarrow> \<not> p_NFSKprobeActive p))"

lemma Close_open:
  "set (k_open (snd (Programs_Close (p, k)))) = set (k_open k) - held p"
  by (cases "p_blockObjs p"; cases "p_nfsObjs p"; cases "p_nfsKprobeObjs p")
    (auto simp: Programs_Close_def Let_def held_def)

lemma loader_inv_Close:
  "loader_inv k0 (p, k) \<Longrightarrow> set (k_open (snd (Programs_Close (p, k)))) = set (k_open k0)"
  by (auto simp: Close_open loader_inv_def)

lemma map_open_mono: "map_open m k \<Longrightarrow> set (k_open k) \<subseteq> set (k_open k') \<Longrightarrow> map_open m k'"
  by (auto simp: map_open_def split: option.splits)

lemma map_open_cong: "k_open k' = k_open k \<Longrightarrow> map_open m k' = map_open m k"
  by (simp add: map_open_def split: option.split)

text \<open>A load that is all or nothing keeps the invariant, whether it succeeds or not.\<close>

lemma loader_inv_failed:
  assumes "loader_inv k0 (p, k)" and "all_or_nothing upd (p, k) (Some e) (p', k')"
  shows "loader_inv k0 (p', k') \<and> p' = p"
  using assms map_open_cong [of k' k] by (auto simp: loader_inv_def all_or_nothing_def)

lemma loader_inv_nfs:
  assumes "loader_inv k0 (p, k)" and "\<not> p_NFSActive p"
    and "all_or_nothing nfs_loaded (p, k) None (p', k')"
  shows "loader_inv k0 (p'\<lparr>p_NFSActive := True, p_retryNFS := False\<rparr>, k')"
proof -
  from assms(3) obtain objs ls where p': "p' = nfs_loaded objs ls p" and k: "kernel_ok k'"
    and o: "k_open k' = rev ls @ objs # k_open k" by (auto simp: all_or_nothing_def)
  have "set (k_open k) \<subseteq> set (k_open k')" using o by auto
  from map_open_mono [OF _ this] assms(1,2) k o show ?thesis
    by (auto simp: loader_inv_def p' nfs_loaded_def held_def map_open_def kernel_ok_def)
qed

lemma loader_inv_kprobe:
  assumes "loader_inv k0 (p, k)" and "\<not> p_NFSKprobeActive p"
    and "all_or_nothing kprobe_loaded (p, k) None (p', k')"
  shows "loader_inv k0 (p'\<lparr>p_NFSKprobeActive := True, p_retryNFSKprobe := False\<rparr>, k')"
proof -
  from assms(3) obtain objs ls where p': "p' = kprobe_loaded objs ls p" and k: "kernel_ok k'"
    and o: "k_open k' = rev ls @ objs # k_open k" by (auto simp: all_or_nothing_def)
  have "set (k_open k) \<subseteq> set (k_open k')" using o by auto
  from map_open_mono [OF _ this] assms(1,2) k o show ?thesis
    by (auto simp: loader_inv_def p' kprobe_loaded_def held_def map_open_def kernel_ok_def)
qed

lemma loadBlock_spec:
  assumes "kernel_ok k" and "held p = {}" and "loadBlock env n (p, k) = (err, p', k')"
  shows "kernel_ok k' \<and> held p' \<inter> set (k_open k) = {} \<and>
    p_nfsObjs p' = None \<and> p_nfsKprobeObjs p' = None \<and>
    (case err of
       Some _ \<Rightarrow> k_open k' = k_open k
     | None \<Rightarrow> map_open (p_BlockHists p') k' \<and> set (k_open k') = set (k_open k) \<union> held p')"
proof -
  have p: "p_links p = []" "p_blockObjs p = None" "p_nfsObjs p = None" "p_nfsKprobeObjs p = None"
    using assms(2) by (auto simp: held_def)
  have "filter (\<lambda>x. x \<noteq> k_next k) (k_open k) = k_open k"
    "filter (\<lambda>x. x \<noteq> k_next k \<and> x \<noteq> Suc (k_next k)) (k_open k) = k_open k"
    "filter (\<lambda>x. x \<noteq> Suc (k_next k) \<and> x \<noteq> k_next k) (k_open k) = k_open k"
    "k_next k \<notin> set (k_open k)" "Suc (k_next k) \<notin> set (k_open k)" "Suc (Suc (k_next k)) \<notin> set (k_open k)"
    "\<forall>h \<in> set (k_open k). h < Suc (k_next k) \<and> h < Suc (Suc (k_next k)) \<and> h < Suc (Suc (Suc (k_next k)))"
    using assms(1) by (fastforce simp: kernel_ok_def filter_id_conv)+
  with p assms(1,3) show ?thesis
    by (auto simp: loadBlock_def load_objects_def open_handle_def held_def map_open_def
        Programs_Close_def kernel_ok_def Let_def split: if_splits)
qed

subsection \<open>The loader as a whole\<close>

lemma all_or_nothing_frame:
  "all_or_nothing nfs_loaded (p, k) e (p', k') \<Longrightarrow> p_NFSActive p' = p_NFSActive p \<and>
     p_NFSKprobeActive p' = p_NFSKprobeActive p \<and> p_BlockActive p' = p_BlockActive p \<and>
     p_retryNFS p' = p_retryNFS p \<and> p_retryNFSKprobe p' = p_retryNFSKprobe p"
  "all_or_nothing kprobe_loaded (p, k) e (p', k') \<Longrightarrow> p_NFSActive p' = p_NFSActive p \<and>
     p_NFSKprobeActive p' = p_NFSKprobeActive p \<and> p_BlockActive p' = p_BlockActive p \<and>
     p_retryNFS p' = p_retryNFS p \<and> p_retryNFSKprobe p' = p_retryNFSKprobe p"
  by (auto simp: all_or_nothing_def nfs_loaded_def kprobe_loaded_def split: option.splits)

lemma loader_inv_kernel_ok: "loader_inv k0 (p, k) \<Longrightarrow> kernel_ok k"
  by (simp add: loader_inv_def)

lemma loadNFS_cases:
  assumes "loader_inv k0 (p, k)" and "\<not> p_NFSActive p"
  obtains (failed) e k' where "loadNFS env n (p, k) = (Some e, p, k')" "loader_inv k0 (p, k')"
    | (loaded) p' k' where "loadNFS env n (p, k) = (None, p', k')"
        "loader_inv k0 (p'\<lparr>p_NFSActive := True, p_retryNFS := False\<rparr>, k')"
        "p_NFSKprobeActive p' = p_NFSKprobeActive p" "p_retryNFSKprobe p' = p_retryNFSKprobe p"
        "p_BlockActive p' = p_BlockActive p" "p_retryNFS p' = p_retryNFS p"
proof -
  obtain err p' k' where l: "loadNFS env n (p, k) = (err, p', k')" by (metis prod_cases3)
  have s: "all_or_nothing nfs_loaded (p, k) err (p', k')"
    using loadNFS_spec [of "(p, k)" env n] loader_inv_kernel_ok [OF assms(1)] l by simp
  show thesis
  proof (cases err)
    case None
    then show ?thesis using loaded [OF _ loader_inv_nfs [OF assms]] all_or_nothing_frame(1) [OF s] s l by simp
  next
    case (Some e)
    then show ?thesis using failed loader_inv_failed [OF assms(1)] s l by blast
  qed
qed

lemma loadNFSKprobe_cases:
  assumes "loader_inv k0 (p, k)" and "\<not> p_NFSKprobeActive p"
  obtains (failed) e k' where "loadNFSKprobe env n (p, k) = (Some e, p, k')" "loader_inv k0 (p, k')"
    | (loaded) p' k' where "loadNFSKprobe env n (p, k) = (None, p', k')"
        "loader_inv k0 (p'\<lparr>p_NFSKprobeActive := True, p_retryNFSKprobe := False\<rparr>, k')"
        "p_NFSActive p' = p_NFSActive p" "p_retryNFS p' = p_retryNFS p"
        "p_BlockActive p' = p_BlockActive p" "p_retryNFSKprobe p' = p_retryNFSKprobe p"
proof -
  obtain err p' k' where l: "loadNFSKprobe env n (p, k) = (err, p', k')" by (metis prod_cases3)
  have s: "all_or_nothing kprobe_loaded (p, k) err (p', k')"
    using loadNFSKprobe_spec [of "(p, k)" env n] loader_inv_kernel_ok [OF assms(1)] l by simp
  show thesis
  proof (cases err)
    case None
    then show ?thesis using loaded [OF _ loader_inv_kprobe [OF assms]] all_or_nothing_frame(2) [OF s] s l by simp
  next
    case (Some e)
    then show ?thesis using failed loader_inv_failed [OF assms(1)] s l by blast
  qed
qed

lemma loader_inv_retry:
  "loader_inv k0 (p, k) \<Longrightarrow> \<not> p_NFSActive p \<Longrightarrow> loader_inv k0 (p\<lparr>p_retryNFS := b\<rparr>, k)"
  "loader_inv k0 (p, k) \<Longrightarrow> \<not> p_NFSKprobeActive p \<Longrightarrow> loader_inv k0 (p\<lparr>p_retryNFSKprobe := b\<rparr>, k)"
  by (auto simp: loader_inv_def held_def)

text \<open>What is to be retried, or active, after each step of \<^verbatim>\<open>LoadAndAttach\<close>.\<close>

lemma try_block_inv:
  assumes "kernel_ok k"
  shows "loader_inv k (try_block env n (zero_Programs\<lparr>p_nfsMapSize := a, p_nfsKprobeMapSize := b\<rparr>, k))"
    (is "loader_inv k (try_block env n (?p, k))")
proof -
  obtain err p' k' where l: "loadBlock env n (?p, k) = (err, p', k')" by (metis prod_cases3)
  have "held ?p = {}" by (simp add: held_def zero_Programs_def)
  note S = loadBlock_spec [OF assms this l]
  have f: "\<not> p_NFSActive p'" "\<not> p_NFSKprobeActive p'" "\<not> p_BlockActive p'" "\<not> p_retryNFS p'" "\<not> p_retryNFSKprobe p'"
    using l by (auto simp: loadBlock_def zero_Programs_def Programs_Close_def Let_def
        split: if_splits prod.splits option.splits)
  show ?thesis
  proof (cases err)
    case None
    with S f l show ?thesis by (auto simp: try_block_def loader_inv_def held_def)
  next
    case (Some e)
    with S f l show ?thesis by (auto simp: try_block_def loader_inv_def)
  qed
qed


lemma try_nfs_inv:
  assumes "loader_inv k0 s" and "\<not> p_NFSActive (fst s)" and "\<not> p_retryNFS (fst s)"
  shows "loader_inv k0 (try_nfs env n s) \<and>
    p_retryNFS (fst (try_nfs env n s)) = (\<not> p_NFSActive (fst (try_nfs env n s))) \<and>
    p_retryNFSKprobe (fst (try_nfs env n s)) = p_retryNFSKprobe (fst s) \<and>
    p_NFSKprobeActive (fst (try_nfs env n s)) = p_NFSKprobeActive (fst s) \<and>
    p_BlockActive (fst (try_nfs env n s)) = p_BlockActive (fst s)"
proof -
  obtain p k where s: "s = (p, k)" by (cases s)
  from assms have "loader_inv k0 (p, k)" "\<not> p_NFSActive p" by (simp_all add: s)
  then show ?thesis
  proof (cases rule: loadNFS_cases [where env = env and n = n])
    case (failed e k')
    with assms(2) s show ?thesis by (simp add: try_nfs_def loader_inv_retry)
  next
    case (loaded p' k')
    then have "p'\<lparr>p_NFSActive := True, p_retryNFS := False\<rparr> = p'\<lparr>p_NFSActive := True\<rparr>"
      using assms(3) s by simp
    with loaded assms s show ?thesis by (simp add: try_nfs_def)
  qed
qed

lemma try_kprobe_inv:
  assumes "loader_inv k0 s" and "\<not> p_NFSKprobeActive (fst s)" and "\<not> p_retryNFSKprobe (fst s)"
  shows "loader_inv k0 (try_kprobe env n s) \<and>
    p_retryNFSKprobe (fst (try_kprobe env n s)) = (\<not> p_NFSKprobeActive (fst (try_kprobe env n s))) \<and>
    p_retryNFS (fst (try_kprobe env n s)) = p_retryNFS (fst s) \<and>
    p_NFSActive (fst (try_kprobe env n s)) = p_NFSActive (fst s) \<and>
    p_BlockActive (fst (try_kprobe env n s)) = p_BlockActive (fst s)"
proof -
  obtain p k where s: "s = (p, k)" by (cases s)
  from assms have "loader_inv k0 (p, k)" "\<not> p_NFSKprobeActive p" by (simp_all add: s)
  then show ?thesis
  proof (cases rule: loadNFSKprobe_cases [where env = env and n = n])
    case (failed e k')
    with assms(2) s show ?thesis by (simp add: try_kprobe_def loader_inv_retry)
  next
    case (loaded p' k')
    then have "p'\<lparr>p_NFSKprobeActive := True, p_retryNFSKprobe := False\<rparr> = p'\<lparr>p_NFSKprobeActive := True\<rparr>"
      using assms(3) s by simp
    with loaded assms s show ?thesis by (simp add: try_kprobe_def)
  qed
qed

text \<open>One tick keeps the invariant and leaves no subsystem behind: it is active or retried.\<close>

definition settled :: "bool \<Rightarrow> bool \<Rightarrow> Programs \<Rightarrow> bool" where
  "settled nfs kprobe p \<longleftrightarrow>
     (nfs \<longrightarrow> p_NFSActive p \<or> p_retryNFS p) \<and> (kprobe \<longrightarrow> p_NFSKprobeActive p \<or> p_retryNFSKprobe p)"

lemma retry_nfs_inv:
  assumes "loader_inv k0 s" and "settled nfs kprobe (fst s)"
  shows "loader_inv k0 (retry_nfs env s) \<and> settled nfs kprobe (fst (retry_nfs env s))"
proof (cases "p_retryNFS (fst s)")
  case True
  obtain p k where s: "s = (p, k)" by (cases s)
  with assms(1) True have "loader_inv k0 (p, k)" "\<not> p_NFSActive p" by (auto simp: loader_inv_def)
  then show ?thesis
    by (cases rule: loadNFS_cases [where env = env and n = "p_nfsMapSize p"])
      (use True assms(2) s in \<open>auto simp: retry_nfs_def settled_def\<close>)
qed (use assms in \<open>simp add: retry_nfs_def\<close>)

lemma retry_kprobe_inv:
  assumes "loader_inv k0 s" and "settled nfs kprobe (fst s)"
  shows "loader_inv k0 (retry_kprobe env s) \<and> settled nfs kprobe (fst (retry_kprobe env s))"
proof (cases "p_retryNFSKprobe (fst s)")
  case True
  obtain p k where s: "s = (p, k)" by (cases s)
  with assms(1) True have "loader_inv k0 (p, k)" "\<not> p_NFSKprobeActive p" by (auto simp: loader_inv_def)
  then show ?thesis
    by (cases rule: loadNFSKprobe_cases [where env = env and n = "p_nfsKprobeMapSize p"])
      (use True assms(2) s in \<open>auto simp: retry_kprobe_def settled_def\<close>)
qed (use assms in \<open>simp add: retry_kprobe_def\<close>)

lemma retry_tick_inv:
  assumes "loader_inv k0 s" and "settled nfs kprobe (fst s)"
  shows "loader_inv k0 (retry_tick env s) \<and> settled nfs kprobe (fst (retry_tick env s))"
  unfolding retry_tick_def by (intro retry_kprobe_inv) (use assms retry_nfs_inv in blast)+

lemma RetryFailed_inv:
  assumes "loader_inv k0 s" and "settled nfs kprobe (fst s)"
  shows "loader_inv k0 (RetryFailed envs s) \<and> settled nfs kprobe (fst (RetryFailed envs s))"
  using assms by (induction envs s rule: RetryFailed.induct) (use retry_tick_inv in auto)

text \<open>\<^verbatim>\<open>LoadAndAttach\<close> cut before its final test.\<close>

lemma LoadAndAttach_stages:
  assumes "kernel_ok k0"
  obtains s where "loader_inv k0 s" and "settled nfs kp (fst s)"
    and "\<not> nfs \<Longrightarrow> \<not> kp \<Longrightarrow> s = (let z = (zero_Programs\<lparr>p_nfsMapSize := nn, p_nfsKprobeMapSize := kn\<rparr>, k0)
           in if blk then try_block env bn z else z) \<and> \<not> p_NFSActive (fst s) \<and> \<not> p_NFSKprobeActive (fst s)
           \<and> \<not> p_retryNFS (fst s) \<and> \<not> p_retryNFSKprobe (fst s)"
    and "LoadAndAttach env blk nfs kp bn nn kn k0 =
     (if (blk \<or> nfs \<or> kp) \<and> \<not> (p_BlockActive (fst s) \<or> p_NFSActive (fst s) \<or> p_NFSKprobeActive (fst s)) \<and>
        \<not> p_retryNFS (fst s) \<and> \<not> p_retryNFSKprobe (fst s) then (None, snd s) else (Some (fst s), snd s))"
proof -
  let ?z = "(zero_Programs\<lparr>p_nfsMapSize := nn, p_nfsKprobeMapSize := kn\<rparr>, k0)"
  define s1 where "s1 = (if blk then try_block env bn ?z else ?z)"
  define s2 where "s2 = (if nfs then try_nfs env nn s1 else s1)"
  define s3 where "s3 = (if kp then try_kprobe env kn s2 else s2)"
  have "loader_inv k0 ?z" using assms by (simp add: loader_inv_def zero_Programs_def held_def)
  then have 1: "loader_inv k0 s1" using try_block_inv [OF assms] by (simp add: s1_def)
  have f1: "\<not> p_NFSActive (fst s1)" "\<not> p_NFSKprobeActive (fst s1)" "\<not> p_retryNFS (fst s1)" "\<not> p_retryNFSKprobe (fst s1)"
    by (auto simp: s1_def try_block_def loadBlock_def zero_Programs_def Programs_Close_def Let_def
        split: if_splits prod.splits option.splits)
  have 2: "loader_inv k0 s2 \<and> (nfs \<longrightarrow> p_NFSActive (fst s2) \<or> p_retryNFS (fst s2)) \<and>
      \<not> p_NFSKprobeActive (fst s2) \<and> \<not> p_retryNFSKprobe (fst s2)"
    using try_nfs_inv [OF 1 f1(1,3), of env nn] 1 f1 by (auto simp: s2_def)
  then have 3: "loader_inv k0 s3" "settled nfs kp (fst s3)"
    using try_kprobe_inv [of k0 s2 env kn] by (auto simp: s3_def settled_def)
  show thesis
    by (rule that [of s3])
      (use 3 f1 in \<open>simp_all add: LoadAndAttach_def s1_def s2_def s3_def Let_def case_prod_beta\<close>)
qed

lemma LoadAndAttach_inv:
  assumes "kernel_ok k0" and "LoadAndAttach env blk nfs kp bn nn kn k0 = (Some p, k)"
  shows "loader_inv k0 (p, k) \<and> settled nfs kp p"
  using LoadAndAttach_stages [OF assms(1), where nfs = nfs and kp = kp and nn = nn and kn = kn and
      blk = blk and env = env and bn = bn] assms(2)
  by (smt (verit) Pair_inject option.distinct(1) option.inject prod.collapse)

subsection \<open>Properties\<close>

text \<open>
  C5: Ownership. Starting in any kernel, after \<^verbatim>\<open>LoadAndAttach\<close> and any number of retry ticks, a
  subsystem that is marked active has a histogram map that is open, nothing that was open
  before was closed, and \<^verbatim>\<open>Close\<close> releases exactly what the loader opened.
\<close>

theorem loader_owns_handles:
  assumes "kernel_ok k0" and "LoadAndAttach env blk nfs kp bn nn kn k0 = (Some p0, k1)"
    and "RetryFailed envs (p0, k1) = (p, k)"
  shows "(p_BlockActive p \<longrightarrow> map_open (p_BlockHists p) k) \<and>
    (p_NFSActive p \<longrightarrow> map_open (p_NfsHists p) k) \<and>
    (p_NFSKprobeActive p \<longrightarrow> map_open (p_NfsKprobeHists p) k) \<and>
    set (k_open k0) \<subseteq> set (k_open k) \<and>
    set (k_open (snd (Programs_Close (p, k)))) = set (k_open k0)"
proof -
  have "loader_inv k0 (p, k)"
    using RetryFailed_inv [of k0 "(p0, k1)" nfs kp envs] LoadAndAttach_inv [OF assms(1,2)] assms(3) by simp
  then show ?thesis using loader_inv_Close by (auto simp: loader_inv_def)
qed

definition empty_kernel :: kernel where
  "empty_kernel = \<lparr>k_next = 3, k_open = [0], k_maxEntries = Map.empty\<rparr>"

definition no_nfs :: kenv where
  "no_nfs = \<lparr>spec_ok = (\<lambda>_. True), objects_ok = (\<lambda>_. True), tracepoint_ok = (\<lambda>_. True),
     raw_tracepoint_ok = (\<lambda>_. False), kprobe_ok = (\<lambda>_. False), kretprobe_ok = (\<lambda>_. False)\<rparr>"

definition all_but_nfs4 :: kenv where
  "all_but_nfs4 = \<lparr>spec_ok = (\<lambda>_. True), objects_ok = (\<lambda>_. True), tracepoint_ok = (\<lambda>_. True),
     raw_tracepoint_ok = (\<lambda>_. True), kprobe_ok = (\<lambda>n. n \<noteq> ''nfs4_file_open''), kretprobe_ok = (\<lambda>_. True)\<rparr>"

lemmas loader_eval = LoadAndAttach_def try_block_def try_nfs_def try_kprobe_def loadBlock_def loadNFS_def
  loadNFSKprobe_def load_objects_def open_handle_def zero_Programs_def nfsTracepoints_def kprobeTargets_def
  retry_tick_def retry_nfs_def retry_kprobe_def empty_kernel_def no_nfs_def all_but_nfs4_def Let_def

theorem loader_owns_handles_witness:
  "\<exists>p k. RetryFailed [no_nfs, all_but_nfs4]
       (case LoadAndAttach no_nfs True True True 0 0 0 empty_kernel of (q, k) \<Rightarrow> (the q, k)) = (p, k) \<and>
     p_BlockActive p \<and> p_NFSActive p \<and> p_NFSKprobeActive p \<and> map_open (p_NfsHists p) k \<and>
     length (k_open k) = 18 \<and> set (k_open (snd (Programs_Close (p, k)))) = {0}"
proof -
  obtain p0 k1 where l: "LoadAndAttach no_nfs True True True 0 0 0 empty_kernel = (Some p0, k1)"
    by (simp add: loader_eval)
  obtain p k where r: "RetryFailed [no_nfs, all_but_nfs4] (p0, k1) = (p, k)" by fastforce
  have ok: "kernel_ok empty_kernel" by (simp add: kernel_ok_def empty_kernel_def)
  have "p_BlockActive p \<and> p_NFSActive p \<and> p_NFSKprobeActive p \<and> length (k_open k) = 18"
    using l r by (auto simp: loader_eval close_all_def close_handle_def)
  with l r loader_owns_handles [OF ok l r] show ?thesis by (simp add: empty_kernel_def)
qed


text \<open>
  C10: Failure atomicity. When loading or attaching an NFS program fails at any point, the programs
  are as they were and exactly the handles that were open before are open, so that the
  load can be retried without leaking descriptors.
\<close>

theorem nfs_load_atomic:
  assumes "kernel_ok k"
  shows "(fst (loadNFS env n (p, k)) \<noteq> None \<longrightarrow>
      fst (snd (loadNFS env n (p, k))) = p \<and> k_open (snd (snd (loadNFS env n (p, k)))) = k_open k) \<and>
    (fst (loadNFSKprobe env n (p, k)) \<noteq> None \<longrightarrow>
      fst (snd (loadNFSKprobe env n (p, k))) = p \<and> k_open (snd (snd (loadNFSKprobe env n (p, k)))) = k_open k)"
  using loadNFS_spec [of "(p, k)" env n] loadNFSKprobe_spec [of "(p, k)" env n] assms
  by (auto simp: all_or_nothing_def)

theorem nfs_load_atomic_witness:
  "fst (loadNFSKprobe (all_but_nfs4\<lparr>kretprobe_ok := (\<lambda>n. n \<noteq> ''nfs_getattr'')\<rparr>) 0 (zero_Programs, empty_kernel))
     = Some (AttachError ''nfs_getattr'') \<and>
   k_open (snd (snd (loadNFSKprobe (all_but_nfs4\<lparr>kretprobe_ok := (\<lambda>n. n \<noteq> ''nfs_getattr'')\<rparr>) 0
     (zero_Programs, empty_kernel)))) = [0]"
proof -
  let ?env = "all_but_nfs4\<lparr>kretprobe_ok := (\<lambda>n. n \<noteq> ''nfs_getattr'')\<rparr>"
  have "kernel_ok empty_kernel" by (simp add: kernel_ok_def empty_kernel_def)
  note A = nfs_load_atomic [OF this, of ?env 0 zero_Programs]
  have "fst (loadNFSKprobe ?env 0 (zero_Programs, empty_kernel)) = Some (AttachError ''nfs_getattr'')"
    by (simp add: loader_eval)
  with A show ?thesis by (simp add: empty_kernel_def)
qed

text \<open>What a tick needs to load everything: only the NFSv4 open probe may be missing.\<close>

definition nfs_available :: "kenv \<Rightarrow> bool" where
  "nfs_available env \<longleftrightarrow> spec_ok env ''nfs'' \<and> objects_ok env ''nfs'' \<and> list_all (raw_tracepoint_ok env) nfsTracepoints"

definition kprobes_available :: "kenv \<Rightarrow> bool" where
  "kprobes_available env \<longleftrightarrow> spec_ok env ''nfs_kprobe'' \<and> objects_ok env ''nfs_kprobe'' \<and>
     list_all (\<lambda>(n, optional). (kprobe_ok env n \<or> optional) \<and> (kprobe_ok env n \<longrightarrow> kretprobe_ok env n)) kprobeTargets"

lemma attach_links_available:
  assumes "\<forall>t \<in> set ts. ok (fst t) \<or> snd t"
  shows "\<exists>ls k'. attach_links ok ts links k = (Inr ls, k') \<and>
    map fst ls = map fst links @ map fst (filter (\<lambda>t. ok (fst t)) ts)"
  using assms by (induction ok ts links k rule: attach_links.induct) (auto simp: open_handle_def)

lemma loadNFS_available: "nfs_available env \<Longrightarrow> fst (loadNFS env n s) = None"
proof -
  assume a: "nfs_available env"
  have "\<exists>ls k'. attach_links (raw_tracepoint_ok env) (map (\<lambda>n. (n, False)) nfsTracepoints) [] k = (Inr ls, k')" for k
    using attach_links_available [of "map (\<lambda>n. (n, False)) nfsTracepoints" "raw_tracepoint_ok env" "[]" k] a
    by (auto simp: nfs_available_def list_all_iff)
  with a show ?thesis
    by (cases s) (auto simp: loadNFS_def load_objects_def open_handle_def nfs_available_def split: prod.splits sum.splits; metis Inl_Inr_False prod.inject)
qed

lemma loadNFSKprobe_available: "kprobes_available env \<Longrightarrow> fst (loadNFSKprobe env n s) = None"
proof -
  assume a: "kprobes_available env"
  have 1: "\<exists>ls k'. attach_links (kprobe_ok env) kprobeTargets [] k = (Inr ls, k') \<and>
      (\<forall>l \<in> set ls. kretprobe_ok env (fst l))" for k
  proof -
    obtain ls k' where l: "attach_links (kprobe_ok env) kprobeTargets [] k = (Inr ls, k')"
        "map fst ls = map fst (filter (\<lambda>t. kprobe_ok env (fst t)) kprobeTargets)"
      using attach_links_available [of kprobeTargets "kprobe_ok env" "[]" k] a
      by (fastforce simp: kprobes_available_def list_all_iff)
    have "fst ` set ls = fst ` set (filter (\<lambda>t. kprobe_ok env (fst t)) kprobeTargets)"
      using l(2) by (metis list.set_map)
    then have "\<forall>l \<in> set ls. kretprobe_ok env (fst l)"
      using a by (fastforce simp: kprobes_available_def list_all_iff image_iff)
    with l show ?thesis by blast
  qed
  have 2: "\<exists>ls' k'. attach_links (kretprobe_ok env) (map (\<lambda>(fn, _). (fn, False)) ls) ls k = (Inr ls', k')"
    if "\<forall>l \<in> set ls. kretprobe_ok env (fst l)" for ls k
    using attach_links_available [of "map (\<lambda>(fn, _). (fn, False)) ls" "kretprobe_ok env" ls k] that
    by (fastforce split: prod.split)
  obtain p k where s: "s = (p, k)" by (cases s)
  obtain h k1 where o: "load_objects (objects_ok env ''nfs_kprobe'') (start_entries n MAX_NFS_KPROBE_ENTRIES) k = (Some h, k1)"
    using a by (auto simp: kprobes_available_def load_objects_def open_handle_def)
  obtain ls k2 where l: "attach_links (kprobe_ok env) kprobeTargets [] k1 = (Inr ls, k2)"
      "\<forall>l \<in> set ls. kretprobe_ok env (fst l)" using 1 by blast
  obtain ls' k3 where "attach_links (kretprobe_ok env) (map (\<lambda>(fn, _). (fn, False)) ls) ls k2 = (Inr ls', k3)"
    using 2 l by blast
  with o l a s show ?thesis by (simp add: loadNFSKprobe_def kprobes_available_def)
qed


lemma load_keeps_retry:
  "loadNFS env n s = (e, p, k) \<Longrightarrow>
     p_retryNFS p = p_retryNFS (fst s) \<and> p_retryNFSKprobe p = p_retryNFSKprobe (fst s)"
  "loadNFSKprobe env n s = (e, p, k) \<Longrightarrow>
     p_retryNFS p = p_retryNFS (fst s) \<and> p_retryNFSKprobe p = p_retryNFSKprobe (fst s)"
  by (cases s; auto simp: loadNFS_def loadNFSKprobe_def Let_def split: prod.splits option.splits sum.splits if_splits)+

text \<open>A tick only clears retry flags, and clears those of the subsystems that are available.\<close>

lemma retry_tick_flags:
  "p_retryNFS (fst (retry_tick env s)) \<Longrightarrow> p_retryNFS (fst s) \<and> \<not> nfs_available env"
  "p_retryNFSKprobe (fst (retry_tick env s)) \<Longrightarrow> p_retryNFSKprobe (fst s) \<and> \<not> kprobes_available env"
proof -
  have n: "p_retryNFS (fst (retry_nfs env s)) \<Longrightarrow> p_retryNFS (fst s) \<and> \<not> nfs_available env"
      "p_retryNFSKprobe (fst (retry_nfs env s)) = p_retryNFSKprobe (fst s)" for s
    using load_keeps_retry(1) [of env "p_nfsMapSize (fst s)" s] loadNFS_available [of env "p_nfsMapSize (fst s)" s]
    by (auto simp: retry_nfs_def split: prod.splits option.splits if_splits)
  have k: "p_retryNFSKprobe (fst (retry_kprobe env s)) \<Longrightarrow> p_retryNFSKprobe (fst s) \<and> \<not> kprobes_available env"
      "p_retryNFS (fst (retry_kprobe env s)) = p_retryNFS (fst s)" for s
    using load_keeps_retry(2) [of env "p_nfsKprobeMapSize (fst s)" s]
      loadNFSKprobe_available [of env "p_nfsKprobeMapSize (fst s)" s]
    by (auto simp: retry_kprobe_def split: prod.splits option.splits if_splits)
  show "p_retryNFS (fst (retry_tick env s)) \<Longrightarrow> p_retryNFS (fst s) \<and> \<not> nfs_available env"
    "p_retryNFSKprobe (fst (retry_tick env s)) \<Longrightarrow> p_retryNFSKprobe (fst s) \<and> \<not> kprobes_available env"
    unfolding retry_tick_def using n k by metis+
qed

lemma RetryFailed_flags:
  "p_retryNFS (fst (RetryFailed envs s)) \<Longrightarrow>
     p_retryNFS (fst s) \<and> (\<forall>env \<in> set envs. \<not> nfs_available env)"
  "p_retryNFSKprobe (fst (RetryFailed envs s)) \<Longrightarrow>
     p_retryNFSKprobe (fst s) \<and> (\<forall>env \<in> set envs. \<not> kprobes_available env)"
  by (induction envs s rule: RetryFailed.induct) (auto dest: retry_tick_flags split: if_splits)

text \<open>
  C12: Progress of the retry loop. Where both NFS subsystems were requested, they are active and the
  loop has nothing left to retry as soon as each of them was available at some tick, not
  necessarily the same one; a kernel without the NFSv4 open function counts as available.
\<close>

theorem retry_liveness:
  assumes "kernel_ok k0" and "LoadAndAttach env0 blk True True bn nn kn k0 = (Some p0, k1)"
    and "\<exists>env \<in> set envs. nfs_available env" and "\<exists>env \<in> set envs. kprobes_available env"
    and "RetryFailed envs (p0, k1) = (p, k)"
  shows "p_NFSActive p \<and> p_NFSKprobeActive p \<and> \<not> p_retryNFS p \<and> \<not> p_retryNFSKprobe p"
proof -
  have "settled True True p"
    using RetryFailed_inv [of k0 "(p0, k1)" True True envs] LoadAndAttach_inv [OF assms(1,2)] assms(5) by simp
  moreover have "\<not> p_retryNFS p" "\<not> p_retryNFSKprobe p"
    using RetryFailed_flags [of envs "(p0, k1)"] assms(3-5) by auto
  ultimately show ?thesis by (simp add: settled_def)
qed

theorem retry_liveness_witness:
  "\<exists>p k. RetryFailed [no_nfs, all_but_nfs4\<lparr>kprobe_ok := (\<lambda>_. False)\<rparr>, all_but_nfs4\<lparr>raw_tracepoint_ok := (\<lambda>_. False)\<rparr>]
       (case LoadAndAttach no_nfs False True True 0 0 0 empty_kernel of (q, k) \<Rightarrow> (the q, k)) = (p, k) \<and>
     p_NFSActive p \<and> p_NFSKprobeActive p"
proof -
  let ?envs = "[no_nfs, all_but_nfs4\<lparr>kprobe_ok := (\<lambda>_. False)\<rparr>, all_but_nfs4\<lparr>raw_tracepoint_ok := (\<lambda>_. False)\<rparr>]"
  obtain p0 k1 where l: "LoadAndAttach no_nfs False True True 0 0 0 empty_kernel = (Some p0, k1)"
    by (simp add: loader_eval)
  obtain p k where r: "RetryFailed ?envs (p0, k1) = (p, k)" by fastforce
  have ok: "kernel_ok empty_kernel" by (simp add: kernel_ok_def empty_kernel_def)
  have "\<exists>env \<in> set ?envs. nfs_available env" "\<exists>env \<in> set ?envs. kprobes_available env"
    by (simp_all add: nfs_available_def kprobes_available_def all_but_nfs4_def nfsTracepoints_def kprobeTargets_def)
  from retry_liveness [OF ok l this r] l r show ?thesis by simp
qed

text \<open>
  \<^verbatim>\<open>LoadAndAttach\<close> reports an error exactly when the block program alone was requested and
  could not be loaded, since a failed NFS program is retried instead; the error leaves no
  handle open.
\<close>

theorem LoadAndAttach_error:
  assumes "kernel_ok k0" and "LoadAndAttach env blk nfs kp bn nn kn k0 = (r, k)"
  shows "(r = None \<longleftrightarrow> blk \<and> \<not> nfs \<and> \<not> kp \<and>
      fst (loadBlock env bn (zero_Programs\<lparr>p_nfsMapSize := nn, p_nfsKprobeMapSize := kn\<rparr>, k0)) \<noteq> None) \<and>
    (r = None \<longrightarrow> k_open k = k_open k0)"
proof -
  let ?z = "zero_Programs\<lparr>p_nfsMapSize := nn, p_nfsKprobeMapSize := kn\<rparr>"
  obtain err p' k' where l: "loadBlock env bn (?z, k0) = (err, p', k')" by (metis prod_cases3)
  have "held ?z = {}" by (simp add: held_def zero_Programs_def)
  note B = loadBlock_spec [OF assms(1) this l]
  have a: "\<not> p_BlockActive p'"
    using l by (auto simp: loadBlock_def zero_Programs_def Programs_Close_def Let_def
        split: if_splits prod.splits option.splits)
  show ?thesis
  proof (rule LoadAndAttach_stages [OF assms(1), where nfs = nfs and kp = kp and nn = nn and kn = kn and
      blk = blk and env = env and bn = bn])
    fix s
    assume "settled nfs kp (fst s)" and
      s: "\<not> nfs \<Longrightarrow> \<not> kp \<Longrightarrow> s = (let z = (?z, k0) in if blk then try_block env bn z else z) \<and>
          \<not> p_NFSActive (fst s) \<and> \<not> p_NFSKprobeActive (fst s) \<and> \<not> p_retryNFS (fst s) \<and> \<not> p_retryNFSKprobe (fst s)" and
      L: "LoadAndAttach env blk nfs kp bn nn kn k0 =
         (if (blk \<or> nfs \<or> kp) \<and> \<not> (p_BlockActive (fst s) \<or> p_NFSActive (fst s) \<or> p_NFSKprobeActive (fst s)) \<and>
            \<not> p_retryNFS (fst s) \<and> \<not> p_retryNFSKprobe (fst s) then (None, snd s) else (Some (fst s), snd s))"
    show ?thesis
    proof (cases "nfs \<or> kp \<or> \<not> blk")
      case True
      with \<open>settled nfs kp (fst s)\<close> L assms(2) show ?thesis by (auto simp: settled_def split: if_splits)
    next
      case False
      with s L assms(2) l a B show ?thesis by (cases err) (auto simp: try_block_def)
    qed
  qed
qed

definition no_block :: kenv where
  "no_block = all_but_nfs4\<lparr>tracepoint_ok := (\<lambda>n. n \<noteq> ''block_rq_complete'')\<rparr>"

theorem LoadAndAttach_error_witness:
  "\<exists>k. LoadAndAttach no_block True False False 0 0 0 empty_kernel = (None, k) \<and> k_open k = [0]"
proof -
  obtain k where l: "LoadAndAttach no_block True False False 0 0 0 empty_kernel = (None, k)"
    by (simp add: loader_eval no_block_def Programs_Close_def)
  have "kernel_ok empty_kernel" by (simp add: kernel_ok_def empty_kernel_def)
  from LoadAndAttach_error [OF this l] l show ?thesis by (simp add: empty_kernel_def)
qed

text \<open>
  C38: When a block tracepoint cannot be attached, the programs are returned (as long as an NFS
  program was requested) with the block subsystem inactive but with \<^verbatim>\<open>BlockHists\<close> set to a map
  that is closed.
\<close>

theorem failed_block_keeps_closed_map:
  assumes "kernel_ok k0" and "spec_ok env ''block''" and "objects_ok env ''block''"
    and "\<not> tracepoint_ok env ''block_rq_issue'' \<or> \<not> tracepoint_ok env ''block_rq_complete''"
    and "try_block env n (zero_Programs\<lparr>p_nfsMapSize := a, p_nfsKprobeMapSize := b\<rparr>, k0) = (p, k)"
  shows "\<not> p_BlockActive p \<and> p_BlockHists p = Some (k_next k0) \<and> \<not> map_open (p_BlockHists p) k"
  using assms
  by (auto simp: try_block_def loadBlock_def load_objects_def open_handle_def zero_Programs_def
      Programs_Close_def Let_def map_open_def split: if_splits)

theorem failed_block_keeps_closed_map_witness:
  "\<exists>p k. try_block no_block 0 (zero_Programs\<lparr>p_nfsMapSize := 0, p_nfsKprobeMapSize := 0\<rparr>, empty_kernel) = (p, k) \<and>
     \<not> p_BlockActive p \<and> p_BlockHists p = Some 3 \<and> \<not> map_open (p_BlockHists p) k"
proof -
  obtain p k where t: "try_block no_block 0 (zero_Programs\<lparr>p_nfsMapSize := 0, p_nfsKprobeMapSize := 0\<rparr>, empty_kernel) = (p, k)"
    by fastforce
  have "kernel_ok empty_kernel" by (simp add: kernel_ok_def empty_kernel_def)
  from failed_block_keeps_closed_map [OF this _ _ _ t] have
    "\<not> p_BlockActive p \<and> p_BlockHists p = Some 3 \<and> \<not> map_open (p_BlockHists p) k"
    by (auto simp: no_block_def all_but_nfs4_def empty_kernel_def)
  with t show ?thesis by blast
qed

end
