(* ===== verification/Prometheus.thy ===== *)
theory Prometheus
  imports Prelude Complex_Main
begin

text \<open>
  Descriptions and metrics as the collectors hand them to the Prometheus client, and the client
  as far as the collectors see it: for which label values of a description it makes a metric.
\<close>

record Desc =
  d_fqName :: string
  d_variableLabels :: "string list"

datatype Metric =
    ConstMetric (m_desc: Desc) rat (m_labels: "string list")
  | ConstHistogram (m_desc: Desc) u64 rat "rat \<Rightarrow> u64 option" (m_labels: "string list")

type_synonym acceptor = "Desc \<Rightarrow> string list \<Rightarrow> bool"

text \<open>The client wants one value per label, and two metrics must differ in description or labels.\<close>

definition arity_ok :: acceptor where
  "arity_ok d ls \<longleftrightarrow> length ls = length (d_variableLabels d)"

definition metric_id :: "Metric \<Rightarrow> Desc \<times> string list" where
  "metric_id m = (m_desc m, m_labels m)"

end
