(* ===== verification/EbpfCollector.thy ===== *)
theory EbpfCollector
  imports SlotHistogram Device Loader Prometheus
begin

text \<open>
  \<^verbatim>\<open>pkg/ebpf/collector.go\<close>: what a scrape sends to Prometheus, from the histogram maps of the
  programs, the device map of the resolver and the state of the loader. The Prometheus client
  is seen through \<^verbatim>\<open>accept\<close>, which says for which label values of a description it makes a
  metric, and the eBPF library through \<^verbatim>\<open>iterate\<close>, the entries an iteration of a map yields.
\<close>

subsection \<open>Descriptions\<close>

definition podBlockDesc :: Desc where
  "podBlockDesc = \<lparr>d_fqName = ''kme_block_io_latency_seconds'',
     d_variableLabels = [''node'', ''namespace'', ''persistentvolumeclaim'', ''pod'', ''operation'']\<rparr>"

definition systemBlockDesc :: Desc where
  "systemBlockDesc = \<lparr>d_fqName = ''kme_system_block_io_latency_seconds'',
     d_variableLabels = [''node'', ''device'', ''operation'']\<rparr>"

definition nfsDesc :: Desc where
  "nfsDesc = \<lparr>d_fqName = ''kme_nfs_io_latency_seconds'',
     d_variableLabels = [''node'', ''namespace'', ''persistentvolumeclaim'', ''pod'', ''operation'']\<rparr>"

definition nfsVfsDesc :: Desc where
  "nfsVfsDesc = \<lparr>d_fqName = ''kme_nfs_vfs_latency_seconds'',
     d_variableLabels = [''node'', ''namespace'', ''persistentvolumeclaim'', ''pod'', ''operation'']\<rparr>"

definition subsystemDesc :: Desc where
  "subsystemDesc = \<lparr>d_fqName = ''kme_subsystem_active'', d_variableLabels = [''subsystem'']\<rparr>"

definition opLabels :: "string list" where
  "opLabels = [''read'', ''write'', ''discard'', ''flush'']"

definition nfsVfsOpLabels :: "string list" where
  "nfsVfsOpLabels = [''read'', ''write'', ''open'', ''getattr'']"

subsection \<open>The collector\<close>

record Collector =
  c_programs :: Programs
  c_resolver :: Resolver
  c_nodeName :: string
  c_buckets :: "rat list"
  c_namespaces :: "string \<Rightarrow> bool option"

definition NewCollector :: "Programs \<Rightarrow> Resolver \<Rightarrow> string \<Rightarrow> rat list \<Rightarrow> string list \<Rightarrow> Collector" where
  "NewCollector programs resolver nodeName buckets namespaces =
     \<lparr>c_programs = programs, c_resolver = resolver, c_nodeName = nodeName, c_buckets = buckets,
      c_namespaces = fold (\<lambda>ns m. m(ns \<mapsto> True)) namespaces Map.empty\<rparr>"

definition namespaceAllowed :: "Collector \<Rightarrow> string \<Rightarrow> bool" where
  "namespaceAllowed c ns \<longleftrightarrow> c_namespaces c = Map.empty \<or> c_namespaces c ns = Some True"

definition Describe :: "Desc list" where
  "Describe = [podBlockDesc, systemBlockDesc, nfsDesc, nfsVfsDesc, subsystemDesc]"

text \<open>The gauges; a description the client does not accept makes \<^verbatim>\<open>MustNewConstMetric\<close> panic.\<close>

definition subsystem_gauge :: "acceptor \<Rightarrow> bool \<Rightarrow> string \<Rightarrow> Metric option" where
  "subsystem_gauge accept active name =
     (if accept subsystemDesc [name]
      then Some (ConstMetric subsystemDesc (if active then 1 else 0) [name]) else None)"

definition collectSubsystemGauge :: "acceptor \<Rightarrow> Collector \<Rightarrow> Metric list option" where
  "collectSubsystemGauge accept c =
     (case subsystem_gauge accept (p_BlockActive (c_programs c)) ''block'' of
        None \<Rightarrow> None
      | Some b \<Rightarrow>
          (case subsystem_gauge accept (p_NFSActive (c_programs c)) ''nfs'' of
             None \<Rightarrow> None
           | Some n \<Rightarrow>
               (case subsystem_gauge accept (p_NFSKprobeActive (c_programs c)) ''nfs_kprobe'' of
                  None \<Rightarrow> None
                | Some k \<Rightarrow> Some [b, n, k])))"

record blockHistKey =
  bk_Dev :: u32
  bk_Op :: u8
  bk_Pad :: "u8 list"

record nfsHistKey =
  nk_Dev :: u32
  nk_Op :: u8
  nk_Pad :: "u8 list"

record histValue =
  hv_Slots :: "u64 list"

text \<open>One turn of each loop: the metric it sends, if any.\<close>

definition block_turn :: "acceptor \<Rightarrow> Collector \<Rightarrow> blockHistKey \<times> histValue \<Rightarrow> Metric list" where
  "block_turn accept c e =
     (let (key, val) = e
      in if 3 < bk_Op key then []
      else let (count, sm, buckets) = SlotsToConstHistogram (hv_Slots val) (c_buckets c)
        in if count = 0 then []
        else case Lookup (c_resolver c) (bk_Dev key) of
          Some info \<Rightarrow>
            if \<not> namespaceAllowed c (di_Namespace info) then []
            else let labels = [c_nodeName c, di_Namespace info, di_PVCName info, di_PodName info,
                       opLabels ! unat (bk_Op key)]
              in if accept podBlockDesc labels then [ConstHistogram podBlockDesc count sm buckets labels] else []
        | None \<Rightarrow>
            let labels = [c_nodeName c, DevToString (bk_Dev key), opLabels ! unat (bk_Op key)]
            in if accept systemBlockDesc labels then [ConstHistogram systemBlockDesc count sm buckets labels] else [])"

definition collectBlock :: "acceptor \<Rightarrow> Collector \<Rightarrow> (blockHistKey \<times> histValue) list \<Rightarrow> Metric list" where
  "collectBlock accept c entries = concat (map (block_turn accept c) entries)"

definition nfs_turn :: "acceptor \<Rightarrow> Collector \<Rightarrow> nfsHistKey \<times> histValue \<Rightarrow> Metric list" where
  "nfs_turn accept c e =
     (let (key, val) = e
      in if 1 < nk_Op key then []
      else let (count, sm, buckets) = SlotsToConstHistogram (hv_Slots val) (c_buckets c)
        in if count = 0 then []
        else case Lookup (c_resolver c) (nk_Dev key) of
          None \<Rightarrow> []
        | Some info \<Rightarrow>
            if \<not> namespaceAllowed c (di_Namespace info) then []
            else let labels = [c_nodeName c, di_Namespace info, di_PVCName info, di_PodName info,
                       opLabels ! unat (nk_Op key)]
              in if accept nfsDesc labels then [ConstHistogram nfsDesc count sm buckets labels] else [])"

definition collectNFS :: "acceptor \<Rightarrow> Collector \<Rightarrow> (nfsHistKey \<times> histValue) list \<Rightarrow> Metric list" where
  "collectNFS accept c entries = concat (map (nfs_turn accept c) entries)"

definition kprobe_turn :: "acceptor \<Rightarrow> Collector \<Rightarrow> nfsHistKey \<times> histValue \<Rightarrow> Metric list" where
  "kprobe_turn accept c e =
     (let (key, val) = e
      in if 3 < nk_Op key then []
      else let (count, sm, buckets) = SlotsToConstHistogram (hv_Slots val) (c_buckets c)
        in if count = 0 then []
        else case Lookup (c_resolver c) (nk_Dev key) of
          None \<Rightarrow> []
        | Some info \<Rightarrow>
            if \<not> namespaceAllowed c (di_Namespace info) then []
            else let labels = [c_nodeName c, di_Namespace info, di_PVCName info, di_PodName info,
                       nfsVfsOpLabels ! unat (nk_Op key)]
              in if accept nfsVfsDesc labels then [ConstHistogram nfsVfsDesc count sm buckets labels] else [])"

definition collectNFSKprobe :: "acceptor \<Rightarrow> Collector \<Rightarrow> (nfsHistKey \<times> histValue) list \<Rightarrow> Metric list" where
  "collectNFSKprobe accept c entries = concat (map (kprobe_turn accept c) entries)"

text \<open>
  The three maps as iterations yield them; an error that ends an iteration early is only
  logged, so it shows as a shorter list.
\<close>

record map_contents =
  it_block :: "handle \<Rightarrow> (blockHistKey \<times> histValue) list"
  it_nfs :: "handle \<Rightarrow> (nfsHistKey \<times> histValue) list"
  it_kprobe :: "handle \<Rightarrow> (nfsHistKey \<times> histValue) list"

definition Collect_metrics :: "acceptor \<Rightarrow> map_contents \<Rightarrow> Collector \<Rightarrow> Metric list option" where
  "Collect_metrics accept iterate c =
     (case collectSubsystemGauge accept c of
        None \<Rightarrow> None
      | Some gauges \<Rightarrow> Some (gauges
          @ (case p_BlockHists (c_programs c) of None \<Rightarrow> []
             | Some h \<Rightarrow> collectBlock accept c (it_block iterate h))
          @ (case p_NfsHists (c_programs c) of None \<Rightarrow> []
             | Some h \<Rightarrow> collectNFS accept c (it_nfs iterate h))
          @ (case p_NfsKprobeHists (c_programs c) of None \<Rightarrow> []
             | Some h \<Rightarrow> collectNFSKprobe accept c (it_kprobe iterate h))))"

subsection \<open>What a turn sends\<close>

lemmas desc_defs = podBlockDesc_def systemBlockDesc_def nfsDesc_def nfsVfsDesc_def subsystemDesc_def

lemma desc_distinct [simp]:
  "podBlockDesc \<noteq> systemBlockDesc" "podBlockDesc \<noteq> nfsDesc" "podBlockDesc \<noteq> nfsVfsDesc" "podBlockDesc \<noteq> subsystemDesc"
  "systemBlockDesc \<noteq> podBlockDesc" "systemBlockDesc \<noteq> nfsDesc" "systemBlockDesc \<noteq> nfsVfsDesc" "systemBlockDesc \<noteq> subsystemDesc"
  "nfsDesc \<noteq> podBlockDesc" "nfsDesc \<noteq> systemBlockDesc" "nfsDesc \<noteq> nfsVfsDesc" "nfsDesc \<noteq> subsystemDesc"
  "nfsVfsDesc \<noteq> podBlockDesc" "nfsVfsDesc \<noteq> systemBlockDesc" "nfsVfsDesc \<noteq> nfsDesc" "nfsVfsDesc \<noteq> subsystemDesc"
  "subsystemDesc \<noteq> podBlockDesc" "subsystemDesc \<noteq> systemBlockDesc" "subsystemDesc \<noteq> nfsDesc" "subsystemDesc \<noteq> nfsVfsDesc"
  by (simp_all add: desc_defs)

text \<open>The labels of an entry that is attributed to a volume.\<close>

definition volume_labels :: "Collector \<Rightarrow> DeviceInfo \<Rightarrow> string \<Rightarrow> string list" where
  "volume_labels c info opn = [c_nodeName c, di_Namespace info, di_PVCName info, di_PodName info, opn]"

lemma block_turn_iff:
  "m \<in> set (block_turn accept c (key, val)) \<longleftrightarrow>
     bk_Op key \<le> 3 \<and>
     (\<exists>count sm buckets. SlotsToConstHistogram (hv_Slots val) (c_buckets c) = (count, sm, buckets) \<and> count \<noteq> 0 \<and>
       (case Lookup (c_resolver c) (bk_Dev key) of
          Some info \<Rightarrow> namespaceAllowed c (di_Namespace info) \<and>
            m = ConstHistogram podBlockDesc count sm buckets (volume_labels c info (opLabels ! unat (bk_Op key)))
        | None \<Rightarrow>
            m = ConstHistogram systemBlockDesc count sm buckets
                  [c_nodeName c, DevToString (bk_Dev key), opLabels ! unat (bk_Op key)]) \<and>
       accept (m_desc m) (m_labels m))"
  by (cases "SlotsToConstHistogram (hv_Slots val) (c_buckets c)"; cases "Lookup (c_resolver c) (bk_Dev key)")
    (auto simp: block_turn_def volume_labels_def Let_def not_less)

lemma nfs_turn_iff:
  "m \<in> set (nfs_turn accept c (key, val)) \<longleftrightarrow>
     nk_Op key \<le> 1 \<and>
     (\<exists>count sm buckets info. SlotsToConstHistogram (hv_Slots val) (c_buckets c) = (count, sm, buckets) \<and> count \<noteq> 0 \<and>
       Lookup (c_resolver c) (nk_Dev key) = Some info \<and> namespaceAllowed c (di_Namespace info) \<and>
       m = ConstHistogram nfsDesc count sm buckets (volume_labels c info (opLabels ! unat (nk_Op key))) \<and>
       accept (m_desc m) (m_labels m))"
  by (cases "SlotsToConstHistogram (hv_Slots val) (c_buckets c)"; cases "Lookup (c_resolver c) (nk_Dev key)")
    (auto simp: nfs_turn_def volume_labels_def Let_def not_less)

lemma kprobe_turn_iff:
  "m \<in> set (kprobe_turn accept c (key, val)) \<longleftrightarrow>
     nk_Op key \<le> 3 \<and>
     (\<exists>count sm buckets info. SlotsToConstHistogram (hv_Slots val) (c_buckets c) = (count, sm, buckets) \<and> count \<noteq> 0 \<and>
       Lookup (c_resolver c) (nk_Dev key) = Some info \<and> namespaceAllowed c (di_Namespace info) \<and>
       m = ConstHistogram nfsVfsDesc count sm buckets (volume_labels c info (nfsVfsOpLabels ! unat (nk_Op key))) \<and>
       accept (m_desc m) (m_labels m))"
  by (cases "SlotsToConstHistogram (hv_Slots val) (c_buckets c)"; cases "Lookup (c_resolver c) (nk_Dev key)")
    (auto simp: kprobe_turn_def volume_labels_def Let_def not_less)

lemma turn_at_most_one:
  "length (block_turn accept c e) \<le> 1" "length (nfs_turn accept c e') \<le> 1" "length (kprobe_turn accept c e') \<le> 1"
  by (auto simp: block_turn_def nfs_turn_def kprobe_turn_def Let_def split: prod.splits option.splits)

lemma gauge_metrics:
  "collectSubsystemGauge accept c = Some gs \<Longrightarrow>
     map m_desc gs = replicate 3 subsystemDesc \<and> map m_labels gs = [[''block''], [''nfs''], [''nfs_kprobe'']]"
  by (auto simp: collectSubsystemGauge_def subsystem_gauge_def numeral_eq_Suc split: option.splits if_splits)

lemma NewCollector_allowed:
  "namespaceAllowed (NewCollector p r n bs nss) ns \<longleftrightarrow> nss = [] \<or> ns \<in> set nss"
proof -
  have f: "fold (\<lambda>ns m. m(ns \<mapsto> True)) nss Map.empty = (\<lambda>x. if x \<in> set nss then Some True else None)"
    by (auto simp: fun_eq_iff fold_upd_map)
  show ?thesis unfolding namespaceAllowed_def NewCollector_def Collector.simps f
    by (cases nss) (auto simp: fun_eq_iff)
qed

lemma Collect_metrics_iff:
  assumes "Collect_metrics accept iterate c = Some ms"
  shows "m \<in> set ms \<longleftrightarrow> m \<in> set (the (collectSubsystemGauge accept c)) \<or>
    (\<exists>h e. p_BlockHists (c_programs c) = Some h \<and> e \<in> set (it_block iterate h) \<and> m \<in> set (block_turn accept c e)) \<or>
    (\<exists>h e. p_NfsHists (c_programs c) = Some h \<and> e \<in> set (it_nfs iterate h) \<and> m \<in> set (nfs_turn accept c e)) \<or>
    (\<exists>h e. p_NfsKprobeHists (c_programs c) = Some h \<and> e \<in> set (it_kprobe iterate h) \<and>
      m \<in> set (kprobe_turn accept c e))"
  using assms
  by (cases "p_BlockHists (c_programs c)"; cases "p_NfsHists (c_programs c)"; cases "p_NfsKprobeHists (c_programs c)")
    (auto simp: Collect_metrics_def collectBlock_def collectNFS_def collectNFSKprobe_def
      simp del: split_paired_Ex split_paired_All split: option.splits)

lemma turn_labels:
  "m \<in> set (block_turn accept c e) \<Longrightarrow>
     (\<exists>info opn. namespaceAllowed c (di_Namespace info) \<and> Lookup (c_resolver c) (bk_Dev (fst e)) = Some info \<and>
        m_desc m = podBlockDesc \<and> m_labels m = volume_labels c info opn) \<or>
     (\<exists>dev opn. m_desc m = systemBlockDesc \<and> m_labels m = [c_nodeName c, dev, opn])"
  "m \<in> set (nfs_turn accept c e') \<Longrightarrow>
     \<exists>info opn. namespaceAllowed c (di_Namespace info) \<and> Lookup (c_resolver c) (nk_Dev (fst e')) = Some info \<and>
        m_desc m = nfsDesc \<and> m_labels m = volume_labels c info opn"
  "m \<in> set (kprobe_turn accept c e') \<Longrightarrow>
     \<exists>info opn. namespaceAllowed c (di_Namespace info) \<and> Lookup (c_resolver c) (nk_Dev (fst e')) = Some info \<and>
        m_desc m = nfsVfsDesc \<and> m_labels m = volume_labels c info opn"
  by (cases e; cases e'; auto simp: block_turn_iff nfs_turn_iff kprobe_turn_iff split: option.splits)+

lemma gauge_labels:
  "collectSubsystemGauge accept c = Some gs \<Longrightarrow> m \<in> set gs \<Longrightarrow> m_desc m = subsystemDesc \<and> length (m_labels m) = 1"
  by (auto simp: collectSubsystemGauge_def subsystem_gauge_def split: option.splits if_splits)

text \<open>Where a metric of a scrape comes from, seen from its description.\<close>

lemma Collect_metrics_labels:
  assumes "Collect_metrics accept iterate c = Some ms" and "m \<in> set ms"
  shows "m_desc m = subsystemDesc \<and> length (m_labels m) = 1 \<or>
    (\<exists>dev opn. m_desc m = systemBlockDesc \<and> m_labels m = [c_nodeName c, dev, opn]) \<or>
    (\<exists>info opn dev. m_desc m \<in> {podBlockDesc, nfsDesc, nfsVfsDesc} \<and> namespaceAllowed c (di_Namespace info) \<and>
      Lookup (c_resolver c) dev = Some info \<and> m_labels m = volume_labels c info opn)"
proof -
  obtain gs where "collectSubsystemGauge accept c = Some gs"
    using assms(1) by (auto simp: Collect_metrics_def split: option.splits)
  then show ?thesis
    using Collect_metrics_iff [OF assms(1), of m] assms(2) gauge_labels [of accept c gs m] by (fastforce dest: turn_labels)
qed

subsection \<open>Properties\<close>

text \<open>
  Namespace filter. With a filter configured, every metric a scrape attributes to a volume is
  of a namespace of the filter and of a pod the resolver knows, and carries the name of the
  node; only the gauges and the devices that belong to no volume are reported otherwise.
\<close>

theorem collect_respects_namespaces:
  assumes "namespaces \<noteq> []"
    and "Collect_metrics accept iterate (NewCollector programs r node buckets namespaces) = Some ms" and "m \<in> set ms"
  shows "(\<exists>ns pvc pod opn dev info. m_labels m = [node, ns, pvc, pod, opn] \<and> ns \<in> set namespaces \<and>
      Lookup r dev = Some info \<and> di_Namespace info = ns \<and> di_PVCName info = pvc \<and> di_PodName info = pod)
    \<or> m_desc m = subsystemDesc \<or> (m_desc m = systemBlockDesc \<and> hd (m_labels m) = node)"
  using Collect_metrics_labels [OF assms(2,3)]
proof (elim disjE exE conjE)
  fix info opn dev
  assume "namespaceAllowed (NewCollector programs r node buckets namespaces) (di_Namespace info)"
    and "Lookup (c_resolver (NewCollector programs r node buckets namespaces)) dev = Some info"
    and "m_labels m = volume_labels (NewCollector programs r node buckets namespaces) info opn"
  with assms(1) have "m_labels m = [node, di_Namespace info, di_PVCName info, di_PodName info, opn]"
      "di_Namespace info \<in> set namespaces" "Lookup r dev = Some info"
    by (simp_all add: NewCollector_allowed) (simp_all add: volume_labels_def NewCollector_def)
  then show ?thesis by blast
qed (simp_all add: NewCollector_def)

definition ex_entries :: "(blockHistKey \<times> histValue) list" where
  "ex_entries =
     [(\<lparr>bk_Dev = 7, bk_Op = 1, bk_Pad = [0, 0, 0]\<rparr>, \<lparr>hv_Slots = ex_counts\<rparr>),
      (\<lparr>bk_Dev = 8, bk_Op = 0, bk_Pad = [0, 0, 0]\<rparr>, \<lparr>hv_Slots = ex_counts\<rparr>)]"

definition ex_iterate :: map_contents where
  "ex_iterate = \<lparr>it_block = (\<lambda>_. ex_entries), it_nfs = (\<lambda>_. []), it_kprobe = (\<lambda>_. [])\<rparr>"

definition ex_info :: DeviceInfo where
  "ex_info = \<lparr>di_PVCName = ''data'', di_PodName = ''vm-0'', di_Namespace = ''default'', di_NodeName = ''node'',
     di_MountPath = ''/m'', di_DevPath = ''/dev/sdb'', di_IsNFS = False\<rparr>"

definition ex_collector :: Collector where
  "ex_collector = NewCollector (zero_Programs\<lparr>p_BlockHists := Some 3\<rparr>)
     (NewResolver ''node'' ''/proc'' None None\<lparr>r_devices := [7 \<mapsto> ex_info]\<rparr>) ''node'' [1] [''default'']"

lemma ex_count: "SlotsToConstHistogram ex_counts bs = (count, sm, b) \<Longrightarrow> count = 260"
  using SlotsToConstHistogram_eq [of ex_counts bs]
  by (auto simp: ex_counts_def sum_list_replicate MaxSlots_def)

lemma ex_block_metric:
  "\<exists>sm b. ConstHistogram podBlockDesc 260 sm b [''node'', ''default'', ''data'', ''vm-0'', ''write'']
     \<in> set (the (Collect_metrics arity_ok ex_iterate ex_collector)) \<and> Collect_metrics arity_ok ex_iterate ex_collector \<noteq> None"
proof -
  obtain ct sm b where h: "SlotsToConstHistogram ex_counts [1] = (ct, sm, b)" by (metis prod_cases3)
  then have "ct = 260" by (rule ex_count)
  then show ?thesis using h
    by (auto simp: Collect_metrics_def collectSubsystemGauge_def subsystem_gauge_def arity_ok_def subsystemDesc_def
        ex_collector_def NewCollector_def zero_Programs_def collectBlock_def ex_iterate_def ex_entries_def
        block_turn_def Lookup_def ex_info_def namespaceAllowed_def opLabels_def podBlockDesc_def Let_def)
qed

theorem collect_respects_namespaces_witness:
  "\<exists>m \<in> set (the (Collect_metrics arity_ok ex_iterate ex_collector)). m_desc m = podBlockDesc \<and>
     (\<exists>ns pvc pod opn. m_labels m = [''node'', ns, pvc, pod, opn] \<and> ns \<in> set [''default''])"
proof -
  obtain sm b ms where m: "ConstHistogram podBlockDesc 260 sm b [''node'', ''default'', ''data'', ''vm-0'', ''write''] \<in> set ms"
    and c: "Collect_metrics arity_ok ex_iterate ex_collector = Some ms" using ex_block_metric by auto
  from collect_respects_namespaces [OF _ c [unfolded ex_collector_def] m] m c show ?thesis
    by (intro bexI [of _ "ConstHistogram podBlockDesc 260 sm b [''node'', ''default'', ''data'', ''vm-0'', ''write'']"]) auto
qed

text \<open>Distinct entries send metrics that Prometheus tells apart.\<close>

lemma distinct_turns_iff:
  assumes "\<And>e. length (f e) \<le> 1" and "distinct (map key es)"
  shows "distinct (map g (concat (map f es))) \<longleftrightarrow>
    (\<forall>e \<in> set es. \<forall>e' \<in> set es. \<forall>m \<in> set (f e). \<forall>m' \<in> set (f e'). g m = g m' \<longrightarrow> key e = key e')"
  using assms(2)
proof (induction es)
  case (Cons e es)
  define R where "R x x' \<longleftrightarrow> (\<forall>m \<in> set (f x). \<forall>m' \<in> set (f x'). g m = g m' \<longrightarrow> key x = key x')" for x x'
  have d: "distinct (map g (f e))" using assms(1) [of e] by (cases "f e") auto
  have sym: "R x x' \<longleftrightarrow> R x' x" for x x' unfolding R_def by metis
  have e: "R e e" by (simp add: R_def)
  have k: "R e e' \<longleftrightarrow> (\<forall>m \<in> set (f e). \<forall>m' \<in> set (f e'). g m \<noteq> g m')" if "e' \<in> set es" for e'
    using Cons.prems that by (force simp: R_def)
  have "distinct (map g (concat (map f (e # es)))) \<longleftrightarrow>
      (\<forall>e' \<in> set es. \<forall>m \<in> set (f e). \<forall>m' \<in> set (f e'). g m \<noteq> g m') \<and> distinct (map g (concat (map f es)))"
    using d by (auto simp: disjoint_iff)
  also have "\<dots> \<longleftrightarrow> (\<forall>e' \<in> set es. R e e') \<and> (\<forall>x \<in> set es. \<forall>x' \<in> set es. R x x')"
    using Cons.IH Cons.prems k unfolding R_def [symmetric] by simp
  also have "\<dots> \<longleftrightarrow> (\<forall>x \<in> set (e # es). \<forall>x' \<in> set (e # es). R x x')" using e sym by auto
  finally show ?case unfolding R_def .
qed simp

lemma Itoa_inj: "Itoa m = Itoa n \<longleftrightarrow> m = n"
  by (metis digits_val_Itoa option.inject)

lemma DevToString_inj: "DevToString d = DevToString d' \<Longrightarrow> d = d'"
proof -
  assume "DevToString d = DevToString d'"
  then have "SplitN2 (DevToString d) CHR '':'' = SplitN2 (DevToString d') CHR '':''" by simp
  then have "Itoa (unat (drop_bit 20 d)) = Itoa (unat (drop_bit 20 d'))"
      "Itoa (unat (d AND (push_bit 20 1 - 1))) = Itoa (unat (d' AND (push_bit 20 1 - 1)))"
    by (simp_all add: DevToString_def Let_def SplitN2_join)
  then have "drop_bit 20 d = drop_bit 20 d'" "take_bit 20 d = take_bit 20 d'"
    unfolding Itoa_inj low_mask20 by (simp_all add: take_bit_eq_mask word_unat_eq_iff)
  then show "d = d'" by (metis bits_ident)
qed

lemma nth_op_inj:
  "a \<le> (3::u8) \<Longrightarrow> b \<le> 3 \<Longrightarrow> distinct ls \<Longrightarrow> length ls = 4 \<Longrightarrow> ls ! unat a = ls ! unat b \<Longrightarrow> a = b"
proof -
  assume a: "a \<le> 3" "b \<le> 3" "distinct ls" "length ls = 4" "ls ! unat a = ls ! unat b"
  then have "unat a < 4" "unat b < 4" by (simp_all add: word_le_nat_alt)
  with a show "a = b" by (simp add: nth_eq_iff_index_eq word_unat_eq_iff)
qed

lemma labels_distinct [simp]:
  "distinct opLabels" "length opLabels = 4" "distinct nfsVfsOpLabels" "length nfsVfsOpLabels = 4"
  by (simp_all add: opLabels_def nfsVfsOpLabels_def)

text \<open>Whether two devices are attributed to the same volume of the same pod.\<close>

definition same_volume :: "Resolver \<Rightarrow> u32 \<Rightarrow> u32 \<Rightarrow> bool" where
  "same_volume r d d' =
     (case (Lookup r d, Lookup r d') of
        (Some i, Some i') \<Rightarrow> di_Namespace i = di_Namespace i' \<and> di_PVCName i = di_PVCName i' \<and> di_PodName i = di_PodName i'
      | _ \<Rightarrow> False)"

text \<open>The devices and operations of the entries that give a metric.\<close>

definition exported :: "('e \<Rightarrow> Metric list) \<Rightarrow> ('e \<Rightarrow> u32 \<times> u8) \<Rightarrow> 'e list \<Rightarrow> (u32 \<times> u8) list" where
  "exported turn key es = map key (filter (\<lambda>e. turn e \<noteq> []) es)"

definition clash :: "Resolver \<Rightarrow> (u32 \<times> u8) list \<Rightarrow> bool" where
  "clash r ks \<longleftrightarrow> (\<exists>(d, a) \<in> set ks. \<exists>(d', b) \<in> set ks. a = b \<and> d \<noteq> d' \<and> same_volume r d d')"

lemma turns_distinct_iff:
  assumes "\<And>e. length (turn e) \<le> 1" and "distinct (map key es)"
    and "\<And>e e' m m'. m \<in> set (turn e) \<Longrightarrow> m' \<in> set (turn e') \<Longrightarrow>
      g m = g m' \<longleftrightarrow> snd (key e) = snd (key e') \<and> (fst (key e) = fst (key e') \<or> same_volume r (fst (key e)) (fst (key e')))"
  shows "distinct (map g (concat (map turn es))) \<longleftrightarrow> \<not> clash r (exported turn key es)"
proof -
  have "(\<forall>m \<in> set (turn e). \<forall>m' \<in> set (turn e'). g m = g m' \<longrightarrow> key e = key e') \<longleftrightarrow>
      \<not> (turn e \<noteq> [] \<and> turn e' \<noteq> [] \<and> snd (key e) = snd (key e') \<and> fst (key e) \<noteq> fst (key e') \<and> same_volume r (fst (key e)) (fst (key e')))" for e e'
    using assms(3) [of _ e _ e'] by (cases "turn e"; cases "turn e'") (auto simp: prod_eq_iff)
  then show ?thesis
    unfolding distinct_turns_iff [OF assms(1,2)] by (auto simp: clash_def exported_def case_prod_beta)
qed

abbreviation block_id :: "blockHistKey \<times> histValue \<Rightarrow> u32 \<times> u8" where
  "block_id e \<equiv> (bk_Dev (fst e), bk_Op (fst e))"

abbreviation nfs_id :: "nfsHistKey \<times> histValue \<Rightarrow> u32 \<times> u8" where
  "nfs_id e \<equiv> (nk_Dev (fst e), nk_Op (fst e))"

lemma turn_id:
  "m \<in> set (block_turn accept c e) \<Longrightarrow> bk_Op (fst e) \<le> 3 \<and> metric_id m =
     (case Lookup (c_resolver c) (bk_Dev (fst e)) of
        Some info \<Rightarrow> (podBlockDesc, volume_labels c info (opLabels ! unat (bk_Op (fst e))))
      | None \<Rightarrow> (systemBlockDesc, [c_nodeName c, DevToString (bk_Dev (fst e)), opLabels ! unat (bk_Op (fst e))]))"
  "m \<in> set (nfs_turn accept c e') \<Longrightarrow> nk_Op (fst e') \<le> 3 \<and> (\<exists>info. Lookup (c_resolver c) (nk_Dev (fst e')) = Some info \<and>
     metric_id m = (nfsDesc, volume_labels c info (opLabels ! unat (nk_Op (fst e')))))"
  "m \<in> set (kprobe_turn accept c e') \<Longrightarrow> nk_Op (fst e') \<le> 3 \<and> (\<exists>info. Lookup (c_resolver c) (nk_Dev (fst e')) = Some info \<and>
     metric_id m = (nfsVfsDesc, volume_labels c info (nfsVfsOpLabels ! unat (nk_Op (fst e')))))"
proof -
  have le: "a \<le> 3" if "a \<le> 1" for a :: u8 using that by (simp add: word_le_nat_alt)
  show "m \<in> set (block_turn accept c e) \<Longrightarrow> bk_Op (fst e) \<le> 3 \<and> metric_id m =
     (case Lookup (c_resolver c) (bk_Dev (fst e)) of
        Some info \<Rightarrow> (podBlockDesc, volume_labels c info (opLabels ! unat (bk_Op (fst e))))
      | None \<Rightarrow> (systemBlockDesc, [c_nodeName c, DevToString (bk_Dev (fst e)), opLabels ! unat (bk_Op (fst e))]))"
    by (cases e; cases "Lookup (c_resolver c) (bk_Dev (fst e))") (auto simp: block_turn_iff metric_id_def)
  show "m \<in> set (nfs_turn accept c e') \<Longrightarrow> nk_Op (fst e') \<le> 3 \<and> (\<exists>info. Lookup (c_resolver c) (nk_Dev (fst e')) = Some info \<and>
     metric_id m = (nfsDesc, volume_labels c info (opLabels ! unat (nk_Op (fst e')))))"
    by (cases e') (auto simp: nfs_turn_iff metric_id_def intro: le)
  show "m \<in> set (kprobe_turn accept c e') \<Longrightarrow> nk_Op (fst e') \<le> 3 \<and> (\<exists>info. Lookup (c_resolver c) (nk_Dev (fst e')) = Some info \<and>
     metric_id m = (nfsVfsDesc, volume_labels c info (nfsVfsOpLabels ! unat (nk_Op (fst e')))))"
    by (cases e') (auto simp: kprobe_turn_iff metric_id_def)
qed

lemma volume_labels_eq:
  assumes "Lookup r d = Some i" and "Lookup r d' = Some i'" and "a \<le> (3::u8)" and "b \<le> 3" and "distinct ls" and "length ls = 4"
  shows "volume_labels c i (ls ! unat a) = volume_labels c i' (ls ! unat b) \<longleftrightarrow> a = b \<and> (d = d' \<or> same_volume r d d')"
  using assms nth_op_inj [OF assms(3-6)] by (auto simp: volume_labels_def same_volume_def)

lemma block_turn_eq:
  assumes "m \<in> set (block_turn accept c e)" and "m' \<in> set (block_turn accept c e')"
  shows "metric_id m = metric_id m' \<longleftrightarrow> bk_Op (fst e) = bk_Op (fst e') \<and>
    (bk_Dev (fst e) = bk_Dev (fst e') \<or> same_volume (c_resolver c) (bk_Dev (fst e)) (bk_Dev (fst e')))"
proof -
  note t = turn_id(1) [OF assms(1)] turn_id(1) [OF assms(2)]
  have op: "opLabels ! unat (bk_Op (fst e)) = opLabels ! unat (bk_Op (fst e')) \<longleftrightarrow> bk_Op (fst e) = bk_Op (fst e')"
    using nth_op_inj [of "bk_Op (fst e)" "bk_Op (fst e')" opLabels] t by auto
  show ?thesis
  proof (cases "Lookup (c_resolver c) (bk_Dev (fst e))")
    case None
    then show ?thesis using t op DevToString_inj
      by (cases "Lookup (c_resolver c) (bk_Dev (fst e'))") (auto simp: same_volume_def)
  next
    case (Some i)
    show ?thesis
    proof (cases "Lookup (c_resolver c) (bk_Dev (fst e'))")
      case None
      then show ?thesis using t Some by (auto simp: same_volume_def)
    next
      case (Some i')
      then show ?thesis using t volume_labels_eq [OF \<open>Lookup (c_resolver c) (bk_Dev (fst e)) = Some i\<close> Some] \<open>Lookup (c_resolver c) (bk_Dev (fst e)) = Some i\<close>
        by simp
    qed
  qed
qed

lemma nfs_turn_eq:
  assumes "m \<in> set (nfs_turn accept c e)" and "m' \<in> set (nfs_turn accept c e')"
  shows "metric_id m = metric_id m' \<longleftrightarrow> nk_Op (fst e) = nk_Op (fst e') \<and>
    (nk_Dev (fst e) = nk_Dev (fst e') \<or> same_volume (c_resolver c) (nk_Dev (fst e)) (nk_Dev (fst e')))"
  using turn_id(2) [OF assms(1)] turn_id(2) [OF assms(2)] volume_labels_eq [of "c_resolver c" "nk_Dev (fst e)" _ "nk_Dev (fst e')"]
  by (elim conjE exE) simp

lemma kprobe_turn_eq:
  assumes "m \<in> set (kprobe_turn accept c e)" and "m' \<in> set (kprobe_turn accept c e')"
  shows "metric_id m = metric_id m' \<longleftrightarrow> nk_Op (fst e) = nk_Op (fst e') \<and>
    (nk_Dev (fst e) = nk_Dev (fst e') \<or> same_volume (c_resolver c) (nk_Dev (fst e)) (nk_Dev (fst e')))"
  using turn_id(3) [OF assms(1)] turn_id(3) [OF assms(2)] volume_labels_eq [of "c_resolver c" "nk_Dev (fst e)" _ "nk_Dev (fst e')"]
  by (elim conjE exE) simp

lemma distinct_append_iff:
  "(\<And>x y. x \<in> set xs \<Longrightarrow> y \<in> set ys \<Longrightarrow> fst (g x) \<noteq> fst (g y)) \<Longrightarrow>
     distinct (map g (xs @ ys)) \<longleftrightarrow> distinct (map g xs) \<and> distinct (map g ys)"
  by fastforce

lemma part_desc:
  "m \<in> set (collectBlock accept c es) \<Longrightarrow> fst (metric_id m) = podBlockDesc \<or> fst (metric_id m) = systemBlockDesc"
  "m \<in> set (collectNFS accept c es') \<Longrightarrow> fst (metric_id m) = nfsDesc"
  "m \<in> set (collectNFSKprobe accept c es') \<Longrightarrow> fst (metric_id m) = nfsVfsDesc"
  by (auto simp: collectBlock_def collectNFS_def collectNFSKprobe_def metric_id_def
      dest!: turn_labels)

text \<open>
  C33: When a scrape sends a series twice. Where iterations yield each key once, the metrics of a
  scrape all differ in their description or in their label values, which Prometheus requires,
  exactly if no map holds exported histograms of one operation for two different devices that
  the resolver attributes to the same volume of the same pod. Devices without a volume, the
  three maps, the operations and the gauges never collide.
\<close>

theorem collect_duplicates_iff:
  assumes "Collect_metrics accept iterate c = Some ms"
    and "\<And>h. distinct (map (\<lambda>e. (bk_Dev (fst e), bk_Op (fst e))) (it_block iterate h))"
    and "\<And>h. distinct (map (\<lambda>e. (nk_Dev (fst e), nk_Op (fst e))) (it_nfs iterate h))"
    and "\<And>h. distinct (map (\<lambda>e. (nk_Dev (fst e), nk_Op (fst e))) (it_kprobe iterate h))"
  shows "distinct (map (\<lambda>m. (m_desc m, m_labels m)) ms) \<longleftrightarrow>
    (\<forall>h. p_BlockHists (c_programs c) = Some h \<longrightarrow> \<not> clash (c_resolver c) (exported (block_turn accept c) block_id (it_block iterate h))) \<and>
    (\<forall>h. p_NfsHists (c_programs c) = Some h \<longrightarrow> \<not> clash (c_resolver c) (exported (nfs_turn accept c) nfs_id (it_nfs iterate h))) \<and>
    (\<forall>h. p_NfsKprobeHists (c_programs c) = Some h \<longrightarrow>
       \<not> clash (c_resolver c) (exported (kprobe_turn accept c) nfs_id (it_kprobe iterate h)))"
proof -
  obtain gs where g: "collectSubsystemGauge accept c = Some gs"
    using assms(1) by (auto simp: Collect_metrics_def split: option.splits)
  have dg: "distinct (map metric_id gs)"
    using g by (auto simp: collectSubsystemGauge_def subsystem_gauge_def metric_id_def split: option.splits if_splits)
  define bs where "bs = (case p_BlockHists (c_programs c) of None \<Rightarrow> [] | Some h \<Rightarrow> collectBlock accept c (it_block iterate h))"
  define ns where "ns = (case p_NfsHists (c_programs c) of None \<Rightarrow> [] | Some h \<Rightarrow> collectNFS accept c (it_nfs iterate h))"
  define ks where "ks = (case p_NfsKprobeHists (c_programs c) of None \<Rightarrow> [] | Some h \<Rightarrow> collectNFSKprobe accept c (it_kprobe iterate h))"
  have ms: "ms = gs @ bs @ ns @ ks" using assms(1) g by (simp add: Collect_metrics_def bs_def ns_def ks_def)
  have G: "fst (metric_id m) = subsystemDesc" if "m \<in> set gs" for m
    using gauge_labels [OF g that] by (simp add: metric_id_def)
  have B: "fst (metric_id m) = podBlockDesc \<or> fst (metric_id m) = systemBlockDesc" if "m \<in> set bs" for m
    using that part_desc(1) by (auto simp: bs_def split: option.splits)
  have N: "fst (metric_id m) = nfsDesc" if "m \<in> set ns" for m
    using that part_desc(2) by (auto simp: ns_def split: option.splits)
  have K: "fst (metric_id m) = nfsVfsDesc" if "m \<in> set ks" for m
    using that part_desc(3) by (auto simp: ks_def split: option.splits)
  have "distinct (map metric_id (ns @ ks)) \<longleftrightarrow> distinct (map metric_id ns) \<and> distinct (map metric_id ks)"
    by (rule distinct_append_iff) (simp add: N K)
  moreover have "distinct (map metric_id (bs @ ns @ ks)) \<longleftrightarrow> distinct (map metric_id bs) \<and> distinct (map metric_id (ns @ ks))"
    by (rule distinct_append_iff) (auto simp: N K dest!: B)
  moreover have "distinct (map metric_id ms) \<longleftrightarrow> distinct (map metric_id gs) \<and> distinct (map metric_id (bs @ ns @ ks))"
    unfolding ms by (rule distinct_append_iff) (auto simp: G N K dest!: B)
  moreover have "distinct (map metric_id (collectBlock accept c (it_block iterate h))) \<longleftrightarrow>
      \<not> clash (c_resolver c) (exported (block_turn accept c) block_id (it_block iterate h))" for h
    unfolding collectBlock_def
    by (rule turns_distinct_iff [OF turn_at_most_one(1) assms(2)]) (simp add: block_turn_eq)
  moreover have "distinct (map metric_id (collectNFS accept c (it_nfs iterate h))) \<longleftrightarrow>
      \<not> clash (c_resolver c) (exported (nfs_turn accept c) nfs_id (it_nfs iterate h))" for h
    unfolding collectNFS_def
    by (rule turns_distinct_iff [OF turn_at_most_one(2) assms(3)]) (simp add: nfs_turn_eq)
  moreover have "distinct (map metric_id (collectNFSKprobe accept c (it_kprobe iterate h))) \<longleftrightarrow>
      \<not> clash (c_resolver c) (exported (kprobe_turn accept c) nfs_id (it_kprobe iterate h))" for h
    unfolding collectNFSKprobe_def
    by (rule turns_distinct_iff [OF turn_at_most_one(3) assms(4)]) (simp add: kprobe_turn_eq)
  ultimately show ?thesis
    using dg by (simp add: metric_id_def [abs_def] bs_def ns_def ks_def split: option.split)
qed

theorem collect_duplicates_iff_witness:
  "distinct (map (\<lambda>m. (m_desc m, m_labels m)) (the (Collect_metrics arity_ok ex_iterate ex_collector)))"
proof -
  obtain ms where c: "Collect_metrics arity_ok ex_iterate ex_collector = Some ms" using ex_block_metric by auto
  have "\<not> clash (c_resolver ex_collector) (exported (block_turn arity_ok ex_collector) block_id ex_entries)"
    by (auto simp: clash_def exported_def ex_entries_def same_volume_def Lookup_def ex_collector_def NewCollector_def split: if_splits)
  then show ?thesis using collect_duplicates_iff [OF c] c
    by (simp add: ex_iterate_def ex_entries_def ex_collector_def NewCollector_def zero_Programs_def)
qed

text \<open>The client accepts as many valid values as the description has labels; ASCII is valid.\<close>

definition client_accepts :: "(string \<Rightarrow> bool) \<Rightarrow> acceptor \<Rightarrow> bool" where
  "client_accepts valid accept \<longleftrightarrow>
     (\<forall>d ls. length ls = length (d_variableLabels d) \<longrightarrow> list_all valid ls \<longrightarrow> accept d ls) \<and>
     (\<forall>s. list_all (\<lambda>c. (of_char c :: nat) < 128) s \<longrightarrow> valid s)"

lemma ascii_labels:
  "list_all (\<lambda>c. (of_char c :: nat) < 128) (DevToString d)"
  "bk \<le> (3::u8) \<Longrightarrow> list_all (\<lambda>c. (of_char c :: nat) < 128) (opLabels ! unat bk)"
proof -
  have "list_all (\<lambda>c. (of_char c :: nat) < 128) (Itoa n)" for n
    using Itoa_digits [of n] by (force simp: list_all_iff)
  then show "list_all (\<lambda>c. (of_char c :: nat) < 128) (DevToString d)"
    by (simp add: DevToString_def Let_def)
  assume "bk \<le> 3"
  then consider "unat bk = 0" | "unat bk = 1" | "unat bk = 2" | "unat bk = 3"
    by (fastforce simp: word_le_nat_alt)
  then show "list_all (\<lambda>c. (of_char c :: nat) < 128) (opLabels ! unat bk)"
    by cases (simp_all add: opLabels_def)
qed

lemma Collect_metrics_total:
  assumes "client_accepts valid accept"
  shows "\<exists>ms. Collect_metrics accept iterate c = Some ms"
proof -
  have "accept subsystemDesc [n]" if "n \<in> {''block'', ''nfs'', ''nfs_kprobe''}" for n
    using assms that unfolding client_accepts_def by (auto simp: subsystemDesc_def)
  then show ?thesis
    by (simp add: Collect_metrics_def collectSubsystemGauge_def subsystem_gauge_def)
qed

text \<open>
  C8: From a kernel histogram to the scrape. A scrape does not panic. A block histogram with a
  sample, of one of the four operations and with label values Prometheus accepts, is exported
  with the number of its samples: under the major and minor number of the device where the
  resolver knows no volume, and under its volume where the filter allows the namespace. Where
  the filter does not allow it, the scrape has no block histogram of that namespace.
\<close>

theorem collect_exports_block:
  assumes "client_accepts valid accept"
    and "p_BlockHists (c_programs c) = Some bh" and "(key, \<lparr>hv_Slots = slots h\<rparr>) \<in> set (it_block iterate bh)"
    and "bk_Op key \<le> 3" and "wf_hist h" and "samples h \<noteq> 0" and "valid (c_nodeName c)"
    and "\<And>info. Lookup (c_resolver c) (bk_Dev key) = Some info \<Longrightarrow>
      valid (di_Namespace info) \<and> valid (di_PVCName info) \<and> valid (di_PodName info)"
  shows "\<exists>ms sm buckets. Collect_metrics accept iterate c = Some ms \<and>
    (case Lookup (c_resolver c) (bk_Dev key) of
       Some info \<Rightarrow>
         if namespaceAllowed c (di_Namespace info)
         then ConstHistogram podBlockDesc (samples h) sm buckets [c_nodeName c, di_Namespace info,
             di_PVCName info, di_PodName info, opLabels ! unat (bk_Op key)] \<in> set ms
         else (\<forall>m \<in> set ms. m_desc m = podBlockDesc \<longrightarrow> m_labels m ! 1 \<noteq> di_Namespace info)
     | None \<Rightarrow> ConstHistogram systemBlockDesc (samples h) sm buckets
           [c_nodeName c, DevToString (bk_Dev key), opLabels ! unat (bk_Op key)] \<in> set ms)"
proof -
  obtain ms where ms: "Collect_metrics accept iterate c = Some ms" using Collect_metrics_total [OF assms(1)] by blast
  have "length (slots h) = MaxSlots" using assms(5) by (simp add: wf_hist_def MaxSlots_def MAX_SLOTS_def)
  from SlotsToConstHistogram_eq [OF this, of "c_buckets c"] obtain sm bu
    where hist: "SlotsToConstHistogram (slots h) (c_buckets c) = (samples h, sm, bu)" by (auto simp: samples_def)
  have acc: "length ls = length (d_variableLabels d) \<Longrightarrow> list_all valid ls \<Longrightarrow> accept d ls" for d ls
    using assms(1) by (simp add: client_accepts_def)
  have v: "valid (DevToString (bk_Dev key))" "valid (opLabels ! unat (bk_Op key))"
    using assms(1) ascii_labels(1) ascii_labels(2) [OF assms(4)] by (simp_all add: client_accepts_def)
  have sent: "m \<in> set ms" if "m \<in> set (block_turn accept c (key, \<lparr>hv_Slots = slots h\<rparr>))" for m
    using Collect_metrics_iff [OF ms] assms(2,3) that by blast
  show ?thesis
  proof (cases "Lookup (c_resolver c) (bk_Dev key)")
    case None
    then have "ConstHistogram systemBlockDesc (samples h) sm bu [c_nodeName c, DevToString (bk_Dev key), opLabels ! unat (bk_Op key)] \<in> set ms"
      using hist assms(4,6,7) v by (intro sent) (auto simp: block_turn_iff systemBlockDesc_def intro!: acc)
    then show ?thesis using ms None by auto
  next
    case (Some info)
    show ?thesis
    proof (cases "namespaceAllowed c (di_Namespace info)")
      case True
      then have "ConstHistogram podBlockDesc (samples h) sm bu [c_nodeName c, di_Namespace info, di_PVCName info, di_PodName info,
          opLabels ! unat (bk_Op key)] \<in> set ms"
        using hist assms(4,6,7) assms(8) [OF Some] v Some
        by (intro sent) (auto simp: block_turn_iff volume_labels_def podBlockDesc_def intro!: acc)
      then show ?thesis using ms Some True by auto
    next
      case False
      have "m_labels m ! 1 \<noteq> di_Namespace info" if "m \<in> set ms" "m_desc m = podBlockDesc" for m
        using Collect_metrics_labels [OF ms that(1)] that(2) False by (auto simp: volume_labels_def)
      then show ?thesis using ms Some False by auto
    qed
  qed
qed

theorem collect_exports_block_witness:
  "\<exists>ms sm buckets sm' buckets'. Collect_metrics arity_ok ex_iterate ex_collector = Some ms \<and>
    ConstHistogram podBlockDesc 260 sm buckets [''node'', ''default'', ''data'', ''vm-0'', ''write''] \<in> set ms \<and>
    ConstHistogram systemBlockDesc 260 sm' buckets' [''node'', DevToString 8, ''read''] \<in> set ms"
proof -
  have a: "client_accepts (\<lambda>_. True) arity_ok" by (simp add: client_accepts_def arity_ok_def)
  have s: "samples \<lparr>slots = ex_counts\<rparr> = 260" "wf_hist \<lparr>slots = ex_counts\<rparr>"
    by (simp_all add: samples_def wf_hist_def ex_counts_def sum_list_replicate MaxSlots_def MAX_SLOTS_def)
  note d = ex_collector_def NewCollector_def zero_Programs_def Lookup_def ex_iterate_def ex_entries_def opLabels_def
    ex_info_def namespaceAllowed_def
  have "\<exists>ms sm buckets. Collect_metrics arity_ok ex_iterate ex_collector = Some ms \<and>
      ConstHistogram podBlockDesc 260 sm buckets [''node'', ''default'', ''data'', ''vm-0'', ''write''] \<in> set ms"
    using collect_exports_block [OF a, of ex_collector 3 "\<lparr>bk_Dev = 7, bk_Op = 1, bk_Pad = [0, 0, 0]\<rparr>" "\<lparr>slots = ex_counts\<rparr>" ex_iterate] s
    by (simp add: d)
  moreover have "\<exists>ms sm buckets. Collect_metrics arity_ok ex_iterate ex_collector = Some ms \<and>
      ConstHistogram systemBlockDesc 260 sm buckets [''node'', DevToString 8, ''read''] \<in> set ms"
    using collect_exports_block [OF a, of ex_collector 3 "\<lparr>bk_Dev = 8, bk_Op = 0, bk_Pad = [0, 0, 0]\<rparr>" "\<lparr>slots = ex_counts\<rparr>" ex_iterate] s
    by (simp add: d)
  ultimately show ?thesis by (metis option.inject)
qed

end
