(* ===== verification/QmpTypes.thy ===== *)
theory QmpTypes
  imports GoStrings Prelude Complex_Main
begin

text \<open>
  \<^verbatim>\<open>pkg/qmp/types.go\<close>: the answers of the QEMU monitor, the names of disks in device paths, and
  the location of disks in a libvirt domain. Decoding of JSON and XML into the structures is
  an argument, the regular expressions are functions on the characters of a path.
\<close>

subsection \<open>Block statistics\<close>

record LatencyHist =
  lh_Boundaries :: "rat list"
  lh_Bins :: "u64 list"

record BlockStats =
  bs_RdOperations :: u64
  bs_WrOperations :: u64
  bs_FlushOperations :: u64
  bs_RdTotalTimeNs :: u64
  bs_WrTotalTimeNs :: u64
  bs_FlushTotalTimeNs :: u64
  bs_RdLatencyHistogram :: "LatencyHist option"
  bs_WrLatencyHistogram :: "LatencyHist option"
  bs_FlushLatencyHistogram :: "LatencyHist option"

datatype BlockDevice = BlockDevice (bd_QDev: string) (bd_Stats: BlockStats) (bd_Backing: "BlockDevice option")

fun EffectiveQDev :: "BlockDevice \<Rightarrow> string" where
  "EffectiveQDev (BlockDevice qdev stats backing) =
     (if qdev \<noteq> [] then qdev
      else case backing of Some b \<Rightarrow> EffectiveQDev b | None \<Rightarrow> [])"

text \<open>\<^verbatim>\<open>virtioRegex\<close>: the shortest name that is followed by a slash and something after it.\<close>

definition peripheral :: string where
  "peripheral = ''/machine/peripheral/''"

definition match_virtio :: "string \<Rightarrow> (string \<times> string) option" where
  "match_virtio qdev =
     (if HasPrefix qdev (peripheral @ ''ua-'') \<and> CHR 0x0A \<notin> set qdev then
        let rest = drop (length (peripheral @ ''ua-'')) qdev
        in case find (\<lambda>i. rest ! i = CHR ''/'' \<and> Suc i < length rest) [1..<length rest] of
          None \<Rightarrow> None
        | Some i \<Rightarrow> Some (take i rest, ''ua-'' @ rest)
      else None)"

definition match_flat :: "string \<Rightarrow> string option" where
  "match_flat qdev =
     (let rest = drop 3 qdev
      in if HasPrefix qdev ''ua-'' \<and> rest \<noteq> [] \<and> CHR 0x0A \<notin> set rest then Some rest else None)"

definition ExtractDiskInfo :: "string \<Rightarrow> (string \<times> string) option" where
  "ExtractDiskInfo qdev =
     (case match_virtio qdev of
        Some r \<Rightarrow> Some r
      | None \<Rightarrow> (case match_flat qdev of Some name \<Rightarrow> Some (name, qdev) | None \<Rightarrow> None))"

definition HasHistograms :: "BlockDevice \<Rightarrow> bool" where
  "HasHistograms dev \<longleftrightarrow> bs_RdLatencyHistogram (bd_Stats dev) \<noteq> None"

subsection \<open>Virtio devices\<close>

record VirtioDevice =
  vd_Path :: string
  vd_Name :: string

record VirtioStatus =
  vs_Name :: string
  vs_NumVqs :: int

record VirtQueueStatus =
  vq_Name :: string
  vq_QueueIdx :: int
  vq_Inuse :: u32
  vq_VringNum :: u32

definition IsVirtioBlk :: "VirtioDevice \<Rightarrow> bool" where
  "IsVirtioBlk dev \<longleftrightarrow> HasPrefix (vd_Name dev) ''virtio-blk''"

definition IsVirtioScsi :: "VirtioDevice \<Rightarrow> bool" where
  "IsVirtioScsi dev \<longleftrightarrow> HasPrefix (vd_Name dev) ''virtio-scsi''"

definition match_peripheral :: "string \<Rightarrow> string option" where
  "match_peripheral path =
     (if HasPrefix path peripheral then
        let rest = drop (length peripheral) path; name = takeWhile (\<lambda>c. c \<noteq> CHR ''/'') rest
        in if name \<noteq> [] \<and> length name < length rest then Some name else None
      else None)"

definition ExtractControllerName :: "string \<Rightarrow> string option" where
  "ExtractControllerName path = map_option (\<lambda>name. TrimPrefix name ''ua-'') (match_peripheral path)"

subsection \<open>Disk locations\<close>

record PCIAddr =
  pci_Domain :: int
  pci_Bus :: int
  pci_Slot :: int
  pci_Function :: int

record DiskLocation =
  dl_Controller :: PCIAddr
  dl_Bus :: int
  dl_Target :: int
  dl_Unit :: int

record xmlAddr =
  xa_Type :: string
  xa_Domain :: string
  xa_Bus :: string
  xa_Slot :: string
  xa_Function :: string
  xa_Controller :: string
  xa_Target :: string
  xa_Unit :: string

record xmlController =
  xc_Type :: string
  xc_Index :: string
  xc_Address :: xmlAddr

record xmlDisk =
  xd_Device :: string
  xd_Serial :: string
  xd_TargetBus :: string
  xd_AliasName :: string
  xd_Address :: xmlAddr

record xmlDomain =
  xm_Disks :: "xmlDisk list"
  xm_Controllers :: "xmlController list"

definition parseHexAddr :: "xmlAddr \<Rightarrow> PCIAddr option" where
  "parseHexAddr a =
     (case ParseInt (TrimPrefix (xa_Domain a) ''0x'') 16 32 of None \<Rightarrow> None
      | Some domain \<Rightarrow>
     (case ParseInt (TrimPrefix (xa_Bus a) ''0x'') 16 32 of None \<Rightarrow> None
      | Some bus \<Rightarrow>
     (case ParseInt (TrimPrefix (xa_Slot a) ''0x'') 16 32 of None \<Rightarrow> None
      | Some slot \<Rightarrow>
     (case ParseInt (TrimPrefix (xa_Function a) ''0x'') 16 32 of None \<Rightarrow> None
      | Some fn \<Rightarrow> Some \<lparr>pci_Domain = domain, pci_Bus = bus, pci_Slot = slot, pci_Function = fn\<rparr>))))"

text \<open>The volume name of a disk, from its alias; disks without such an alias are skipped.\<close>

definition volume_of :: "xmlDisk \<Rightarrow> string option" where
  "volume_of d =
     (let volName = TrimPrefix (xd_AliasName d) ''ua-''
      in if volName = xd_AliasName d \<or> volName = [] then None else Some volName)"

definition ParseDiskAddresses :: "(string \<Rightarrow> xmlDomain option) \<Rightarrow> string \<Rightarrow> (PCIAddr \<Rightarrow> string option) option" where
  "ParseDiskAddresses unmarshal domainXML =
     (case unmarshal domainXML of
        None \<Rightarrow> None
      | Some xdom \<Rightarrow> Some (fold (\<lambda>d result.
            if xd_Device d \<noteq> ''disk'' then result
            else if xa_Type (xd_Address d) \<noteq> ''pci'' then result
            else case volume_of d of
              None \<Rightarrow> result
            | Some volName \<Rightarrow>
                (case parseHexAddr (xd_Address d) of
                   None \<Rightarrow> result
                 | Some addr \<Rightarrow> result(addr \<mapsto> volName))) (xm_Disks xdom) Map.empty))"

definition controller_key :: "string \<Rightarrow> string \<Rightarrow> string" where
  "controller_key ty idx = ty @ '':'' @ idx"

definition controllerPCI :: "xmlController list \<Rightarrow> string \<Rightarrow> PCIAddr option" where
  "controllerPCI ctrls = fold (\<lambda>ctrl m.
       if xa_Type (xc_Address ctrl) \<noteq> ''pci'' then m
       else case parseHexAddr (xc_Address ctrl) of
         None \<Rightarrow> m
       | Some addr \<Rightarrow> m(controller_key (xc_Type ctrl) (xc_Index ctrl) \<mapsto> addr)) ctrls Map.empty"

text \<open>
  The value \<^verbatim>\<open>strconv.Atoi\<close> returns whether or not there is an error: the nearest value of the type when
  out of range, 0 on a syntax error. The digits are read from the left, so a number that no
  longer fits 64 bits is out of range whatever follows it.
\<close>

definition atoi_value :: "string \<Rightarrow> int" where
  "atoi_value s =
     (let (neg, ds) = (case s of
            [] \<Rightarrow> (False, [])
          | c # cs \<Rightarrow> if c = CHR ''-'' then (True, cs) else if c = CHR ''+'' then (False, cs) else (False, s));
          pre = takeWhile (\<lambda>c. digit_val c \<noteq> None) ds
      in if ds = [] then 0
      else case digits_val 0 pre of
        None \<Rightarrow> 0
      | Some n \<Rightarrow>
          if n < 2 ^ 64 \<and> pre \<noteq> ds then 0
          else if neg then max (- (2 ^ 63)) (- int n) else min (2 ^ 63 - 1) (int n))"

definition add_location :: "(string \<Rightarrow> PCIAddr option) \<Rightarrow> xmlDisk \<Rightarrow>
    (DiskLocation \<Rightarrow> string option) \<Rightarrow> DiskLocation \<Rightarrow> string option" where
  "add_location ctrls d result =
     (if xd_Device d \<noteq> ''disk'' then result
      else case volume_of d of
        None \<Rightarrow> result
      | Some volName \<Rightarrow>
          if xa_Type (xd_Address d) = ''pci'' then
            (case parseHexAddr (xd_Address d) of
               None \<Rightarrow> result
             | Some addr \<Rightarrow>
                 result(\<lparr>dl_Controller = addr, dl_Bus = 0, dl_Target = 0, dl_Unit = 0\<rparr> \<mapsto> volName))
          else if xa_Type (xd_Address d) = ''drive'' then
            (let ctrlIdx = (if xa_Controller (xd_Address d) = [] then ''0'' else xa_Controller (xd_Address d));
                 ctrlType = xd_TargetBus d
             in if ctrlType = [] then result
             else case ctrls (controller_key ctrlType ctrlIdx) of
               None \<Rightarrow> result
             | Some ctrlPCI \<Rightarrow>
                 result(\<lparr>dl_Controller = ctrlPCI, dl_Bus = atoi_value (xa_Bus (xd_Address d)),
                   dl_Target = atoi_value (xa_Target (xd_Address d)),
                   dl_Unit = atoi_value (xa_Unit (xd_Address d))\<rparr> \<mapsto> volName))
          else result)"

definition ParseDiskLocations :: "(string \<Rightarrow> xmlDomain option) \<Rightarrow> string \<Rightarrow> (DiskLocation \<Rightarrow> string option) option" where
  "ParseDiskLocations unmarshal domainXML =
     (case unmarshal domainXML of
        None \<Rightarrow> None
      | Some xdom \<Rightarrow>
          Some (fold (add_location (controllerPCI (xm_Controllers xdom))) (xm_Disks xdom) Map.empty))"

definition add_serial :: "xmlDisk \<Rightarrow> (string \<Rightarrow> string option) \<Rightarrow> string \<Rightarrow> string option" where
  "add_serial d result =
     (if xd_Device d \<noteq> ''disk'' \<or> xd_Serial d = [] then result
      else case volume_of d of
        None \<Rightarrow> result
      | Some volName \<Rightarrow> result(xd_Serial d \<mapsto> volName))"

definition ParseDiskSerials :: "(string \<Rightarrow> xmlDomain option) \<Rightarrow> string \<Rightarrow> (string \<Rightarrow> string option) option" where
  "ParseDiskSerials unmarshal domainXML =
     (case unmarshal domainXML of
        None \<Rightarrow> None
      | Some xdom \<Rightarrow> Some (fold add_serial (xm_Disks xdom) Map.empty))"

subsection \<open>Names of disks\<close>

lemma find_first_index:
  assumes "m \<le> n" and "n < k" and "P n" and "\<And>i. m \<le> i \<Longrightarrow> i < n \<Longrightarrow> \<not> P i"
  shows "find P [m..<k] = Some n"
  using assms
proof (induction "n - m" arbitrary: m)
  case 0
  then show ?case by (simp add: upt_conv_Cons)
next
  case (Suc d)
  then have "\<not> P m" "m < k" by auto
  with Suc show ?case by (simp add: upt_conv_Cons)
qed

lemma match_virtio_path:
  assumes "name \<noteq> []" and "CHR ''/'' \<notin> set name" and "rest \<noteq> []" and "CHR 0x0A \<notin> set (name @ rest)"
  shows "match_virtio (peripheral @ ''ua-'' @ name @ ''/'' @ rest) = Some (name, ''ua-'' @ name @ ''/'' @ rest)"
proof -
  let ?r = "name @ ''/'' @ rest"
  have "find (\<lambda>i. ?r ! i = CHR ''/'' \<and> Suc i < length ?r) [1..<length ?r] = Some (length name)"
  proof (rule find_first_index)
    fix i
    assume "1 \<le> i" and "i < length name"
    then show "\<not> (?r ! i = CHR ''/'' \<and> Suc i < length ?r)" using assms(2) by (auto simp: nth_append in_set_conv_nth)
  qed (use assms(1,3) in \<open>auto simp: nth_append Suc_le_eq\<close>)
  then show ?thesis
    using assms(4) HasPrefix_append [of "peripheral @ ''ua-''" ?r]
    by (simp add: match_virtio_def Let_def) (simp add: peripheral_def)
qed

text \<open>
  Disk names. A device path of a virtio disk gives the name of the volume and the identifier
  the histogram is armed with, and so does the flat form of the identifier.
\<close>

theorem disk_info_roundtrip:
  assumes "name \<noteq> []" and "CHR ''/'' \<notin> set name" and "rest \<noteq> []" and "CHR 0x0A \<notin> set (name @ rest)"
  shows "ExtractDiskInfo (''/machine/peripheral/ua-'' @ name @ ''/'' @ rest) = Some (name, ''ua-'' @ name @ ''/'' @ rest)
    \<and> ExtractDiskInfo (''ua-'' @ name) = Some (name, ''ua-'' @ name)"
proof -
  have "match_virtio (''ua-'' @ name) = None" by (simp add: match_virtio_def HasPrefix_def peripheral_def)
  moreover have "match_flat (''ua-'' @ name) = Some name"
    using assms(1,4) by (simp add: match_flat_def HasPrefix_def)
  ultimately show ?thesis
    using match_virtio_path [OF assms] by (simp add: ExtractDiskInfo_def peripheral_def)
qed

theorem disk_info_roundtrip_witness:
  "ExtractDiskInfo ''/machine/peripheral/ua-rootdisk/virtio-backend'' = Some (''rootdisk'', ''ua-rootdisk/virtio-backend'')"
  using disk_info_roundtrip [of "''rootdisk''" "''virtio-backend''"] by simp

text \<open>The identifiers along a chain of backing devices; the first one that is set counts.\<close>

fun qdev_chain :: "BlockDevice \<Rightarrow> string list" where
  "qdev_chain (BlockDevice qdev stats backing) =
     qdev # (case backing of Some b \<Rightarrow> qdev_chain b | None \<Rightarrow> [])"

lemma EffectiveQDev_first:
  "EffectiveQDev d = (case find (\<lambda>q. q \<noteq> []) (qdev_chain d) of Some q \<Rightarrow> q | None \<Rightarrow> [])"
  by (induction d rule: EffectiveQDev.induct) (auto split: option.split)

subsection \<open>Hexadecimal addresses\<close>

definition hex_digit :: "nat \<Rightarrow> char" where
  "hex_digit n = char_of (if n < 10 then 48 + n else 87 + n)"

fun hex :: "nat \<Rightarrow> string" where
  "hex n = (if n < 16 then [hex_digit n] else hex (n div 16) @ [hex_digit (n mod 16)])"

declare hex.simps [simp del]

lemma digit_val_hex_digit: "n < 16 \<Longrightarrow> digit_val_base 16 (hex_digit n) = Some n"
  by (auto simp: digit_val_base_def hex_digit_def Let_def)

lemma digits_val_base_append:
  "digits_val_base b acc (xs @ ys) = (case digits_val_base b acc xs of None \<Rightarrow> None | Some n \<Rightarrow> digits_val_base b n ys)"
  by (induction xs arbitrary: acc) (simp_all split: option.split)

lemma digits_val_hex: "digits_val_base 16 0 (hex n) = Some n"
proof (induction n rule: hex.induct)
  case (1 n)
  then show ?case by (simp add: hex.simps [of n] digits_val_base_append digit_val_hex_digit)
qed

lemma digits_val_zeros: "digits_val_base 16 0 (replicate k CHR ''0'' @ s) = digits_val_base 16 0 s"
  by (induction k) (simp_all add: digit_val_base_def)

lemma hex_digit_range: "n < 16 \<Longrightarrow> 48 \<le> (of_char (hex_digit n) :: nat)"
  by (simp add: hex_digit_def)

lemma hex_chars: "\<forall>c \<in> set (hex n). 48 \<le> (of_char c :: nat)"
proof (induction n rule: hex.induct)
  case (1 n)
  then show ?case by (auto simp: hex.simps [of n] hex_digit_range)
qed

lemma hex_ne [simp]: "hex n \<noteq> []"
  by (simp add: hex.simps [of n])

lemma ParseInt_hex:
  assumes "n < 2 ^ 31"
  shows "ParseInt (TrimPrefix (''0x'' @ replicate k CHR ''0'' @ hex n) ''0x'') 16 32 = Some (int n)"
proof -
  obtain c cs where c: "replicate k CHR ''0'' @ hex n = c # cs" by (cases "replicate k CHR ''0'' @ hex n") auto
  then have "c \<in> set (replicate k CHR ''0'' @ hex n)" by simp
  then have "48 \<le> (of_char c :: nat)" using hex_chars [of n] by (auto split: if_splits)
  then have "c \<noteq> CHR ''-''" "c \<noteq> CHR ''+''" by auto
  moreover have "int n < 2 ^ 31" using assms by simp
  moreover have "digits_val_base 16 0 (c # cs) = Some n"
    using digits_val_zeros [of k "hex n"] digits_val_hex [of n] c by simp
  moreover have "TrimPrefix (''0x'' @ replicate k CHR ''0'' @ hex n) ''0x'' = c # cs"
    using TrimPrefix_append [of "''0x''" "replicate k CHR ''0'' @ hex n"] c by simp
  ultimately show ?thesis
    by (simp add: ParseInt_def del: digits_val_base.simps)
qed

text \<open>An address as libvirt prints it, each number with any number of leading zeros.\<close>

definition pci_xml :: "PCIAddr \<Rightarrow> nat \<Rightarrow> xmlAddr" where
  "pci_xml p k =
     (let pr = (\<lambda>n. ''0x'' @ replicate k CHR ''0'' @ hex (nat n))
      in \<lparr>xa_Type = ''pci'', xa_Domain = pr (pci_Domain p), xa_Bus = pr (pci_Bus p), xa_Slot = pr (pci_Slot p),
          xa_Function = pr (pci_Function p), xa_Controller = [], xa_Target = [], xa_Unit = []\<rparr>)"

definition pci_valid :: "PCIAddr \<Rightarrow> bool" where
  "pci_valid p \<longleftrightarrow> (\<forall>n \<in> {pci_Domain p, pci_Bus p, pci_Slot p, pci_Function p}. 0 \<le> n \<and> n < 2 ^ 31)"

lemma parseHexAddr_print: "pci_valid p \<Longrightarrow> parseHexAddr (pci_xml p k) = Some p"
proof -
  assume v: "pci_valid p"
  have "ParseInt (TrimPrefix (''0x'' @ replicate k CHR ''0'' @ hex (nat n)) ''0x'') 16 32 = Some n"
    if "n \<in> {pci_Domain p, pci_Bus p, pci_Slot p, pci_Function p}" for n
  proof -
    have "0 \<le> n" "n < 2 ^ 31" using v that unfolding pci_valid_def by blast+
    then have "nat n < 2 ^ 31" "int (nat n) = n" by simp_all
    then show ?thesis using ParseInt_hex [of "nat n" k] by simp
  qed
  then show ?thesis unfolding parseHexAddr_def pci_xml_def Let_def by simp
qed

subsection \<open>Locations\<close>

text \<open>The location and volume of one disk, and the map as the list of them, the last one first.\<close>

definition disk_location :: "(string \<Rightarrow> PCIAddr option) \<Rightarrow> xmlDisk \<Rightarrow> (DiskLocation \<times> string) option" where
  "disk_location ctrls d =
     (if xd_Device d \<noteq> ''disk'' then None
      else case volume_of d of
          None \<Rightarrow> None
        | Some volName \<Rightarrow>
            map_option (\<lambda>l. (l, volName))
              (if xa_Type (xd_Address d) = ''pci'' then
                 map_option (\<lambda>a. \<lparr>dl_Controller = a, dl_Bus = 0, dl_Target = 0, dl_Unit = 0\<rparr>) (parseHexAddr (xd_Address d))
               else if xa_Type (xd_Address d) = ''drive'' \<and> xd_TargetBus d \<noteq> [] then
                 map_option (\<lambda>a. \<lparr>dl_Controller = a, dl_Bus = atoi_value (xa_Bus (xd_Address d)),
                     dl_Target = atoi_value (xa_Target (xd_Address d)), dl_Unit = atoi_value (xa_Unit (xd_Address d))\<rparr>)
                   (ctrls (controller_key (xd_TargetBus d)
                     (if xa_Controller (xd_Address d) = [] then ''0'' else xa_Controller (xd_Address d))))
               else None))"

lemma add_location_eq:
  "add_location ctrls d m = (case disk_location ctrls d of None \<Rightarrow> m | Some (l, v) \<Rightarrow> m(l \<mapsto> v))"
  by (auto simp: add_location_def disk_location_def Let_def split: option.split)

lemma fold_map_filter:
  assumes "\<And>d m. f d m = (case g d of None \<Rightarrow> m | Some (k, v) \<Rightarrow> m(k \<mapsto> v))"
  shows "fold f ds m = m ++ map_of (rev (List.map_filter g ds))"
  by (induction ds arbitrary: m) (auto simp: assms map_filter_simps map_add_def fun_eq_iff split: option.splits)

lemma ParseDiskLocations_eq:
  "ParseDiskLocations unmarshal x = map_option (\<lambda>xdom.
     map_of (rev (List.map_filter (disk_location (controllerPCI (xm_Controllers xdom))) (xm_Disks xdom)))) (unmarshal x)"
  by (auto simp: ParseDiskLocations_def fold_map_filter [OF add_location_eq] split: option.split)

lemma volume_of_alias: "volume_of d = Some v \<longleftrightarrow> xd_AliasName d = ''ua-'' @ v \<and> v \<noteq> []"
proof -
  have "TrimPrefix (''ua-'' @ t) ''ua-'' = t" for t by (rule TrimPrefix_append)
  moreover have "TrimPrefix (xd_AliasName d) ''ua-'' = xd_AliasName d \<or> (\<exists>t. xd_AliasName d = ''ua-'' @ t)"
    using TrimPrefix_eq_iff [of "''ua-''" "xd_AliasName d"] by blast
  moreover have "''ua-'' @ t \<noteq> t" for t by (metis append_self_conv2 list.distinct(1))
  ultimately show ?thesis unfolding volume_of_def Let_def by (metis option.distinct(1) option.inject)
qed

end
