(* ===== verification/QmpClient.thy ===== *)
theory QmpClient
  imports QmpTypes
begin

text \<open>
  \<^verbatim>\<open>pkg/qmp/client.go\<close> and \<^verbatim>\<open>cri.go\<close>: the connection to the libvirt daemon of a virtual machine, the
  monitor commands sent over it, and how the process of a pod is found through the container
  runtime. The daemon, the runtime and the JSON encoding are arguments. Sockets and libvirt
  sessions are numbered; the state lists those that are open. A client is open exactly as long
  as its socket and session are, and a failed dial leaves nothing open.
\<close>

subsection \<open>Sockets and sessions\<close>

record network =
  nw_next :: nat
  nw_conns :: "nat list"
  nw_sessions :: "nat list"

definition new_conn :: "network \<Rightarrow> nat \<times> network" where
  "new_conn nw = (nw_next nw, nw\<lparr>nw_next := Suc (nw_next nw), nw_conns := nw_next nw # nw_conns nw\<rparr>)"

definition close_conn :: "nat \<Rightarrow> network \<Rightarrow> network" where
  "close_conn h nw = nw\<lparr>nw_conns := removeAll h (nw_conns nw)\<rparr>"

definition Disconnect :: "nat \<Rightarrow> network \<Rightarrow> network" where
  "Disconnect h nw = nw\<lparr>nw_sessions := removeAll h (nw_sessions nw)\<rparr>"

subsection \<open>Commands and answers\<close>

datatype qmp_arguments =
    NoArguments
  | HistogramArguments string "int list"
  | PathArgument string
  | QueueArguments string int

record qmpCommand =
  qc_Execute :: string
  qc_Arguments :: qmp_arguments

record qmpResponse =
  qr_Return :: string
  qr_Error :: "(string \<times> string) option"

datatype qmp_error =
    DialFailed | ConnectFailed | LookupFailed | ClientClosed | MarshalFailed | MonitorFailed string
  | BadResponse | CommandError string string | BadPayload

text \<open>The client, with the commands sent over the connection so far.\<close>

record Client =
  cl_conn :: nat
  cl_domain :: string
  cl_sent :: "qmpCommand list"
  cl_closed :: bool

text \<open>
  The libvirt daemon. What it answers may depend on everything sent before; what the guest agent
  answers, on how often the command was sent.
\<close>

datatype agent_command = AgentExec string "string list" | AgentExecStatus int | AgentGetDisks

record libvirt =
  lv_stat :: "string \<Rightarrow> bool"
  lv_dial :: "string \<Rightarrow> bool"
  lv_connect :: "string \<Rightarrow> bool"
  lv_lookup :: "string \<Rightarrow> string \<Rightarrow> bool"
  lv_monitor :: "Client \<Rightarrow> string \<Rightarrow> string + string"
  lv_agent :: "Client \<Rightarrow> nat \<Rightarrow> agent_command \<Rightarrow> string + string list"
  lv_xml :: "Client \<Rightarrow> string + string"

record json_codec =
  js_marshal :: "qmpCommand \<Rightarrow> string option"
  js_response :: "string \<Rightarrow> qmpResponse option"
  js_devices :: "string \<Rightarrow> BlockDevice list option"
  js_virtio :: "string \<Rightarrow> VirtioDevice list option"
  js_status :: "string \<Rightarrow> VirtioStatus option"
  js_queue :: "string \<Rightarrow> VirtQueueStatus option"

subsection \<open>The client\<close>

definition Dial :: "libvirt \<Rightarrow> string \<Rightarrow> string \<Rightarrow> network \<Rightarrow> (qmp_error + Client) \<times> network" where
  "Dial lv virtqemudSockPath domainName nw =
     (if \<not> lv_dial lv virtqemudSockPath then (Inl DialFailed, nw)
      else
        let (conn, nw) = new_conn nw
        in if \<not> lv_connect lv virtqemudSockPath then (Inl ConnectFailed, close_conn conn nw)
        else
          let nw = nw\<lparr>nw_sessions := conn # nw_sessions nw\<rparr>
          in if \<not> lv_lookup lv virtqemudSockPath domainName
             then (Inl LookupFailed, close_conn conn (Disconnect conn nw))
             else (Inr \<lparr>cl_conn = conn, cl_domain = domainName, cl_sent = [], cl_closed = False\<rparr>, nw))"

definition Close :: "Client \<Rightarrow> network \<Rightarrow> Client \<times> network" where
  "Close c nw =
     (if cl_closed c then (c, nw)
      else (c\<lparr>cl_closed := True\<rparr>, close_conn (cl_conn c) (Disconnect (cl_conn c) nw)))"

definition execQMP :: "libvirt \<Rightarrow> json_codec \<Rightarrow> string \<Rightarrow> qmp_arguments \<Rightarrow> Client \<Rightarrow> (qmp_error + string) \<times> Client" where
  "execQMP lv js command args c =
     (let cmd = \<lparr>qc_Execute = command, qc_Arguments = args\<rparr>
      in case js_marshal js cmd of
        None \<Rightarrow> (Inl MarshalFailed, c)
      | Some cmdJSON \<Rightarrow>
          let c' = c\<lparr>cl_sent := cl_sent c @ [cmd]\<rparr>
          in (case lv_monitor lv c cmdJSON of
               Inl msg \<Rightarrow> Inl (MonitorFailed msg)
             | Inr result \<Rightarrow>
                 (case js_response js result of
                    None \<Rightarrow> Inl BadResponse
                  | Some resp \<Rightarrow>
                      (case qr_Error resp of
                         Some (cls, desc) \<Rightarrow> Inl (CommandError cls desc)
                       | None \<Rightarrow> Inr (qr_Return resp))), c'))"

text \<open>Decoding of what a command returned.\<close>

definition decoded :: "(string \<Rightarrow> 'a option) \<Rightarrow> (qmp_error + string) \<times> Client \<Rightarrow> (qmp_error + 'a) \<times> Client" where
  "decoded dec r =
     ((case fst r of
         Inl e \<Rightarrow> Inl e
       | Inr result \<Rightarrow> (case dec result of None \<Rightarrow> Inl BadPayload | Some x \<Rightarrow> Inr x)), snd r)"

definition QueryBlockStats :: "libvirt \<Rightarrow> json_codec \<Rightarrow> Client \<Rightarrow> (qmp_error + BlockDevice list) \<times> Client" where
  "QueryBlockStats lv js c =
     (if cl_closed c then (Inl ClientClosed, c)
      else decoded (js_devices js) (execQMP lv js ''query-blockstats'' NoArguments c))"

definition EnableHistogram :: "libvirt \<Rightarrow> json_codec \<Rightarrow> string \<Rightarrow> int list \<Rightarrow> Client \<Rightarrow> qmp_error option \<times> Client" where
  "EnableHistogram lv js deviceID boundariesNs c =
     (if cl_closed c then (Some ClientClosed, c)
      else case execQMP lv js ''block-latency-histogram-set'' (HistogramArguments deviceID boundariesNs) c of
        (Inl e, c) \<Rightarrow> (Some e, c)
      | (Inr _, c) \<Rightarrow> (None, c))"

definition AgentCommand :: "libvirt \<Rightarrow> nat \<Rightarrow> agent_command \<Rightarrow> Client \<Rightarrow> string + string" where
  "AgentCommand lv n cmd c =
     (if cl_closed c then Inl ''client is closed''
      else case lv_agent lv c n cmd of
        Inl msg \<Rightarrow> Inl msg
      | Inr [] \<Rightarrow> Inl ''empty response from guest agent''
      | Inr (r # _) \<Rightarrow> Inr r)"

definition QueryVirtio :: "libvirt \<Rightarrow> json_codec \<Rightarrow> Client \<Rightarrow> (qmp_error + VirtioDevice list) \<times> Client" where
  "QueryVirtio lv js c =
     (if cl_closed c then (Inl ClientClosed, c)
      else decoded (js_virtio js) (execQMP lv js ''x-query-virtio'' NoArguments c))"

definition QueryVirtioStatus :: "libvirt \<Rightarrow> json_codec \<Rightarrow> string \<Rightarrow> Client \<Rightarrow> (qmp_error + VirtioStatus) \<times> Client" where
  "QueryVirtioStatus lv js path c =
     (if cl_closed c then (Inl ClientClosed, c)
      else decoded (js_status js) (execQMP lv js ''x-query-virtio-status'' (PathArgument path) c))"

definition QueryVirtioQueueStatus :: "libvirt \<Rightarrow> json_codec \<Rightarrow> string \<Rightarrow> int \<Rightarrow> Client \<Rightarrow> (qmp_error + VirtQueueStatus) \<times> Client" where
  "QueryVirtioQueueStatus lv js path queue c =
     (if cl_closed c then (Inl ClientClosed, c)
      else decoded (js_queue js) (execQMP lv js ''x-query-virtio-queue-status'' (QueueArguments path queue) c))"

definition DomainGetXMLDesc :: "libvirt \<Rightarrow> Client \<Rightarrow> string + string" where
  "DomainGetXMLDesc lv c = (if cl_closed c then Inl ''client is closed'' else lv_xml lv c)"

subsection \<open>The container runtime\<close>

record ContainerInfo =
  ci_ContainerID :: string
  ci_PID :: int

datatype cri_error = ListFailed | NoContainer | StatusFailed | NoInfo | BadInfo | NoPID

text \<open>
  The runtime: the running compute containers of a pod and the verbose status of a container; with
  the decoders of the status, to a number in the member \<^verbatim>\<open>pid\<close>, to the members, to a number.
\<close>

record runtime =
  rt_list :: "string \<Rightarrow> string \<Rightarrow> string list option"
  rt_status :: "string \<Rightarrow> (string \<Rightarrow> string option) option"
  rt_pid :: "string \<Rightarrow> int option"
  rt_members :: "string \<Rightarrow> (string \<Rightarrow> string option) option"
  rt_int :: "string \<Rightarrow> int option"

definition parsePID :: "runtime \<Rightarrow> (string \<Rightarrow> string option) \<Rightarrow> cri_error + int" where
  "parsePID rt info =
     (case info ''info'' of
        None \<Rightarrow> Inl NoInfo
      | Some infoJSON \<Rightarrow>
          (case rt_pid rt infoJSON of
             None \<Rightarrow> Inl BadInfo
           | Some pid \<Rightarrow>
               if 0 < pid then Inr pid
               else
                 (case rt_members rt infoJSON of
                    None \<Rightarrow> Inl NoPID
                  | Some nested \<Rightarrow>
                      (case nested ''init_pid'' of
                         None \<Rightarrow> Inl NoPID
                       | Some initPID \<Rightarrow>
                           (case rt_int rt initPID of
                              None \<Rightarrow> Inl NoPID
                            | Some pid \<Rightarrow> if 0 < pid then Inr pid else Inl NoPID)))))"

definition extractPID :: "runtime \<Rightarrow> string \<Rightarrow> cri_error + int" where
  "extractPID rt containerID =
     (case rt_status rt containerID of
        None \<Rightarrow> Inl StatusFailed
      | Some info \<Rightarrow> parsePID rt info)"

definition FindComputePID :: "runtime \<Rightarrow> string \<Rightarrow> string \<Rightarrow> cri_error + ContainerInfo" where
  "FindComputePID rt podName namespace =
     (case rt_list rt podName namespace of
        None \<Rightarrow> Inl ListFailed
      | Some [] \<Rightarrow> Inl NoContainer
      | Some (container # _) \<Rightarrow>
          (case extractPID rt container of
             Inl e \<Rightarrow> Inl e
           | Inr pid \<Rightarrow> Inr \<lparr>ci_ContainerID = container, ci_PID = pid\<rparr>))"

subsection \<open>What the operations keep\<close>

lemma execQMP_frame [simp]:
  "cl_conn (snd (execQMP lv js command args c)) = cl_conn c"
  "cl_closed (snd (execQMP lv js command args c)) = cl_closed c"
  by (simp_all add: execQMP_def Let_def split: option.split)

lemma decoded_frame [simp]: "snd (decoded dec r) = snd r"
  by (simp add: decoded_def)

lemma snd_EnableHistogram:
  "snd (EnableHistogram lv js i bs c) =
     (if cl_closed c then c else snd (execQMP lv js ''block-latency-histogram-set'' (HistogramArguments i bs) c))"
  by (auto simp: EnableHistogram_def split: prod.split sum.split)

lemma query_frame [simp]:
  "cl_conn (snd (QueryBlockStats lv js c)) = cl_conn c" "cl_closed (snd (QueryBlockStats lv js c)) = cl_closed c"
  "cl_conn (snd (EnableHistogram lv js i bs c)) = cl_conn c" "cl_closed (snd (EnableHistogram lv js i bs c)) = cl_closed c"
  "cl_conn (snd (QueryVirtio lv js c)) = cl_conn c" "cl_closed (snd (QueryVirtio lv js c)) = cl_closed c"
  "cl_conn (snd (QueryVirtioStatus lv js path c)) = cl_conn c" "cl_closed (snd (QueryVirtioStatus lv js path c)) = cl_closed c"
  "cl_conn (snd (QueryVirtioQueueStatus lv js path q c)) = cl_conn c"
  "cl_closed (snd (QueryVirtioQueueStatus lv js path q c)) = cl_closed c"
  by (simp_all add: QueryBlockStats_def snd_EnableHistogram QueryVirtio_def QueryVirtioStatus_def QueryVirtioQueueStatus_def)

lemma FindComputePID_pos: "FindComputePID rt p ns = Inr info \<Longrightarrow> 0 < ci_PID info"
  by (auto simp: FindComputePID_def extractPID_def parsePID_def split: option.splits list.splits sum.splits if_splits)

text \<open>
  A dial that fails leaves every socket and session as it was, and one that succeeds opens one
  socket and one session, of a number that was not in use.
\<close>

definition fresh_net :: "network \<Rightarrow> bool" where
  "fresh_net nw \<longleftrightarrow> (\<forall>h \<in> set (nw_conns nw) \<union> set (nw_sessions nw). h < nw_next nw)"

lemma Dial_cases:
  assumes "fresh_net nw"
  obtains (failed) e nw' where "Dial lv sock dm nw = (Inl e, nw')" "nw_conns nw' = nw_conns nw"
      "nw_sessions nw' = nw_sessions nw" "fresh_net nw'"
  | (opened) c nw' where "Dial lv sock dm nw = (Inr c, nw')" "cl_conn c = nw_next nw" "\<not> cl_closed c"
      "nw_conns nw' = nw_next nw # nw_conns nw" "nw_sessions nw' = nw_next nw # nw_sessions nw"
      "fresh_net nw'"
proof -
  have *: "removeAll (nw_next nw) (nw_conns nw) = nw_conns nw" "removeAll (nw_next nw) (nw_sessions nw) = nw_sessions nw"
    using assms by (auto simp: fresh_net_def intro!: removeAll_id)
  have "\<exists>e nw'. Dial lv sock dm nw = (Inl e, nw') \<and> nw_conns nw' = nw_conns nw \<and> nw_sessions nw' = nw_sessions nw \<and> fresh_net nw'"
    if "\<not> (lv_dial lv sock \<and> lv_connect lv sock \<and> lv_lookup lv sock dm)"
    using that assms * by (auto simp: Dial_def new_conn_def close_conn_def Disconnect_def fresh_net_def less_Suc_eq)
  moreover have "\<exists>c nw'. Dial lv sock dm nw = (Inr c, nw') \<and> cl_conn c = nw_next nw \<and> \<not> cl_closed c \<and>
      nw_conns nw' = nw_next nw # nw_conns nw \<and> nw_sessions nw' = nw_next nw # nw_sessions nw \<and> fresh_net nw'"
    if "lv_dial lv sock \<and> lv_connect lv sock \<and> lv_lookup lv sock dm"
    using that assms by (auto simp: Dial_def new_conn_def fresh_net_def less_Suc_eq)
  ultimately show ?thesis using that by blast
qed

lemma client_Close_open:
  assumes "\<not> cl_closed c"
  shows "nw_conns (snd (Close c nw)) = removeAll (cl_conn c) (nw_conns nw)"
    and "nw_sessions (snd (Close c nw)) = removeAll (cl_conn c) (nw_sessions nw)"
    and "nw_next (snd (Close c nw)) = nw_next nw"
    and "cl_closed (fst (Close c nw))"
  using assms by (simp_all add: Close_def close_conn_def Disconnect_def)

text \<open>Closing is idempotent, and a closed client sends nothing.\<close>

lemma Close_Close: "Close (fst (Close c nw)) (snd (Close c nw)) = Close c nw"
  by (simp add: Close_def)

lemma closed_sends_nothing:
  assumes "cl_closed c"
  shows "snd (QueryBlockStats lv js c) = c" "snd (EnableHistogram lv js i bs c) = c" "snd (QueryVirtio lv js c) = c"
    "snd (QueryVirtioStatus lv js path c) = c" "snd (QueryVirtioQueueStatus lv js path q c) = c"
  using assms by (simp_all add: QueryBlockStats_def EnableHistogram_def QueryVirtio_def QueryVirtioStatus_def QueryVirtioQueueStatus_def)

end
