(* ===== verification/VmPoll.thy ===== *)
theory VmPoll
  imports QmpClient
begin

text \<open>
  What the polls of \<^verbatim>\<open>pkg/qmp/collector.go\<close> and \<^verbatim>\<open>pkg/qga/collector.go\<close> share: the selection of the pods
  of virtual machines, the containers that run them, and the table of connections, one per
  container. The collectors differ in what a connection is, so closing and opening one are
  arguments here; \<^verbatim>\<open>pool\<close> states what they promise, and within it the table always holds exactly
  the connections the collector has open.
\<close>

subsection \<open>Pods\<close>

record pod =
  po_Phase :: string
  po_Labels :: "string \<Rightarrow> string option"
  po_Namespace :: string
  po_Name :: string

text \<open>An object of the pod cache; reading a key that is absent gives the empty string.\<close>

datatype cached = CachedPod pod | CachedOther

definition value_or_empty :: "(string \<Rightarrow> string option) \<Rightarrow> string \<Rightarrow> string" where
  "value_or_empty labels k = (case labels k of Some v \<Rightarrow> v | None \<Rightarrow> [])"

definition matchesLabelFilter :: "(string \<Rightarrow> string option) \<Rightarrow> string \<Rightarrow> bool" where
  "matchesLabelFilter labels flt \<longleftrightarrow>
     list_all (\<lambda>part.
       let kv = SplitN2 (TrimSpace part) (CHR ''='')
       in length kv \<noteq> 2 \<or> value_or_empty labels (kv ! 0) = kv ! 1) (Split flt (CHR '',''))"

record podInfo =
  pi_namespace :: string
  pi_podName :: string
  pi_vmiName :: string

definition select_pod :: "string list \<Rightarrow> string \<Rightarrow> cached \<Rightarrow> podInfo option" where
  "select_pod namespaces labelFilter obj =
     (case obj of
        CachedOther \<Rightarrow> None
      | CachedPod p \<Rightarrow>
          if po_Phase p \<noteq> ''Running'' then None
          else if value_or_empty (po_Labels p) ''kubevirt.io'' \<noteq> ''virt-launcher'' then None
          else if labelFilter \<noteq> [] \<and> \<not> matchesLabelFilter (po_Labels p) labelFilter then None
          else if namespaces \<noteq> [] \<and> po_Namespace p \<notin> set namespaces then None
          else
            let vmiName = value_or_empty (po_Labels p) ''vm.kubevirt.io/name''
            in if vmiName = [] then None
            else Some \<lparr>pi_namespace = po_Namespace p, pi_podName = po_Name p, pi_vmiName = vmiName\<rparr>)"

definition select_pods :: "string list \<Rightarrow> string \<Rightarrow> cached list \<Rightarrow> podInfo list" where
  "select_pods namespaces labelFilter objs = List.map_filter (select_pod namespaces labelFilter) objs"

record target =
  tg_pod :: podInfo
  tg_containerID :: string

definition find_targets :: "runtime \<Rightarrow> podInfo list \<Rightarrow> target list" where
  "find_targets rt pods = List.map_filter (\<lambda>p.
     case FindComputePID rt (pi_podName p) (pi_namespace p) of
       Inl _ \<Rightarrow> None
     | Inr info \<Rightarrow> Some \<lparr>tg_pod = p, tg_containerID = ci_ContainerID info\<rparr>) pods"

subsection \<open>The table of connections\<close>

type_synonym 'c table = "(string \<times> 'c) list"

definition put :: "string \<Rightarrow> 'c \<Rightarrow> 'c table \<Rightarrow> 'c table" where
  "put i c t = map (\<lambda>(k, x). (k, if k = i then c else x)) t"

definition del :: "string \<Rightarrow> 'c table \<Rightarrow> 'c table" where
  "del i t = filter (\<lambda>(k, x). k \<noteq> i) t"

fun drop_departed :: "('c \<Rightarrow> network \<Rightarrow> 'c \<times> network) \<Rightarrow> string list \<Rightarrow> 'c table \<Rightarrow> network \<Rightarrow> 'c table \<times> network" where
  "drop_departed close activeIDs [] nw = ([], nw)"
| "drop_departed close activeIDs ((i, c) # t) nw =
     (if i \<in> set activeIDs
      then let (t', nw') = drop_departed close activeIDs t nw in ((i, c) # t', nw')
      else drop_departed close activeIDs t (snd (close c nw)))"

text \<open>
  Connections for the targets that had none before the loop. Opening one looks up the process
  again and dials; a connection that another target with the same container has got meanwhile
  is kept and the new one closed.
\<close>

fun connect_new :: "('c \<Rightarrow> network \<Rightarrow> 'c \<times> network) \<Rightarrow> (podInfo \<Rightarrow> network \<Rightarrow> 'c option \<times> network) \<Rightarrow>
    string list \<Rightarrow> target list \<Rightarrow> 'c table \<Rightarrow> network \<Rightarrow> 'c table \<times> network" where
  "connect_new close open_vm existing [] t nw = (t, nw)"
| "connect_new close open_vm existing (g # gs) t nw =
     (if tg_containerID g \<in> set existing then connect_new close open_vm existing gs t nw
      else case open_vm (tg_pod g) nw of
        (None, nw) \<Rightarrow> connect_new close open_vm existing gs t nw
      | (Some c, nw) \<Rightarrow>
          if map_of t (tg_containerID g) = None
          then connect_new close open_vm existing gs (t @ [(tg_containerID g, c)]) nw
          else connect_new close open_vm existing gs t (snd (close c nw)))"

fun close_all_conns :: "('c \<Rightarrow> network \<Rightarrow> 'c \<times> network) \<Rightarrow> 'c table \<Rightarrow> network \<Rightarrow> network" where
  "close_all_conns close [] nw = nw"
| "close_all_conns close ((i, c) # t) nw = close_all_conns close t (snd (close c nw))"

text \<open>A process number that \<^verbatim>\<open>parsePID\<close> returns is positive.\<close>

definition sock_path :: "int \<Rightarrow> string" where
  "sock_path pid = ''/proc/'' @ Itoa (nat pid) @ ''/root/run/libvirt/virtqemud-sock''"

subsection \<open>Selection\<close>

lemma set_map_filter: "x \<in> set (List.map_filter f xs) \<longleftrightarrow> (\<exists>y \<in> set xs. f y = Some x)"
  by (force simp: map_filter_def)

lemma map_filter_eq: "(\<And>x. x \<in> set xs \<Longrightarrow> f x = g x) \<Longrightarrow> List.map_filter f xs = List.map_filter g xs"
  by (induction xs) (simp_all add: map_filter_simps split: option.split)

lemma select_pods_iff:
  "p \<in> set (select_pods nss flt objs) \<longleftrightarrow>
     (\<exists>o' \<in> set objs. \<exists>q. o' = CachedPod q \<and> po_Phase q = ''Running'' \<and>
        value_or_empty (po_Labels q) ''kubevirt.io'' = ''virt-launcher'' \<and>
        (flt = [] \<or> matchesLabelFilter (po_Labels q) flt) \<and> (nss = [] \<or> po_Namespace q \<in> set nss) \<and>
        value_or_empty (po_Labels q) ''vm.kubevirt.io/name'' \<noteq> [] \<and>
        p = \<lparr>pi_namespace = po_Namespace q, pi_podName = po_Name q,
             pi_vmiName = value_or_empty (po_Labels q) ''vm.kubevirt.io/name''\<rparr>)"
proof -
  have "select_pod nss flt o' = Some p \<longleftrightarrow> (\<exists>q. o' = CachedPod q \<and> po_Phase q = ''Running'' \<and>
        value_or_empty (po_Labels q) ''kubevirt.io'' = ''virt-launcher'' \<and>
        (flt = [] \<or> matchesLabelFilter (po_Labels q) flt) \<and> (nss = [] \<or> po_Namespace q \<in> set nss) \<and>
        value_or_empty (po_Labels q) ''vm.kubevirt.io/name'' \<noteq> [] \<and>
        p = \<lparr>pi_namespace = po_Namespace q, pi_podName = po_Name q,
             pi_vmiName = value_or_empty (po_Labels q) ''vm.kubevirt.io/name''\<rparr>)" for o'
    by (cases o') (auto simp: select_pod_def Let_def)
  then show ?thesis unfolding select_pods_def set_map_filter by blast
qed

lemma find_targets_pod:
  assumes "g \<in> set (find_targets rt ps)"
  shows "tg_pod g \<in> set ps \<and> (\<exists>info. FindComputePID rt (pi_podName (tg_pod g)) (pi_namespace (tg_pod g)) = Inr info \<and>
    ci_ContainerID info = tg_containerID g)"
proof -
  obtain p where p: "p \<in> set ps" "(case FindComputePID rt (pi_podName p) (pi_namespace p) of Inl _ \<Rightarrow> None
      | Inr info \<Rightarrow> Some \<lparr>tg_pod = p, tg_containerID = ci_ContainerID info\<rparr>) = Some g"
    using assms unfolding find_targets_def set_map_filter by blast
  then show ?thesis by (cases "FindComputePID rt (pi_podName p) (pi_namespace p)") auto
qed

subsection \<open>Outcomes\<close>

text \<open>What comes of reading the virtual machine of a container: a result, an error, the connection kept.\<close>

definition vm_outcome :: "('c \<Rightarrow> ('e + 'r) \<times> 'c) \<Rightarrow> 'c table \<Rightarrow> string \<Rightarrow> (('e + 'r) \<times> 'c) option" where
  "vm_outcome scrape t i = map_option scrape (map_of t i)"

definition reported :: "(('e + 'r) \<times> 'c) option \<Rightarrow> 'r option" where
  "reported r = (case r of Some (Inr x, _) \<Rightarrow> Some x | _ \<Rightarrow> None)"

definition failed :: "(('e + 'r) \<times> 'c) option \<Rightarrow> bool" where
  "failed r = (case r of Some (Inl _, _) \<Rightarrow> True | _ \<Rightarrow> False)"

definition kept :: "(('e + 'r) \<times> 'c) option \<Rightarrow> 'c option" where
  "kept r = (case r of Some (Inr _, c) \<Rightarrow> Some c | _ \<Rightarrow> None)"

subsection \<open>Ownership\<close>

text \<open>
  The table has one connection per container, all in use, and the open sockets and sessions are
  theirs and those \<^verbatim>\<open>F\<close> the rest of the process has.
\<close>

definition handles :: "('c \<Rightarrow> nat) \<Rightarrow> 'c table \<Rightarrow> nat set" where
  "handles handle t = handle ` snd ` set t"

definition owns :: "('c \<Rightarrow> nat) \<Rightarrow> ('c \<Rightarrow> bool) \<Rightarrow> nat set \<Rightarrow> 'c table \<Rightarrow> network \<Rightarrow> bool" where
  "owns handle live F t nw \<longleftrightarrow>
     distinct (map fst t) \<and> distinct (map (\<lambda>e. handle (snd e)) t) \<and> (\<forall>e \<in> set t. live (snd e)) \<and>
     F \<inter> handles handle t = {} \<and> set (nw_conns nw) = F \<union> handles handle t \<and>
     set (nw_sessions nw) = F \<union> handles handle t \<and> fresh_net nw"

lemma drop_departed_table:
  "fst (drop_departed close ids t nw) = filter (\<lambda>e. fst e \<in> set ids) t"
  by (induction close ids t nw rule: drop_departed.induct) (auto simp: case_prod_beta Let_def)

lemma put_simps [simp]:
  "map fst (put i c t) = map fst t" "map_of (put i c t) k = (if k = i \<and> map_of t i \<noteq> None then Some c else map_of t k)"
  by (induction t) (auto simp: put_def)

lemma del_simps [simp]: "map_of (del i t) k = (if k = i then None else map_of t k)"
  by (induction t) (auto simp: del_def)

lemma handles_eq: "handles handle t = set (map (\<lambda>e. handle (snd e)) t)"
  by (simp add: handles_def image_image)

lemma connect_new_origin:
  assumes "(i, c) \<in> set (fst (connect_new close open_vm existing gs t nw))"
  shows "(i, c) \<in> set t \<or> (\<exists>g \<in> set gs. \<exists>nw. tg_containerID g = i \<and> fst (open_vm (tg_pod g) nw) = Some c)"
  using assms
proof (induction gs arbitrary: t nw)
  case (Cons g gs)
  obtain r nw' where r: "open_vm (tg_pod g) nw = (r, nw')" by (cases "open_vm (tg_pod g) nw")
  have "(\<exists>nw1. connect_new close open_vm existing (g # gs) t nw = connect_new close open_vm existing gs t nw1) \<or>
      (\<exists>d. r = Some d \<and>
        connect_new close open_vm existing (g # gs) t nw = connect_new close open_vm existing gs (t @ [(tg_containerID g, d)]) nw')"
    using r by (cases r; cases "tg_containerID g \<in> set existing"; cases "map_of t (tg_containerID g)") auto
  then consider (same) nw1 where "connect_new close open_vm existing (g # gs) t nw = connect_new close open_vm existing gs t nw1"
    | (new) d where "r = Some d"
      "connect_new close open_vm existing (g # gs) t nw = connect_new close open_vm existing gs (t @ [(tg_containerID g, d)]) nw'"
    by blast
  then show ?case
  proof cases
    case same
    then show ?thesis using Cons.IH [of t nw1] Cons.prems by auto
  next
    case new
    moreover have "fst (open_vm (tg_pod g) nw) = Some d" using r new(1) by simp
    ultimately show ?thesis using Cons.IH [of "t @ [(tg_containerID g, d)]" nw'] Cons.prems by auto
  qed
qed simp

locale pool =
  fixes close :: "'c \<Rightarrow> network \<Rightarrow> 'c \<times> network"
    and open_vm :: "podInfo \<Rightarrow> network \<Rightarrow> 'c option \<times> network"
    and handle :: "'c \<Rightarrow> nat" and live :: "'c \<Rightarrow> bool"
  assumes close_live: "live c \<Longrightarrow> nw_conns (snd (close c nw)) = removeAll (handle c) (nw_conns nw) \<and>
      nw_sessions (snd (close c nw)) = removeAll (handle c) (nw_sessions nw) \<and> nw_next (snd (close c nw)) = nw_next nw"
    and open_fails: "fresh_net nw \<Longrightarrow> open_vm p nw = (None, nw') \<Longrightarrow>
      nw_conns nw' = nw_conns nw \<and> nw_sessions nw' = nw_sessions nw \<and> fresh_net nw'"
    and open_works: "fresh_net nw \<Longrightarrow> open_vm p nw = (Some c, nw') \<Longrightarrow>
      live c \<and> handle c = nw_next nw \<and> nw_conns nw' = handle c # nw_conns nw \<and>
      nw_sessions nw' = handle c # nw_sessions nw \<and> fresh_net nw'"
begin

lemma fresh_close: "live c \<Longrightarrow> fresh_net nw \<Longrightarrow> fresh_net (snd (close c nw))"
  using close_live [of c nw] by (auto simp: fresh_net_def)

lemma owns_close_first:
  assumes "owns handle live F ((i, c) # t) nw"
  shows "owns handle live F t (snd (close c nw))"
proof -
  have l: "live c" "fresh_net nw" using assms by (simp_all add: owns_def)
  have "handle c \<notin> F \<union> handles handle t" using assms by (auto simp: owns_def handles_def)
  moreover have "set (nw_conns nw) = F \<union> insert (handle c) (handles handle t)"
      "set (nw_sessions nw) = F \<union> insert (handle c) (handles handle t)"
    using assms by (simp_all add: owns_def handles_def)
  ultimately have "set (nw_conns nw) - {handle c} = F \<union> handles handle t" "set (nw_sessions nw) - {handle c} = F \<union> handles handle t"
    by auto
  then show ?thesis using assms close_live [OF l(1), of nw] fresh_close [OF l]
    by (auto simp: owns_def handles_def)
qed

lemma owns_shift: "owns handle live F (e # t) nw \<longleftrightarrow>
    fst e \<notin> fst ` set t \<and> live (snd e) \<and> handle (snd e) \<notin> F \<and> owns handle live (insert (handle (snd e)) F) t nw"
  by (auto simp: owns_def handles_def)

lemma drop_departed_owns:
  "owns handle live F t nw \<Longrightarrow> drop_departed close ids t nw = (t', nw') \<Longrightarrow> owns handle live F t' nw'"
proof (induction t arbitrary: F nw t' nw')
  case (Cons e t)
  obtain i c where e: "e = (i, c)" by (cases e)
  show ?case
  proof (cases "i \<in> set ids")
    case True
    obtain t1 where t1: "drop_departed close ids t nw = (t1, nw')" "t' = e # t1"
      using Cons.prems(2) True by (auto simp: e Let_def split: prod.splits)
    have s: "i \<notin> fst ` set t" "live c" "handle c \<notin> F" "owns handle live (insert (handle c) F) t nw"
      using Cons.prems(1) owns_shift [of F e t nw] by (simp_all add: e)
    have "t1 = filter (\<lambda>e. fst e \<in> set ids) t" using drop_departed_table [of close ids t nw] t1(1) by simp
    then have "i \<notin> fst ` set t1" using s(1) by auto
    then show ?thesis using owns_shift [of F e t1 nw'] Cons.IH [OF s(4) t1(1)] s(2,3) by (simp add: e t1(2))
  next
    case False
    then show ?thesis using Cons.IH [OF owns_close_first] Cons.prems by (auto simp: e)
  qed
qed simp

lemma connect_new_owns:
  "owns handle live F t nw \<Longrightarrow> connect_new close open_vm existing gs t nw = (t', nw') \<Longrightarrow> owns handle live F t' nw'"
proof (induction gs arbitrary: t nw)
  case (Cons g gs)
  obtain r nw1 where r: "open_vm (tg_pod g) nw = (r, nw1)" by (cases "open_vm (tg_pod g) nw")
  have f: "fresh_net nw" using Cons.prems(1) by (simp add: owns_def)
  show ?case
  proof (cases "tg_containerID g \<in> set existing")
    case True
    then show ?thesis using Cons by simp
  next
    case False
    show ?thesis
    proof (cases r)
      case None
      then have "owns handle live F t nw1" using open_fails [OF f, of "tg_pod g" nw1] r Cons.prems(1) by (simp add: owns_def)
      then show ?thesis using Cons.IH Cons.prems(2) False r None by simp
    next
      case (Some c)
      note c = open_works [OF f r [unfolded Some]]
      have "handle c \<notin> F \<union> handles handle t" using Cons.prems(1) c f by (auto simp: owns_def fresh_net_def)
      then have o: "owns handle live (insert (handle c) F) t nw1" "handle c \<notin> F"
        using Cons.prems(1) c by (auto simp: owns_def)
      show ?thesis
      proof (cases "map_of t (tg_containerID g) = None")
        case True
        then have n: "tg_containerID g \<notin> fst ` set t" by (simp add: map_of_eq_None_iff)
        have "owns handle live F ((tg_containerID g, c) # t) nw1"
          using o n c owns_shift [of F "(tg_containerID g, c)" t nw1] by simp
        then have "owns handle live F (t @ [(tg_containerID g, c)]) nw1" by (auto simp: owns_def handles_def)
        then show ?thesis using Cons.IH Cons.prems(2) False r Some True by simp
      next
        case dup: False
        obtain k where "k \<notin> fst ` set t" using ex_new_if_finite [OF infinite_UNIV_listI, of "fst ` set t"] by auto
        then have "owns handle live F ((k, c) # t) nw1" using o c owns_shift [of F "(k, c)" t nw1] by simp
        then have "owns handle live F t (snd (close c nw1))" by (rule owns_close_first)
        then show ?thesis using Cons.IH Cons.prems(2) False r Some dup by simp
      qed
    qed
  qed
qed simp

lemma close_all_owns:
  "owns handle live F t nw \<Longrightarrow> owns handle live F [] (close_all_conns close t nw)"
proof (induction t arbitrary: nw)
  case (Cons e t)
  then show ?case using owns_close_first by (cases e) simp
qed simp

lemma put_owns:
  assumes "owns handle live F t nw" and "map_of t i = Some c" and "handle c' = handle c" and "live c'"
  shows "owns handle live F (put i c' t) nw"
proof -
  have "(i, c) \<in> set t" using assms(2) by (rule map_of_SomeD)
  have d: "\<And>x. (i, x) \<in> set t \<Longrightarrow> x = c" using assms(1,2) by (auto simp: owns_def dest: map_of_is_SomeI)
  then have h: "map (\<lambda>e. handle (snd e)) (put i c' t) = map (\<lambda>e. handle (snd e)) t"
    using assms(3) by (auto simp: put_def)
  then have "handles handle (put i c' t) = handles handle t"
    by (simp add: handles_eq del: set_map)
  moreover have "\<forall>e \<in> set (put i c' t). live (snd e)" using assms(1,4) by (auto simp: owns_def put_def)
  ultimately show ?thesis using assms(1) h by (simp add: owns_def)
qed

lemma del_owns:
  assumes "owns handle live F t nw" and "map_of t i = Some c" and "handle c' = handle c" and "live c'"
  shows "owns handle live F (del i t) (snd (close c' nw))"
proof -
  obtain t1 t2 where t: "t = t1 @ (i, c) # t2" using split_list [OF map_of_SomeD [OF assms(2)]] by auto
  then have "\<forall>e \<in> set (t1 @ t2). fst e \<noteq> i" using assms(1) by (auto simp: owns_def)
  then have "del i t = t1 @ t2" by (simp add: del_def t case_prod_beta filter_id_conv)
  moreover have "owns handle live F ((i, c') # t1 @ t2) nw"
    using assms(1,3,4) by (auto simp: owns_def handles_def t)
  ultimately show ?thesis using owns_close_first by simp
qed

end

end
