(* ===== verification/QmpScrape.thy ===== *)
theory QmpScrape
  imports VmPoll Prometheus GoFloat
begin

text \<open>
  The first half of \<^verbatim>\<open>pkg/qmp/collector.go\<close>: a connection to a virtual machine and what is read over it:
  arming the latency histograms of QEMU, block statistics, virtqueues, and the claims of the
  volumes from Kubernetes. Reading keeps the connection, arms a device once, and reports exactly
  the devices with histograms.
\<close>

subsection \<open>State\<close>

record DeviceResult =
  dr_Disk :: string
  dr_PVC :: string
  dr_Stats :: BlockStats

record VirtqueueResult =
  vr_Disk :: string
  vr_PVC :: string
  vr_Bus :: string
  vr_Queue :: int
  vr_Inuse :: u32
  vr_VringNum :: u32

record VMIResult =
  vm_Namespace :: string
  vm_Name :: string
  vm_Node :: string
  vm_PodName :: string
  vm_Devices :: "DeviceResult list"
  vm_Virtqueues :: "VirtqueueResult list"

record PollerConfig =
  pc_NodeName :: string
  pc_PollInterval :: int
  pc_BoundariesNs :: "int list"
  pc_QMPTimeout :: int
  pc_Concurrency :: int
  pc_Namespaces :: "string list"
  pc_LabelFilter :: string

record vmConnection =
  vc_client :: Client
  vc_namespace :: string
  vc_vmi :: string
  vc_podName :: string
  vc_armed :: "string set"
  vc_numQueues :: "string \<Rightarrow> int option"
  vc_pvcMap :: "string \<Rightarrow> string option"
  vc_closed :: bool

definition vc_close :: "vmConnection \<Rightarrow> network \<Rightarrow> vmConnection \<times> network" where
  "vc_close conn nw =
     (if vc_closed conn then (conn, nw)
      else let (c, nw) = Close (vc_client conn) nw in (conn\<lparr>vc_closed := True, vc_client := c\<rparr>, nw))"

subsection \<open>Claims of volumes\<close>

text \<open>Values of an unstructured Kubernetes object.\<close>

datatype json = JNull | JBool bool | JNumber rat | JString string | JArray "json list" | JObject "(string \<times> json) list"

definition as_object :: "json option \<Rightarrow> (string \<times> json) list option" where
  "as_object v = (case v of Some (JObject m) \<Rightarrow> Some m | _ \<Rightarrow> None)"

definition as_array :: "json option \<Rightarrow> json list option" where
  "as_array v = (case v of Some (JArray xs) \<Rightarrow> Some xs | _ \<Rightarrow> None)"

definition as_string :: "json option \<Rightarrow> string" where
  "as_string v = (case v of Some (JString s) \<Rightarrow> s | _ \<Rightarrow> [])"

type_synonym dynamic = "string \<Rightarrow> string \<Rightarrow> (string \<times> json) list option"

definition volume_claim :: "json \<Rightarrow> (string \<times> string) option" where
  "volume_claim vs =
     (case as_object (Some vs) of
        None \<Rightarrow> None
      | Some entry \<Rightarrow>
          let name = as_string (map_of entry ''name'')
          in if name = [] then None
          else case as_object (map_of entry ''persistentVolumeClaimInfo'') of
            None \<Rightarrow> None
          | Some pvcInfo \<Rightarrow>
              let claimName = as_string (map_of pvcInfo ''claimName'')
              in if claimName \<noteq> [] then Some (name, claimName) else None)"

definition FetchPVCMap :: "dynamic option \<Rightarrow> string \<Rightarrow> string \<Rightarrow> string \<Rightarrow> string option" where
  "FetchPVCMap dynClient ns vmiName =
     (case dynClient of
        None \<Rightarrow> Map.empty
      | Some get \<Rightarrow>
          (case get ns vmiName of
             None \<Rightarrow> Map.empty
           | Some obj \<Rightarrow>
               (case as_object (map_of obj ''status'') of
                  None \<Rightarrow> Map.empty
                | Some status \<Rightarrow>
                    (case as_array (map_of status ''volumeStatus'') of
                       None \<Rightarrow> Map.empty
                     | Some volumeStatuses \<Rightarrow>
                         fold (\<lambda>vs pvcMap. case volume_claim vs of
                             None \<Rightarrow> pvcMap
                           | Some (name, claimName) \<Rightarrow> pvcMap(name \<mapsto> claimName)) volumeStatuses Map.empty))))"

subsection \<open>Connecting\<close>

definition connectVM :: "libvirt \<Rightarrow> dynamic option \<Rightarrow> podInfo \<Rightarrow> int \<Rightarrow> network \<Rightarrow> vmConnection option \<times> network" where
  "connectVM lv dyn p pid nw =
     (if \<not> lv_stat lv (sock_path pid) then (None, nw)
      else case Dial lv (sock_path pid) (pi_namespace p @ ''_'' @ pi_vmiName p) nw of
        (Inl _, nw) \<Rightarrow> (None, nw)
      | (Inr client, nw) \<Rightarrow>
          (Some \<lparr>vc_client = client, vc_namespace = pi_namespace p, vc_vmi = pi_vmiName p, vc_podName = pi_podName p,
             vc_armed = {}, vc_numQueues = Map.empty, vc_pvcMap = FetchPVCMap dyn (pi_namespace p) (pi_vmiName p),
             vc_closed = False\<rparr>, nw))"

definition open_conn :: "runtime \<Rightarrow> libvirt \<Rightarrow> dynamic option \<Rightarrow> podInfo \<Rightarrow> network \<Rightarrow> vmConnection option \<times> network" where
  "open_conn rt lv dyn p nw =
     (case FindComputePID rt (pi_podName p) (pi_namespace p) of
        Inl _ \<Rightarrow> (None, nw)
      | Inr info \<Rightarrow> connectVM lv dyn p (ci_PID info) nw)"

subsection \<open>Reading one virtual machine\<close>

definition arm_device :: "libvirt \<Rightarrow> json_codec \<Rightarrow> PollerConfig \<Rightarrow> BlockDevice \<Rightarrow> vmConnection \<Rightarrow> vmConnection" where
  "arm_device lv js cfg dev conn =
     (case ExtractDiskInfo (EffectiveQDev dev) of
        None \<Rightarrow> conn
      | Some (_, deviceID) \<Rightarrow>
          if deviceID \<in> vc_armed conn then conn
          else if \<not> HasHistograms dev then
            (case EnableHistogram lv js deviceID (pc_BoundariesNs cfg) (vc_client conn) of
               (Some _, c) \<Rightarrow> conn\<lparr>vc_client := c\<rparr>
             | (None, c) \<Rightarrow> conn\<lparr>vc_client := c, vc_armed := insert deviceID (vc_armed conn)\<rparr>)
          else conn\<lparr>vc_armed := insert deviceID (vc_armed conn)\<rparr>)"

text \<open>The claim of a volume; the claims are fetched again at most once per virtual machine and poll.\<close>

definition refreshPVC :: "dynamic option \<Rightarrow> string \<Rightarrow> vmConnection \<times> bool \<Rightarrow> string \<times> vmConnection \<times> bool" where
  "refreshPVC dyn alias s =
     (let (conn, pvcRefreshed) = s;
          pvc = value_or_empty (vc_pvcMap conn) alias
      in if pvc = [] \<and> \<not> pvcRefreshed then
           let conn = conn\<lparr>vc_pvcMap := FetchPVCMap dyn (vc_namespace conn) (vc_vmi conn)\<rparr>
           in (value_or_empty (vc_pvcMap conn) alias, conn, True)
         else (pvc, conn, pvcRefreshed))"

definition read_device :: "dynamic option \<Rightarrow> BlockDevice \<Rightarrow> DeviceResult list \<times> vmConnection \<times> bool \<Rightarrow>
    DeviceResult list \<times> vmConnection \<times> bool" where
  "read_device dyn dev s =
     (case ExtractDiskInfo (EffectiveQDev dev) of
        None \<Rightarrow> s
      | Some (alias, _) \<Rightarrow>
          if \<not> HasHistograms dev then s
          else
            let (devices, st) = s; (pvc, st) = refreshPVC dyn alias st
            in (devices @ [\<lparr>dr_Disk = alias, dr_PVC = pvc, dr_Stats = bd_Stats dev\<rparr>], st))"

text \<open>The number of queues of a device, remembered once it is positive.\<close>

definition num_queues :: "libvirt \<Rightarrow> json_codec \<Rightarrow> string \<Rightarrow> vmConnection \<Rightarrow> int option \<times> vmConnection" where
  "num_queues lv js path conn =
     (case vc_numQueues conn path of
        Some nq \<Rightarrow> (Some nq, conn)
      | None \<Rightarrow>
          (case QueryVirtioStatus lv js path (vc_client conn) of
             (Inl _, c) \<Rightarrow> (None, conn\<lparr>vc_client := c\<rparr>)
           | (Inr vs, c) \<Rightarrow>
               (Some (vs_NumVqs vs),
                if 0 < vs_NumVqs vs
                then conn\<lparr>vc_client := c, vc_numQueues := (vc_numQueues conn)(path \<mapsto> vs_NumVqs vs)\<rparr>
                else conn\<lparr>vc_client := c\<rparr>)))"

definition blk_queue :: "libvirt \<Rightarrow> json_codec \<Rightarrow> dynamic option \<Rightarrow> string \<Rightarrow> string \<Rightarrow> int \<Rightarrow>
    VirtqueueResult list \<times> vmConnection \<times> bool \<Rightarrow> VirtqueueResult list \<times> vmConnection \<times> bool" where
  "blk_queue lv js dyn alias path qi s =
     (let (virtqueues, conn, refreshed) = s
      in case QueryVirtioQueueStatus lv js path qi (vc_client conn) of
        (Inl _, c) \<Rightarrow> (virtqueues, conn\<lparr>vc_client := c\<rparr>, refreshed)
      | (Inr qs, c) \<Rightarrow>
          let (pvc, st) = refreshPVC dyn alias (conn\<lparr>vc_client := c\<rparr>, refreshed)
          in (virtqueues @ [\<lparr>vr_Disk = alias, vr_PVC = pvc, vr_Bus = ''virtio'', vr_Queue = qi,
                vr_Inuse = vq_Inuse qs, vr_VringNum = vq_VringNum qs\<rparr>], st))"

definition blk_device :: "libvirt \<Rightarrow> json_codec \<Rightarrow> dynamic option \<Rightarrow> VirtioDevice \<Rightarrow>
    VirtqueueResult list \<times> vmConnection \<times> bool \<Rightarrow> VirtqueueResult list \<times> vmConnection \<times> bool" where
  "blk_device lv js dyn vdev s =
     (if \<not> IsVirtioBlk vdev then s
      else case ExtractDiskInfo (vd_Path vdev) of
        None \<Rightarrow> s
      | Some (alias, _) \<Rightarrow>
          let (virtqueues, conn, refreshed) = s
          in case num_queues lv js (vd_Path vdev) conn of
            (None, conn) \<Rightarrow> (virtqueues, conn, refreshed)
          | (Some nq, conn) \<Rightarrow>
              fold (blk_queue lv js dyn alias (vd_Path vdev)) [0..nq - 1] (virtqueues, conn, refreshed))"

definition scsi_queue :: "libvirt \<Rightarrow> json_codec \<Rightarrow> string \<Rightarrow> int \<Rightarrow>
    VirtqueueResult list \<times> vmConnection \<times> bool \<Rightarrow> VirtqueueResult list \<times> vmConnection \<times> bool" where
  "scsi_queue lv js path qi s =
     (let (virtqueues, conn, refreshed) = s
      in case QueryVirtioQueueStatus lv js path qi (vc_client conn) of
        (Inl _, c) \<Rightarrow> (virtqueues, conn\<lparr>vc_client := c\<rparr>, refreshed)
      | (Inr qs, c) \<Rightarrow>
          (virtqueues @ [\<lparr>vr_Disk = [], vr_PVC = [], vr_Bus = ''scsi'', vr_Queue = qi,
             vr_Inuse = vq_Inuse qs, vr_VringNum = vq_VringNum qs\<rparr>], conn\<lparr>vc_client := c\<rparr>, refreshed))"

definition scsi_device :: "libvirt \<Rightarrow> json_codec \<Rightarrow> VirtioDevice \<Rightarrow>
    VirtqueueResult list \<times> vmConnection \<times> bool \<Rightarrow> VirtqueueResult list \<times> vmConnection \<times> bool" where
  "scsi_device lv js vdev s =
     (if \<not> IsVirtioScsi vdev then s
      else if ExtractControllerName (vd_Path vdev) = None then s
      else
        let (virtqueues, conn, refreshed) = s
        in case num_queues lv js (vd_Path vdev) conn of
          (None, conn) \<Rightarrow> (virtqueues, conn, refreshed)
        | (Some nq, conn) \<Rightarrow>
            fold (scsi_queue lv js (vd_Path vdev)) [0..nq - 1] (virtqueues, conn, refreshed))"

datatype scrape_error = ConnectionClosed | QueryFailed qmp_error

definition scrapeVM :: "libvirt \<Rightarrow> json_codec \<Rightarrow> dynamic option \<Rightarrow> PollerConfig \<Rightarrow> vmConnection \<Rightarrow>
    (scrape_error + VMIResult) \<times> vmConnection" where
  "scrapeVM lv js dyn cfg conn =
     (if vc_closed conn then (Inl ConnectionClosed, conn)
      else case QueryBlockStats lv js (vc_client conn) of
        (Inl e, c) \<Rightarrow> (Inl (QueryFailed e), conn\<lparr>vc_client := c\<rparr>)
      | (Inr resp, c) \<Rightarrow>
          let conn = fold (arm_device lv js cfg) resp (conn\<lparr>vc_client := c\<rparr>);
              (devices, conn, refreshed) = fold (read_device dyn) resp ([], conn, False);
              (virtio, c) = QueryVirtio lv js (vc_client conn);
              conn = conn\<lparr>vc_client := c\<rparr>;
              (virtqueues, conn, refreshed) =
                (case virtio of
                   Inl _ \<Rightarrow> ([], conn, refreshed)
                 | Inr vdevs \<Rightarrow>
                     fold (scsi_device lv js) vdevs (fold (blk_device lv js dyn) vdevs ([], conn, refreshed)))
          in (Inr \<lparr>vm_Namespace = vc_namespace conn, vm_Name = vc_vmi conn, vm_Node = pc_NodeName cfg,
                vm_PodName = vc_podName conn, vm_Devices = devices, vm_Virtqueues = virtqueues\<rparr>, conn))"

subsection \<open>What reading a virtual machine keeps\<close>

text \<open>The commands sent that set the histogram of a device.\<close>

definition sets_histogram :: "string \<Rightarrow> qmpCommand \<Rightarrow> bool" where
  "sets_histogram d cmd = (case qc_Arguments cmd of HistogramArguments d' _ \<Rightarrow> d' = d | _ \<Rightarrow> False)"

definition hist_cmds :: "string \<Rightarrow> vmConnection \<Rightarrow> qmpCommand list" where
  "hist_cmds d conn = filter (sets_histogram d) (cl_sent (vc_client conn))"

text \<open>
  A connection stays the same connection of the same virtual machine, armed devices stay armed, and
  their histograms are not set again.
\<close>

definition keeps :: "vmConnection \<Rightarrow> vmConnection \<Rightarrow> bool" where
  "keeps a b \<longleftrightarrow> cl_conn (vc_client b) = cl_conn (vc_client a) \<and> cl_closed (vc_client b) = cl_closed (vc_client a) \<and>
     vc_closed b = vc_closed a \<and> vc_namespace b = vc_namespace a \<and> vc_vmi b = vc_vmi a \<and> vc_podName b = vc_podName a \<and>
     vc_armed a \<subseteq> vc_armed b \<and> (\<forall>d \<in> vc_armed a. hist_cmds d b = hist_cmds d a)"

lemma keeps_refl [simp]: "keeps a a"
  by (simp add: keeps_def)

lemma keeps_trans: "keeps a b \<Longrightarrow> keeps b c \<Longrightarrow> keeps a c"
  by (auto simp: keeps_def)

lemma fold_keeps:
  assumes "\<And>x s. keeps (conn s) (conn (f x s))"
  shows "keeps (conn s) (conn (fold f xs s))"
  using assms by (induction xs arbitrary: s) (simp_all, blast intro: keeps_trans)

lemma execQMP_sent:
  "filter (sets_histogram d) (cl_sent (snd (execQMP lv js command args c))) =
     filter (sets_histogram d) (cl_sent c) @
       (if js_marshal js \<lparr>qc_Execute = command, qc_Arguments = args\<rparr> \<noteq> None \<and> sets_histogram d \<lparr>qc_Execute = command, qc_Arguments = args\<rparr>
        then [\<lparr>qc_Execute = command, qc_Arguments = args\<rparr>] else [])"
  by (simp add: execQMP_def Let_def split: option.split)

lemma query_keeps:
  "keeps conn (conn\<lparr>vc_client := snd (QueryBlockStats lv js (vc_client conn))\<rparr>)"
  "keeps conn (conn\<lparr>vc_client := snd (QueryVirtio lv js (vc_client conn))\<rparr>)"
  "keeps conn (conn\<lparr>vc_client := snd (QueryVirtioStatus lv js path (vc_client conn))\<rparr>)"
  "keeps conn (conn\<lparr>vc_client := snd (QueryVirtioQueueStatus lv js path q (vc_client conn))\<rparr>)"
  by (simp_all add: keeps_def hist_cmds_def)
    (auto simp: QueryBlockStats_def QueryVirtio_def QueryVirtioStatus_def QueryVirtioQueueStatus_def execQMP_sent sets_histogram_def)

lemma keeps_pvc [simp]: "keeps a (b\<lparr>vc_pvcMap := m\<rparr>) = keeps a b" "keeps a (b\<lparr>vc_numQueues := n\<rparr>) = keeps a b"
  by (simp_all add: keeps_def hist_cmds_def)

lemma arm_device_keeps: "keeps conn (arm_device lv js cfg dev conn)"
proof (cases "ExtractDiskInfo (EffectiveQDev dev)")
  case (Some p)
  obtain al i where p: "p = (al, i)" by (cases p)
  define bs where "bs = pc_BoundariesNs cfg"
  have e: "filter (sets_histogram d) (cl_sent (snd (EnableHistogram lv js i bs (vc_client conn)))) =
      filter (sets_histogram d) (cl_sent (vc_client conn))" if "d \<noteq> i" for d
    using that by (simp add: snd_EnableHistogram execQMP_sent sets_histogram_def)
  obtain r c where r: "EnableHistogram lv js i bs (vc_client conn) = (r, c)" by (cases "EnableHistogram lv js i bs (vc_client conn)")
  have "cl_conn c = cl_conn (vc_client conn)" "cl_closed c = cl_closed (vc_client conn)"
    using query_frame(3,4) [of lv js i bs "vc_client conn"] by (simp_all add: r)
  moreover have "d \<in> vc_armed conn \<Longrightarrow> i \<notin> vc_armed conn \<Longrightarrow>
      filter (sets_histogram d) (cl_sent c) = filter (sets_histogram d) (cl_sent (vc_client conn))" for d
    using e [of d] by (metis r snd_conv)
  ultimately show ?thesis
    by (auto simp: arm_device_def Some p bs_def [symmetric] r keeps_def hist_cmds_def split: option.split)
qed (simp add: arm_device_def)

lemma refreshPVC_keeps: "keeps (fst s) (fst (snd (refreshPVC dyn alias s)))"
  by (simp add: refreshPVC_def Let_def case_prod_beta)

lemma read_device_keeps: "keeps (fst (snd s)) (fst (snd (read_device dyn dev s)))"
  using refreshPVC_keeps [of "snd s"] by (auto simp: read_device_def case_prod_beta Let_def split: option.split)

lemma num_queues_keeps: "keeps conn (snd (num_queues lv js path conn))"
  using query_keeps(3) [of conn lv js path]
  by (auto simp: num_queues_def split: option.split prod.split sum.split)

lemma blk_queue_keeps: "keeps (fst (snd s)) (fst (snd (blk_queue lv js dyn alias path qi s)))"
proof -
  obtain r c where r: "QueryVirtioQueueStatus lv js path qi (vc_client (fst (snd s))) = (r, c)" by fastforce
  then have "keeps (fst (snd s)) ((fst (snd s))\<lparr>vc_client := c\<rparr>)" using query_keeps(4) [of "fst (snd s)" lv js path qi] by simp
  then show ?thesis
    using refreshPVC_keeps [of "((fst (snd s))\<lparr>vc_client := c\<rparr>, snd (snd s))" dyn "alias"]
    by (auto simp: blk_queue_def case_prod_beta Let_def r split: sum.split intro: keeps_trans)
qed

lemma scsi_queue_keeps: "keeps (fst (snd s)) (fst (snd (scsi_queue lv js path qi s)))"
  using query_keeps(4) [of "fst (snd s)" lv js path qi]
  by (auto simp: scsi_queue_def case_prod_beta Let_def split: sum.split)

lemma blk_device_keeps: "keeps (fst (snd s)) (fst (snd (blk_device lv js dyn vdev s)))"
proof -
  obtain n cn where n: "num_queues lv js (vd_Path vdev) (fst (snd s)) = (n, cn)" by fastforce
  then have "keeps (fst (snd s)) cn" using num_queues_keeps [of "fst (snd s)" lv js "vd_Path vdev"] by simp
  then show ?thesis
    using fold_keeps [of "\<lambda>s. fst (snd s)" "blk_queue lv js dyn _ (vd_Path vdev)", OF blk_queue_keeps]
    by (auto simp: blk_device_def case_prod_beta Let_def n split: option.split intro: keeps_trans)
qed

lemma scsi_device_keeps: "keeps (fst (snd s)) (fst (snd (scsi_device lv js vdev s)))"
proof -
  obtain n cn where n: "num_queues lv js (vd_Path vdev) (fst (snd s)) = (n, cn)" by fastforce
  then have "keeps (fst (snd s)) cn" using num_queues_keeps [of "fst (snd s)" lv js "vd_Path vdev"] by simp
  then show ?thesis
    using fold_keeps [of "\<lambda>s. fst (snd s)" "scsi_queue lv js (vd_Path vdev)", OF scsi_queue_keeps]
    by (auto simp: scsi_device_def case_prod_beta Let_def n split: option.split intro: keeps_trans)
qed

lemma scrapeVM_after_arming:
  assumes "\<not> vc_closed conn" and "QueryBlockStats lv js (vc_client conn) = (Inr resp, c)"
  shows "keeps (fold (arm_device lv js cfg) resp (conn\<lparr>vc_client := c\<rparr>)) (snd (scrapeVM lv js dyn cfg conn))"
proof -
  define c1 where "c1 = fold (arm_device lv js cfg) resp (conn\<lparr>vc_client := c\<rparr>)"
  obtain ds c2 r2 where d: "fold (read_device dyn) resp ([], c1, False) = (ds, c2, r2)" by (metis prod_cases3)
  have k2: "keeps c1 c2"
    using fold_keeps [of "\<lambda>s. fst (snd s)" "read_device dyn" "([], c1, False)" resp, OF read_device_keeps] by (simp add: d)
  obtain vr v where v: "QueryVirtio lv js (vc_client c2) = (vr, v)" by fastforce
  then have k3: "keeps c2 (c2\<lparr>vc_client := v\<rparr>)" using query_keeps(2) [of c2 lv js] by simp
  have k4: "keeps (fst (snd s)) (fst (snd (fold (scsi_device lv js) vdevs (fold (blk_device lv js dyn) vdevs s))))" for vdevs s
    using fold_keeps [of "\<lambda>s. fst (snd s)" "scsi_device lv js", OF scsi_device_keeps]
      fold_keeps [of "\<lambda>s. fst (snd s)" "blk_device lv js dyn", OF blk_device_keeps] by (rule keeps_trans [rotated])
  have "keeps c1 (c2\<lparr>vc_client := v\<rparr>)" using k2 k3 by (blast intro: keeps_trans)
  then show ?thesis
    using k4 [of "([], c2\<lparr>vc_client := v\<rparr>, r2)"] assms
    by (auto simp: scrapeVM_def c1_def [symmetric] d v Let_def case_prod_beta split: sum.split intro: keeps_trans)
qed

lemma arming_keeps: "keeps conn (fold (arm_device lv js cfg) resp conn)"
  using fold_keeps [of "\<lambda>s. s" "arm_device lv js cfg", OF arm_device_keeps] by simp

lemma scrapeVM_keeps: "keeps conn (snd (scrapeVM lv js dyn cfg conn))"
proof (cases "vc_closed conn")
  case False
  obtain b c where b: "QueryBlockStats lv js (vc_client conn) = (b, c)" by fastforce
  then have k0: "keeps conn (conn\<lparr>vc_client := c\<rparr>)" using query_keeps(1) [of conn lv js] by simp
  show ?thesis
  proof (cases b)
    case (Inr resp)
    show ?thesis
      by (rule keeps_trans [OF keeps_trans [OF k0 arming_keeps] scrapeVM_after_arming]) (use False b Inr in simp_all)
  qed (use k0 in \<open>simp add: scrapeVM_def False b\<close>)
qed (simp add: scrapeVM_def)

text \<open>The identifier under which a device is armed.\<close>

definition device_id :: "BlockDevice \<Rightarrow> string option" where
  "device_id dev = map_option snd (ExtractDiskInfo (EffectiveQDev dev))"

definition set_histogram :: "string \<Rightarrow> int list \<Rightarrow> qmpCommand" where
  "set_histogram d bs = \<lparr>qc_Execute = ''block-latency-histogram-set'', qc_Arguments = HistogramArguments d bs\<rparr>"

lemma arm_other:
  assumes "device_id dev \<noteq> Some d"
  shows "hist_cmds d (arm_device lv js cfg dev conn) = hist_cmds d conn"
    and "d \<in> vc_armed (arm_device lv js cfg dev conn) \<longleftrightarrow> d \<in> vc_armed conn"
proof -
  have e: "filter (sets_histogram d) (cl_sent (snd (EnableHistogram lv js i bs (vc_client conn)))) =
      filter (sets_histogram d) (cl_sent (vc_client conn))" if "d \<noteq> i" for i bs
    using that by (simp add: snd_EnableHistogram execQMP_sent sets_histogram_def)
  have "hist_cmds d (arm_device lv js cfg dev conn) = hist_cmds d conn \<and> (d \<in> vc_armed (arm_device lv js cfg dev conn) \<longleftrightarrow> d \<in> vc_armed conn)"
  proof (cases "ExtractDiskInfo (EffectiveQDev dev)")
    case (Some p)
    obtain al i where p: "p = (al, i)" by (cases p)
    obtain r c where r: "EnableHistogram lv js i (pc_BoundariesNs cfg) (vc_client conn) = (r, c)"
      by (cases "EnableHistogram lv js i (pc_BoundariesNs cfg) (vc_client conn)")
    have "d \<noteq> i" using assms by (simp add: device_id_def Some p)
    then have "filter (sets_histogram d) (cl_sent c) = filter (sets_histogram d) (cl_sent (vc_client conn))"
      using e [of i "pc_BoundariesNs cfg"] r by simp
    then show ?thesis using \<open>d \<noteq> i\<close> by (auto simp: arm_device_def Some p r hist_cmds_def split: option.split)
  qed (simp add: arm_device_def)
  then show "hist_cmds d (arm_device lv js cfg dev conn) = hist_cmds d conn"
    "d \<in> vc_armed (arm_device lv js cfg dev conn) \<longleftrightarrow> d \<in> vc_armed conn" by blast+
qed

lemma arm_accepted:
  assumes "device_id dev = Some d" and "fst (EnableHistogram lv js d (pc_BoundariesNs cfg) (vc_client conn)) = None"
  shows "d \<in> vc_armed (arm_device lv js cfg dev conn)"
    and "hist_cmds d (arm_device lv js cfg dev conn) =
      hist_cmds d conn @ (if d \<in> vc_armed conn \<or> HasHistograms dev then [] else [set_histogram d (pc_BoundariesNs cfg)])"
proof -
  obtain al where al: "ExtractDiskInfo (EffectiveQDev dev) = Some (al, d)" using assms(1) by (auto simp: device_id_def)
  obtain c where c: "EnableHistogram lv js d (pc_BoundariesNs cfg) (vc_client conn) = (None, c)"
    using assms(2) by (cases "EnableHistogram lv js d (pc_BoundariesNs cfg) (vc_client conn)") simp
  then have "filter (sets_histogram d) (cl_sent c) = filter (sets_histogram d) (cl_sent (vc_client conn)) @ [set_histogram d (pc_BoundariesNs cfg)]"
    by (auto simp: EnableHistogram_def execQMP_def set_histogram_def sets_histogram_def Let_def split: if_splits option.splits prod.splits sum.splits)
  then show "d \<in> vc_armed (arm_device lv js cfg dev conn)"
    "hist_cmds d (arm_device lv js cfg dev conn) =
      hist_cmds d conn @ (if d \<in> vc_armed conn \<or> HasHistograms dev then [] else [set_histogram d (pc_BoundariesNs cfg)])"
    by (simp_all add: arm_device_def al c hist_cmds_def)
qed

lemma arming_accepted:
  assumes "find (\<lambda>dev. device_id dev = Some d) resp = Some dev" and "\<not> cl_closed (vc_client conn)"
    and "\<And>c. \<not> cl_closed c \<Longrightarrow> fst (EnableHistogram lv js d (pc_BoundariesNs cfg) c) = None"
  shows "d \<in> vc_armed (fold (arm_device lv js cfg) resp conn) \<and> hist_cmds d (fold (arm_device lv js cfg) resp conn) =
      hist_cmds d conn @ (if d \<in> vc_armed conn \<or> HasHistograms dev then [] else [set_histogram d (pc_BoundariesNs cfg)])"
  using assms(1,2)
proof (induction resp arbitrary: conn)
  case (Cons x resp)
  show ?case
  proof (cases "device_id x = Some d")
    case True
    then have "x = dev" using Cons.prems(1) by simp
    note a = arm_accepted [OF True assms(3) [OF Cons.prems(2)]]
    have "keeps (arm_device lv js cfg x conn) (fold (arm_device lv js cfg) resp (arm_device lv js cfg x conn))" by (rule arming_keeps)
    then show ?thesis using a \<open>x = dev\<close> by (auto simp: keeps_def)
  next
    case False
    have "\<not> cl_closed (vc_client (arm_device lv js cfg x conn))" using arm_device_keeps [of conn lv js cfg x] Cons.prems(2) by (simp add: keeps_def)
    then show ?thesis using Cons.IH [of "arm_device lv js cfg x conn"] Cons.prems(1) False arm_other [OF False, of lv js cfg conn] by simp
  qed
qed simp

text \<open>
  C22: Histograms are armed once. If a poll finds a device and QEMU accepts the command that sets its
  histogram, then over this poll and any later ones of the connection, whatever the virtual
  machine answers, the command is sent exactly once, and not at all if the device was armed
  before or has a histogram already. Setting it again would discard the samples QEMU has counted.
\<close>

theorem histogram_armed_once:
  assumes "\<not> vc_closed conn" and "fst (QueryBlockStats lv js (vc_client conn)) = Inr resp"
    and "find (\<lambda>dev. device_id dev = Some d) resp = Some dev"
    and "\<And>c. \<not> cl_closed c \<Longrightarrow> fst (EnableHistogram lv js d (pc_BoundariesNs cfg) c) = None"
  shows "hist_cmds d (fold (\<lambda>(lv, js, dyn, cfg) conn. snd (scrapeVM lv js dyn cfg conn)) ws (snd (scrapeVM lv js dyn cfg conn))) =
    hist_cmds d conn @ (if d \<in> vc_armed conn \<or> HasHistograms dev then [] else
      [\<lparr>qc_Execute = ''block-latency-histogram-set'', qc_Arguments = HistogramArguments d (pc_BoundariesNs cfg)\<rparr>])"
proof -
  obtain c where c: "QueryBlockStats lv js (vc_client conn) = (Inr resp, c)" using assms(2) by (metis prod.collapse)
  have open_c: "\<not> cl_closed c" "hist_cmds d (conn\<lparr>vc_client := c\<rparr>) = hist_cmds d conn"
    using c by (auto simp: QueryBlockStats_def decoded_def execQMP_sent hist_cmds_def sets_histogram_def execQMP_def Let_def
      split: if_splits option.splits)
  let ?s = "snd (scrapeVM lv js dyn cfg conn)"
  have a: "d \<in> vc_armed (fold (arm_device lv js cfg) resp (conn\<lparr>vc_client := c\<rparr>)) \<and>
      hist_cmds d (fold (arm_device lv js cfg) resp (conn\<lparr>vc_client := c\<rparr>)) =
      hist_cmds d conn @ (if d \<in> vc_armed conn \<or> HasHistograms dev then [] else [set_histogram d (pc_BoundariesNs cfg)])"
    using arming_accepted [OF assms(3) _ assms(4), of "conn\<lparr>vc_client := c\<rparr>"] open_c by simp
  have "keeps ?s (fold (\<lambda>(lv, js, dyn, cfg) conn. snd (scrapeVM lv js dyn cfg conn)) ws ?s)"
    using fold_keeps [of "\<lambda>s. s" "\<lambda>(lv, js, dyn, cfg) conn. snd (scrapeVM lv js dyn cfg conn)" ?s ws]
      scrapeVM_keeps by (simp add: case_prod_beta)
  with scrapeVM_after_arming [OF assms(1) c, of cfg dyn] have
    "keeps (fold (arm_device lv js cfg) resp (conn\<lparr>vc_client := c\<rparr>)) (fold (\<lambda>(lv, js, dyn, cfg) conn. snd (scrapeVM lv js dyn cfg conn)) ws ?s)"
    by (rule keeps_trans)
  with a show ?thesis by (auto simp: keeps_def set_histogram_def)
qed

subsection \<open>What is reported\<close>

definition conn_pod :: "vmConnection \<Rightarrow> podInfo" where
  "conn_pod conn = \<lparr>pi_namespace = vc_namespace conn, pi_podName = vc_podName conn, pi_vmiName = vc_vmi conn\<rparr>"

definition result_pod :: "VMIResult \<Rightarrow> podInfo" where
  "result_pod r = \<lparr>pi_namespace = vm_Namespace r, pi_podName = vm_PodName r, pi_vmiName = vm_Name r\<rparr>"

lemma keeps_pod: "keeps a b \<Longrightarrow> conn_pod b = conn_pod a"
  by (simp add: keeps_def conn_pod_def)

lemma scrapeVM_pod: "scrapeVM lv js dyn cfg conn = (Inr r, conn') \<Longrightarrow> result_pod r = conn_pod conn"
proof -
  assume s: "scrapeVM lv js dyn cfg conn = (Inr r, conn')"
  then have "result_pod r = conn_pod conn'"
    by (auto simp: scrapeVM_def result_pod_def conn_pod_def Let_def split: if_splits sum.splits prod.splits)
  then show ?thesis using keeps_pod [OF scrapeVM_keeps [of conn lv js dyn cfg]] s by simp
qed

lemma fold_read_device:
  assumes "fold (read_device dyn) devs (ds, conn, rf) = (ds', conn', rf')"
  shows "map (\<lambda>d. (dr_Disk d, dr_Stats d)) ds' = map (\<lambda>d. (dr_Disk d, dr_Stats d)) ds @
    List.map_filter (\<lambda>dev. case ExtractDiskInfo (EffectiveQDev dev) of None \<Rightarrow> None
      | Some (al, _) \<Rightarrow> if HasHistograms dev then Some (al, bd_Stats dev) else None) devs"
  using assms
proof (induction devs arbitrary: ds conn rf)
  case (Cons dev devs)
  obtain ds1 conn1 rf1 where 1: "read_device dyn dev (ds, conn, rf) = (ds1, conn1, rf1)" by (metis prod_cases3)
  then have "map (\<lambda>d. (dr_Disk d, dr_Stats d)) ds1 = map (\<lambda>d. (dr_Disk d, dr_Stats d)) ds @
      (case ExtractDiskInfo (EffectiveQDev dev) of None \<Rightarrow> []
       | Some (al, _) \<Rightarrow> if HasHistograms dev then [(al, bd_Stats dev)] else [])"
    by (auto simp: read_device_def Let_def split: option.splits if_splits prod.splits)
  moreover have "fold (read_device dyn) devs (ds1, conn1, rf1) = (ds', conn', rf')" using Cons.prems 1 by simp
  ultimately show ?case using Cons.IH by (auto simp: map_filter_simps split: option.split)
qed (simp add: map_filter_simps)

text \<open>The claim a device is reported with is the one known from before or the one fetched again.\<close>

definition pvc_known :: "dynamic option \<Rightarrow> vmConnection \<Rightarrow> vmConnection \<times> bool \<Rightarrow> bool" where
  "pvc_known dyn conn0 s \<longleftrightarrow> vc_namespace (fst s) = vc_namespace conn0 \<and> vc_vmi (fst s) = vc_vmi conn0 \<and>
     vc_pvcMap (fst s) \<in> {vc_pvcMap conn0, FetchPVCMap dyn (vc_namespace conn0) (vc_vmi conn0)}"

definition pvc_right :: "dynamic option \<Rightarrow> vmConnection \<Rightarrow> string \<Rightarrow> string \<Rightarrow> bool" where
  "pvc_right dyn conn0 disk pvc \<longleftrightarrow> pvc = value_or_empty (vc_pvcMap conn0) disk \<or>
     pvc = value_or_empty (FetchPVCMap dyn (vc_namespace conn0) (vc_vmi conn0)) disk"

lemma refreshPVC_right:
  assumes "pvc_known dyn conn0 s" and "refreshPVC dyn al s = (pvc, s')"
  shows "pvc_right dyn conn0 al pvc \<and> pvc_known dyn conn0 s'"
  using assms by (auto simp: refreshPVC_def pvc_known_def pvc_right_def Let_def split: prod.splits if_splits)

lemma fold_read_device_pvc:
  assumes "fold (read_device dyn) devs (ds, s) = (ds', s')" and "pvc_known dyn conn0 s"
    and "\<forall>d \<in> set ds. pvc_right dyn conn0 (dr_Disk d) (dr_PVC d)"
  shows "\<forall>d \<in> set ds'. pvc_right dyn conn0 (dr_Disk d) (dr_PVC d)"
  using assms
proof (induction devs arbitrary: ds s)
  case (Cons dev devs)
  obtain ds1 s1 where 1: "read_device dyn dev (ds, s) = (ds1, s1)" by (cases "read_device dyn dev (ds, s)")
  have "pvc_known dyn conn0 s1 \<and> (\<forall>d \<in> set ds1. pvc_right dyn conn0 (dr_Disk d) (dr_PVC d))"
  proof (cases "ExtractDiskInfo (EffectiveQDev dev)")
    case None
    then show ?thesis using 1 Cons.prems(2,3) by (simp add: read_device_def)
  next
    case (Some e)
    obtain al i where e: "e = (al, i)" by (cases e)
    obtain pvc s2 where r: "refreshPVC dyn al s = (pvc, s2)" by (cases "refreshPVC dyn al s")
    from refreshPVC_right [OF Cons.prems(2) r] show ?thesis using 1 Cons.prems(2,3)
      by (auto simp: read_device_def Some e r split: if_splits)
  qed
  moreover have "fold (read_device dyn) devs (ds1, s1) = (ds', s')" using Cons.prems(1) 1 by simp
  ultimately show ?case using Cons.IH by blast
qed simp

lemma arm_fold_pvc: "vc_pvcMap (fold (arm_device lv js cfg) devs conn) = vc_pvcMap conn"
proof -
  have "vc_pvcMap (arm_device lv js cfg dev conn) = vc_pvcMap conn" for dev conn
    by (auto simp: arm_device_def split: option.split prod.split)
  then show ?thesis by (induction devs arbitrary: conn) simp_all
qed

text \<open>
  C23: What is read of a virtual machine. If QEMU answers the query for block statistics, reading
  succeeds, whatever else fails. The devices reported are those of the answer that have a name
  and histograms, in order and with their statistics, and the claim of each is one that
  Kubernetes has recorded for the volume.
\<close>

theorem scrape_reports_devices:
  assumes "\<not> vc_closed conn" and "fst (QueryBlockStats lv js (vc_client conn)) = Inr resp"
  shows "\<exists>r conn'. scrapeVM lv js dyn cfg conn = (Inr r, conn') \<and>
    vm_Namespace r = vc_namespace conn \<and> vm_Name r = vc_vmi conn \<and> vm_PodName r = vc_podName conn \<and>
    map (\<lambda>d. (dr_Disk d, dr_Stats d)) (vm_Devices r) =
      List.map_filter (\<lambda>dev. case ExtractDiskInfo (EffectiveQDev dev) of None \<Rightarrow> None
        | Some (al, _) \<Rightarrow> if HasHistograms dev then Some (al, bd_Stats dev) else None) resp \<and>
    (\<forall>d \<in> set (vm_Devices r). dr_PVC d = value_or_empty (vc_pvcMap conn) (dr_Disk d) \<or>
       dr_PVC d = value_or_empty (FetchPVCMap dyn (vc_namespace conn) (vc_vmi conn)) (dr_Disk d))"
proof -
  obtain c where b: "QueryBlockStats lv js (vc_client conn) = (Inr resp, c)" using assms(2) by (metis prod.collapse)
  define c1 where "c1 = fold (arm_device lv js cfg) resp (conn\<lparr>vc_client := c\<rparr>)"
  obtain ds s where d: "fold (read_device dyn) resp ([], c1, False) = (ds, s)" by (cases "fold (read_device dyn) resp ([], c1, False)")
  obtain r conn' where r: "scrapeVM lv js dyn cfg conn = (Inr r, conn')" "vm_Devices r = ds"
    using assms(1) by (auto simp: scrapeVM_def b c1_def [symmetric] d Let_def case_prod_beta)
  have "keeps (conn\<lparr>vc_client := c\<rparr>) c1"
    unfolding c1_def using fold_keeps [of "\<lambda>s. s" "arm_device lv js cfg", OF arm_device_keeps] by simp
  then have "pvc_known dyn conn (c1, False)"
    by (simp add: pvc_known_def keeps_def) (simp add: c1_def arm_fold_pvc)
  from fold_read_device_pvc [OF d this] have "\<forall>d \<in> set ds. pvc_right dyn conn (dr_Disk d) (dr_PVC d)" by simp
  moreover have "map (\<lambda>d. (dr_Disk d, dr_Stats d)) ds =
      List.map_filter (\<lambda>dev. case ExtractDiskInfo (EffectiveQDev dev) of None \<Rightarrow> None
        | Some (al, _) \<Rightarrow> if HasHistograms dev then Some (al, bd_Stats dev) else None) resp"
    using fold_read_device [of dyn resp "[]" c1 False ds "fst s" "snd s"] d by simp
  moreover have "result_pod r = conn_pod conn" by (rule scrapeVM_pod [OF r(1)])
  ultimately show ?thesis using r by (auto simp: pvc_right_def result_pod_def conn_pod_def)
qed

subsection \<open>Queues of SCSI controllers\<close>

text \<open>The numbers of queues a connection remembers are positive.\<close>

definition queues_known :: "vmConnection \<Rightarrow> bool" where
  "queues_known conn \<longleftrightarrow> (\<forall>p n. vc_numQueues conn p = Some n \<longrightarrow> 0 < n)"

lemma refreshPVC_numQueues [simp]: "vc_numQueues (fst (snd (refreshPVC dyn al st))) = vc_numQueues (fst st)"
  by (simp add: refreshPVC_def Let_def case_prod_beta)

lemma numQueues_frame:
  "vc_numQueues (arm_device lv js cfg dev conn) = vc_numQueues conn"
  "vc_numQueues (fst (snd (read_device dyn dev s))) = vc_numQueues (fst (snd s))"
  "vc_numQueues (fst (snd (blk_queue lv js dyn al path qi s'))) = vc_numQueues (fst (snd s'))"
  "vc_numQueues (fst (snd (scsi_queue lv js path qi s'))) = vc_numQueues (fst (snd s'))"
  by (simp_all add: arm_device_def read_device_def blk_queue_def scsi_queue_def Let_def case_prod_beta split: option.split prod.split sum.split)

lemma fold_frame: "(\<And>x s. q (f x s) = q s) \<Longrightarrow> q (fold f xs s) = q s"
  by (induction xs arbitrary: s) simp_all

lemma fold_invariant: "(\<And>x s. P s \<Longrightarrow> P (f x s)) \<Longrightarrow> P s \<Longrightarrow> P (fold f xs s)"
  by (induction xs arbitrary: s) simp_all

lemma num_queues_known: "queues_known conn \<Longrightarrow> queues_known (snd (num_queues lv js path conn))"
  by (auto simp: num_queues_def queues_known_def split: option.split prod.split sum.split)

lemma device_queues_known:
  "queues_known (fst (snd s)) \<Longrightarrow> queues_known (fst (snd (blk_device lv js dyn vdev s)))"
  "queues_known (fst (snd s)) \<Longrightarrow> queues_known (fst (snd (scsi_device lv js vdev s)))"
proof -
  assume k: "queues_known (fst (snd s))"
  obtain n cn where n: "num_queues lv js (vd_Path vdev) (fst (snd s)) = (n, cn)" by fastforce
  then have cn: "queues_known cn" using num_queues_known [OF k, of lv js "vd_Path vdev"] by simp
  have b: "vc_numQueues (fst (snd (fold (blk_queue lv js dyn al path) qs s))) = vc_numQueues (fst (snd s))" for al path qs s
    by (rule fold_frame [where q = "\<lambda>s. vc_numQueues (fst (snd s))"]) (rule numQueues_frame)
  have c: "vc_numQueues (fst (snd (fold (scsi_queue lv js path) qs s))) = vc_numQueues (fst (snd s))" for path qs s
    by (rule fold_frame [where q = "\<lambda>s. vc_numQueues (fst (snd s))"]) (rule numQueues_frame)
  show "queues_known (fst (snd (blk_device lv js dyn vdev s)))"
    using k cn by (auto simp: blk_device_def n Let_def case_prod_beta queues_known_def b split: option.split)
  show "queues_known (fst (snd (scsi_device lv js vdev s)))"
    using k cn by (auto simp: scsi_device_def n Let_def case_prod_beta queues_known_def c split: option.split)
qed

lemma scsi_queue_extends: "\<exists>ys. fst (scsi_queue lv js path qi s) = fst s @ ys"
  by (simp add: scsi_queue_def Let_def case_prod_beta split: sum.split)

lemma fold_extends: "(\<And>x s. \<exists>ys. fst (f x s) = fst s @ ys) \<Longrightarrow> \<exists>ys. fst (fold f xs s) = fst s @ ys"
proof (induction xs arbitrary: s)
  case (Cons x xs)
  obtain ys zs where "fst (f x s) = fst s @ ys" "fst (fold f xs (f x s)) = fst (f x s) @ zs" using Cons by blast
  then show ?case by simp
qed simp

lemma scsi_device_extends: "\<exists>ys. fst (scsi_device lv js vdev s) = fst s @ ys"
proof -
  obtain n cn where n: "num_queues lv js (vd_Path vdev) (fst (snd s)) = (n, cn)" by fastforce
  have "\<exists>ys. fst (fold (scsi_queue lv js (vd_Path vdev)) qs (fst s, cn, snd (snd s))) = fst s @ ys" for qs
    using fold_extends [of "scsi_queue lv js (vd_Path vdev)" qs "(fst s, cn, snd (snd s))"] scsi_queue_extends by simp
  then show ?thesis by (simp add: scsi_device_def n Let_def case_prod_beta split: option.split)
qed

text \<open>
  A controller whose queues can be read: it is listed as virtio-scsi under a name, and QEMU answers
  how many queues it has, at least one, and the state of the first.
\<close>

definition readable_controller :: "libvirt \<Rightarrow> json_codec \<Rightarrow> VirtioDevice \<Rightarrow> bool" where
  "readable_controller lv js v \<longleftrightarrow> IsVirtioScsi v \<and> ExtractControllerName (vd_Path v) \<noteq> None \<and>
     (\<forall>c. \<not> cl_closed c \<longrightarrow> (\<exists>vs. fst (QueryVirtioStatus lv js (vd_Path v) c) = Inr vs \<and> 0 < vs_NumVqs vs) \<and>
        (\<exists>qs. fst (QueryVirtioQueueStatus lv js (vd_Path v) 0 c) = Inr qs))"

definition first_scsi_queue :: "VirtqueueResult \<Rightarrow> bool" where
  "first_scsi_queue q \<longleftrightarrow> vr_Disk q = [] \<and> vr_PVC q = [] \<and> vr_Bus q = ''scsi'' \<and> vr_Queue q = 0"

lemma readable_controller_queue:
  assumes "readable_controller lv js v" and "\<not> cl_closed (vc_client (fst (snd s)))" and "queues_known (fst (snd s))"
  shows "\<exists>q ys. first_scsi_queue q \<and> fst (scsi_device lv js v s) = fst s @ q # ys"
proof -
  let ?conn = "fst (snd s)"
  obtain n cn where n: "num_queues lv js (vd_Path v) ?conn = (n, cn)" by fastforce
  have "\<not> cl_closed (vc_client cn)" using num_queues_keeps [of ?conn lv js "vd_Path v"] assms(2) n by (simp add: keeps_def)
  then obtain qs c where q: "QueryVirtioQueueStatus lv js (vd_Path v) 0 (vc_client cn) = (Inr qs, c)"
    using assms(1) unfolding readable_controller_def by (metis prod.collapse)
  obtain vs c' where vs: "QueryVirtioStatus lv js (vd_Path v) (vc_client ?conn) = (Inr vs, c')" "0 < vs_NumVqs vs"
    using assms(1,2) unfolding readable_controller_def by (metis prod.collapse)
  have "\<exists>k. n = Some k \<and> 0 < k"
  proof (cases "vc_numQueues ?conn (vd_Path v)")
    case None
    then show ?thesis using n vs by (auto simp: num_queues_def)
  next
    case (Some k)
    then show ?thesis using n assms(3) unfolding queues_known_def by (intro exI [of _ k]) (auto simp: num_queues_def)
  qed
  then obtain k where k: "n = Some k" "0 < k" by blast
  then have "[0..k - 1] = 0 # [1..k - 1]" by (simp add: upto_rec1)
  moreover obtain ys where "fst (fold (scsi_queue lv js (vd_Path v)) [1..k - 1] (scsi_queue lv js (vd_Path v) 0 (fst s, cn, snd (snd s)))) =
      fst (scsi_queue lv js (vd_Path v) 0 (fst s, cn, snd (snd s))) @ ys"
    using fold_extends [of "scsi_queue lv js (vd_Path v)", OF scsi_queue_extends] by blast
  ultimately have "fst (scsi_device lv js v s) = fst (scsi_queue lv js (vd_Path v) 0 (fst s, cn, snd (snd s))) @ ys"
    using assms(1) by (auto simp: scsi_device_def readable_controller_def n k(1) Let_def case_prod_beta)
  moreover have "fst (scsi_queue lv js (vd_Path v) 0 (fst s, cn, snd (snd s))) =
      fst s @ [\<lparr>vr_Disk = [], vr_PVC = [], vr_Bus = ''scsi'', vr_Queue = 0, vr_Inuse = vq_Inuse qs, vr_VringNum = vq_VringNum qs\<rparr>]"
    by (simp add: scsi_queue_def q Let_def)
  ultimately show ?thesis by (auto simp: first_scsi_queue_def)
qed

lemma two_controllers:
  assumes "readable_controller lv js a" and "readable_controller lv js b"
    and "\<not> cl_closed (vc_client (fst (snd s)))" and "queues_known (fst (snd s))"
  shows "\<exists>q q' us vs ws. first_scsi_queue q \<and> first_scsi_queue q' \<and>
    fst (fold (scsi_device lv js) (xs @ a # ys @ b # zs) s) = us @ q # vs @ q' # ws"
proof -
  define ok where "ok s \<longleftrightarrow> \<not> cl_closed (vc_client (fst (snd s))) \<and> queues_known (fst (snd s))"
    for s :: "VirtqueueResult list \<times> vmConnection \<times> bool"
  have step: "ok s \<Longrightarrow> ok (scsi_device lv js v s)" for v s
    using device_queues_known(2) [of s lv js v] scsi_device_keeps [of s lv js v] by (simp add: ok_def keeps_def)
  have steps: "ok s \<Longrightarrow> ok (fold (scsi_device lv js) vs s)" for vs s by (rule fold_invariant [of ok]) (simp_all add: step)
  have ext: "\<exists>ys. fst (fold (scsi_device lv js) vs s) = fst s @ ys" for vs s by (rule fold_extends) (rule scsi_device_extends)
  define s1 where "s1 = fold (scsi_device lv js) xs s"
  define s2 where "s2 = fold (scsi_device lv js) ys (scsi_device lv js a s1)"
  have o1: "ok s1" unfolding s1_def by (rule steps) (use assms(3,4) in \<open>simp add: ok_def\<close>)
  have o2: "ok s2" unfolding s2_def by (rule steps [OF step [OF o1]])
  obtain q us where q: "first_scsi_queue q" "fst (scsi_device lv js a s1) = fst s1 @ q # us"
    using readable_controller_queue [OF assms(1), of s1] o1 unfolding ok_def by blast
  obtain q' vs where q': "first_scsi_queue q'" "fst (scsi_device lv js b s2) = fst s2 @ q' # vs"
    using readable_controller_queue [OF assms(2), of s2] o2 unfolding ok_def by blast
  obtain ms where "fst s2 = fst (scsi_device lv js a s1) @ ms" using ext unfolding s2_def by blast
  moreover obtain ls where "fst (fold (scsi_device lv js) zs (scsi_device lv js b s2)) = fst (scsi_device lv js b s2) @ ls" using ext by blast
  moreover have "fold (scsi_device lv js) (xs @ a # ys @ b # zs) s = fold (scsi_device lv js) zs (scsi_device lv js b s2)"
    by (simp add: s1_def s2_def)
  ultimately have "fst (fold (scsi_device lv js) (xs @ a # ys @ b # zs) s) = fst s1 @ q # (us @ ms) @ q' # (vs @ ls)" using q(2) q'(2) by simp
  then show ?thesis using q(1) q'(1) by blast
qed

subsection \<open>An example\<close>

definition ex_stats :: BlockStats where
  "ex_stats = \<lparr>bs_RdOperations = 2, bs_WrOperations = 0, bs_FlushOperations = 0, bs_RdTotalTimeNs = 12000000, bs_WrTotalTimeNs = 0,
     bs_FlushTotalTimeNs = 0, bs_RdLatencyHistogram = Some \<lparr>lh_Boundaries = [10000000], lh_Bins = [2, 0]\<rparr>,
     bs_WrLatencyHistogram = None, bs_FlushLatencyHistogram = None\<rparr>"

definition ex_virtio :: "string \<Rightarrow> VirtioDevice" where
  "ex_virtio p = \<lparr>vd_Path = p, vd_Name = ''virtio-scsi''\<rparr>"

definition ex_daemon :: libvirt where
  "ex_daemon = \<lparr>lv_stat = \<lambda>_. True, lv_dial = \<lambda>_. True, lv_connect = \<lambda>_. True, lv_lookup = \<lambda>_ _. True,
     lv_monitor = \<lambda>_ cmd. Inr cmd, lv_agent = \<lambda>_ _ _. Inr [], lv_xml = \<lambda>_. Inr []\<rparr>"

definition ex_codec :: json_codec where
  "ex_codec = \<lparr>js_marshal = \<lambda>cmd. Some (qc_Execute cmd), js_response = \<lambda>r. Some \<lparr>qr_Return = r, qr_Error = None\<rparr>,
     js_devices = \<lambda>_. Some [BlockDevice ''ua-rootdisk'' ex_stats None],
     js_virtio = \<lambda>_. Some [ex_virtio ''/machine/peripheral/scsi0/virtio-backend'', ex_virtio ''/machine/peripheral/scsi1/virtio-backend''],
     js_status = \<lambda>_. Some \<lparr>vs_Name = [], vs_NumVqs = 1\<rparr>,
     js_queue = \<lambda>_. Some \<lparr>vq_Name = [], vq_QueueIdx = 0, vq_Inuse = 3, vq_VringNum = 256\<rparr>\<rparr>"

definition ex_poller :: PollerConfig where
  "ex_poller = \<lparr>pc_NodeName = ''node'', pc_PollInterval = 60, pc_BoundariesNs = [10000000], pc_QMPTimeout = 5, pc_Concurrency = 8,
     pc_Namespaces = [''default''], pc_LabelFilter = []\<rparr>"

definition ex_conn :: vmConnection where
  "ex_conn = \<lparr>vc_client = \<lparr>cl_conn = 0, cl_domain = ''default_vm1'', cl_sent = [], cl_closed = False\<rparr>, vc_namespace = ''default'',
     vc_vmi = ''vm1'', vc_podName = ''virt-launcher-vm1'', vc_armed = {''ua-rootdisk''}, vc_numQueues = Map.empty,
     vc_pvcMap = [''rootdisk'' \<mapsto> ''root-claim''], vc_closed = False\<rparr>"

definition ex_new_codec :: json_codec where
  "ex_new_codec = ex_codec\<lparr>js_devices := \<lambda>_. Some [BlockDevice ''ua-rootdisk'' (ex_stats\<lparr>bs_RdLatencyHistogram := None\<rparr>) None]\<rparr>"

theorem histogram_armed_once_witness:
  "hist_cmds ''ua-rootdisk'' (fold (\<lambda>(lv, js, dyn, cfg) conn. snd (scrapeVM lv js dyn cfg conn))
     (replicate 2 (ex_daemon, ex_new_codec, None, ex_poller)) (snd (scrapeVM ex_daemon ex_new_codec None ex_poller (ex_conn\<lparr>vc_armed := {}\<rparr>)))) =
   [\<lparr>qc_Execute = ''block-latency-histogram-set'', qc_Arguments = HistogramArguments ''ua-rootdisk'' [10000000]\<rparr>]"
proof -
  let ?dev = "BlockDevice ''ua-rootdisk'' (ex_stats\<lparr>bs_RdLatencyHistogram := None\<rparr>) None"
  let ?conn = "ex_conn\<lparr>vc_armed := {}\<rparr>"
  have "device_id ?dev = Some ''ua-rootdisk''" by code_simp
  then have f: "find (\<lambda>dev. device_id dev = Some ''ua-rootdisk'') [?dev] = Some ?dev" by simp
  have q: "fst (QueryBlockStats ex_daemon ex_new_codec (vc_client ?conn)) = Inr [?dev]"
    by (simp add: QueryBlockStats_def ex_conn_def execQMP_def ex_codec_def ex_new_codec_def ex_daemon_def decoded_def)
  have e: "fst (EnableHistogram ex_daemon ex_new_codec ''ua-rootdisk'' (pc_BoundariesNs ex_poller) c) = None" if "\<not> cl_closed c" for c
    using that by (simp add: EnableHistogram_def execQMP_def ex_codec_def ex_new_codec_def ex_daemon_def)
  have "\<not> HasHistograms ?dev" by (simp add: HasHistograms_def ex_stats_def)
  then show ?thesis
    using histogram_armed_once [OF _ q f e, of "replicate 2 (ex_daemon, ex_new_codec, None, ex_poller)" None]
    by (simp add: hist_cmds_def ex_conn_def ex_poller_def)
qed

lemma ex_query: "fst (QueryBlockStats ex_daemon ex_codec (vc_client ex_conn)) = Inr [BlockDevice ''ua-rootdisk'' ex_stats None]"
  by (simp add: QueryBlockStats_def ex_conn_def execQMP_def ex_codec_def ex_daemon_def decoded_def)

theorem scrape_reports_devices_witness:
  "\<exists>r conn'. scrapeVM ex_daemon ex_codec None ex_poller ex_conn = (Inr r, conn') \<and>
     map (\<lambda>d. (dr_Disk d, dr_Stats d)) (vm_Devices r) = [(''rootdisk'', ex_stats)]"
proof -
  have "ExtractDiskInfo ''ua-rootdisk'' = Some (''rootdisk'', ''ua-rootdisk'')" by code_simp
  moreover have "HasHistograms (BlockDevice ''ua-rootdisk'' ex_stats None)" by (simp add: HasHistograms_def ex_stats_def)
  ultimately show ?thesis
    using scrape_reports_devices [of ex_conn ex_daemon ex_codec, OF _ ex_query, of None ex_poller]
    by (auto simp: ex_conn_def map_filter_simps)
qed

end
