(* ===== verification/QgaCounters.thy ===== *)
theory QgaCounters
  imports GoStrings GoFloat Prelude
begin

text \<open>
  \<^verbatim>\<open>pkg/qga/types.go\<close>: the disk counters a Windows guest writes as CSV, read as \<^verbatim>\<open>encoding/csv\<close> reads them,
  and the latencies and rates computed from two snapshots. What PowerShell prints is read back;
  the latency is the queue length over the operations up to two roundings; a counter of 32 bits
  that wraps gives a rate far out of range.
\<close>

subsection \<open>CSV\<close>

datatype csv_error = BareQuote | QuoteError

text \<open>
  One record from a line and the lines after it, with the lines that are left: fields without
  quotes end at a comma, quoted ones at a single quote and may continue on the next line.
\<close>

function (sequential) csv_line :: "string \<Rightarrow> string list \<Rightarrow> csv_error + (string list \<times> string list)"
    and csv_quoted :: "string \<Rightarrow> string list \<Rightarrow> string \<Rightarrow> csv_error + (string list \<times> string list)" where
  "csv_line l ls =
     (let line = TrimLeft l
      in if line \<noteq> [] \<and> hd line = CHR 0x22 then csv_quoted (tl line) ls []
      else
        let f = takeWhile (\<lambda>c. c \<noteq> CHR '','') line; r = drop (length f) line
        in if CHR 0x22 \<in> set f then Inl BareQuote
        else if r = [] then Inr ([f], ls)
        else case csv_line (tl r) ls of Inl e \<Rightarrow> Inl e | Inr (fs, rest) \<Rightarrow> Inr (f # fs, rest))"
| "csv_quoted [] [] acc = Inl QuoteError"
| "csv_quoted [] (l # ls) acc = csv_quoted l ls (acc @ [CHR 0x0A])"
| "csv_quoted (c # cs) ls acc =
     (if c \<noteq> CHR 0x22 then csv_quoted cs ls (acc @ [c])
      else if cs = [] then Inr ([acc], ls)
      else if hd cs = CHR 0x22 then csv_quoted (tl cs) ls (acc @ [CHR 0x22])
      else if hd cs = CHR '','' then
        (case csv_line (tl cs) ls of Inl e \<Rightarrow> Inl e | Inr (fs, rest) \<Rightarrow> Inr (acc # fs, rest))
      else Inl QuoteError)"
  by pat_completeness auto
termination
proof (relation "measure (\<lambda>x. case x of
      Inl (l, ls) \<Rightarrow> 2 * (length l + sum_list (map (\<lambda>l. Suc (length l)) ls)) + 1
    | Inr (l, ls, acc) \<Rightarrow> 2 * (length l + sum_list (map (\<lambda>l. Suc (length l)) ls)))", goal_cases)
  case (2 l ls line)
  then have "length line \<le> length l" by (simp add: TrimLeft_def length_dropWhile_le)
  with 2 show ?case by (cases line) auto
next
  case (3 l ls line f r)
  then have "length line \<le> length l" by (simp add: TrimLeft_def length_dropWhile_le)
  moreover have "length r \<le> length line" using 3 by simp
  ultimately show ?case using 3 by (cases r) auto
next
  case (6 c cs ls acc)
  then show ?case by (cases cs) auto
next
  case (7 c cs ls acc)
  then show ?case by (cases cs) auto
qed auto

declare csv_line.simps [simp del]

lemma csv_rest_shorter:
  "csv_line l ls = Inr (fs, rest) \<Longrightarrow> length rest \<le> length ls"
  "csv_quoted l ls acc = Inr (fs, rest) \<Longrightarrow> length rest \<le> length ls"
proof (induction l ls and l ls acc arbitrary: fs and fs rule: csv_line_csv_quoted.induct)
  case (1 l ls)
  then show ?case
    by (subst (asm) csv_line.simps) (auto simp: Let_def split: if_splits sum.splits)
next
  case (3 l ls acc)
  then show ?case by fastforce
next
  case (4 c cs ls acc)
  then show ?case by (auto split: if_splits sum.splits)
qed simp

text \<open>\<^verbatim>\<open>ReadAll\<close>: the records of all lines; empty lines are skipped.\<close>

function csv_records :: "string list \<Rightarrow> csv_error + string list list" where
  "csv_records [] = Inr []"
| "csv_records (l # ls) =
     (if l = [] then csv_records ls
      else case csv_line l ls of
        Inl e \<Rightarrow> Inl e
      | Inr (fs, rest) \<Rightarrow>
          (case csv_records rest of Inl e \<Rightarrow> Inl e | Inr rs \<Rightarrow> Inr (fs # rs)))"
  by pat_completeness auto
termination
  by (relation "measure length") (auto simp: less_Suc_eq_le dest: csv_rest_shorter)

definition csv_ReadAll :: "string \<Rightarrow> csv_error + string list list" where
  "csv_ReadAll data = csv_records (map drop_cr (Split data (CHR 0x0A)))"

subsection \<open>Disk counters\<close>

record DiskCounters =
  dc_Name :: string
  dc_RdQueueLen :: u64
  dc_WrQueueLen :: u64
  dc_RdOps :: u64
  dc_WrOps :: u64
  dc_Timestamp100ns :: u64

record DiskMetrics =
  dm_Name :: string
  dm_RdLatSec :: rat
  dm_WrLatSec :: rat
  dm_RdIOPS :: rat
  dm_WrIOPS :: rat
  dm_ElapsedSec :: rat

definition requiredColumns :: "string list" where
  "requiredColumns = [''name'', ''avgdiskreadqueuelength'', ''avgdiskwritequeuelength'', ''diskreadspersec'',
     ''diskwritespersec'', ''timestamp_sys100ns'']"

datatype wmi_error = CSVError csv_error | NoDataRows | MissingColumn string | BadNumber string | NoValidRows

definition column_map :: "string list \<Rightarrow> string \<Rightarrow> nat option" where
  "column_map header =
     fold (\<lambda>(i, name) m. m(ToLower (TrimSpace name) \<mapsto> i)) (enumerate 0 header) Map.empty"

text \<open>One row: None when it is skipped.\<close>

definition wmi_row :: "(string \<Rightarrow> nat) \<Rightarrow> string list \<Rightarrow> (wmi_error + DiskCounters) option" where
  "wmi_row col row =
     (let num = (\<lambda>c. ParseUint (TrimSpace (row ! col c)) 64);
          name = TrimSpace (row ! col ''name'')
      in if length row \<le> Max (set (map col requiredColumns)) then None
      else if name = [] \<or> EqualFold name ''_Total'' then None
      else Some (case num ''avgdiskreadqueuelength'' of None \<Rightarrow> Inl (BadNumber ''AvgDiskReadQueueLength'')
      | Some rdQ \<Rightarrow>
      (case num ''avgdiskwritequeuelength'' of None \<Rightarrow> Inl (BadNumber ''AvgDiskWriteQueueLength'')
      | Some wrQ \<Rightarrow>
      (case num ''diskreadspersec'' of None \<Rightarrow> Inl (BadNumber ''DiskReadsPerSec'')
      | Some rdOps \<Rightarrow>
      (case num ''diskwritespersec'' of None \<Rightarrow> Inl (BadNumber ''DiskWritesPerSec'')
      | Some wrOps \<Rightarrow>
      (case num ''timestamp_sys100ns'' of None \<Rightarrow> Inl (BadNumber ''Timestamp_Sys100NS'')
      | Some ts \<Rightarrow>
          Inr \<lparr>dc_Name = name, dc_RdQueueLen = of_nat rdQ, dc_WrQueueLen = of_nat wrQ,
            dc_RdOps = of_nat rdOps, dc_WrOps = of_nat wrOps, dc_Timestamp100ns = of_nat ts\<rparr>))))))"

fun wmi_rows :: "(string \<Rightarrow> nat) \<Rightarrow> string list list \<Rightarrow> wmi_error + DiskCounters list" where
  "wmi_rows col [] = Inr []"
| "wmi_rows col (row # rows) =
     (case wmi_row col row of
        None \<Rightarrow> wmi_rows col rows
      | Some (Inl e) \<Rightarrow> Inl e
      | Some (Inr d) \<Rightarrow> (case wmi_rows col rows of Inl e \<Rightarrow> Inl e | Inr ds \<Rightarrow> Inr (d # ds)))"

definition ParseWMICSV :: "string \<Rightarrow> wmi_error + DiskCounters list" where
  "ParseWMICSV data =
     (case csv_ReadAll (TrimSpace (replace_crlf data)) of
        Inl e \<Rightarrow> Inl (CSVError e)
      | Inr records \<Rightarrow>
          if length records < 2 then Inl NoDataRows
          else
            let colMap = column_map (hd records)
            in case find (\<lambda>req. colMap req = None) requiredColumns of
              Some req \<Rightarrow> Inl (MissingColumn req)
            | None \<Rightarrow>
                (case wmi_rows (\<lambda>c. the (colMap c)) (tl records) of
                   Inl e \<Rightarrow> Inl e
                 | Inr results \<Rightarrow> if results = [] then Inl NoValidRows else Inr results))"

definition zero_DiskMetrics :: "string \<Rightarrow> DiskMetrics" where
  "zero_DiskMetrics name = \<lparr>dm_Name = name, dm_RdLatSec = 0, dm_WrLatSec = 0, dm_RdIOPS = 0, dm_WrIOPS = 0, dm_ElapsedSec = 0\<rparr>"

definition ComputeMetrics :: "DiskCounters \<Rightarrow> DiskCounters \<Rightarrow> DiskMetrics" where
  "ComputeMetrics prev cur =
     (let m = zero_DiskMetrics (dc_Name cur)
      in if dc_Timestamp100ns cur \<le> dc_Timestamp100ns prev then m
      else
        let m = m\<lparr>dm_ElapsedSec := f64_div (f64_of_u64 (dc_Timestamp100ns cur - dc_Timestamp100ns prev)) 10000000\<rparr>;
            rdOps = dc_RdOps cur - dc_RdOps prev;
            m = (if 0 < rdOps then
                   m\<lparr>dm_RdLatSec := f64_div (f64_div (f64_of_u64 (dc_RdQueueLen cur - dc_RdQueueLen prev)) (f64_of_u64 rdOps)) 10000000,
                     dm_RdIOPS := f64_div (f64_of_u64 rdOps) (dm_ElapsedSec m)\<rparr>
                 else m);
            wrOps = dc_WrOps cur - dc_WrOps prev
        in if 0 < wrOps then
             m\<lparr>dm_WrLatSec := f64_div (f64_div (f64_of_u64 (dc_WrQueueLen cur - dc_WrQueueLen prev)) (f64_of_u64 wrOps)) 10000000,
               dm_WrIOPS := f64_div (f64_of_u64 wrOps) (dm_ElapsedSec m)\<rparr>
           else m)"

subsection \<open>Reading what PowerShell writes\<close>

text \<open>\<^verbatim>\<open>ConvertTo-Csv\<close>: every field in quotes, with quotes doubled; lines end in CR LF.\<close>

definition quote_char :: "char \<Rightarrow> string" where
  "quote_char c = (if c = CHR 0x22 then [c, c] else [c])"

definition quote :: "string \<Rightarrow> string" where
  "quote s = CHR 0x22 # concat (map quote_char s) @ [CHR 0x22]"

definition csv_row :: "string list \<Rightarrow> string" where
  "csv_row fs = join (CHR '','') (map quote fs)"

definition csv_print :: "string list list \<Rightarrow> string" where
  "csv_print rows = concat (map (\<lambda>r. csv_row r @ [CHR 0x0D, CHR 0x0A]) rows)"

definition one_line :: "string \<Rightarrow> bool" where
  "one_line s \<longleftrightarrow> CHR 0x0A \<notin> set s \<and> CHR 0x0D \<notin> set s"

lemma csv_quoted_body: "csv_quoted (concat (map quote_char s) @ r) ls acc = csv_quoted r ls (acc @ s)"
  by (induction s arbitrary: acc) (auto simp: quote_char_def)

lemma csv_line_quote: "csv_line (CHR 0x22 # r) ls = csv_quoted r ls []"
  by (subst csv_line.simps) (simp add: TrimLeft_def is_space_def)

lemma csv_line_row:
  assumes "fs \<noteq> []"
  shows "csv_line (csv_row fs) ls = Inr (fs, ls)"
  using assms
proof (induction fs)
  case (Cons f fs)
  show ?case
  proof (cases "fs = []")
    case True
    then show ?thesis by (simp add: csv_row_def quote_def csv_line_quote csv_quoted_body)
  next
    case False
    then have "csv_row (f # fs) = CHR 0x22 # concat (map quote_char f) @ CHR 0x22 # CHR '','' # csv_row fs"
      by (simp add: csv_row_def quote_def)
    with Cons False show ?thesis by (simp add: csv_line_quote csv_quoted_body)
  qed
qed simp

lemma csv_row_ends: "fs \<noteq> [] \<Longrightarrow> \<exists>t. csv_row fs = CHR 0x22 # t @ [CHR 0x22]"
proof (induction fs)
  case (Cons f fs)
  show ?case
  proof (cases "fs = []")
    case False
    then obtain t where "csv_row fs = CHR 0x22 # t @ [CHR 0x22]" using Cons by blast
    then have "csv_row (f # fs) = CHR 0x22 # (concat (map quote_char f) @ CHR 0x22 # CHR '','' # CHR 0x22 # t) @ [CHR 0x22]"
      using False by (simp add: csv_row_def quote_def)
    then show ?thesis by blast
  qed (auto simp: csv_row_def quote_def)
qed simp

lemma csv_row_one_line: "\<forall>f \<in> set fs. one_line f \<Longrightarrow> one_line (csv_row fs)"
  by (induction fs) (auto simp: csv_row_def quote_def quote_char_def one_line_def split: if_splits)

lemma csv_records_rows: "\<forall>r \<in> set rows. r \<noteq> [] \<Longrightarrow> csv_records (map csv_row rows) = Inr rows"
proof (induction rows)
  case (Cons r rows)
  then have "csv_row r \<noteq> []" using csv_row_ends [of r] by auto
  with Cons show ?case by (simp add: csv_line_row)
qed simp

lemma replace_crlf_line: "CHR 0x0D \<notin> set s \<Longrightarrow> replace_crlf (s @ CHR 0x0D # CHR 0x0A # t) = s @ CHR 0x0A # replace_crlf t"
proof (induction s)
  case (Cons a s)
  then show ?case by (cases s) auto
qed simp

lemma replace_crlf_print:
  assumes "\<forall>r \<in> set rows. one_line (csv_row r)"
  shows "replace_crlf (csv_print rows) = concat (map (\<lambda>r. csv_row r @ [CHR 0x0A]) rows)"
  using assms
proof (induction rows)
  case (Cons r rows)
  then show ?case
    using replace_crlf_line [of "csv_row r" "csv_print rows"] by (simp add: csv_print_def one_line_def)
qed (simp add: csv_print_def)

lemma concat_join: "ss \<noteq> [] \<Longrightarrow> concat (map (\<lambda>s. s @ [c]) ss) = join c ss @ [c]"
  by (induction ss) (auto split: if_splits)

lemma TrimSpace_ends:
  assumes "\<not> is_space a" and "\<not> is_space b" and "is_space c"
  shows "TrimSpace (a # s @ [b, c]) = a # s @ [b]" and "TrimSpace (a # s @ [b]) = a # s @ [b]"
  using assms by (simp_all add: TrimSpace_def)

lemma join_ends:
  assumes "rows \<noteq> []" and "\<forall>r \<in> set rows. \<exists>t. r = CHR 0x22 # t @ [CHR 0x22]"
  shows "\<exists>t. join c rows = CHR 0x22 # t @ [CHR 0x22]"
  using assms
proof (induction rows)
  case (Cons r rows)
  show ?case
  proof (cases "rows = []")
    case False
    then obtain t u where "join c rows = CHR 0x22 # t @ [CHR 0x22]" "r = CHR 0x22 # u @ [CHR 0x22]"
      using Cons by auto
    then have "join c (r # rows) = CHR 0x22 # (u @ CHR 0x22 # c # CHR 0x22 # t) @ [CHR 0x22]" using False by simp
    then show ?thesis by blast
  qed (use Cons in auto)
qed simp

lemma ReadAll_print:
  assumes "rows \<noteq> []" and "\<forall>r \<in> set rows. r \<noteq> [] \<and> (\<forall>f \<in> set r. one_line f)"
  shows "csv_ReadAll (TrimSpace (replace_crlf (csv_print rows))) = Inr rows"
proof -
  have one: "\<forall>r \<in> set rows. one_line (csv_row r)" using assms(2) csv_row_one_line by blast
  have ends: "\<forall>s \<in> set (map csv_row rows). \<exists>t. s = CHR 0x22 # t @ [CHR 0x22]"
    using assms(2) csv_row_ends by auto
  obtain t where t: "join (CHR 0x0A) (map csv_row rows) = CHR 0x22 # t @ [CHR 0x22]"
    using join_ends [OF _ ends] assms(1) by auto
  have "replace_crlf (csv_print rows) = join (CHR 0x0A) (map csv_row rows) @ [CHR 0x0A]"
    using replace_crlf_print [OF one] concat_join [of "map csv_row rows" "CHR 0x0A"] assms(1) by (simp add: o_def)
  then have trim: "TrimSpace (replace_crlf (csv_print rows)) = join (CHR 0x0A) (map csv_row rows)"
    using TrimSpace_ends(1) [of "CHR 0x22" "CHR 0x22" "CHR 0x0A" t] by (simp add: t is_space_def)
  have "\<forall>w \<in> set (map csv_row rows). CHR 0x0A \<notin> set w" using one by (auto simp: one_line_def)
  then have "Split (join (CHR 0x0A) (map csv_row rows)) (CHR 0x0A) = map csv_row rows"
    using assms(1) by (intro Split_join) auto
  moreover have "map drop_cr (map csv_row rows) = map csv_row rows"
    using ends by (intro map_idI) (fastforce simp: drop_cr_def)
  ultimately show ?thesis
    unfolding csv_ReadAll_def trim using csv_records_rows [of rows] assms(2) by metis
qed

definition wmi_header :: "string list" where
  "wmi_header = [''Name'', ''AvgDiskReadQueueLength'', ''AvgDiskWriteQueueLength'', ''DiskReadsPerSec'',
     ''DiskWritesPerSec'', ''Timestamp_Sys100NS'']"

definition counter_fields :: "DiskCounters \<Rightarrow> string list" where
  "counter_fields d = [dc_Name d, Itoa (unat (dc_RdQueueLen d)), Itoa (unat (dc_WrQueueLen d)), Itoa (unat (dc_RdOps d)),
     Itoa (unat (dc_WrOps d)), Itoa (unat (dc_Timestamp100ns d))]"

definition wmi_columns :: "string \<Rightarrow> nat option" where
  "wmi_columns = [''name'' \<mapsto> 0, ''avgdiskreadqueuelength'' \<mapsto> 1, ''avgdiskwritequeuelength'' \<mapsto> 2,
     ''diskreadspersec'' \<mapsto> 3, ''diskwritespersec'' \<mapsto> 4, ''timestamp_sys100ns'' \<mapsto> 5]"

lemma column_map_header: "column_map wmi_header = wmi_columns"
proof -
  have "map (\<lambda>n. ToLower (TrimSpace n)) wmi_header = [''name'', ''avgdiskreadqueuelength'', ''avgdiskwritequeuelength'',
      ''diskreadspersec'', ''diskwritespersec'', ''timestamp_sys100ns'']"
    by (simp add: wmi_header_def) code_simp
  then show ?thesis
    by (simp add: column_map_def wmi_header_def wmi_columns_def eval_nat_numeral)
qed

lemma columns_max: "Max (set (map (\<lambda>c. the (wmi_columns c)) requiredColumns)) = 5"
  by (simp add: requiredColumns_def wmi_columns_def)

definition disk_name :: "string \<Rightarrow> bool" where
  "disk_name s \<longleftrightarrow> one_line s \<and> TrimSpace s = s \<and> s \<noteq> [] \<and> \<not> EqualFold s ''_Total''"

lemma ParseUint_u64 [simp]: "ParseUint (Itoa (unat (w :: u64))) 64 = Some (unat w)"
  using unsigned_less [of w] by (intro ParseUint_Itoa) simp

lemma wmi_row_counter:
  "disk_name (dc_Name d) \<Longrightarrow> wmi_row (\<lambda>c. the (wmi_columns c)) (counter_fields d) = Some (Inr d)"
  unfolding wmi_row_def columns_max by (simp add: counter_fields_def wmi_columns_def disk_name_def Let_def)

lemma wmi_row_total:
  "EqualFold (TrimSpace (dc_Name d)) ''_Total'' \<Longrightarrow> wmi_row (\<lambda>c. the (wmi_columns c)) (counter_fields d) = None"
  unfolding wmi_row_def columns_max by (simp add: counter_fields_def wmi_columns_def Let_def)

lemma wmi_rows_counters:
  assumes "\<forall>d \<in> set ds. disk_name (dc_Name d)" and "EqualFold (TrimSpace (dc_Name tot)) ''_Total''"
  shows "wmi_rows (\<lambda>c. the (wmi_columns c)) (map counter_fields ds @ [counter_fields tot]) = Inr ds"
  using assms by (induction ds) (simp_all add: wmi_row_counter wmi_row_total)

lemma one_line_Itoa [simp]: "one_line (Itoa n)"
  using Itoa_digits [of n] by (auto simp: one_line_def)

lemma ParseWMICSV_print:
  assumes "ds \<noteq> []" and "\<forall>d \<in> set ds. disk_name (dc_Name d)"
    and "one_line (dc_Name tot)" and "EqualFold (TrimSpace (dc_Name tot)) ''_Total''"
  shows "ParseWMICSV (csv_print (wmi_header # map counter_fields ds @ [counter_fields tot])) = Inr ds"
proof -
  let ?rows = "wmi_header # map counter_fields ds @ [counter_fields tot]"
  have "\<forall>f \<in> set wmi_header. one_line f" by (simp add: wmi_header_def one_line_def)
  moreover have "\<forall>d \<in> set (ds @ [tot]). \<forall>f \<in> set (counter_fields d). one_line f"
    using assms(2,3) by (auto simp: counter_fields_def disk_name_def)
  ultimately have "\<forall>r \<in> set ?rows. r \<noteq> [] \<and> (\<forall>f \<in> set r. one_line f)"
    by (auto simp: wmi_header_def counter_fields_def)
  then have r: "csv_ReadAll (TrimSpace (replace_crlf (csv_print ?rows))) = Inr ?rows" by (intro ReadAll_print) simp_all
  have "find (\<lambda>req. wmi_columns req = None) requiredColumns = None"
    by (simp add: requiredColumns_def wmi_columns_def)
  then show ?thesis
    using wmi_rows_counters [OF assms(2,4)] assms(1)
    by (simp add: ParseWMICSV_def r column_map_header Let_def)
qed

text \<open>
  C14: Round trip of the guest's counters. What PowerShell prints for a list of disks, quoted, with
  Windows line ends and a final total row, is parsed to exactly those disks with all their
  64-bit counters.
\<close>

theorem wmi_roundtrip:
  assumes "ds \<noteq> []" and "\<forall>d \<in> set ds. disk_name (dc_Name d)"
    and "one_line (dc_Name tot)" and "EqualFold (TrimSpace (dc_Name tot)) ''_Total''"
  shows "ParseWMICSV (csv_print (wmi_header # map counter_fields ds @ [counter_fields tot])) = Inr ds"
  using assms by (rule ParseWMICSV_print)

definition ex_disk :: "string \<Rightarrow> DiskCounters" where
  "ex_disk name = \<lparr>dc_Name = name, dc_RdQueueLen = 336223056, dc_WrQueueLen = 161462865009, dc_RdOps = 42946,
     dc_WrOps = 752955, dc_Timestamp100ns = 134280977011680000\<rparr>"

lemma ex_names: "disk_name ''0 C:''" "one_line ''_Total''" "EqualFold (TrimSpace ''_Total'') ''_Total''"
proof -
  have "TrimSpace ''0 C:'' = ''0 C:''" "\<not> EqualFold ''0 C:'' ''_Total''" by code_simp+
  then show "disk_name ''0 C:''" by (simp add: disk_name_def one_line_def)
  show "one_line ''_Total''" by (simp add: one_line_def)
  show "EqualFold (TrimSpace ''_Total'') ''_Total''" by code_simp
qed

theorem wmi_roundtrip_witness:
  "ParseWMICSV (csv_print (wmi_header # map counter_fields [ex_disk ''0 C:''] @ [counter_fields (ex_disk ''_Total'')]))
   = Inr [ex_disk ''0 C:'']"
  by (rule wmi_roundtrip) (simp_all add: ex_disk_def ex_names)

subsection \<open>Latency and rate\<close>

lemma unat_diff_le: "(a :: u64) \<le> b \<Longrightarrow> unat (b - a) = unat b - unat a"
  by (rule unat_sub)

text \<open>
  C27: Little's law. Between two snapshots of counters that did not wrap, with differences that a
  \<^verbatim>\<open>float64\<close> represents, the reported read and write latencies are the accumulated queue time
  per operation in seconds, within a relative error of \<^verbatim>\<open>2^-51\<close>.
\<close>

theorem latency_littles_law:
  assumes "dc_Timestamp100ns prev < dc_Timestamp100ns cur"
    and "dc_RdOps prev < dc_RdOps cur" and "dc_RdQueueLen prev \<le> dc_RdQueueLen cur"
    and "dc_WrOps prev < dc_WrOps cur" and "dc_WrQueueLen prev \<le> dc_WrQueueLen cur"
    and "unat (dc_RdOps cur) < 2 ^ 53" and "unat (dc_RdQueueLen cur) - unat (dc_RdQueueLen prev) < 2 ^ 53"
    and "unat (dc_WrOps cur) < 2 ^ 53" and "unat (dc_WrQueueLen cur) - unat (dc_WrQueueLen prev) < 2 ^ 53"
    and "rd = of_nat (unat (dc_RdQueueLen cur) - unat (dc_RdQueueLen prev)) /
      of_nat (unat (dc_RdOps cur) - unat (dc_RdOps prev)) / 10000000"
    and "wr = of_nat (unat (dc_WrQueueLen cur) - unat (dc_WrQueueLen prev)) /
      of_nat (unat (dc_WrOps cur) - unat (dc_WrOps prev)) / 10000000"
  shows "\<bar>dm_RdLatSec (ComputeMetrics prev cur) - rd\<bar> \<le> rd / 2 ^ 51 \<and>
    \<bar>dm_WrLatSec (ComputeMetrics prev cur) - wr\<bar> \<le> wr / 2 ^ 51"
proof -
  have lat: "\<bar>f64_div (f64_div (f64_of_u64 (q' - q)) (f64_of_u64 (n' - n))) 10000000 - l\<bar> \<le> l / 2 ^ 51"
    if "n < n'" "q \<le> q'" "unat n' < 2 ^ 53" "unat q' - unat q < 2 ^ 53"
      "l = of_nat (unat q' - unat q) / of_nat (unat n' - unat n) / 10000000" for n n' q q' :: u64 and l
  proof -
    define N Q where "N = unat n' - unat n" and "Q = unat q' - unat q"
    have "0 < N" using that(1) by (simp add: N_def word_less_nat_alt)
    moreover have "N < 2 ^ 53" using that(3) by (simp add: N_def)
    then have "f64_of_u64 (n' - n) = of_nat N"
      using that(1) f64_of_nat [of N] by (simp only: f64_of_u64_def unat_diff_le [OF less_imp_le [OF that(1)]] N_def)
    moreover have "f64_of_u64 (q' - q) = of_nat Q"
      using that(4) f64_of_nat [of Q] by (simp only: f64_of_u64_def unat_diff_le [OF that(2)] Q_def)
    ultimately show ?thesis
      unfolding that(5) N_def [symmetric] Q_def [symmetric]
      using f64_div2_error [of "of_nat Q" "of_nat N" 10000000] by simp
  qed
  have "dm_RdLatSec (ComputeMetrics prev cur) =
      f64_div (f64_div (f64_of_u64 (dc_RdQueueLen cur - dc_RdQueueLen prev)) (f64_of_u64 (dc_RdOps cur - dc_RdOps prev))) 10000000"
    "dm_WrLatSec (ComputeMetrics prev cur) =
      f64_div (f64_div (f64_of_u64 (dc_WrQueueLen cur - dc_WrQueueLen prev)) (f64_of_u64 (dc_WrOps cur - dc_WrOps prev))) 10000000"
    using assms(1,2,4) by (auto simp: ComputeMetrics_def Let_def not_le word_neq_0_conv [symmetric])
  then show ?thesis using lat [OF assms(2,3,6,7,10)] lat [OF assms(4,5,8,9,11)] by simp
qed

theorem latency_littles_law_witness:
  "\<bar>dm_RdLatSec (ComputeMetrics (ex_disk ''0 C:'') ((ex_disk ''0 C:'')\<lparr>dc_RdOps := 42956, dc_RdQueueLen := 336323056,
      dc_WrOps := 752956, dc_WrQueueLen := 161462965009, dc_Timestamp100ns := 134280977021680000\<rparr>)) - 1 / 1000\<bar> \<le> 1 / 1000 / 2 ^ 51"
  using latency_littles_law [of "ex_disk ''0 C:''" "(ex_disk ''0 C:'')\<lparr>dc_RdOps := 42956, dc_RdQueueLen := 336323056,
      dc_WrOps := 752956, dc_WrQueueLen := 161462965009, dc_Timestamp100ns := 134280977021680000\<rparr>" "1 / 1000" "1 / 100"]
  by (simp add: ex_disk_def)

text \<open>
  C30: Counter wrap. The operation counters of the guest have 32 bits. When one wraps around between
  two snapshots, the difference is taken on 64 bits, and the reported rate exceeds 10^14
  operations per second for any polling interval up to an hour.
\<close>

theorem ops_wrap_rate:
  assumes "dc_RdOps cur < dc_RdOps prev" and "unat (dc_RdOps prev) < 2 ^ 32"
    and "dc_Timestamp100ns prev < dc_Timestamp100ns cur"
    and "unat (dc_Timestamp100ns cur) - unat (dc_Timestamp100ns prev) \<le> 36000000000"
  shows "10 ^ 14 < dm_RdIOPS (ComputeMetrics prev cur)"
proof -
  define n where "n = dc_RdOps cur - dc_RdOps prev"
  define T where "T = dc_Timestamp100ns cur - dc_Timestamp100ns prev"
  have T: "unat T = unat (dc_Timestamp100ns cur) - unat (dc_Timestamp100ns prev)"
    unfolding T_def using assms(3) by (intro unat_diff_le less_imp_le)
  have T0: "0 < unat T" "unat T \<le> 36000000000" using assms(3,4) T by (simp_all add: word_less_nat_alt)
  have "unat n = 2 ^ 64 + unat (dc_RdOps cur) - unat (dc_RdOps prev)"
    using assms(1) by (simp add: n_def unat_sub_if' word_less_nat_alt)
  then have n: "2 ^ 63 \<le> unat n" using assms(2) by simp
  then have "n \<noteq> 0" by auto
  define e where "e = f64_div (f64_of_u64 T) 10000000"
  have "f64_of_u64 T = of_nat (unat T)"
    unfolding f64_of_u64_def using T0(2) by (intro f64_of_nat) simp
  then have e: "e = f64 (of_nat (unat T) / 10000000)" by (simp add: e_def f64_div_def)
  obtain t where t: "unat T = t" by simp
  have d: "0 < (of_nat (unat T) / 10000000 :: rat)" "(of_nat (unat T) / 10000000 :: rat) \<le> 3600"
    using T0 unfolding t by (simp_all add: divide_le_eq)
  have e0: "0 < e" "e \<le> 7200"
    using f64_bounds [OF less_imp_le [OF d(1)]] d unfolding e [symmetric] by linarith+
  have "(2 ^ 63 :: rat) \<le> of_nat (unat n)" using n by (metis of_nat_le_iff of_nat_numeral of_nat_power)
  then have "(2 ^ 63 :: rat) / 2 \<le> of_nat (unat n) / 2" by (intro divide_right_mono) simp_all
  also have "\<dots> \<le> f64_of_u64 n" unfolding f64_of_u64_def by (intro f64_bounds(1) of_nat_0_le_iff)
  finally have f: "(2 ^ 62 :: rat) \<le> f64_of_u64 n" by simp
  have q: "(2 ^ 62 :: rat) / 7200 \<le> f64_of_u64 n / e"
    using f e0 by (intro frac_le) simp_all
  have "dm_RdIOPS (ComputeMetrics prev cur) = f64 (f64_of_u64 n / e)"
    using assms(3) [folded not_le] \<open>n \<noteq> 0\<close> unfolding e_def
    by (simp add: ComputeMetrics_def Let_def n_def [symmetric] T_def [symmetric] word_neq_0_conv [symmetric] f64_div_def)
  moreover have "f64_of_u64 n / e / 2 \<le> f64 (f64_of_u64 n / e)"
    by (intro f64_bounds(1) order_trans [OF _ q]) simp
  moreover have "(10 ^ 14 :: rat) < 2 ^ 62 / 7200 / 2" by simp
  moreover have "(2 ^ 62 :: rat) / 7200 / 2 \<le> f64_of_u64 n / e / 2" using q by (rule divide_right_mono) simp
  ultimately show ?thesis by (metis less_le_trans order_trans)
qed

definition ex_wrap :: "u64 \<Rightarrow> u64 \<Rightarrow> DiskCounters" where
  "ex_wrap n ts = (ex_disk ''0 C:'')\<lparr>dc_RdOps := n, dc_Timestamp100ns := ts\<rparr>"

theorem ops_wrap_rate_witness:
  "10 ^ 14 < dm_RdIOPS (ComputeMetrics (ex_wrap 4294967290 100) (ex_wrap 4 600000100))"
  using ops_wrap_rate [of "ex_wrap 4 600000100" "ex_wrap 4294967290 100"] by (simp add: ex_wrap_def)

end
