(* ===== verification/QgaClient.thy ===== *)
theory QgaClient
  imports QgaCounters
begin

text \<open>
  \<^verbatim>\<open>pkg/qga/client.go\<close>: running a process in the guest through the QEMU guest agent and
  waiting for it, and the collection of the counters. What the agent answers and the decoding
  of its answers from JSON and base64 are arguments.
\<close>

subsection \<open>The guest agent\<close>

datatype qga_error =
    Blacklisted | CommandFailed string | BadAnswer | PidZero | DecodeError | OutputTruncated
  | DidNotExit | ExitedWith int | NoOutput | BadCounters wmi_error

definition isBlacklistError :: "string \<Rightarrow> bool" where
  "isBlacklistError msg \<longleftrightarrow> Contains msg ''has been disabled'' \<and> Contains msg ''the command is not allowed''"

definition agent_error :: "string \<Rightarrow> qga_error" where
  "agent_error msg = (if isBlacklistError msg then Blacklisted else CommandFailed msg)"

record ExecResult =
  er_Exited :: bool
  er_ExitCode :: int
  er_Signal :: int
  er_Stdout :: string
  er_Stderr :: string
  er_OutTruncated :: bool
  er_ErrTruncated :: bool

record execStatusResponse =
  es_Exited :: bool
  es_ExitCode :: "int option"
  es_Signal :: "int option"
  es_OutData :: string
  es_ErrData :: string
  es_OutTruncated :: bool
  es_ErrTruncated :: bool

text \<open>
  What the agent answers to a command, or its error message, with the decoders of the answers;
  the status of a process is asked for several times, so it depends on the attempt.
\<close>

record agent =
  ag_exec :: "string + string"
  ag_status :: "int \<Rightarrow> nat \<Rightarrow> string + string"
  ag_disks :: "string + string"
  dec_exec :: "string \<Rightarrow> int option"
  dec_status :: "string \<Rightarrow> execStatusResponse option"
  dec_base64 :: "string \<Rightarrow> string option"

definition GuestExec :: "agent \<Rightarrow> qga_error + int" where
  "GuestExec ag =
     (case ag_exec ag of
        Inl msg \<Rightarrow> Inl (agent_error msg)
      | Inr result \<Rightarrow>
          (case dec_exec ag result of
             None \<Rightarrow> Inl BadAnswer
           | Some pid \<Rightarrow> if pid = 0 then Inl PidZero else Inr pid))"

definition decode_data :: "agent \<Rightarrow> string \<Rightarrow> string option" where
  "decode_data ag s = (if s = [] then Some [] else dec_base64 ag s)"

definition GuestExecStatus :: "agent \<Rightarrow> int \<Rightarrow> nat \<Rightarrow> qga_error + ExecResult" where
  "GuestExecStatus ag pid attempt =
     (case ag_status ag pid attempt of
        Inl msg \<Rightarrow> Inl (agent_error msg)
      | Inr result \<Rightarrow>
          (case dec_status ag result of
             None \<Rightarrow> Inl BadAnswer
           | Some resp \<Rightarrow>
               (case decode_data ag (es_OutData resp) of
                  None \<Rightarrow> Inl DecodeError
                | Some out \<Rightarrow>
                    (case decode_data ag (es_ErrData resp) of
                       None \<Rightarrow> Inl DecodeError
                     | Some err \<Rightarrow>
                         Inr \<lparr>er_Exited = es_Exited resp,
                           er_ExitCode = (case es_ExitCode resp of Some c \<Rightarrow> c | None \<Rightarrow> 0),
                           er_Signal = (case es_Signal resp of Some c \<Rightarrow> c | None \<Rightarrow> 0),
                           er_Stdout = out, er_Stderr = err,
                           er_OutTruncated = es_OutTruncated resp, er_ErrTruncated = es_ErrTruncated resp\<rparr>))))"

definition maxAttempts :: nat where
  "maxAttempts = 6"

function exec_wait :: "agent \<Rightarrow> int \<Rightarrow> nat \<Rightarrow> qga_error + ExecResult" where
  "exec_wait ag pid attempt =
     (if attempt < maxAttempts then
        case GuestExecStatus ag pid attempt of
          Inl e \<Rightarrow> Inl e
        | Inr result \<Rightarrow>
            if er_Exited result then (if er_OutTruncated result then Inl OutputTruncated else Inr result)
            else exec_wait ag pid (attempt + 1)
      else Inl DidNotExit)"
  by pat_completeness auto
termination by (relation "measure (\<lambda>(ag, pid, attempt). maxAttempts - attempt)") auto

declare exec_wait.simps [simp del]

definition GuestExecWait :: "agent \<Rightarrow> int \<Rightarrow> qga_error + ExecResult" where
  "GuestExecWait ag pid = exec_wait ag pid 0"

definition CollectDiskCounters :: "agent \<Rightarrow> qga_error + DiskCounters list" where
  "CollectDiskCounters ag =
     (case GuestExec ag of
        Inl e \<Rightarrow> Inl e
      | Inr pid \<Rightarrow>
          (case GuestExecWait ag pid of
             Inl e \<Rightarrow> Inl e
           | Inr result \<Rightarrow>
               if er_ExitCode result \<noteq> 0 then Inl (ExitedWith (er_ExitCode result))
               else if er_Stdout result = [] then Inl NoOutput
               else case ParseWMICSV (er_Stdout result) of Inl e \<Rightarrow> Inl (BadCounters e) | Inr cs \<Rightarrow> Inr cs))"

subsection \<open>The wait loop\<close>

text \<open>An attempt that ends the loop: an error, or a process that has exited.\<close>

definition wait_ends :: "qga_error + ExecResult \<Rightarrow> bool" where
  "wait_ends r \<longleftrightarrow> (case r of Inl _ \<Rightarrow> True | Inr res \<Rightarrow> er_Exited res)"

definition wait_result :: "qga_error + ExecResult \<Rightarrow> qga_error + ExecResult" where
  "wait_result r = (case r of Inl e \<Rightarrow> Inl e | Inr res \<Rightarrow> if er_OutTruncated res then Inl OutputTruncated else Inr res)"

lemma exec_wait_find:
  "exec_wait ag pid a =
     (case find (\<lambda>i. wait_ends (GuestExecStatus ag pid i)) [a..<maxAttempts] of
        Some i \<Rightarrow> wait_result (GuestExecStatus ag pid i)
      | None \<Rightarrow> Inl DidNotExit)"
proof (induction ag pid a rule: exec_wait.induct)
  case (1 ag pid a)
  show ?case
  proof (cases "a < maxAttempts")
    case True
    with 1 show ?thesis
      by (subst exec_wait.simps)
        (auto simp: upt_conv_Cons wait_ends_def wait_result_def split: sum.split)
  qed (simp add: exec_wait.simps [of ag pid a])
qed

text \<open>
  C28: Termination of the wait for a guest process. Whatever the agent answers, the loop ends: with
  the answer of the first of at most six attempts that reports an error or an exited process,
  and with an error of its own when there is none. No seventh attempt is made.
\<close>

theorem exec_wait_terminates:
  "GuestExecWait ag pid =
     (case find (\<lambda>i. wait_ends (GuestExecStatus ag pid i)) [0, 1, 2, 3, 4, 5] of
        Some i \<Rightarrow> wait_result (GuestExecStatus ag pid i)
      | None \<Rightarrow> Inl DidNotExit)"
proof -
  have "[0..<maxAttempts] = [0, 1, 2, 3, 4, 5]" by (simp add: maxAttempts_def upt_rec)
  then show ?thesis by (simp add: GuestExecWait_def exec_wait_find)
qed

end
