(* ===== verification/QgaDiskMap.thy ===== *)
theory QgaDiskMap
  imports QgaClient QmpTypes
begin

text \<open>
  \<^verbatim>\<open>GuestGetDisks\<close> and \<^verbatim>\<open>pkg/qga/diskmap.go\<close>: the disks the guest reports and their mapping to the volumes of the domain,
  by location and then by serial number. A drive is mapped only to a volume of a disk that
  matches it, and a virtio disk is mapped to its volume.
\<close>

subsection \<open>Guest disks\<close>

record GuestDisk =
  gd_Name :: string
  gd_DriveIndex :: int
  gd_Serial :: string
  gd_Location :: DiskLocation

record guestDiskAddress =
  ga_BusType :: string
  ga_Serial :: string
  ga_PCIController :: "PCIAddr option"
  ga_Bus :: int
  ga_Target :: int
  ga_Unit :: int

record guestDiskEntry =
  ge_Name :: string
  ge_Address :: "guestDiskAddress option"

definition parsePhysicalDriveIndex :: "string \<Rightarrow> int option" where
  "parsePhysicalDriveIndex name =
     (case LastIndex name ''PhysicalDrive'' of
        None \<Rightarrow> None
      | Some idx \<Rightarrow> Atoi (drop (idx + length ''PhysicalDrive'') name))"

definition guest_disk :: "guestDiskEntry \<Rightarrow> GuestDisk option" where
  "guest_disk e =
     (case ge_Address e of
        None \<Rightarrow> None
      | Some a \<Rightarrow>
          (case ga_PCIController a of
             None \<Rightarrow> None
           | Some pci \<Rightarrow>
               (case parsePhysicalDriveIndex (ge_Name e) of
                  None \<Rightarrow> None
                | Some idx \<Rightarrow>
                    Some \<lparr>gd_Name = ge_Name e, gd_DriveIndex = idx, gd_Serial = ga_Serial a,
                      gd_Location = \<lparr>dl_Controller = pci, dl_Bus = ga_Bus a, dl_Target = ga_Target a, dl_Unit = ga_Unit a\<rparr>\<rparr>)))"

definition parseGuestGetDisks :: "(string \<Rightarrow> guestDiskEntry list option) \<Rightarrow> string \<Rightarrow> qga_error + GuestDisk list" where
  "parseGuestGetDisks unmarshal data =
     (case unmarshal data of
        None \<Rightarrow> Inl BadAnswer
      | Some entries \<Rightarrow> Inr (List.map_filter guest_disk entries))"

definition GuestGetDisks :: "agent \<Rightarrow> (string \<Rightarrow> guestDiskEntry list option) \<Rightarrow> qga_error + GuestDisk list" where
  "GuestGetDisks ag unmarshal =
     (case ag_disks ag of
        Inl msg \<Rightarrow> Inl (agent_error msg)
      | Inr result \<Rightarrow> parseGuestGetDisks unmarshal result)"

definition ParseDiskIndex :: "string \<Rightarrow> int option" where
  "ParseDiskIndex name = Atoi (SplitN2 (TrimSpace name) (CHR '' '') ! 0)"

definition map_by_location :: "(DiskLocation \<Rightarrow> string option) \<Rightarrow> GuestDisk \<Rightarrow> (int \<Rightarrow> string option) \<Rightarrow> int \<Rightarrow> string option" where
  "map_by_location hostMap gd result =
     (case hostMap (gd_Location gd) of
        Some volName \<Rightarrow> result(gd_DriveIndex gd \<mapsto> volName)
      | None \<Rightarrow> result)"

definition map_by_serial :: "(string \<Rightarrow> string option) \<Rightarrow> GuestDisk \<Rightarrow> (int \<Rightarrow> string option) \<Rightarrow> int \<Rightarrow> string option" where
  "map_by_serial serialMap gd result =
     (if result (gd_DriveIndex gd) \<noteq> None then result
      else if gd_Serial gd = [] then result
      else case serialMap (gd_Serial gd) of
        Some volName \<Rightarrow> result(gd_DriveIndex gd \<mapsto> volName)
      | None \<Rightarrow> result)"

definition BuildDiskMapping :: "(string \<Rightarrow> xmlDomain option) \<Rightarrow> string \<Rightarrow> GuestDisk list \<Rightarrow> (int \<Rightarrow> string option) option" where
  "BuildDiskMapping unmarshal domainXML guestDisks =
     (case ParseDiskLocations unmarshal domainXML of
        None \<Rightarrow> None
      | Some hostMap \<Rightarrow>
          let result = fold (map_by_location hostMap) guestDisks Map.empty
          in case ParseDiskSerials unmarshal domainXML of
            None \<Rightarrow> Some result
          | Some serialMap \<Rightarrow>
              if serialMap \<noteq> Map.empty then Some (fold (map_by_serial serialMap) guestDisks result)
              else Some result)"

subsection \<open>Drives and volumes\<close>

lemma map_by_location_eq:
  "map_by_location hostMap gd m =
     (case map_option (Pair (gd_DriveIndex gd)) (hostMap (gd_Location gd)) of None \<Rightarrow> m | Some (k, v) \<Rightarrow> m(k \<mapsto> v))"
  by (simp add: map_by_location_def split: option.split)

lemma fold_map_by_serial:
  "fold (map_by_serial sm) gds m i = Some v \<Longrightarrow>
     m i = Some v \<or> m i = None \<and> (\<exists>gd \<in> set gds. gd_DriveIndex gd = i \<and> gd_Serial gd \<noteq> [] \<and> sm (gd_Serial gd) = Some v)"
  by (induction gds arbitrary: m) (fastforce simp: map_by_serial_def split: if_splits option.splits)+

lemma map_by_serial_keeps: "m i = Some v \<Longrightarrow> map_by_serial sm gd m i = Some v"
  by (cases "gd_DriveIndex gd = i") (auto simp: map_by_serial_def split: option.splits)

lemma fold_map_by_serial_keeps: "m i = Some v \<Longrightarrow> fold (map_by_serial sm) gds m i = Some v"
  by (induction gds arbitrary: m) (simp_all add: map_by_serial_keeps)

lemma map_of_rev_filter:
  "map_of (rev (List.map_filter f xs)) k = Some v \<Longrightarrow> \<exists>x \<in> set xs. f x = Some (k, v)"
  by (drule map_of_SomeD) (auto simp: map_filter_def)

lemma serials_sound:
  assumes "ParseDiskSerials unmarshal x = Some sm" and "sm s = Some v"
  shows "\<exists>xdom d. unmarshal x = Some xdom \<and> d \<in> set (xm_Disks xdom) \<and> xd_Serial d = s \<and> volume_of d = Some v"
proof -
  have eq: "add_serial d m = (case (if xd_Device d \<noteq> ''disk'' \<or> xd_Serial d = [] then None
      else map_option (Pair (xd_Serial d)) (volume_of d)) of None \<Rightarrow> m | Some (k, v) \<Rightarrow> m(k \<mapsto> v))" for d m
    by (simp add: add_serial_def split: option.split)
  obtain xdom where x: "unmarshal x = Some xdom" "sm = fold add_serial (xm_Disks xdom) Map.empty"
    using assms(1) by (auto simp: ParseDiskSerials_def split: option.splits)
  then have "\<exists>d \<in> set (xm_Disks xdom). (if xd_Device d \<noteq> ''disk'' \<or> xd_Serial d = [] then None
      else map_option (Pair (xd_Serial d)) (volume_of d)) = Some (s, v)"
    using assms(2) by (intro map_of_rev_filter) (simp add: fold_map_filter [OF eq])
  then show ?thesis using x(1) by (auto split: if_splits)
qed

lemma disk_location_volume: "disk_location ctrls d = Some (l, v) \<Longrightarrow> volume_of d = Some v"
  by (auto simp: disk_location_def split: if_splits option.splits)

text \<open>
  Attribution of guest drives is sound. A drive is mapped to a volume only if the domain has a
  disk with the alias of that volume that is at the location the guest reports for the
  drive, or has the serial number the guest reports.
\<close>

theorem disk_mapping_sound:
  assumes "BuildDiskMapping unmarshal x gds = Some m" and "m idx = Some vol"
  shows "\<exists>gd \<in> set gds. \<exists>xdom d. gd_DriveIndex gd = idx \<and> unmarshal x = Some xdom \<and> d \<in> set (xm_Disks xdom) \<and>
    xd_AliasName d = ''ua-'' @ vol \<and>
    (disk_location (controllerPCI (xm_Controllers xdom)) d = Some (gd_Location gd, vol) \<or>
     gd_Serial gd \<noteq> [] \<and> xd_Serial d = gd_Serial gd)"
proof -
  obtain xdom where x: "unmarshal x = Some xdom"
    using assms(1) by (auto simp: BuildDiskMapping_def ParseDiskLocations_eq split: option.splits)
  define hm where "hm = map_of (rev (List.map_filter (disk_location (controllerPCI (xm_Controllers xdom))) (xm_Disks xdom)))"
  define r where "r = fold (map_by_location hm) gds Map.empty"
  have r: "r = map_of (rev (List.map_filter (\<lambda>gd. map_option (Pair (gd_DriveIndex gd)) (hm (gd_Location gd))) gds))"
    by (simp add: r_def fold_map_filter [OF map_by_location_eq])
  have loc: "?thesis" if "r idx = Some vol"
  proof -
    from map_of_rev_filter [OF that [unfolded r]] obtain gd where gd: "gd \<in> set gds" "gd_DriveIndex gd = idx"
        "hm (gd_Location gd) = Some vol" by auto
    from map_of_rev_filter [OF gd(3) [unfolded hm_def]] obtain d where d: "d \<in> set (xm_Disks xdom)"
        "disk_location (controllerPCI (xm_Controllers xdom)) d = Some (gd_Location gd, vol)" by auto
    then show ?thesis using gd x disk_location_volume [OF d(2)] volume_of_alias by blast
  qed
  have hl: "ParseDiskLocations unmarshal x = Some hm" by (simp add: ParseDiskLocations_eq x hm_def)
  show ?thesis
  proof (cases "r idx = Some vol")
    case False
    with assms obtain sm where sm: "ParseDiskSerials unmarshal x = Some sm" "m = fold (map_by_serial sm) gds r"
      unfolding BuildDiskMapping_def hl by (auto simp: r_def [symmetric] split: option.splits if_splits)
    then obtain gd where gd: "gd \<in> set gds" "gd_DriveIndex gd = idx" "gd_Serial gd \<noteq> []" "sm (gd_Serial gd) = Some vol"
      using fold_map_by_serial [of sm gds r idx vol] assms(2) False by auto
    from serials_sound [OF sm(1) gd(4)] obtain d where "d \<in> set (xm_Disks xdom)" "xd_Serial d = gd_Serial gd" "volume_of d = Some vol"
      using x by auto
    then show ?thesis using gd x volume_of_alias by blast
  qed (rule loc)
qed

definition ex_pci :: PCIAddr where
  "ex_pci = \<lparr>pci_Domain = 0, pci_Bus = 7, pci_Slot = 26, pci_Function = 0\<rparr>"

definition ex_dom :: xmlDomain where
  "ex_dom = \<lparr>xm_Disks = [\<lparr>xd_Device = ''disk'', xd_Serial = [], xd_TargetBus = ''virtio'', xd_AliasName = ''ua-rootdisk'',
      xd_Address = pci_xml ex_pci 1\<rparr>], xm_Controllers = []\<rparr>"

definition ex_entry :: guestDiskEntry where
  "ex_entry = \<lparr>ge_Name = ''PhysicalDrive'' @ Itoa 0, ge_Address = Some \<lparr>ga_BusType = ''virtio'', ga_Serial = [],
      ga_PCIController = Some ex_pci, ga_Bus = 0, ga_Target = 0, ga_Unit = 0\<rparr>\<rparr>"

lemma ex_pci_valid: "pci_valid ex_pci"
  by (simp add: pci_valid_def ex_pci_def)

lemma ex_volume: "volume_of (hd (xm_Disks ex_dom)) = Some ''rootdisk''"
  by (simp add: ex_dom_def volume_of_alias)

lemma ex_location:
  "disk_location ctrls (hd (xm_Disks ex_dom)) =
     Some (\<lparr>dl_Controller = ex_pci, dl_Bus = 0, dl_Target = 0, dl_Unit = 0\<rparr>, ''rootdisk'')"
proof -
  have "xa_Type (pci_xml ex_pci 1) = ''pci''" by (simp add: pci_xml_def Let_def)
  moreover have "xd_Address (hd (xm_Disks ex_dom)) = pci_xml ex_pci 1" "xd_Device (hd (xm_Disks ex_dom)) = ''disk''"
    by (simp_all add: ex_dom_def)
  ultimately show ?thesis using parseHexAddr_print [OF ex_pci_valid, of 1] ex_volume
    by (simp add: disk_location_def)
qed

lemma ex_disks: "xm_Disks ex_dom = [hd (xm_Disks ex_dom)]"
  by (simp add: ex_dom_def)

text \<open>The name Windows gives a drive.\<close>

lemma LastIndex_None: "sub \<noteq> [] \<Longrightarrow> hd sub \<notin> set s \<Longrightarrow> LastIndex s sub = None"
  by (induction s) (auto simp: HasPrefix_def neq_Nil_conv split: option.split)

lemma LastIndex_append:
  assumes "hd sub \<notin> set (tl sub @ t)" and "sub \<noteq> []"
  shows "LastIndex (pre @ sub @ t) sub = Some (length pre)"
proof (induction pre)
  case Nil
  obtain c cs where "sub = c # cs" using assms(2) by (cases sub) auto
  moreover have "LastIndex (tl sub @ t) sub = None" by (rule LastIndex_None [OF assms(2,1)])
  moreover have "HasPrefix (sub @ t) sub" by (rule HasPrefix_append)
  ultimately show ?case by simp
qed simp

lemma Itoa_no_P: "CHR ''P'' \<notin> set (Itoa n)"
  using Itoa_digits [of n] by auto

lemma parsePhysicalDriveIndex_print:
  "n < 2 ^ 63 \<Longrightarrow> parsePhysicalDriveIndex (pre @ ''PhysicalDrive'' @ Itoa n) = Some (int n)"
  using LastIndex_append [of "''PhysicalDrive''" "Itoa n" pre] Itoa_no_P [of n]
  by (simp add: parsePhysicalDriveIndex_def)

lemma map_of_rev_distinct:
  "distinct (map fst xs) \<Longrightarrow> (k, v) \<in> set xs \<Longrightarrow> map_of (rev xs) k = Some v"
  by (intro map_of_is_SomeI) (simp_all add: rev_map [symmetric])

text \<open>
  C13: Attribution, end to end. Let the domain have a virtio disk with the alias of a volume at a PCI
  address as libvirt prints it, and let the guest report the drive of that number at this
  address. Then the drive is mapped to the volume, if no two disks share a location and no two
  drives a number.
\<close>

theorem virtio_disk_attributed:
  assumes "unmarshal x = Some xdom" and "d \<in> set (xm_Disks xdom)" and "xd_Device d = ''disk''"
    and "xd_AliasName d = ''ua-'' @ vol" and "vol \<noteq> []" and "xd_Address d = pci_xml p k" and "pci_valid p"
    and "distinct (map fst (List.map_filter (disk_location (controllerPCI (xm_Controllers xdom))) (xm_Disks xdom)))"
    and "e \<in> set entries" and "ge_Name e = pre @ ''PhysicalDrive'' @ Itoa n" and "n < 2 ^ 63"
    and "ge_Address e = Some \<lparr>ga_BusType = bt, ga_Serial = sr, ga_PCIController = Some p, ga_Bus = 0, ga_Target = 0, ga_Unit = 0\<rparr>"
    and "distinct (map gd_DriveIndex (List.map_filter guest_disk entries))"
    and "BuildDiskMapping unmarshal x (List.map_filter guest_disk entries) = Some m"
  shows "m (int n) = Some vol"
proof -
  define hm where "hm = map_of (rev (List.map_filter (disk_location (controllerPCI (xm_Controllers xdom))) (xm_Disks xdom)))"
  define gds where "gds = List.map_filter guest_disk entries"
  define l where "l = \<lparr>dl_Controller = p, dl_Bus = 0, dl_Target = 0, dl_Unit = 0\<rparr>"
  have "xa_Type (xd_Address d) = ''pci''" by (simp add: assms(6) pci_xml_def Let_def)
  then have "disk_location (controllerPCI (xm_Controllers xdom)) d = Some (l, vol)"
    using assms(3-5) parseHexAddr_print [OF assms(7), of k] volume_of_alias [of d vol]
    by (simp add: disk_location_def assms(6) l_def)
  then have hm: "hm l = Some vol" unfolding hm_def using assms(2)
    by (intro map_of_rev_distinct [OF assms(8)]) (force simp: map_filter_def)
  obtain gd where gd: "guest_disk e = Some gd" "gd_DriveIndex gd = int n" "gd_Location gd = l"
    using parsePhysicalDriveIndex_print [OF assms(11), of pre] by (simp add: guest_disk_def assms(10,12) l_def)
  then have mem: "gd \<in> set gds" using assms(9) by (force simp: gds_def map_filter_def)
  have keys: "map fst (List.map_filter (\<lambda>gd. map_option (Pair (gd_DriveIndex gd)) (hm (gd_Location gd))) gs)
      = map gd_DriveIndex (filter (\<lambda>gd. hm (gd_Location gd) \<noteq> None) gs)" for gs
    by (induction gs) (auto simp: map_filter_simps split: option.split)
  have "distinct (map fst (List.map_filter (\<lambda>gd. map_option (Pair (gd_DriveIndex gd)) (hm (gd_Location gd))) gds))"
    unfolding keys using assms(13) by (simp add: gds_def distinct_map_filter)
  moreover have "(int n, vol) \<in> set (List.map_filter (\<lambda>gd. map_option (Pair (gd_DriveIndex gd)) (hm (gd_Location gd))) gds)"
    using mem gd(2,3) hm by (force simp: map_filter_def)
  ultimately have r: "fold (map_by_location hm) gds Map.empty (int n) = Some vol"
    by (simp add: fold_map_filter [OF map_by_location_eq] map_of_rev_distinct)
  have "ParseDiskLocations unmarshal x = Some hm" by (simp add: ParseDiskLocations_eq assms(1) hm_def)
  then show ?thesis using assms(14) r fold_map_by_serial_keeps [of "fold (map_by_location hm) gds Map.empty" "int n" vol]
    by (auto simp: BuildDiskMapping_def gds_def [symmetric] Let_def split: option.splits if_splits)
qed

lemma ex_guest_disk:
  "guest_disk ex_entry = Some \<lparr>gd_Name = ''PhysicalDrive'' @ Itoa 0, gd_DriveIndex = 0, gd_Serial = [],
     gd_Location = \<lparr>dl_Controller = ex_pci, dl_Bus = 0, dl_Target = 0, dl_Unit = 0\<rparr>\<rparr>"
  using parsePhysicalDriveIndex_print [of 0 "[]"] by (simp add: guest_disk_def ex_entry_def)

lemma ex_mapping:
  "BuildDiskMapping (\<lambda>_. Some ex_dom) [] (List.map_filter guest_disk [ex_entry]) = Some [0 \<mapsto> ''rootdisk'']"
proof -
  have "ParseDiskSerials (\<lambda>_. Some ex_dom) [] = Some Map.empty"
    by (simp add: ParseDiskSerials_def add_serial_def ex_dom_def)
  moreover have "ParseDiskLocations (\<lambda>_. Some ex_dom) [] =
      Some [\<lparr>dl_Controller = ex_pci, dl_Bus = 0, dl_Target = 0, dl_Unit = 0\<rparr> \<mapsto> ''rootdisk'']"
    by (simp add: ParseDiskLocations_eq) (subst ex_disks, simp add: map_filter_simps ex_location)
  ultimately show ?thesis
    by (simp add: BuildDiskMapping_def map_filter_simps ex_guest_disk map_by_location_def)
qed

theorem virtio_disk_attributed_witness: "[0 \<mapsto> ''rootdisk''] (int 0) = Some ''rootdisk''"
proof (rule virtio_disk_attributed [where unmarshal = "\<lambda>_. Some ex_dom" and xdom = ex_dom and x = "[]"
      and d = "hd (xm_Disks ex_dom)" and vol = "''rootdisk''" and p = ex_pci and k = 1 and e = ex_entry
      and entries = "[ex_entry]" and pre = "[]" and n = 0 and bt = "''virtio''" and sr = "[]" and m = "[0 \<mapsto> ''rootdisk'']"])
  show "distinct (map fst (List.map_filter (disk_location (controllerPCI (xm_Controllers ex_dom))) (xm_Disks ex_dom)))"
    by (subst ex_disks) (simp add: map_filter_simps ex_location)
  show "BuildDiskMapping (\<lambda>_. Some ex_dom) [] (List.map_filter guest_disk [ex_entry]) = Some [0 \<mapsto> ''rootdisk'']"
    by (rule ex_mapping)
  show "distinct (map gd_DriveIndex (List.map_filter guest_disk [ex_entry]))"
    by (simp add: map_filter_simps ex_guest_disk)
qed (simp_all add: ex_dom_def ex_entry_def ex_pci_valid)

theorem disk_mapping_sound_witness:
  "\<exists>gd \<in> set (List.map_filter guest_disk [ex_entry]). \<exists>xdom d. gd_DriveIndex gd = 0 \<and> Some ex_dom = Some xdom \<and>
    d \<in> set (xm_Disks xdom) \<and> xd_AliasName d = ''ua-'' @ ''rootdisk'' \<and>
    (disk_location (controllerPCI (xm_Controllers xdom)) d = Some (gd_Location gd, ''rootdisk'') \<or>
     gd_Serial gd \<noteq> [] \<and> xd_Serial d = gd_Serial gd)"
  by (rule disk_mapping_sound [OF ex_mapping]) simp

end
