(* ===== verification/QgaScrape.thy ===== *)
theory QgaScrape
  imports QmpScrape QgaDiskMap "HOL-Library.Multiset"
begin

text \<open>
  The first half of \<^verbatim>\<open>pkg/qga/collector.go\<close>: the state of a virtual machine, connecting to it and reading the
  disk counters of its Windows guest through the guest agent. Latencies and rates come from two
  successive snapshots of the counters; a drive is reported under the volume it is mapped to.
\<close>

subsection \<open>State\<close>

record CollectorConfig =
  gc_NodeName :: string
  gc_PollInterval :: int
  gc_QGATimeout :: "32 word"
  gc_ExecWait :: int
  gc_MaxRetries :: int
  gc_Concurrency :: int
  gc_Namespaces :: "string list"
  gc_LabelFilter :: string

datatype qga_scrape_error = VmClosed | AgentFailed qga_error

datatype stop_reason = NoReason | CommandBlacklisted | MaxRetriesExceeded int qga_scrape_error

record vmState =
  gs_client :: Client
  gs_namespace :: string
  gs_vmi :: string
  gs_podName :: string
  gs_prevSnapshot :: "(string \<Rightarrow> DiskCounters option) option"
  gs_pvcMap :: "string \<Rightarrow> string option"
  gs_diskMap :: "int \<Rightarrow> string option"
  gs_retryCount :: int
  gs_stopped :: bool
  gs_stopReason :: stop_reason
  gs_closed :: bool

definition gs_close :: "vmState \<Rightarrow> network \<Rightarrow> vmState \<times> network" where
  "gs_close vs nw =
     (if gs_closed vs then (vs, nw)
      else let (c, nw) = Close (gs_client vs) nw in (vs\<lparr>gs_closed := True, gs_client := c\<rparr>, nw))"

record enrichedDisk =
  ed_DiskMetrics :: DiskMetrics
  ed_Disk :: string
  ed_PVC :: string

record vmiResult =
  gr_Namespace :: string
  gr_Name :: string
  gr_Node :: string
  gr_PodName :: string
  gr_Disks :: "enrichedDisk list"

subsection \<open>The agent of a connection\<close>

record qga_codec =
  qd_exec :: "string \<Rightarrow> int option"
  qd_status :: "string \<Rightarrow> execStatusResponse option"
  qd_base64 :: "string \<Rightarrow> string option"
  qd_disks :: "string \<Rightarrow> guestDiskEntry list option"
  qd_xml :: "string \<Rightarrow> xmlDomain option"

definition diskCounterCommand :: agent_command where
  "diskCounterCommand = AgentExec ''powershell.exe''
     [''-NoProfile'', ''-NonInteractive'', ''-Command'',
      ''Get-CimInstance Win32_PerfRawData_PerfDisk_PhysicalDisk | Select-Object Name,AvgDiskReadQueueLength,AvgDiskWriteQueueLength,DiskReadsPerSec,DiskWritesPerSec,Timestamp_Sys100NS | ConvertTo-Csv -NoTypeInformation'']"

definition agent_of :: "libvirt \<Rightarrow> qga_codec \<Rightarrow> Client \<Rightarrow> agent" where
  "agent_of lv qd c =
     \<lparr>ag_exec = AgentCommand lv 0 diskCounterCommand c,
      ag_status = (\<lambda>pid n. AgentCommand lv n (AgentExecStatus pid) c),
      ag_disks = AgentCommand lv 0 AgentGetDisks c,
      dec_exec = qd_exec qd, dec_status = qd_status qd, dec_base64 = qd_base64 qd\<rparr>"

subsection \<open>Connecting\<close>

definition qga_diskMap :: "libvirt \<Rightarrow> qga_codec \<Rightarrow> Client \<Rightarrow> int \<Rightarrow> string option" where
  "qga_diskMap lv qd client =
     (case DomainGetXMLDesc lv client of
        Inl _ \<Rightarrow> Map.empty
      | Inr domainXML \<Rightarrow>
          (case GuestGetDisks (agent_of lv qd client) (qd_disks qd) of
             Inl _ \<Rightarrow> Map.empty
           | Inr guestDisks \<Rightarrow>
               (case BuildDiskMapping (qd_xml qd) domainXML guestDisks of
                  None \<Rightarrow> Map.empty
                | Some diskMap \<Rightarrow> diskMap)))"

definition qga_connectVM :: "libvirt \<Rightarrow> qga_codec \<Rightarrow> dynamic option \<Rightarrow> podInfo \<Rightarrow> int \<Rightarrow> network \<Rightarrow> vmState option \<times> network" where
  "qga_connectVM lv qd dyn p pid nw =
     (if \<not> lv_stat lv (sock_path pid) then (None, nw)
      else case Dial lv (sock_path pid) (pi_namespace p @ ''_'' @ pi_vmiName p) nw of
        (Inl _, nw) \<Rightarrow> (None, nw)
      | (Inr client, nw) \<Rightarrow>
          (Some \<lparr>gs_client = client, gs_namespace = pi_namespace p, gs_vmi = pi_vmiName p, gs_podName = pi_podName p,
             gs_prevSnapshot = None, gs_pvcMap = FetchPVCMap dyn (pi_namespace p) (pi_vmiName p),
             gs_diskMap = qga_diskMap lv qd client, gs_retryCount = 0, gs_stopped = False, gs_stopReason = NoReason,
             gs_closed = False\<rparr>, nw))"

definition open_vm_state :: "runtime \<Rightarrow> libvirt \<Rightarrow> qga_codec \<Rightarrow> dynamic option \<Rightarrow> podInfo \<Rightarrow> network \<Rightarrow> vmState option \<times> network" where
  "open_vm_state rt lv qd dyn p nw =
     (case FindComputePID rt (pi_podName p) (pi_namespace p) of
        Inl _ \<Rightarrow> (None, nw)
      | Inr info \<Rightarrow> qga_connectVM lv qd dyn p (ci_PID info) nw)"

subsection \<open>Reading one virtual machine\<close>

text \<open>The counters by drive name; of several rows with one name the last counts.\<close>

definition snapshot_of :: "DiskCounters list \<Rightarrow> string \<Rightarrow> DiskCounters option" where
  "snapshot_of counters = fold (\<lambda>dc m. m(dc_Name dc \<mapsto> dc)) counters Map.empty"

definition enrich :: "dynamic option \<Rightarrow> DiskMetrics \<Rightarrow> vmState \<times> bool \<Rightarrow> enrichedDisk \<times> vmState \<times> bool" where
  "enrich dyn m s =
     (let (vs, pvcRefreshed) = s; ed = \<lparr>ed_DiskMetrics = m, ed_Disk = [], ed_PVC = []\<rparr>
      in case ParseDiskIndex (dm_Name m) of
        None \<Rightarrow> (ed, s)
      | Some idx \<Rightarrow>
          (case gs_diskMap vs idx of
             None \<Rightarrow> (ed, s)
           | Some volName \<Rightarrow>
               let ed = ed\<lparr>ed_Disk := volName, ed_PVC := value_or_empty (gs_pvcMap vs) volName\<rparr>
               in if ed_PVC ed = [] \<and> \<not> pvcRefreshed then
                    let vs = vs\<lparr>gs_pvcMap := FetchPVCMap dyn (gs_namespace vs) (gs_vmi vs)\<rparr>
                    in (ed\<lparr>ed_PVC := value_or_empty (gs_pvcMap vs) volName\<rparr>, vs, True)
                  else (ed, s)))"

definition disk_turn :: "dynamic option \<Rightarrow> (string \<Rightarrow> DiskCounters option) \<Rightarrow> (string \<Rightarrow> DiskCounters option) \<Rightarrow> string \<Rightarrow>
    enrichedDisk list \<times> vmState \<times> bool \<Rightarrow> enrichedDisk list \<times> vmState \<times> bool" where
  "disk_turn dyn prevSnapshot currSnapshot name s =
     (case currSnapshot name of
        None \<Rightarrow> s
      | Some cur \<Rightarrow>
          (case prevSnapshot name of
             None \<Rightarrow> s
           | Some prev \<Rightarrow>
               let m = ComputeMetrics prev cur
               in if 0 < dm_ElapsedSec m then
                    let (disks, st) = s; (ed, st) = enrich dyn m st in (disks @ [ed], st)
                  else s))"

text \<open>
  The names are visited in the order \<^verbatim>\<open>iter\<close>, which Go leaves open.
\<close>

definition qga_scrapeVM :: "libvirt \<Rightarrow> qga_codec \<Rightarrow> dynamic option \<Rightarrow> (string list \<Rightarrow> string list) \<Rightarrow> CollectorConfig \<Rightarrow> vmState \<Rightarrow>
    (qga_scrape_error + vmiResult option) \<times> vmState" where
  "qga_scrapeVM lv qd dyn iter cfg vs =
     (if gs_closed vs then (Inl VmClosed, vs)
      else case CollectDiskCounters (agent_of lv qd (gs_client vs)) of
        Inl e \<Rightarrow> (Inl (AgentFailed e), vs)
      | Inr counters \<Rightarrow>
          let currSnapshot = snapshot_of counters;
              (disks, vs, refreshed) =
                (case gs_prevSnapshot vs of
                   None \<Rightarrow> ([], vs, False)
                 | Some prevSnapshot \<Rightarrow>
                     fold (disk_turn dyn prevSnapshot currSnapshot) (iter (remdups (map dc_Name counters))) ([], vs, False));
              vs = vs\<lparr>gs_prevSnapshot := Some currSnapshot, gs_retryCount := 0\<rparr>
          in (Inr (if disks = [] then None
                   else Some \<lparr>gr_Namespace = gs_namespace vs, gr_Name = gs_vmi vs, gr_Node = gc_NodeName cfg,
                          gr_PodName = gs_podName vs, gr_Disks = disks\<rparr>), vs))"

definition handleScrapeError :: "CollectorConfig \<Rightarrow> qga_scrape_error \<Rightarrow> vmState \<Rightarrow> vmState" where
  "handleScrapeError cfg err vs =
     (if err = AgentFailed Blacklisted then vs\<lparr>gs_stopped := True, gs_stopReason := CommandBlacklisted\<rparr>
      else
        let vs = vs\<lparr>gs_retryCount := gs_retryCount vs + 1\<rparr>
        in if gc_MaxRetries cfg \<le> gs_retryCount vs
           then vs\<lparr>gs_stopped := True, gs_stopReason := MaxRetriesExceeded (gc_MaxRetries cfg) err\<rparr>
           else vs)"

subsection \<open>What reading a virtual machine keeps\<close>

definition gs_keeps :: "vmState \<Rightarrow> vmState \<Rightarrow> bool" where
  "gs_keeps a b \<longleftrightarrow> gs_client b = gs_client a \<and> gs_closed b = gs_closed a \<and> gs_namespace b = gs_namespace a \<and>
     gs_vmi b = gs_vmi a \<and> gs_podName b = gs_podName a \<and> gs_diskMap b = gs_diskMap a"

lemma gs_keeps_refl [simp]: "gs_keeps a a"
  by (simp add: gs_keeps_def)

lemma gs_keeps_trans: "gs_keeps a b \<Longrightarrow> gs_keeps b c \<Longrightarrow> gs_keeps a c"
  by (simp add: gs_keeps_def)

definition gs_running :: "vmState \<Rightarrow> vmState \<Rightarrow> bool" where
  "gs_running a b \<longleftrightarrow> gs_keeps a b \<and> gs_stopped b = gs_stopped a \<and> gs_retryCount b = gs_retryCount a"

lemma enrich_running: "gs_running (fst s) (fst (snd (enrich dyn m s)))"
  by (cases s) (auto simp: enrich_def gs_running_def gs_keeps_def Let_def split: option.split)

lemma disk_turn_running: "gs_running (fst (snd s)) (fst (snd (disk_turn dyn prv cur name s)))"
proof -
  obtain ds st where s: "s = (ds, st)" by (cases s)
  have "gs_running (fst st) (fst st)" by (simp add: gs_running_def)
  then show ?thesis using enrich_running [of st dyn]
    by (auto simp: disk_turn_def s Let_def case_prod_beta split: option.split)
qed

lemma fold_disk_turn_running: "gs_running (fst (snd s)) (fst (snd (fold (disk_turn dyn prv cur) names s)))"
proof (induction names arbitrary: s)
  case (Cons n ns)
  show ?case using Cons [of "disk_turn dyn prv cur n s"] disk_turn_running [of s dyn prv cur n]
    by (auto simp: gs_running_def intro: gs_keeps_trans)
qed (simp add: gs_running_def)

text \<open>
  How reading ends depends only on what the agent answers over the connection.
\<close>

datatype agent_outcome = Answered | Failed | Refused

definition outcome_of :: "libvirt \<Rightarrow> qga_codec \<Rightarrow> Client \<Rightarrow> agent_outcome" where
  "outcome_of lv qd c =
     (case CollectDiskCounters (agent_of lv qd c) of
        Inl e \<Rightarrow> if e = Blacklisted then Refused else Failed
      | Inr _ \<Rightarrow> Answered)"

lemma qga_scrapeVM_cases:
  assumes "\<not> gs_closed vs"
  shows "(\<exists>e. CollectDiskCounters (agent_of lv qd (gs_client vs)) = Inl e \<and>
      qga_scrapeVM lv qd dyn iter cfg vs = (Inl (AgentFailed e), vs)) \<or>
    (\<exists>cs r vs'. CollectDiskCounters (agent_of lv qd (gs_client vs)) = Inr cs \<and> qga_scrapeVM lv qd dyn iter cfg vs = (Inr r, vs') \<and>
      gs_keeps vs vs' \<and> gs_stopped vs' = gs_stopped vs \<and> gs_retryCount vs' = 0)"
proof (cases "CollectDiskCounters (agent_of lv qd (gs_client vs))")
  case (Inr cs)
  obtain ds vs1 rf where f: "(case gs_prevSnapshot vs of None \<Rightarrow> ([], vs, False)
      | Some prv \<Rightarrow> fold (disk_turn dyn prv (snapshot_of cs)) (iter (remdups (map dc_Name cs))) ([], vs, False)) = (ds, vs1, rf)"
    by (metis prod_cases3)
  have "gs_running vs vs1"
  proof (cases "gs_prevSnapshot vs")
    case None
    then show ?thesis using f by (simp add: gs_running_def)
  next
    case (Some prv)
    then show ?thesis using f fold_disk_turn_running [of "([], vs, False)" dyn prv "snapshot_of cs" "iter (remdups (map dc_Name cs))"]
      by simp
  qed
  then show ?thesis using assms by (simp add: qga_scrapeVM_def Inr f gs_running_def gs_keeps_def Let_def)
qed (use assms in \<open>simp add: qga_scrapeVM_def\<close>)

subsection \<open>What is reported\<close>

text \<open>The metrics of a drive, if it is in both snapshots and the clock of the guest has moved.\<close>

definition drive_metrics :: "(string \<Rightarrow> DiskCounters option) \<Rightarrow> (string \<Rightarrow> DiskCounters option) \<Rightarrow> string \<Rightarrow> DiskMetrics option" where
  "drive_metrics prv cur name =
     (case (prv name, cur name) of
        (Some p, Some c) \<Rightarrow> if 0 < dm_ElapsedSec (ComputeMetrics p c) then Some (ComputeMetrics p c) else None
      | _ \<Rightarrow> None)"

definition mapped_volume :: "(int \<Rightarrow> string option) \<Rightarrow> string \<Rightarrow> string" where
  "mapped_volume dm name =
     (case ParseDiskIndex name of None \<Rightarrow> [] | Some idx \<Rightarrow> (case dm idx of None \<Rightarrow> [] | Some v \<Rightarrow> v))"

lemma enrich_disk:
  "ed_DiskMetrics (fst (enrich dyn m s)) = m"
  "ed_Disk (fst (enrich dyn m s)) = mapped_volume (gs_diskMap (fst s)) (dm_Name m)"
  by (cases s; auto simp: enrich_def mapped_volume_def Let_def split: option.split)+

lemma fold_disk_turn:
  assumes "fold (disk_turn dyn prv cur) names (ds, s) = (ds', s')"
  shows "map (\<lambda>d. (ed_DiskMetrics d, ed_Disk d)) ds' = map (\<lambda>d. (ed_DiskMetrics d, ed_Disk d)) ds @
    map (\<lambda>m. (m, mapped_volume (gs_diskMap (fst s)) (dm_Name m))) (List.map_filter (drive_metrics prv cur) names)"
  using assms
proof (induction names arbitrary: ds s)
  case (Cons n ns)
  obtain ds1 s1 where 1: "disk_turn dyn prv cur n (ds, s) = (ds1, s1)" by (cases "disk_turn dyn prv cur n (ds, s)")
  have k: "gs_diskMap (fst s1) = gs_diskMap (fst s)"
    using disk_turn_running [of "(ds, s)" dyn prv cur n] 1 by (simp add: gs_running_def gs_keeps_def)
  have "map (\<lambda>d. (ed_DiskMetrics d, ed_Disk d)) ds1 = map (\<lambda>d. (ed_DiskMetrics d, ed_Disk d)) ds @
      (case drive_metrics prv cur n of None \<Rightarrow> [] | Some m \<Rightarrow> [(m, mapped_volume (gs_diskMap (fst s)) (dm_Name m))])"
  proof (cases "drive_metrics prv cur n")
    case None
    then show ?thesis using 1 by (auto simp: disk_turn_def drive_metrics_def Let_def split: option.splits if_splits)
  next
    case (Some m)
    obtain ed st where e: "enrich dyn m s = (ed, st)" by (cases "enrich dyn m s")
    then have "ds1 = ds @ [ed]"
      using 1 Some by (auto simp: disk_turn_def drive_metrics_def Let_def split: option.splits if_splits)
    then show ?thesis using enrich_disk [of dyn m s] e Some by simp
  qed
  moreover have "fold (disk_turn dyn prv cur) ns (ds1, s1) = (ds', s')" using Cons.prems 1 by simp
  ultimately show ?case using Cons.IH [of ds1 s1] k by (simp add: map_filter_simps split: option.split)
qed (simp add: map_filter_simps)

definition reported_disks :: "qga_scrape_error + vmiResult option \<Rightarrow> enrichedDisk list" where
  "reported_disks r = (case r of Inr (Some v) \<Rightarrow> gr_Disks v | _ \<Rightarrow> [])"

lemma qga_scrapeVM_answered:
  assumes "\<not> gs_closed vs" and "CollectDiskCounters (agent_of lv qd (gs_client vs)) = Inr cs"
  shows "map (\<lambda>d. (ed_DiskMetrics d, ed_Disk d)) (reported_disks (fst (qga_scrapeVM lv qd dyn iter cfg vs))) =
      (case gs_prevSnapshot vs of None \<Rightarrow> []
       | Some prv \<Rightarrow> map (\<lambda>m. (m, mapped_volume (gs_diskMap vs) (dm_Name m)))
           (List.map_filter (drive_metrics prv (snapshot_of cs)) (iter (remdups (map dc_Name cs)))))"
    and "gs_prevSnapshot (snd (qga_scrapeVM lv qd dyn iter cfg vs)) = Some (snapshot_of cs)"
proof -
  obtain ds s1 where f: "(case gs_prevSnapshot vs of None \<Rightarrow> ([], vs, False)
      | Some prv \<Rightarrow> fold (disk_turn dyn prv (snapshot_of cs)) (iter (remdups (map dc_Name cs))) ([], vs, False)) = (ds, s1)"
    by (metis prod.exhaust)
  obtain vs1 rf where s1: "s1 = (vs1, rf)" by (cases s1)
  show "gs_prevSnapshot (snd (qga_scrapeVM lv qd dyn iter cfg vs)) = Some (snapshot_of cs)"
    using assms by (simp add: qga_scrapeVM_def f s1 Let_def)
  have r: "reported_disks (fst (qga_scrapeVM lv qd dyn iter cfg vs)) = ds"
    using assms by (simp add: qga_scrapeVM_def f s1 Let_def reported_disks_def)
  show "map (\<lambda>d. (ed_DiskMetrics d, ed_Disk d)) (reported_disks (fst (qga_scrapeVM lv qd dyn iter cfg vs))) =
      (case gs_prevSnapshot vs of None \<Rightarrow> []
       | Some prv \<Rightarrow> map (\<lambda>m. (m, mapped_volume (gs_diskMap vs) (dm_Name m)))
           (List.map_filter (drive_metrics prv (snapshot_of cs)) (iter (remdups (map dc_Name cs)))))"
  proof (cases "gs_prevSnapshot vs")
    case None
    then show ?thesis using f r by auto
  next
    case (Some prv)
    then show ?thesis using f r fold_disk_turn [of dyn prv "snapshot_of cs" "iter (remdups (map dc_Name cs))" "[]" "(vs, False)" ds s1]
      by simp
  qed
qed

text \<open>
  C21: Two snapshots are compared. If the agent answers at two successive polls, the second reports
  exactly the drives that are in both answers and whose guest clock has moved on, each with the
  metrics computed from its own two rows and under the volume it is mapped to. Nothing is
  reported before the second answer.
\<close>

theorem qga_reports_drives:
  assumes "\<not> gs_closed vs" and "gs_prevSnapshot vs = None"
    and "CollectDiskCounters (agent_of lv qd (gs_client vs)) = Inr cs"
    and "CollectDiskCounters (agent_of lv' qd' (gs_client vs)) = Inr cs'"
    and "qga_scrapeVM lv qd dyn iter cfg vs = (r, vs1)" and "qga_scrapeVM lv' qd' dyn' iter' cfg vs1 = (r', vs2)"
    and "\<forall>ns. mset (iter' ns) = mset ns"
  shows "reported_disks r = [] \<and>
    mset (map (\<lambda>d. (ed_DiskMetrics d, ed_Disk d)) (reported_disks r')) =
      mset (map (\<lambda>m. (m, mapped_volume (gs_diskMap vs) (dm_Name m)))
        (List.map_filter (drive_metrics (snapshot_of cs) (snapshot_of cs')) (remdups (map dc_Name cs'))))"
proof -
  note first = qga_scrapeVM_answered [OF assms(1,3), of dyn iter cfg, unfolded assms(2,5)]
  have k: "gs_keeps vs vs1" using qga_scrapeVM_cases [OF assms(1), of lv qd dyn iter cfg] assms(5) by auto
  then have "\<not> gs_closed vs1" "CollectDiskCounters (agent_of lv' qd' (gs_client vs1)) = Inr cs'"
    using assms(1,4) by (simp_all add: gs_keeps_def)
  note second = qga_scrapeVM_answered(1) [OF this, of dyn' iter' cfg, unfolded assms(6)]
  have mf: "mset (List.map_filter f xs) = image_mset the (filter_mset (\<lambda>y. y \<noteq> None) (image_mset f (mset xs)))" for f :: "string \<Rightarrow> DiskMetrics option" and xs
    by (induction xs) (auto simp: map_filter_simps split: option.split)
  have "mset (List.map_filter f (iter' ns)) = mset (List.map_filter f ns)" for f :: "string \<Rightarrow> DiskMetrics option" and ns
    unfolding mf using assms(7) by simp
  then show ?thesis using first second k by (simp add: gs_keeps_def)
qed

subsection \<open>An example\<close>

definition ex_csv :: "DiskCounters \<Rightarrow> string" where
  "ex_csv d = csv_print (wmi_header # map counter_fields [d] @ [counter_fields (ex_disk ''_Total'')])"

definition ex_guest :: libvirt where
  "ex_guest = ex_daemon\<lparr>lv_agent := \<lambda>_ _ _. Inr [''answer'']\<rparr>"

definition ex_silent :: libvirt where
  "ex_silent = ex_daemon\<lparr>lv_agent := \<lambda>_ _ _. Inl ''guest agent is not connected''\<rparr>"

definition ex_qga_cfg :: CollectorConfig where
  "ex_qga_cfg = \<lparr>gc_NodeName = ''node'', gc_PollInterval = 60, gc_QGATimeout = 10, gc_ExecWait = 1, gc_MaxRetries = 2,
     gc_Concurrency = 8, gc_Namespaces = [''default''], gc_LabelFilter = []\<rparr>"

definition ex_qga_codec :: "DiskCounters \<Rightarrow> qga_codec" where
  "ex_qga_codec d = \<lparr>qd_exec = \<lambda>_. Some 7,
     qd_status = \<lambda>_. Some \<lparr>es_Exited = True, es_ExitCode = Some 0, es_Signal = None, es_OutData = ''x'', es_ErrData = [],
       es_OutTruncated = False, es_ErrTruncated = False\<rparr>,
     qd_base64 = \<lambda>_. Some (ex_csv d), qd_disks = \<lambda>_. None, qd_xml = \<lambda>_. None\<rparr>"

definition ex_vm :: vmState where
  "ex_vm = \<lparr>gs_client = vc_client ex_conn, gs_namespace = ''default'', gs_vmi = ''vm1'', gs_podName = ''virt-launcher-vm1'',
     gs_prevSnapshot = None, gs_pvcMap = Map.empty, gs_diskMap = [0 \<mapsto> ''rootdisk''], gs_retryCount = 0, gs_stopped = False,
     gs_stopReason = NoReason, gs_closed = False\<rparr>"

lemma ex_collect:
  assumes "disk_name (dc_Name d)" and "\<not> cl_closed c"
  shows "CollectDiskCounters (agent_of ex_guest (ex_qga_codec d) c) = Inr [d]"
proof -
  have "ParseWMICSV (ex_csv d) = Inr [d]"
    unfolding ex_csv_def by (rule ParseWMICSV_print) (use assms(1) in \<open>simp_all add: ex_disk_def ex_names\<close>)
  moreover have "ex_csv d \<noteq> []" by (simp add: ex_csv_def csv_print_def)
  ultimately show ?thesis using assms(2)
    by (simp add: CollectDiskCounters_def GuestExec_def GuestExecWait_def exec_wait.simps [of _ _ 0] maxAttempts_def GuestExecStatus_def
        agent_of_def AgentCommand_def ex_guest_def ex_qga_codec_def decode_data_def)
qed

text \<open>The counters of one drive, a second of guest time apart.\<close>

definition ex_before :: DiskCounters where
  "ex_before = ex_disk ''0 C:''"

definition ex_after :: DiskCounters where
  "ex_after = ex_before\<lparr>dc_RdOps := 42956, dc_Timestamp100ns := 134280977021680000\<rparr>"

lemma ex_elapsed: "0 < dm_ElapsedSec (ComputeMetrics ex_before ex_after)"
proof -
  have "f64_of_u64 10000000 = 10000000" using f64_of_nat [of 10000000] by (simp add: f64_of_u64_def)
  moreover have "f64 1 = 1" using f64_of_nat [of 1] by simp
  ultimately show ?thesis
    by (simp add: ComputeMetrics_def ex_after_def ex_before_def ex_disk_def Let_def f64_div_def)
qed

theorem qga_reports_drives_witness:
  "mset (map (\<lambda>d. (ed_DiskMetrics d, ed_Disk d)) (reported_disks (fst (qga_scrapeVM ex_guest (ex_qga_codec ex_after) None id ex_qga_cfg
      (snd (qga_scrapeVM ex_guest (ex_qga_codec ex_before) None id ex_qga_cfg ex_vm)))))) =
   {# (ComputeMetrics ex_before ex_after, ''rootdisk'') #}"
proof -
  have n: "dc_Name ex_before = ''0 C:''" "dc_Name ex_after = ''0 C:''" by (simp_all add: ex_before_def ex_after_def ex_disk_def)
  have c: "\<not> cl_closed (gs_client ex_vm)" "\<not> gs_closed ex_vm" "gs_prevSnapshot ex_vm = None" "gs_diskMap ex_vm = [0 \<mapsto> ''rootdisk'']"
    by (simp_all add: ex_vm_def ex_conn_def)
  have m: "dm_Name (ComputeMetrics ex_before ex_after) = ''0 C:''" using n by (simp add: ComputeMetrics_def zero_DiskMetrics_def Let_def)
  have "ParseDiskIndex ''0 C:'' = Some 0" by code_simp
  then have v: "mapped_volume [0 \<mapsto> ''rootdisk''] ''0 C:'' = ''rootdisk''" by (simp add: mapped_volume_def)
  have "drive_metrics (snapshot_of [ex_before]) (snapshot_of [ex_after]) ''0 C:'' = Some (ComputeMetrics ex_before ex_after)"
    using ex_elapsed n by (simp add: drive_metrics_def snapshot_of_def)
  then show ?thesis
    using qga_reports_drives [OF c(2,3) ex_collect [OF _ c(1)] ex_collect [OF _ c(1)] surjective_pairing surjective_pairing, of ex_before ex_after id]
    by (simp add: n ex_names c(4) map_filter_simps m v)
qed

end
