(* ===== verification/QmpCollector.thy ===== *)
theory QmpCollector
  imports QmpScrape "HOL-Library.Multiset"
begin

text \<open>
  The second half of \<^verbatim>\<open>pkg/qmp/collector.go\<close>: the poll that keeps one connection per virtual machine and
  reads them all, and what a scrape exports of the last poll. The answers of Kubernetes, of the
  container runtime and of libvirt are arguments, separately for each phase of a poll; so is
  the order in which the virtual machines, which the code reads concurrently, each under its
  own lock, are done (theory \<^verbatim>\<open>WorkerPool\<close>).
\<close>

subsection \<open>State of the collector\<close>

record qmp_Collector =
  qm_cfg :: PollerConfig
  qm_results :: "VMIResult list"
  qm_scrapeErrors :: rat
  qm_lastPollTS :: rat
  qm_connections :: "vmConnection table"

definition qmp_NewCollector :: "PollerConfig \<Rightarrow> qmp_Collector" where
  "qmp_NewCollector cfg =
     \<lparr>qm_cfg = cfg, qm_results = [], qm_scrapeErrors = 0, qm_lastPollTS = 0, qm_connections = []\<rparr>"

definition qmp_closeAll :: "qmp_Collector \<Rightarrow> network \<Rightarrow> qmp_Collector \<times> network" where
  "qmp_closeAll c nw = (c\<lparr>qm_connections := []\<rparr>, close_all_conns vc_close (qm_connections c) nw)"

definition qmp_Update :: "VMIResult list \<Rightarrow> nat \<Rightarrow> rat \<Rightarrow> qmp_Collector \<Rightarrow> qmp_Collector" where
  "qmp_Update results scrapeErrors lastPollTS c =
     c\<lparr>qm_results := results, qm_scrapeErrors := f64_add (qm_scrapeErrors c) (f64 (of_nat scrapeErrors)),
       qm_lastPollTS := lastPollTS\<rparr>"

subsection \<open>The poll\<close>

record qmp_world =
  qw_store :: "cached list"
  qw_runtime :: runtime
  qw_runtime' :: runtime
  qw_connect :: libvirt
  qw_dynamic :: "dynamic option"
  qw_scrape :: libvirt
  qw_dynamic' :: "dynamic option"
  qw_codec :: json_codec
  qw_order :: "string list \<Rightarrow> string list"
  qw_now :: rat

definition qmp_scrape_one :: "(vmConnection \<Rightarrow> (scrape_error + VMIResult) \<times> vmConnection) \<Rightarrow> string \<Rightarrow>
    vmConnection table \<times> network \<times> VMIResult list \<times> nat \<Rightarrow> vmConnection table \<times> network \<times> VMIResult list \<times> nat" where
  "qmp_scrape_one scrape containerID s =
     (let (t, nw, results, scrapeErrors) = s
      in case map_of t containerID of
        None \<Rightarrow> s
      | Some conn \<Rightarrow>
          (case scrape conn of
             (Inl _, conn) \<Rightarrow> (del containerID t, snd (vc_close conn nw), results, scrapeErrors + 1)
           | (Inr result, conn) \<Rightarrow> (put containerID conn t, nw, results @ [result], scrapeErrors)))"

definition qmp_connections :: "qmp_world \<Rightarrow> qmp_Collector \<Rightarrow> network \<Rightarrow> vmConnection table \<times> network" where
  "qmp_connections w c nw =
     (let targets = find_targets (qw_runtime w)
            (select_pods (pc_Namespaces (qm_cfg c)) (pc_LabelFilter (qm_cfg c)) (qw_store w));
          (t, nw) = drop_departed vc_close (map tg_containerID targets) (qm_connections c) nw
      in connect_new vc_close (open_conn (qw_runtime' w) (qw_connect w) (qw_dynamic w)) (map fst t) targets t nw)"

definition qmp_poll :: "qmp_world \<Rightarrow> qmp_Collector \<Rightarrow> network \<Rightarrow> qmp_Collector \<times> network" where
  "qmp_poll w c nw =
     (let (t, nw) = qmp_connections w c nw;
          scrape = scrapeVM (qw_scrape w) (qw_codec w) (qw_dynamic' w) (qm_cfg c);
          (t, nw, results, scrapeErrors) = fold (qmp_scrape_one scrape) (qw_order w (map fst t)) (t, nw, [], 0)
      in (c\<lparr>qm_connections := t, qm_results := results,
            qm_scrapeErrors := f64_add (qm_scrapeErrors c) (f64 (of_nat scrapeErrors)), qm_lastPollTS := qw_now w\<rparr>, nw))"

text \<open>\<^verbatim>\<open>Run\<close>: one poll at once and one per tick, until the context ends.\<close>

definition qmp_Run :: "qmp_world list \<Rightarrow> qmp_Collector \<Rightarrow> network \<Rightarrow> qmp_Collector \<times> network" where
  "qmp_Run ws c nw = (let (c, nw) = fold (\<lambda>w (c, nw). qmp_poll w c nw) ws (c, nw) in qmp_closeAll c nw)"

subsection \<open>What a scrape exports\<close>

definition latencyDesc :: Desc where
  "latencyDesc = \<lparr>d_fqName = ''kubevirt_vmi_storage_io_latency_seconds'',
     d_variableLabels = [''namespace'', ''name'', ''node'', ''pod'', ''disk'', ''persistentvolumeclaim'', ''operation'']\<rparr>"

definition scrapeErrorsDesc :: Desc where
  "scrapeErrorsDesc = \<lparr>d_fqName = ''kme_qmp_scrape_errors_total'', d_variableLabels = []\<rparr>"

definition lastPollDesc :: Desc where
  "lastPollDesc = \<lparr>d_fqName = ''kme_qmp_last_poll_timestamp_seconds'', d_variableLabels = []\<rparr>"

definition virtqueueInuseDesc :: Desc where
  "virtqueueInuseDesc = \<lparr>d_fqName = ''kubevirt_vmi_storage_queue_inuse'',
     d_variableLabels = [''namespace'', ''name'', ''node'', ''pod'', ''disk'', ''persistentvolumeclaim'', ''queue'', ''bus'']\<rparr>"

definition virtqueueSizeDesc :: Desc where
  "virtqueueSizeDesc = \<lparr>d_fqName = ''kubevirt_vmi_storage_queue_size'',
     d_variableLabels = [''namespace'', ''name'', ''node'', ''pod'', ''disk'', ''persistentvolumeclaim'', ''queue'', ''bus'']\<rparr>"

definition qmp_Describe :: "Desc list" where
  "qmp_Describe = [latencyDesc, scrapeErrorsDesc, lastPollDesc, virtqueueInuseDesc, virtqueueSizeDesc]"

definition ConvertBuckets :: "LatencyHist \<Rightarrow> (rat \<Rightarrow> u64 option) \<times> u64" where
  "ConvertBuckets hist =
     fold (\<lambda>(i, count) (buckets, cumulative).
         let cumulative = cumulative + count
         in (if i < length (lh_Boundaries hist)
             then buckets(f64_quot (lh_Boundaries hist ! i) 1000000000 \<mapsto> cumulative) else buckets, cumulative))
       (enumerate 0 (lh_Bins hist)) (Map.empty, 0)"

definition operation_metric :: "acceptor \<Rightarrow> VMIResult \<Rightarrow> DeviceResult \<Rightarrow> string \<times> LatencyHist option \<times> u64 \<Rightarrow> Metric list" where
  "operation_metric accept vmi dev opd =
     (let (opn, hist, totalNs) = opd
      in case hist of
        None \<Rightarrow> []
      | Some h \<Rightarrow>
          let (buckets, count) = ConvertBuckets h
          in if count = 0 then []
          else
            let sm = f64_div (f64_of_u64 totalNs) 1000000000;
                labels = [vm_Namespace vmi, vm_Name vmi, vm_Node vmi, vm_PodName vmi, dr_Disk dev, dr_PVC dev, opn]
            in if accept latencyDesc labels then [ConstHistogram latencyDesc count sm buckets labels] else [])"

text \<open>The operations of a device; Go iterates them in any order, and nothing depends on it.\<close>

definition operations :: "BlockStats \<Rightarrow> (string \<times> LatencyHist option \<times> u64) list" where
  "operations st =
     [(''read'', bs_RdLatencyHistogram st, bs_RdTotalTimeNs st),
      (''write'', bs_WrLatencyHistogram st, bs_WrTotalTimeNs st),
      (''flush'', bs_FlushLatencyHistogram st, bs_FlushTotalTimeNs st)]"

definition device_metrics :: "acceptor \<Rightarrow> VMIResult \<Rightarrow> DeviceResult \<Rightarrow> Metric list" where
  "device_metrics accept vmi dev = concat (map (operation_metric accept vmi dev) (operations (dr_Stats dev)))"

text \<open>\<^verbatim>\<open>MustNewConstMetric\<close> panics, here None, when the client does not accept the labels.\<close>

definition const_metric :: "acceptor \<Rightarrow> Desc \<Rightarrow> rat \<Rightarrow> string list \<Rightarrow> Metric option" where
  "const_metric accept d v labels = (if accept d labels then Some (ConstMetric d v labels) else None)"

text \<open>Queues are numbered from 0, so their numbers have no sign to print.\<close>

definition queue_metrics :: "acceptor \<Rightarrow> VMIResult \<Rightarrow> VirtqueueResult \<Rightarrow> Metric option list" where
  "queue_metrics accept vmi vq =
     (let labels = [vm_Namespace vmi, vm_Name vmi, vm_Node vmi, vm_PodName vmi, vr_Disk vq, vr_PVC vq,
            Itoa (nat (vr_Queue vq)), vr_Bus vq]
      in [const_metric accept virtqueueInuseDesc (of_nat (unat (vr_Inuse vq))) labels,
          const_metric accept virtqueueSizeDesc (of_nat (unat (vr_VringNum vq))) labels])"

definition vmi_metrics :: "acceptor \<Rightarrow> VMIResult \<Rightarrow> Metric option list" where
  "vmi_metrics accept vmi =
     map Some (concat (map (device_metrics accept vmi) (vm_Devices vmi))) @
     concat (map (queue_metrics accept vmi) (vm_Virtqueues vmi))"

definition qmp_Collect :: "acceptor \<Rightarrow> qmp_Collector \<Rightarrow> Metric list option" where
  "qmp_Collect accept c =
     those ([const_metric accept scrapeErrorsDesc (qm_scrapeErrors c) [],
             const_metric accept lastPollDesc (qm_lastPollTS c) []] @
            concat (map (vmi_metrics accept) (qm_results c)))"

subsection \<open>Connections are owned\<close>

definition vc_handle :: "vmConnection \<Rightarrow> nat" where
  "vc_handle conn = cl_conn (vc_client conn)"

definition vc_live :: "vmConnection \<Rightarrow> bool" where
  "vc_live conn \<longleftrightarrow> \<not> vc_closed conn \<and> \<not> cl_closed (vc_client conn)"

lemma connectVM_cases:
  assumes "fresh_net nw"
  shows "connectVM lv dyn p pid nw = (None, nw') \<Longrightarrow>
      nw_conns nw' = nw_conns nw \<and> nw_sessions nw' = nw_sessions nw \<and> fresh_net nw'"
    and "connectVM lv dyn p pid nw = (Some c, nw') \<Longrightarrow>
      vc_live c \<and> vc_handle c = nw_next nw \<and> nw_conns nw' = vc_handle c # nw_conns nw \<and>
      nw_sessions nw' = vc_handle c # nw_sessions nw \<and> fresh_net nw'"
  using assms
  by (cases rule: Dial_cases [OF assms, of lv "sock_path pid" "pi_namespace p @ ''_'' @ pi_vmiName p"];
      auto simp: connectVM_def vc_live_def vc_handle_def split: if_splits)+

interpretation qmp: pool vc_close "open_conn rt lv dyn" vc_handle vc_live for rt lv dyn
proof (unfold_locales, goal_cases)
  case (1 c nw)
  then show ?case using client_Close_open [of "vc_client c" nw] by (simp add: vc_close_def vc_live_def vc_handle_def case_prod_beta Let_def)
next
  case (2 nw p nw')
  then show ?case using connectVM_cases(1) [OF 2(1)] by (auto simp: open_conn_def split: sum.splits)
next
  case (3 nw p c nw')
  then show ?case using connectVM_cases(2) [OF 3(1)] by (auto simp: open_conn_def split: sum.splits)
qed

abbreviation qmp_owns :: "nat set \<Rightarrow> vmConnection table \<Rightarrow> network \<Rightarrow> bool" where
  "qmp_owns \<equiv> owns vc_handle vc_live"

lemma qmp_connections_owns:
  assumes "qmp_owns F (qm_connections c) nw" and "qmp_connections w c nw = (t, nw')"
  shows "qmp_owns F t nw'"
proof -
  define gs where "gs = find_targets (qw_runtime w) (select_pods (pc_Namespaces (qm_cfg c)) (pc_LabelFilter (qm_cfg c)) (qw_store w))"
  obtain t1 nw1 where 1: "drop_departed vc_close (map tg_containerID gs) (qm_connections c) nw = (t1, nw1)" by fastforce
  have "connect_new vc_close (open_conn (qw_runtime' w) (qw_connect w) (qw_dynamic w)) (map fst t1) gs t1 nw1 = (t, nw')"
    using assms(2) by (simp add: qmp_connections_def gs_def [symmetric] 1)
  then show ?thesis by (rule qmp.connect_new_owns [OF qmp.drop_departed_owns [OF assms(1) 1]])
qed

lemma qmp_scrape_one_owns:
  assumes "\<And>conn. keeps conn (snd (scrape conn))"
    and "qmp_owns F t nw" and "qmp_scrape_one scrape i (t, nw, rs, n) = (t', nw', rs', n')"
  shows "qmp_owns F t' nw'"
proof (cases "map_of t i")
  case (Some conn)
  obtain r conn' where r: "scrape conn = (r, conn')" by fastforce
  then have "keeps conn conn'" using assms(1) [of conn] by simp
  moreover have "vc_live conn" using assms(2) map_of_SomeD [OF Some] by (auto simp: owns_def)
  ultimately have "vc_handle conn' = vc_handle conn" "vc_live conn'" by (auto simp: keeps_def vc_handle_def vc_live_def)
  then show ?thesis
    using assms(3) qmp.put_owns [OF assms(2) Some, of conn'] qmp.del_owns [OF assms(2) Some, of conn']
    by (auto simp: qmp_scrape_one_def Some r split: sum.splits)
qed (use assms(2,3) in \<open>simp add: qmp_scrape_one_def\<close>)

lemma qmp_scrape_all_owns:
  assumes "\<And>conn. keeps conn (snd (scrape conn))"
  shows "qmp_owns F t nw \<Longrightarrow> fold (qmp_scrape_one scrape) ids (t, nw, rs, n) = (t', nw', rs', n') \<Longrightarrow> qmp_owns F t' nw'"
proof (induction ids arbitrary: t nw rs n)
  case (Cons i ids)
  obtain t1 nw1 rs1 n1 where 1: "qmp_scrape_one scrape i (t, nw, rs, n) = (t1, nw1, rs1, n1)" by (metis prod_cases4)
  show ?case using Cons.IH [OF qmp_scrape_one_owns [OF assms Cons.prems(1) 1]] Cons.prems(2) 1 by simp
qed simp

lemma qmp_poll_owns:
  assumes "qmp_owns F (qm_connections c) nw"
  shows "qmp_owns F (qm_connections (fst (qmp_poll w c nw))) (snd (qmp_poll w c nw))"
proof -
  obtain t nw1 where 1: "qmp_connections w c nw = (t, nw1)" by fastforce
  obtain t' nw' rs n where 2: "fold (qmp_scrape_one (scrapeVM (qw_scrape w) (qw_codec w) (qw_dynamic' w) (qm_cfg c)))
      (qw_order w (map fst t)) (t, nw1, [], 0) = (t', nw', rs, n)" by (metis prod_cases4)
  show ?thesis using qmp_scrape_all_owns [OF scrapeVM_keeps qmp_connections_owns [OF assms 1] 2] by (simp add: qmp_poll_def 1 2)
qed

lemma qmp_polls_owns:
  "qmp_owns F (qm_connections c) nw \<Longrightarrow>
   qmp_owns F (qm_connections (fst (fold (\<lambda>w (c, nw). qmp_poll w c nw) ws (c, nw)))) (snd (fold (\<lambda>w (c, nw). qmp_poll w c nw) ws (c, nw)))"
proof (induction ws arbitrary: c nw)
  case (Cons w ws)
  show ?case using Cons.IH [OF qmp_poll_owns [OF Cons.prems, of w]] by simp
qed simp

text \<open>
  C15: No connection leaks. After any polls, with whatever failures, the open sockets and sessions are
  those the process had before and one of each for every connection of the table, all of which
  are usable; when the collector ends, exactly the former are left.
\<close>

theorem qmp_no_leak:
  assumes "set (nw_conns nw) = F" and "set (nw_sessions nw) = F" and "fresh_net nw"
    and "fold (\<lambda>w (c, nw). qmp_poll w c nw) ws (qmp_NewCollector cfg, nw) = (c, nw')"
  shows "set (nw_conns nw') = F \<union> handles vc_handle (qm_connections c) \<and>
    set (nw_sessions nw') = F \<union> handles vc_handle (qm_connections c) \<and> F \<inter> handles vc_handle (qm_connections c) = {} \<and>
    distinct (map fst (qm_connections c)) \<and> (\<forall>e \<in> set (qm_connections c). vc_live (snd e)) \<and>
    set (nw_conns (snd (qmp_Run ws (qmp_NewCollector cfg) nw))) = F \<and>
    set (nw_sessions (snd (qmp_Run ws (qmp_NewCollector cfg) nw))) = F"
proof -
  have "qmp_owns F (qm_connections (qmp_NewCollector cfg)) nw"
    using assms(1-3) by (simp add: owns_def handles_def qmp_NewCollector_def)
  from qmp_polls_owns [OF this, of ws] have o: "qmp_owns F (qm_connections c) nw'" by (simp add: assms(4))
  from qmp.close_all_owns [OF o] o show ?thesis
    by (simp add: owns_def handles_def qmp_Run_def assms(4) qmp_closeAll_def)
qed

subsection \<open>What a poll reports\<close>

lemma qmp_scrape_one_step:
  assumes "qmp_scrape_one scrape i (t, nw, rs, n) = (t1, nw1, rs1, n1)"
  shows "rs1 = rs @ (case reported (vm_outcome scrape t i) of None \<Rightarrow> [] | Some r \<Rightarrow> [r])"
    and "n1 = n + (if failed (vm_outcome scrape t i) then 1 else 0)"
    and "map_of t1 = (map_of t)(i := kept (vm_outcome scrape t i))"
proof -
  consider (none) "map_of t i = None" | (err) conn e conn' where "map_of t i = Some conn" "scrape conn = (Inl e, conn')"
    | (ok) conn r conn' where "map_of t i = Some conn" "scrape conn = (Inr r, conn')"
    by (metis not_None_eq prod.exhaust sum.exhaust)
  then have "rs1 = rs @ (case reported (vm_outcome scrape t i) of None \<Rightarrow> [] | Some r \<Rightarrow> [r]) \<and>
      n1 = n + (if failed (vm_outcome scrape t i) then 1 else 0) \<and> map_of t1 = (map_of t)(i := kept (vm_outcome scrape t i))"
    by cases (use assms in \<open>auto simp: qmp_scrape_one_def vm_outcome_def reported_def failed_def kept_def fun_eq_iff\<close>)
  then show "rs1 = rs @ (case reported (vm_outcome scrape t i) of None \<Rightarrow> [] | Some r \<Rightarrow> [r])"
    "n1 = n + (if failed (vm_outcome scrape t i) then 1 else 0)"
    "map_of t1 = (map_of t)(i := kept (vm_outcome scrape t i))" by blast+
qed

lemma qmp_scrape_all_step:
  assumes "distinct ids" and "fold (qmp_scrape_one scrape) ids (t, nw, rs, n) = (t', nw', rs', n')"
  shows "rs' = rs @ List.map_filter (\<lambda>i. reported (vm_outcome scrape t i)) ids \<and>
    n' = n + length (filter (\<lambda>i. failed (vm_outcome scrape t i)) ids) \<and>
    map_of t' = (\<lambda>k. if k \<in> set ids then kept (vm_outcome scrape t k) else map_of t k)"
  using assms
proof (induction ids arbitrary: t nw rs n)
  case (Cons i ids)
  obtain t1 nw1 rs1 n1 where 1: "qmp_scrape_one scrape i (t, nw, rs, n) = (t1, nw1, rs1, n1)" by (metis prod_cases4)
  note st = qmp_scrape_one_step [OF 1]
  have i: "i \<notin> set ids" "distinct ids" using Cons.prems(1) by auto
  have o: "vm_outcome scrape t1 j = vm_outcome scrape t j" if "j \<in> set ids" for j
    using that i(1) by (auto simp: vm_outcome_def st(3))
  have mf: "List.map_filter (\<lambda>i. reported (vm_outcome scrape t1 i)) ids = List.map_filter (\<lambda>i. reported (vm_outcome scrape t i)) ids"
    using o by (intro map_filter_eq) simp
  have fl: "filter (\<lambda>i. failed (vm_outcome scrape t1 i)) ids = filter (\<lambda>i. failed (vm_outcome scrape t i)) ids"
    using o by (auto intro: filter_cong)
  have "fold (qmp_scrape_one scrape) ids (t1, nw1, rs1, n1) = (t', nw', rs', n')" using Cons.prems(2) 1 by simp
  note IH = Cons.IH [OF i(2) this, unfolded mf fl]
  have "map_of t' = (\<lambda>k. if k \<in> set (i # ids) then kept (vm_outcome scrape t k) else map_of t k)"
    using IH o i(1) by (auto simp: fun_eq_iff st(3))
  then show ?case using IH st(1,2) by (simp add: map_filter_simps split: option.split)
qed simp

text \<open>
  C18: A poll is complete. Take the connections it has after dropping departed containers and
  opening new ones. In whatever order they are read, each one that answers contributes its
  result and stays; each one that fails is counted as an error and is removed, to be opened
  again by the next poll; there are no other results and no other connections.
\<close>

theorem qmp_poll_complete:
  assumes "qmp_owns F (qm_connections c) nw" and "qmp_connections w c nw = (t, nw1)"
    and "mset (qw_order w (map fst t)) = mset (map fst t)" and "qmp_poll w c nw = (c', nw')"
    and "scrape = scrapeVM (qw_scrape w) (qw_codec w) (qw_dynamic' w) (qm_cfg c)"
  shows "qm_results c' = List.map_filter (\<lambda>i. reported (vm_outcome scrape t i)) (qw_order w (map fst t)) \<and>
    map_of (qm_connections c') = (\<lambda>i. kept (vm_outcome scrape t i)) \<and>
    (\<exists>n. qm_scrapeErrors c' = f64_add (qm_scrapeErrors c) (f64 (of_nat n)) \<and> n + length (qm_results c') = length t)"
proof -
  have d: "distinct (map fst t)" using qmp_connections_owns [OF assms(1,2)] by (simp add: owns_def)
  then have ord: "distinct (qw_order w (map fst t))" "set (qw_order w (map fst t)) = fst ` set t"
    using mset_eq_imp_distinct_iff [OF assms(3)] mset_eq_setD [OF assms(3)] by simp_all
  obtain t' nw2 rs n where f: "fold (qmp_scrape_one scrape) (qw_order w (map fst t)) (t, nw1, [], 0) = (t', nw2, rs, n)"
    by (metis prod_cases4)
  note st = qmp_scrape_all_step [OF ord(1) f]
  have c': "c' = c\<lparr>qm_connections := t', qm_results := rs,
      qm_scrapeErrors := f64_add (qm_scrapeErrors c) (f64 (of_nat n)), qm_lastPollTS := qw_now w\<rparr>"
    using assms(4) f unfolding qmp_poll_def assms(2) Let_def assms(5) [symmetric] by simp
  have out: "failed (vm_outcome scrape t i) \<longleftrightarrow> reported (vm_outcome scrape t i) = None" if i: "i \<in> fst ` set t" for i
  proof -
    obtain conn where "map_of t i = Some conn" using i by (cases "map_of t i") (auto simp: map_of_eq_None_iff)
    moreover obtain r cn where "scrape conn = (r, cn)" by (cases "scrape conn")
    ultimately show ?thesis by (cases r) (simp_all add: vm_outcome_def failed_def reported_def)
  qed
  have len: "length (filter (\<lambda>i. failed (vm_outcome scrape t i)) xs) +
      length (List.map_filter (\<lambda>i. reported (vm_outcome scrape t i)) xs) = length xs" if "set xs \<subseteq> fst ` set t" for xs
    using that
  proof (induction xs)
    case (Cons x xs)
    then show ?case using out [of x] by (cases "reported (vm_outcome scrape t x)") (simp_all add: map_filter_simps)
  qed (simp add: map_filter_simps)
  have "length (qw_order w (map fst t)) = length t" using mset_eq_length [OF assms(3)] by simp
  then have n: "n + length rs = length t" using st len [of "qw_order w (map fst t)"] ord(2) by simp
  have "map_of t' k = kept (vm_outcome scrape t k)" for k
  proof (cases "k \<in> fst ` set t")
    case True
    then show ?thesis using st ord(2) by simp
  next
    case False
    then have "map_of t k = None" by (simp add: map_of_eq_None_iff)
    then show ?thesis using st ord(2) False by (simp add: vm_outcome_def kept_def)
  qed
  then have "map_of t' = (\<lambda>i. kept (vm_outcome scrape t i))" by (rule ext)
  moreover have "rs = List.map_filter (\<lambda>i. reported (vm_outcome scrape t i)) (qw_order w (map fst t))" using st by simp
  ultimately show ?thesis using n unfolding c' by auto
qed

subsection \<open>Whose results are reported\<close>

lemma open_conn_pod: "fst (open_conn rt lv dyn p nw) = Some c \<Longrightarrow> conn_pod c = p"
  by (auto simp: open_conn_def connectVM_def conn_pod_def split: sum.splits if_splits prod.splits)

definition all_pods :: "(podInfo \<Rightarrow> bool) \<Rightarrow> vmConnection table \<Rightarrow> bool" where
  "all_pods P t \<longleftrightarrow> (\<forall>e \<in> set t. P (conn_pod (snd e)))"

lemma qmp_connections_pods:
  assumes "all_pods P (qm_connections c)" and "qmp_connections w c nw = (t, nw')"
    and "\<And>p. p \<in> set (select_pods (pc_Namespaces (qm_cfg c)) (pc_LabelFilter (qm_cfg c)) (qw_store w)) \<Longrightarrow> P p"
  shows "all_pods P t"
proof -
  define gs where "gs = find_targets (qw_runtime w) (select_pods (pc_Namespaces (qm_cfg c)) (pc_LabelFilter (qm_cfg c)) (qw_store w))"
  obtain t1 nw1 where 1: "drop_departed vc_close (map tg_containerID gs) (qm_connections c) nw = (t1, nw1)" by fastforce
  have gs: "P (tg_pod g)" if "g \<in> set gs" for g
    using find_targets_pod [OF that [unfolded gs_def]] assms(3) by blast
  have "t1 = filter (\<lambda>e. fst e \<in> set (map tg_containerID gs)) (qm_connections c)"
    using drop_departed_table [of vc_close "map tg_containerID gs" "qm_connections c" nw] 1 by simp
  then have t1: "all_pods P t1" using assms(1) by (auto simp: all_pods_def)
  have "t = fst (connect_new vc_close (open_conn (qw_runtime' w) (qw_connect w) (qw_dynamic w)) (map fst t1) gs t1 nw1)"
    using assms(2) by (simp add: qmp_connections_def gs_def [symmetric] 1)
  then show ?thesis using t1 gs connect_new_origin open_conn_pod unfolding all_pods_def by (metis prod.collapse)
qed

lemma qmp_scrape_all_pods:
  assumes "\<And>conn. keeps conn (snd (scrape conn))" and "\<And>conn r conn'. scrape conn = (Inr r, conn') \<Longrightarrow> result_pod r = conn_pod conn"
  shows "all_pods P t \<Longrightarrow> (\<forall>r \<in> set rs. P (result_pod r)) \<Longrightarrow>
    fold (qmp_scrape_one scrape) ids (t, nw, rs, n) = (t', nw', rs', n') \<Longrightarrow> all_pods P t' \<and> (\<forall>r \<in> set rs'. P (result_pod r))"
proof (induction ids arbitrary: t nw rs n)
  case (Cons i ids)
  obtain t1 nw1 rs1 n1 where 1: "qmp_scrape_one scrape i (t, nw, rs, n) = (t1, nw1, rs1, n1)" by (metis prod_cases4)
  have "all_pods P t1 \<and> (\<forall>r \<in> set rs1. P (result_pod r))"
  proof (cases "map_of t i")
    case (Some conn)
    obtain x conn' where x: "scrape conn = (x, conn')" by (cases "scrape conn")
    have "P (conn_pod conn)" using Cons.prems(1) map_of_SomeD [OF Some] by (auto simp: all_pods_def)
    then show ?thesis
      using Cons.prems(1,2) 1 assms(2) [of conn] keeps_pod [OF assms(1) [of conn]]
      by (cases x) (fastforce simp: qmp_scrape_one_def Some x all_pods_def put_def del_def)+
  qed (use Cons.prems 1 in \<open>auto simp: qmp_scrape_one_def\<close>)
  moreover have "fold (qmp_scrape_one scrape) ids (t1, nw1, rs1, n1) = (t', nw', rs', n')" using Cons.prems(3) 1 by simp
  ultimately show ?case using Cons.IH by blast
qed simp

lemma qmp_poll_pods:
  assumes "all_pods P (qm_connections c)"
    and "\<And>p. p \<in> set (select_pods (pc_Namespaces (qm_cfg c)) (pc_LabelFilter (qm_cfg c)) (qw_store w)) \<Longrightarrow> P p"
  shows "all_pods P (qm_connections (fst (qmp_poll w c nw))) \<and> (\<forall>r \<in> set (qm_results (fst (qmp_poll w c nw))). P (result_pod r)) \<and>
    qm_cfg (fst (qmp_poll w c nw)) = qm_cfg c"
proof -
  obtain t nw1 where 1: "qmp_connections w c nw = (t, nw1)" by fastforce
  obtain t' nw' rs n where 2: "fold (qmp_scrape_one (scrapeVM (qw_scrape w) (qw_codec w) (qw_dynamic' w) (qm_cfg c)))
      (qw_order w (map fst t)) (t, nw1, [], 0) = (t', nw', rs, n)" by (metis prod_cases4)
  show ?thesis
    using qmp_scrape_all_pods [OF scrapeVM_keeps scrapeVM_pod qmp_connections_pods [OF assms(1) 1 assms(2)] _ 2]
    by (simp add: qmp_poll_def 1 2)
qed

lemma qmp_polls_pods:
  assumes "all_pods P (qm_connections c)" and "\<forall>r \<in> set (qm_results c). P (result_pod r)"
    and "\<forall>w \<in> set ws. \<forall>p \<in> set (select_pods (pc_Namespaces (qm_cfg c)) (pc_LabelFilter (qm_cfg c)) (qw_store w)). P p"
    and "fold (\<lambda>w (c, nw). qmp_poll w c nw) ws (c, nw) = (c', nw')"
  shows "\<forall>r \<in> set (qm_results c'). P (result_pod r)"
  using assms
proof (induction ws arbitrary: c nw)
  case (Cons w ws)
  obtain c1 nw1 where 1: "qmp_poll w c nw = (c1, nw1)" by fastforce
  have P: "P p" if "p \<in> set (select_pods (pc_Namespaces (qm_cfg c)) (pc_LabelFilter (qm_cfg c)) (qw_store w))" for p
    using Cons.prems(3) that by simp
  have "all_pods P (qm_connections c1) \<and> (\<forall>r \<in> set (qm_results c1). P (result_pod r)) \<and> qm_cfg c1 = qm_cfg c"
    using qmp_poll_pods [of P c w nw, OF Cons.prems(1) P] 1 by simp
  then show ?case using Cons.IH [of c1 nw1] Cons.prems(3,4) 1 by simp
qed simp

text \<open>
  C19: Results are attributed to the right pods. Every result a collector reports carries the
  namespace and name of a pod that one of its polls found in the cache, running, labelled as
  the pod of a virtual machine of the reported name, in a namespace and with labels that the
  configuration selects.
\<close>

theorem qmp_results_attributed:
  assumes "fold (\<lambda>w (c, nw). qmp_poll w c nw) ws (qmp_NewCollector cfg, nw) = (c, nw')" and "r \<in> set (qm_results c)"
  shows "\<exists>w \<in> set ws. \<exists>q. CachedPod q \<in> set (qw_store w) \<and> po_Phase q = ''Running'' \<and>
    value_or_empty (po_Labels q) ''kubevirt.io'' = ''virt-launcher'' \<and>
    vm_Namespace r = po_Namespace q \<and> vm_PodName r = po_Name q \<and> vm_Name r = value_or_empty (po_Labels q) ''vm.kubevirt.io/name'' \<and>
    (pc_Namespaces cfg = [] \<or> vm_Namespace r \<in> set (pc_Namespaces cfg)) \<and>
    (pc_LabelFilter cfg = [] \<or> matchesLabelFilter (po_Labels q) (pc_LabelFilter cfg))"
proof -
  define P where "P p \<longleftrightarrow> (\<exists>w \<in> set ws. p \<in> set (select_pods (pc_Namespaces cfg) (pc_LabelFilter cfg) (qw_store w)))" for p
  have "\<forall>r \<in> set (qm_results c). P (result_pod r)"
    by (rule qmp_polls_pods [OF _ _ _ assms(1)]) (auto simp: qmp_NewCollector_def all_pods_def P_def)
  then obtain w where "w \<in> set ws" "result_pod r \<in> set (select_pods (pc_Namespaces cfg) (pc_LabelFilter cfg) (qw_store w))"
    using assms(2) by (auto simp: P_def)
  then obtain q where "CachedPod q \<in> set (qw_store w)" "po_Phase q = ''Running''"
      "value_or_empty (po_Labels q) ''kubevirt.io'' = ''virt-launcher''"
      "pc_LabelFilter cfg = [] \<or> matchesLabelFilter (po_Labels q) (pc_LabelFilter cfg)"
      "pc_Namespaces cfg = [] \<or> po_Namespace q \<in> set (pc_Namespaces cfg)"
      "result_pod r = \<lparr>pi_namespace = po_Namespace q, pi_podName = po_Name q,
         pi_vmiName = value_or_empty (po_Labels q) ''vm.kubevirt.io/name''\<rparr>"
    unfolding select_pods_iff by blast
  with \<open>w \<in> set ws\<close> show ?thesis by (intro bexI [of _ w] exI [of _ q]) (simp_all add: result_pod_def)
qed

subsection \<open>Buckets\<close>

text \<open>
  QEMU counts a latency in the bin of the first boundary above it, and those that are not below
  any boundary in a last bin.
\<close>

definition qemu_bin :: "rat list \<Rightarrow> rat \<Rightarrow> nat" where
  "qemu_bin bs x = length (takeWhile (\<lambda>b. b \<le> x) bs)"

definition qemu_hist :: "rat list \<Rightarrow> rat list \<Rightarrow> LatencyHist" where
  "qemu_hist bs xs = \<lparr>lh_Boundaries = bs,
     lh_Bins = map (\<lambda>i. of_nat (length (filter (\<lambda>x. qemu_bin bs x = i) xs))) [0..<Suc (length bs)]\<rparr>"

definition bucket_upd :: "LatencyHist \<Rightarrow> nat \<Rightarrow> u64 \<Rightarrow> (rat \<Rightarrow> u64 option) \<Rightarrow> rat \<Rightarrow> u64 option" where
  "bucket_upd h i v m = m(f64_quot (lh_Boundaries h ! i) 1000000000 \<mapsto> v)"

lemma ConvertBuckets_eq:
  "ConvertBuckets h =
     (fold (\<lambda>i. bucket_upd h i (sum_list (take (Suc i) (lh_Bins h))))
        [0..<min (length (lh_Boundaries h)) (length (lh_Bins h))] Map.empty, sum_list (lh_Bins h))"
proof -
  define f where "f = (\<lambda>(i, count) (buckets, cumulative). let cumulative = cumulative + count
      in (if i < length (lh_Boundaries h) then bucket_upd h i cumulative buckets else buckets, cumulative))"
  have f: "f (i, x) (b, y) = (if i < length (lh_Boundaries h) then bucket_upd h i (y + x) b else b, y + x)" for i x b y
    by (simp add: f_def Let_def)
  have "k \<le> length (lh_Bins h) \<Longrightarrow> fold f (enumerate 0 (take k (lh_Bins h))) (Map.empty, 0) =
      (fold (\<lambda>i. bucket_upd h i (sum_list (take (Suc i) (lh_Bins h)))) [0..<min (length (lh_Boundaries h)) k] Map.empty,
       sum_list (take k (lh_Bins h)))" for k
  proof (induction k)
    case (Suc k)
    then have t: "take (Suc k) (lh_Bins h) = take k (lh_Bins h) @ [lh_Bins h ! k]" by (simp add: take_Suc_conv_app_nth)
    then have e: "enumerate 0 (take (Suc k) (lh_Bins h)) = enumerate 0 (take k (lh_Bins h)) @ [(k, lh_Bins h ! k)]"
      using Suc.prems by (simp add: enumerate_append_eq)
    have "[0..<min (length (lh_Boundaries h)) (Suc k)] =
        [0..<min (length (lh_Boundaries h)) k] @ (if k < length (lh_Boundaries h) then [k] else [])"
    proof (cases "k < length (lh_Boundaries h)")
      case True
      then have "min (length (lh_Boundaries h)) (Suc k) = Suc k" "min (length (lh_Boundaries h)) k = k" by simp_all
      then show ?thesis using True by simp
    qed (simp add: min_def)
    then show ?case using Suc by (simp add: t e [unfolded t] f)
  qed simp
  from this [of "length (lh_Bins h)"] show ?thesis unfolding ConvertBuckets_def f_def bucket_upd_def by simp
qed

lemma fold_upd_distinct:
  "distinct (map g xs) \<Longrightarrow> x \<in> set xs \<Longrightarrow> fold (\<lambda>i m. m(g i \<mapsto> v i)) xs m (g x) = Some (v x)"
proof -
  have keep: "k \<notin> g ` set ys \<Longrightarrow> fold (\<lambda>i m. m(g i \<mapsto> v i)) ys m k = m k" for ys m k
    by (induction ys arbitrary: m) auto
  assume "distinct (map g xs)" "x \<in> set xs"
  then show ?thesis by (induction xs arbitrary: m) (auto simp: keep)
qed

lemma takeWhile_le_nth:
  "sorted bs \<Longrightarrow> i < length bs \<Longrightarrow> length (takeWhile (\<lambda>b. b \<le> x) bs) \<le> i \<longleftrightarrow> (x :: rat) < bs ! i"
proof (induction bs arbitrary: i)
  case (Cons b bs)
  show ?case
  proof (cases i)
    case (Suc j)
    have "b \<le> bs ! j" using Cons.prems Suc by auto
    show ?thesis
    proof (cases "b \<le> x")
      case True
      then show ?thesis using Cons.IH [of j] Cons.prems Suc by simp
    next
      case False
      then show ?thesis using \<open>b \<le> bs ! j\<close> Suc by simp
    qed
  qed auto
qed simp

lemma sum_counts:
  "sum_list (map (\<lambda>i. of_nat (length (filter (\<lambda>x. f x = i) xs)) :: u64) [0..<n]) = of_nat (length (filter (\<lambda>x. f x < n) xs))"
proof (induction n)
  case (Suc n)
  have "length (filter (\<lambda>x. f x < Suc n) ys) = length (filter (\<lambda>x. f x < n) ys) + length (filter (\<lambda>x. f x = n) ys)" for ys
    by (induction ys) auto
  then show ?case using Suc by simp
qed simp

text \<open>
  C24: Histograms are exported as QEMU counts them. For the bins QEMU keeps of any latencies, the
  bucket of a boundary holds the number of latencies below it and the count is the number of
  all latencies, modulo 2^64, if no two boundaries have the same rounded number of seconds.
\<close>

theorem qmp_buckets_count:
  assumes "sorted bs" and "distinct (map (\<lambda>b. f64_quot b 1000000000) bs)"
  shows "snd (ConvertBuckets (qemu_hist bs xs)) = of_nat (length xs) \<and>
    (\<forall>i < length bs. fst (ConvertBuckets (qemu_hist bs xs)) (f64_quot (bs ! i) 1000000000) =
       Some (of_nat (length (filter (\<lambda>x. x < bs ! i) xs))))"
proof (intro conjI allI impI)
  have "qemu_bin bs x < Suc (length bs)" for x by (simp add: qemu_bin_def less_Suc_eq_le length_takeWhile_le)
  then show "snd (ConvertBuckets (qemu_hist bs xs)) = of_nat (length xs)"
    by (simp add: ConvertBuckets_eq qemu_hist_def sum_counts del: upt_Suc)
  fix i
  assume i: "i < length bs"
  let ?B = "lh_Bins (qemu_hist bs xs)"
  have h: "lh_Boundaries (qemu_hist bs xs) = bs" "length ?B = Suc (length bs)" by (simp_all add: qemu_hist_def)
  have "map (\<lambda>i. f64_quot (bs ! i) 1000000000) [0..<length bs] = map (\<lambda>b. f64_quot b 1000000000) bs"
    by (rule nth_equalityI) simp_all
  then have "fold (\<lambda>i m. m(f64_quot (bs ! i) 1000000000 \<mapsto> sum_list (take (Suc i) ?B))) [0..<length bs] Map.empty
      (f64_quot (bs ! i) 1000000000) = Some (sum_list (take (Suc i) ?B))"
    using assms(2) i by (intro fold_upd_distinct) simp_all
  then have "fst (ConvertBuckets (qemu_hist bs xs)) (f64_quot (bs ! i) 1000000000) = Some (sum_list (take (Suc i) ?B))"
    unfolding ConvertBuckets_eq bucket_upd_def h by simp
  also have "take (Suc i) (lh_Bins (qemu_hist bs xs)) =
      map (\<lambda>j. of_nat (length (filter (\<lambda>x. qemu_bin bs x = j) xs))) [0..<Suc i]"
    using i by (simp add: qemu_hist_def take_map del: upt_Suc)
  also have "sum_list \<dots> = of_nat (length (filter (\<lambda>x. qemu_bin bs x < Suc i) xs))" by (rule sum_counts)
  also have "filter (\<lambda>x. qemu_bin bs x < Suc i) xs = filter (\<lambda>x. x < bs ! i) xs"
    by (simp add: qemu_bin_def less_Suc_eq_le takeWhile_le_nth [OF assms(1) i])
  finally show "fst (ConvertBuckets (qemu_hist bs xs)) (f64_quot (bs ! i) 1000000000) =
      Some (of_nat (length (filter (\<lambda>x. x < bs ! i) xs)))" .
qed

subsection \<open>An example\<close>

definition ex_pod :: pod where
  "ex_pod = \<lparr>po_Phase = ''Running'', po_Labels = [''kubevirt.io'' \<mapsto> ''virt-launcher'', ''vm.kubevirt.io/name'' \<mapsto> ''vm1''],
     po_Namespace = ''default'', po_Name = ''virt-launcher-vm1''\<rparr>"

definition ex_runtime :: runtime where
  "ex_runtime = \<lparr>rt_list = \<lambda>_ _. Some [''c1''], rt_status = \<lambda>_. Some [''info'' \<mapsto> ''42''], rt_pid = \<lambda>_. Some 42,
     rt_members = \<lambda>_. None, rt_int = \<lambda>_. None\<rparr>"

definition ex_world :: qmp_world where
  "ex_world = \<lparr>qw_store = [CachedOther, CachedPod ex_pod], qw_runtime = ex_runtime, qw_runtime' = ex_runtime, qw_connect = ex_daemon,
     qw_dynamic = None, qw_scrape = ex_daemon, qw_dynamic' = None, qw_codec = ex_codec, qw_order = \<lambda>is. is, qw_now = 0\<rparr>"

definition ex_network :: network where
  "ex_network = \<lparr>nw_next = 0, nw_conns = [], nw_sessions = []\<rparr>"

lemma ex_vq: "map vm_Virtqueues (qm_results (fst (qmp_poll ex_world (qmp_NewCollector ex_poller) ex_network))) =
  [[\<lparr>vr_Disk = [], vr_PVC = [], vr_Bus = ''scsi'', vr_Queue = 0, vr_Inuse = 3, vr_VringNum = 256\<rparr>,
    \<lparr>vr_Disk = [], vr_PVC = [], vr_Bus = ''scsi'', vr_Queue = 0, vr_Inuse = 3, vr_VringNum = 256\<rparr>]]"
  by code_simp

lemma ex_ids: "map fst (qm_connections (fst (qmp_poll ex_world (qmp_NewCollector ex_poller) ex_network))) = [''c1'']"
  by code_simp

lemma ex_nw: "nw_conns (snd (qmp_poll ex_world (qmp_NewCollector ex_poller) ex_network)) = [0]"
  by code_simp

lemma ex_poll_results: "map vm_Namespace (qm_results (fst (qmp_poll ex_world (qmp_NewCollector ex_poller) ex_network))) = [''default'']"
  by code_simp

lemma ex_fresh: "fresh_net ex_network"
  by (simp add: fresh_net_def ex_network_def)

abbreviation ex_polled :: "qmp_Collector \<times> network" where
  "ex_polled \<equiv> qmp_poll ex_world (qmp_NewCollector ex_poller) ex_network"

theorem qmp_no_leak_witness:
  "set (nw_conns (snd ex_polled)) = {0} \<and> handles vc_handle (qm_connections (fst ex_polled)) = {0} \<and>
   set (nw_conns (snd (qmp_Run [ex_world] (qmp_NewCollector ex_poller) ex_network))) = {}"
proof -
  have "fold (\<lambda>w (c, nw). qmp_poll w c nw) [ex_world] (qmp_NewCollector ex_poller, ex_network) = (fst ex_polled, snd ex_polled)" by simp
  from qmp_no_leak [OF _ _ ex_fresh this, of "{}"] ex_nw show ?thesis by (simp add: ex_network_def)
qed

theorem qmp_results_attributed_witness:
  "\<exists>r \<in> set (qm_results (fst ex_polled)). vm_Namespace r \<in> set (pc_Namespaces ex_poller)"
proof -
  obtain r where r: "r \<in> set (qm_results (fst ex_polled))" using ex_poll_results by (cases "qm_results (fst ex_polled)") auto
  have "fold (\<lambda>w (c, nw). qmp_poll w c nw) [ex_world] (qmp_NewCollector ex_poller, ex_network) = (fst ex_polled, snd ex_polled)" by simp
  from qmp_results_attributed [OF this r] r show ?thesis by (auto simp: ex_poller_def)
qed

lemma ex_New: "qm_scrapeErrors (qmp_NewCollector ex_poller) = 0"
  by (simp add: qmp_NewCollector_def)

theorem qmp_poll_complete_witness:
  "\<exists>n. qm_scrapeErrors (fst ex_polled) = f64_add 0 (f64 (of_nat n)) \<and> n + length (qm_results (fst ex_polled)) = 1"
proof -
  obtain t nw1 where t: "qmp_connections ex_world (qmp_NewCollector ex_poller) ex_network = (t, nw1)" by fastforce
  have "length (fst (qmp_connections ex_world (qmp_NewCollector ex_poller) ex_network)) = 1" by code_simp
  then have "length t = 1" by (simp add: t)
  have own: "qmp_owns {} (qm_connections (qmp_NewCollector ex_poller)) ex_network"
    by (simp add: owns_def handles_def qmp_NewCollector_def ex_fresh) (simp add: ex_network_def)
  have "mset (qw_order ex_world (map fst t)) = mset (map fst t)" by (simp add: ex_world_def)
  from conjunct2 [OF conjunct2 [OF qmp_poll_complete [OF own t this prod.collapse [symmetric] refl]]]
  show ?thesis unfolding ex_New \<open>length t = 1\<close> .
qed

theorem qmp_buckets_count_witness:
  "snd (ConvertBuckets (qemu_hist [10, 100] [5, 15, 250])) = 3 \<and>
   fst (ConvertBuckets (qemu_hist [10, 100] [5, 15, 250])) (f64_quot 100 1000000000) = Some 2"
proof -
  have "f64 (10 / 1000000000) \<le> 2 * (10 / 1000000000)" "(100 / 1000000000) / 2 \<le> f64 (100 / 1000000000)"
    by (rule f64_bounds; simp)+
  then have "f64_quot 10 1000000000 \<noteq> f64_quot 100 1000000000" by (simp add: f64_quot_def f64_div_def)
  then have "distinct (map (\<lambda>b. f64_quot b 1000000000) [10, 100])" by simp
  note b = qmp_buckets_count [OF _ this, of "[5, 15, 250]"]
  have "snd (ConvertBuckets (qemu_hist [10, 100] [5, 15, 250])) = 3" using b by simp
  moreover have "fst (ConvertBuckets (qemu_hist [10, 100] [5, 15, 250])) (f64_quot ([10, 100] ! 1) 1000000000) =
      Some (of_nat (length (filter (\<lambda>x. x < [10, 100] ! 1) [5, 15, 250 :: rat])))"
    by (rule conjunct2 [OF b, rule_format]) simp_all
  ultimately show ?thesis by simp
qed

text \<open>
  Metrics are rejected when two agree in description and labels; so a virtual machine must not
  have two queues of one bus, disk and number.
\<close>

lemma those_Some: "those xs = Some ys \<Longrightarrow> xs = map Some ys"
  by (induction xs arbitrary: ys) (auto split: option.splits)

lemma queues_collide:
  assumes "qmp_Collect accept c = Some ms" and "r \<in> set (qm_results c)" and "vm_Virtqueues r = qs1 @ a # qs2 @ b # qs3"
    and "vr_Disk a = vr_Disk b" "vr_PVC a = vr_PVC b" "vr_Queue a = vr_Queue b" "vr_Bus a = vr_Bus b"
  shows "\<not> distinct (map metric_id ms)"
proof
  assume d: "distinct (map metric_id ms)"
  obtain rs1 rs2 where rs: "qm_results c = rs1 @ r # rs2" using split_list [OF assms(2)] by blast
  have *: "map Some ms = [const_metric accept scrapeErrorsDesc (qm_scrapeErrors c) [], const_metric accept lastPollDesc (qm_lastPollTS c) []] @
      concat (map (vmi_metrics accept) (qm_results c))"
    using those_Some [OF assms(1) [unfolded qmp_Collect_def]] by simp
  have "distinct (map Some (map metric_id ms))" by (rule iffD2 [OF distinct_map conjI [OF d]]) (simp add: inj_on_def)
  then have dm: "distinct (map (map_option metric_id) (map Some ms))" by (simp add: comp_def)
  have "map Some ms = ([const_metric accept scrapeErrorsDesc (qm_scrapeErrors c) [], const_metric accept lastPollDesc (qm_lastPollTS c) []] @
      concat (map (vmi_metrics accept) rs1) @ map Some (concat (map (device_metrics accept r) (vm_Devices r))) @
      concat (map (queue_metrics accept r) qs1)) @ queue_metrics accept r a @ concat (map (queue_metrics accept r) qs2) @
      queue_metrics accept r b @ concat (map (queue_metrics accept r) qs3) @ concat (map (vmi_metrics accept) rs2)"
    unfolding * rs by (simp add: vmi_metrics_def assms(3))
  from dm [unfolded this] have "set (map (map_option metric_id) (queue_metrics accept r a)) \<inter> set (map (map_option metric_id) (queue_metrics accept r b)) = {}"
    by (simp only: map_append distinct_append set_append) blast
  moreover have "map (map_option metric_id) (queue_metrics accept r a) = map (map_option metric_id) (queue_metrics accept r b)"
    using assms(4-7) by (simp add: queue_metrics_def const_metric_def metric_id_def Let_def)
  ultimately show False by (simp add: queue_metrics_def Let_def)
qed

lemma qmp_Collect_total: "\<exists>ms. qmp_Collect arity_ok c = Some ms"
proof -
  have some: "\<exists>xs. ys = map Some xs" if "None \<notin> set ys" for ys :: "Metric option list"
    using that by (induction ys) (auto simp: Cons_eq_map_conv neq_commute)
  have "those (map Some xs) = Some xs" for xs :: "Metric list" by (induction xs) simp_all
  moreover have "None \<notin> set ([const_metric arity_ok scrapeErrorsDesc (qm_scrapeErrors c) [], const_metric arity_ok lastPollDesc (qm_lastPollTS c) []] @
      concat (map (vmi_metrics arity_ok) (qm_results c)))"
    by (auto simp: const_metric_def arity_ok_def scrapeErrorsDesc_def lastPollDesc_def vmi_metrics_def queue_metrics_def Let_def
        virtqueueInuseDesc_def virtqueueSizeDesc_def)
  ultimately show ?thesis unfolding qmp_Collect_def using some by metis
qed

text \<open>
  C36: SCSI controllers collide. The queues of a virtio-scsi controller are exported without the name of
  the controller. Whenever QEMU lists two controllers whose queues can be read, reading the
  virtual machine succeeds, and every scrape of a collector that holds the result hands the
  client two metrics that agree in description and labels, which makes it reject the scrape.
\<close>

theorem scsi_queues_collide:
  assumes "\<not> vc_closed conn" and "queues_known conn" and "fst (QueryBlockStats lv js (vc_client conn)) = Inr resp"
    and "\<And>c. \<not> cl_closed c \<Longrightarrow> fst (QueryVirtio lv js c) = Inr (xs @ a # ys @ b # zs)"
    and "readable_controller lv js a" and "readable_controller lv js b"
  shows "\<exists>r conn'. scrapeVM lv js dyn cfg conn = (Inr r, conn') \<and>
    (\<forall>c ms. r \<in> set (qm_results c) \<longrightarrow> qmp_Collect accept c = Some ms \<longrightarrow> \<not> distinct (map (\<lambda>m. (m_desc m, m_labels m)) ms))"
proof -
  obtain c where c: "QueryBlockStats lv js (vc_client conn) = (Inr resp, c)" using assms(3) by (metis prod.collapse)
  then have "\<not> cl_closed (vc_client conn)" by (auto simp: QueryBlockStats_def split: if_splits)
  then have oc: "\<not> cl_closed c" using query_keeps(1) [of conn lv js] c by (simp add: keeps_def)
  define c1 where "c1 = fold (arm_device lv js cfg) resp (conn\<lparr>vc_client := c\<rparr>)"
  obtain ds c2 r2 where d: "fold (read_device dyn) resp ([], c1, False) = (ds, c2, r2)" by (metis prod_cases3)
  have "keeps (conn\<lparr>vc_client := c\<rparr>) c1" unfolding c1_def
    using fold_keeps [of "\<lambda>s. s" "arm_device lv js cfg", OF arm_device_keeps] by simp
  moreover have "keeps c1 c2"
    using fold_keeps [of "\<lambda>s. fst (snd s)" "read_device dyn" "([], c1, False)" resp, OF read_device_keeps] by (simp add: d)
  ultimately have oc2: "\<not> cl_closed (vc_client c2)" using oc by (simp add: keeps_def)
  have "vc_numQueues c1 = vc_numQueues conn"
    unfolding c1_def by (subst fold_frame [where q = vc_numQueues]) (simp_all add: numQueues_frame)
  moreover have "vc_numQueues c2 = vc_numQueues c1"
    using fold_frame [of "\<lambda>s. vc_numQueues (fst (snd s))" "read_device dyn" resp "([], c1, False)"] numQueues_frame(2) by (simp add: d)
  ultimately have k2: "queues_known c2" using assms(2) by (simp add: queues_known_def)
  obtain v where v: "QueryVirtio lv js (vc_client c2) = (Inr (xs @ a # ys @ b # zs), v)" using assms(4) [OF oc2] by (metis prod.collapse)
  have ov: "\<not> cl_closed v" using query_keeps(2) [of c2 lv js] v oc2 by (simp add: keeps_def)
  define s where "s = fold (blk_device lv js dyn) (xs @ a # ys @ b # zs) ([], c2\<lparr>vc_client := v\<rparr>, r2)"
  have "keeps (c2\<lparr>vc_client := v\<rparr>) (fst (snd s))"
    unfolding s_def using fold_keeps [of "\<lambda>s. fst (snd s)" "blk_device lv js dyn" "([], c2\<lparr>vc_client := v\<rparr>, r2)", OF blk_device_keeps]
    by (simp only: fst_conv snd_conv)
  then have os: "\<not> cl_closed (vc_client (fst (snd s)))" using ov by (simp add: keeps_def)
  have ks: "queues_known (fst (snd s))"
    unfolding s_def by (rule fold_invariant [of "\<lambda>s. queues_known (fst (snd s))"])
      (simp_all add: device_queues_known(1), use k2 in \<open>simp add: queues_known_def\<close>)
  obtain q q' us vs ws where q: "first_scsi_queue q" "first_scsi_queue q'"
      "fst (fold (scsi_device lv js) (xs @ a # ys @ b # zs) s) = us @ q # vs @ q' # ws"
    using two_controllers [OF assms(5,6) os ks] by blast
  obtain r conn' where r: "scrapeVM lv js dyn cfg conn = (Inr r, conn')" "vm_Virtqueues r = us @ q # vs @ q' # ws"
    using assms(1) q(3) by (auto simp: scrapeVM_def c c1_def [symmetric] d v s_def Let_def case_prod_beta)
  have "\<not> distinct (map (\<lambda>m. (m_desc m, m_labels m)) ms)" if "r \<in> set (qm_results cl)" "qmp_Collect accept cl = Some ms" for cl ms
    using queues_collide [OF that(2,1) r(2)] q(1,2) by (simp add: first_scsi_queue_def metric_id_def [abs_def])
  with r(1) show ?thesis by blast
qed

theorem scsi_queues_collide_witness:
  "\<exists>r conn'. scrapeVM ex_daemon ex_codec None ex_poller ex_conn = (Inr r, conn') \<and>
     (\<exists>ms. qmp_Collect arity_ok ((qmp_NewCollector ex_poller)\<lparr>qm_results := [r]\<rparr>) = Some ms \<and>
        \<not> distinct (map (\<lambda>m. (m_desc m, m_labels m)) ms))"
proof -
  define a where "a = ex_virtio ''/machine/peripheral/scsi0/virtio-backend''"
  define b where "b = ex_virtio ''/machine/peripheral/scsi1/virtio-backend''"
  have n: "ExtractControllerName (vd_Path a) \<noteq> None" "ExtractControllerName (vd_Path b) \<noteq> None" "IsVirtioScsi a" "IsVirtioScsi b"
    unfolding a_def b_def by code_simp+
  have ok: "readable_controller ex_daemon ex_codec v" if "ExtractControllerName (vd_Path v) \<noteq> None" "IsVirtioScsi v" for v
    using that by (simp add: readable_controller_def QueryVirtioStatus_def QueryVirtioQueueStatus_def execQMP_def ex_codec_def ex_daemon_def decoded_def)
  have q: "fst (QueryVirtio ex_daemon ex_codec c) = Inr ([] @ a # [] @ b # [])" if "\<not> cl_closed c" for c
    using that by (simp add: QueryVirtio_def execQMP_def ex_codec_def ex_daemon_def decoded_def a_def b_def)
  have "\<not> vc_closed ex_conn" "queues_known ex_conn" by (simp_all add: ex_conn_def queues_known_def)
  from scsi_queues_collide [OF this ex_query q ok [OF n(1,3)] ok [OF n(2,4)], of None ex_poller arity_ok]
  obtain r conn' where r: "scrapeVM ex_daemon ex_codec None ex_poller ex_conn = (Inr r, conn')"
    "\<And>c ms. r \<in> set (qm_results c) \<Longrightarrow> qmp_Collect arity_ok c = Some ms \<Longrightarrow> \<not> distinct (map (\<lambda>m. (m_desc m, m_labels m)) ms)"
    by blast
  obtain ms where ms: "qmp_Collect arity_ok ((qmp_NewCollector ex_poller)\<lparr>qm_results := [r]\<rparr>) = Some ms" using qmp_Collect_total by blast
  from r(2) [OF _ ms] have "\<not> distinct (map (\<lambda>m. (m_desc m, m_labels m)) ms)" by simp
  with r(1) ms show ?thesis by blast
qed

end
