(* ===== verification/QgaCollector.thy ===== *)
theory QgaCollector
  imports QgaScrape QmpCollector "HOL-Library.Sublist"
begin

text \<open>
  The second half of \<^verbatim>\<open>pkg/qga/collector.go\<close>, with the descriptions of \<^verbatim>\<open>metrics.go\<close>: the poll over all virtual
  machines and what a scrape exports of it. A virtual machine whose agent refuses the command,
  or that fails too often in a row, is left alone until its container is replaced. The
  arguments are those of theory \<^verbatim>\<open>QmpCollector\<close>, with the decoders of the agent's answers.
\<close>

subsection \<open>State of the collector\<close>

record qga_Collector =
  qg_cfg :: CollectorConfig
  qg_results :: "vmiResult list"
  qg_scrapeErrors :: rat
  qg_lastPollTS :: rat
  qg_vms :: "vmState table"

definition qga_NewCollector :: "CollectorConfig \<Rightarrow> qga_Collector" where
  "qga_NewCollector cfg =
     \<lparr>qg_cfg = cfg, qg_results = [], qg_scrapeErrors = 0, qg_lastPollTS = 0, qg_vms = []\<rparr>"

definition qga_closeAll :: "qga_Collector \<Rightarrow> network \<Rightarrow> qga_Collector \<times> network" where
  "qga_closeAll c nw = (c\<lparr>qg_vms := []\<rparr>, close_all_conns gs_close (qg_vms c) nw)"

subsection \<open>The poll\<close>

record qga_world =
  gw_store :: "cached list"
  gw_runtime :: runtime
  gw_runtime' :: runtime
  gw_connect :: libvirt
  gw_dynamic :: "dynamic option"
  gw_scrape :: libvirt
  gw_dynamic' :: "dynamic option"
  gw_codec :: qga_codec
  gw_order :: "string list \<Rightarrow> string list"
  gw_iter :: "string list \<Rightarrow> string list"
  gw_now :: rat

definition qga_scrape_one :: "CollectorConfig \<Rightarrow> (vmState \<Rightarrow> (qga_scrape_error + vmiResult option) \<times> vmState) \<Rightarrow> string \<Rightarrow>
    vmState table \<times> vmiResult list \<times> nat \<Rightarrow> vmState table \<times> vmiResult list \<times> nat" where
  "qga_scrape_one cfg scrape containerID s =
     (let (t, results, scrapeErrors) = s
      in case map_of t containerID of
        None \<Rightarrow> s
      | Some vs \<Rightarrow>
          if gs_stopped vs \<or> gs_closed vs then s
          else case scrape vs of
            (Inl err, vs) \<Rightarrow> (put containerID (handleScrapeError cfg err vs) t, results, scrapeErrors + 1)
          | (Inr None, vs) \<Rightarrow> (put containerID vs t, results, scrapeErrors)
          | (Inr (Some result), vs) \<Rightarrow> (put containerID vs t, results @ [result], scrapeErrors))"

definition qga_connections :: "qga_world \<Rightarrow> qga_Collector \<Rightarrow> network \<Rightarrow> vmState table \<times> network" where
  "qga_connections w c nw =
     (let targets = find_targets (gw_runtime w)
            (select_pods (gc_Namespaces (qg_cfg c)) (gc_LabelFilter (qg_cfg c)) (gw_store w));
          (t, nw) = drop_departed gs_close (map tg_containerID targets) (qg_vms c) nw
      in connect_new gs_close (open_vm_state (gw_runtime' w) (gw_connect w) (gw_codec w) (gw_dynamic w)) (map fst t) targets t nw)"

definition qga_poll :: "qga_world \<Rightarrow> qga_Collector \<Rightarrow> network \<Rightarrow> qga_Collector \<times> network" where
  "qga_poll w c nw =
     (let (t, nw) = qga_connections w c nw;
          scrape = qga_scrapeVM (gw_scrape w) (gw_codec w) (gw_dynamic' w) (gw_iter w) (qg_cfg c);
          (t, results, scrapeErrors) = fold (qga_scrape_one (qg_cfg c) scrape) (gw_order w (map fst t)) (t, [], 0)
      in (c\<lparr>qg_vms := t, qg_results := results,
            qg_scrapeErrors := f64_add (qg_scrapeErrors c) (f64 (of_nat scrapeErrors)), qg_lastPollTS := gw_now w\<rparr>, nw))"

definition qga_Run :: "qga_world list \<Rightarrow> qga_Collector \<Rightarrow> network \<Rightarrow> qga_Collector \<times> network" where
  "qga_Run ws c nw = (let (c, nw) = fold (\<lambda>w (c, nw). qga_poll w c nw) ws (c, nw) in qga_closeAll c nw)"

subsection \<open>What a scrape exports\<close>

definition latencyAvgDesc :: Desc where
  "latencyAvgDesc = \<lparr>d_fqName = ''kubevirt_vmi_storage_guest_latency_avg_seconds'',
     d_variableLabels = [''namespace'', ''name'', ''node'', ''pod'', ''disk'', ''persistentvolumeclaim'', ''operation'', ''drive'']\<rparr>"

definition iopsDesc :: Desc where
  "iopsDesc = \<lparr>d_fqName = ''kubevirt_vmi_storage_guest_iops'',
     d_variableLabels = [''namespace'', ''name'', ''node'', ''pod'', ''disk'', ''persistentvolumeclaim'', ''operation'', ''drive'']\<rparr>"

definition qgaScrapeErrorsDesc :: Desc where
  "qgaScrapeErrorsDesc = \<lparr>d_fqName = ''kme_qga_scrape_errors_total'', d_variableLabels = []\<rparr>"

definition qgaLastPollDesc :: Desc where
  "qgaLastPollDesc = \<lparr>d_fqName = ''kme_qga_last_poll_timestamp_seconds'', d_variableLabels = []\<rparr>"

definition qga_Describe :: "Desc list" where
  "qga_Describe = [latencyAvgDesc, iopsDesc, qgaScrapeErrorsDesc, qgaLastPollDesc]"

definition direction_metrics :: "acceptor \<Rightarrow> vmiResult \<Rightarrow> enrichedDisk \<Rightarrow> string \<Rightarrow> rat \<Rightarrow> rat \<Rightarrow> Metric option list" where
  "direction_metrics accept vmi disk opn lat iops =
     (let labels = [gr_Namespace vmi, gr_Name vmi, gr_Node vmi, gr_PodName vmi, ed_Disk disk, ed_PVC disk, opn,
            dm_Name (ed_DiskMetrics disk)]
      in if 0 < iops \<or> 0 < lat
         then [const_metric accept latencyAvgDesc lat labels, const_metric accept iopsDesc iops labels] else [])"

definition disk_metrics :: "acceptor \<Rightarrow> vmiResult \<Rightarrow> enrichedDisk \<Rightarrow> Metric option list" where
  "disk_metrics accept vmi disk =
     direction_metrics accept vmi disk ''read'' (dm_RdLatSec (ed_DiskMetrics disk)) (dm_RdIOPS (ed_DiskMetrics disk)) @
     direction_metrics accept vmi disk ''write'' (dm_WrLatSec (ed_DiskMetrics disk)) (dm_WrIOPS (ed_DiskMetrics disk))"

definition qga_Collect :: "acceptor \<Rightarrow> qga_Collector \<Rightarrow> Metric list option" where
  "qga_Collect accept c =
     those ([const_metric accept qgaScrapeErrorsDesc (qg_scrapeErrors c) [],
             const_metric accept qgaLastPollDesc (qg_lastPollTS c) []] @
            concat (map (\<lambda>vmi. concat (map (disk_metrics accept vmi) (gr_Disks vmi))) (qg_results c)))"

subsection \<open>Giving up\<close>

text \<open>What a poll does to one virtual machine.\<close>

definition vm_turn :: "CollectorConfig \<Rightarrow> (vmState \<Rightarrow> (qga_scrape_error + vmiResult option) \<times> vmState) \<Rightarrow> vmState \<Rightarrow> vmState" where
  "vm_turn cfg scrape vs =
     (if gs_stopped vs \<or> gs_closed vs then vs
      else case scrape vs of (Inl e, vs) \<Rightarrow> handleScrapeError cfg e vs | (Inr _, vs) \<Rightarrow> vs)"

abbreviation world_turn :: "CollectorConfig \<Rightarrow> qga_world \<Rightarrow> vmState \<Rightarrow> vmState" where
  "world_turn cfg w \<equiv> vm_turn cfg (qga_scrapeVM (gw_scrape w) (gw_codec w) (gw_dynamic' w) (gw_iter w) cfg)"

abbreviation world_outcome :: "Client \<Rightarrow> qga_world \<Rightarrow> agent_outcome" where
  "world_outcome c w \<equiv> outcome_of (gw_scrape w) (gw_codec w) c"

text \<open>The longest run of failures that is tolerated, plus one; a limit below 1 acts as 1.\<close>

definition retry_limit :: "CollectorConfig \<Rightarrow> nat" where
  "retry_limit cfg = max 1 (nat (gc_MaxRetries cfg))"

lemma handleScrapeError_keeps: "gs_keeps vs (handleScrapeError cfg e vs)"
  by (simp add: handleScrapeError_def gs_keeps_def Let_def)

lemma world_turn_keeps: "gs_keeps vs (world_turn cfg w vs)"
  using qga_scrapeVM_cases [of vs "gw_scrape w" "gw_codec w" "gw_dynamic' w" "gw_iter w" cfg] handleScrapeError_keeps
  by (auto simp: vm_turn_def)

lemma world_turn_step:
  assumes "\<not> gs_stopped vs" and "\<not> gs_closed vs" and "0 \<le> gs_retryCount vs"
  shows "case world_outcome (gs_client vs) w of
      Answered \<Rightarrow> \<not> gs_stopped (world_turn cfg w vs) \<and> gs_retryCount (world_turn cfg w vs) = 0
    | Refused \<Rightarrow> gs_stopped (world_turn cfg w vs)
    | Failed \<Rightarrow> gs_retryCount (world_turn cfg w vs) = gs_retryCount vs + 1 \<and>
        (gs_stopped (world_turn cfg w vs) \<longleftrightarrow> retry_limit cfg \<le> nat (gs_retryCount vs + 1))"
  using qga_scrapeVM_cases [OF assms(2), of "gw_scrape w" "gw_codec w" "gw_dynamic' w" "gw_iter w" cfg] assms
  by (auto simp: vm_turn_def outcome_of_def handleScrapeError_def Let_def retry_limit_def)

lemma stopped_final: "gs_stopped vs \<Longrightarrow> fold (world_turn cfg) ws vs = vs"
  by (induction ws) (simp_all add: vm_turn_def)

lemma sublist_replicate_break:
  assumes "k < M" and "y \<noteq> x"
  shows "sublist (replicate M x) (replicate k x @ y # zs) \<longleftrightarrow> sublist (replicate M x) zs"
proof
  assume "sublist (replicate M x) (replicate k x @ y # zs)"
  then show "sublist (replicate M x) zs" using assms(1)
  proof (induction k)
    case 0
    then obtain m where "M = Suc m" by (cases M) auto
    then show ?case using 0 assms(2) by (auto simp: sublist_Cons_right)
  next
    case (Suc k)
    have "\<not> prefix (replicate M x) (replicate (Suc k) x @ y # zs)"
    proof
      assume "prefix (replicate M x) (replicate (Suc k) x @ y # zs)"
      then obtain r where "replicate (Suc k) x @ y # zs = replicate M x @ r" by (auto simp: prefix_def)
      then have "(replicate (Suc k) x @ y # zs) ! Suc k = (replicate M x @ r) ! Suc k" by (rule arg_cong)
      moreover have "(replicate (Suc k) x @ y # zs) ! Suc k = y" by (simp add: nth_append)
      moreover have "(replicate M x @ r) ! Suc k = x" using Suc.prems(2) by (simp add: nth_append del: replicate_Suc)
      ultimately show False using assms(2) by simp
    qed
    then show ?case using Suc by (auto simp: sublist_Cons_right)
  qed
next
  assume "sublist (replicate M x) zs"
  then show "sublist (replicate M x) (replicate k x @ y # zs)" by (metis append_Cons append_Nil sublist_append_leftI sublist_append_rightI sublist_order.order_trans append.assoc)
qed

lemma stops_iff:
  assumes "\<not> gs_stopped vs" and "\<not> gs_closed vs" and "gs_retryCount vs = int k" and "k < retry_limit cfg"
  shows "gs_stopped (fold (world_turn cfg) ws vs) \<longleftrightarrow>
    Refused \<in> set (map (world_outcome (gs_client vs)) ws) \<or>
    sublist (replicate (retry_limit cfg) Failed) (replicate k Failed @ map (world_outcome (gs_client vs)) ws)"
  using assms
proof (induction ws arbitrary: vs k)
  case Nil
  have "\<not> sublist (replicate (retry_limit cfg) Failed) (replicate k Failed)"
    using sublist_length_le [of "replicate (retry_limit cfg) Failed" "replicate k Failed"] Nil(4) by auto
  then show ?case using Nil(1) by simp
next
  case (Cons w ws)
  let ?v = "world_turn cfg w vs"
  have v: "gs_client ?v = gs_client vs" "gs_closed ?v = gs_closed vs" using world_turn_keeps [of vs cfg w] by (simp_all add: gs_keeps_def)
  have st: "case world_outcome (gs_client vs) w of
      Answered \<Rightarrow> \<not> gs_stopped ?v \<and> gs_retryCount ?v = 0 | Refused \<Rightarrow> gs_stopped ?v
    | Failed \<Rightarrow> gs_retryCount ?v = gs_retryCount vs + 1 \<and> (gs_stopped ?v \<longleftrightarrow> retry_limit cfg \<le> nat (gs_retryCount vs + 1))"
    by (rule world_turn_step) (use Cons.prems in simp_all)
  show ?case
  proof (cases "world_outcome (gs_client vs) w")
    case Answered
    then have "gs_stopped (fold (world_turn cfg) ws ?v) \<longleftrightarrow> Refused \<in> set (map (world_outcome (gs_client vs)) ws) \<or>
        sublist (replicate (retry_limit cfg) Failed) (map (world_outcome (gs_client vs)) ws)"
      using Cons.IH [of ?v 0] st v Cons.prems by simp
    then show ?thesis using Answered sublist_replicate_break [OF Cons.prems(4), of Answered Failed] by simp
  next
    case Refused
    then show ?thesis using st stopped_final [of ?v cfg ws] by simp
  next
    case Failed
    have rep: "replicate k Failed @ Failed # xs = replicate (Suc k) Failed @ xs" for xs
      by (simp add: replicate_app_Cons_same)
    show ?thesis
    proof (cases "Suc k < retry_limit cfg")
      case True
      then have "\<not> gs_stopped ?v" "gs_retryCount ?v = int (Suc k)" using st Failed Cons.prems(3) by auto
      from Cons.IH [OF this(1) _ this(2) True] show ?thesis using v Cons.prems(2) Failed by (simp add: rep)
    next
      case False
      then have e: "retry_limit cfg = Suc k" using Cons.prems(4) by simp
      then have "gs_stopped ?v" using st Failed Cons.prems(3) by simp
      moreover have "sublist (replicate (retry_limit cfg) Failed) (replicate k Failed @ Failed # xs)" for xs
        unfolding rep e by simp
      ultimately show ?thesis using stopped_final [of ?v cfg ws] Failed by simp
    qed
  qed
qed

subsection \<open>Connections are owned\<close>

definition gs_handle :: "vmState \<Rightarrow> nat" where
  "gs_handle vs = cl_conn (gs_client vs)"

definition gs_live :: "vmState \<Rightarrow> bool" where
  "gs_live vs \<longleftrightarrow> \<not> gs_closed vs \<and> \<not> cl_closed (gs_client vs)"

lemma qga_connectVM_cases:
  assumes "fresh_net nw"
  shows "qga_connectVM lv qd dyn p pid nw = (None, nw') \<Longrightarrow>
      nw_conns nw' = nw_conns nw \<and> nw_sessions nw' = nw_sessions nw \<and> fresh_net nw'"
    and "qga_connectVM lv qd dyn p pid nw = (Some c, nw') \<Longrightarrow>
      gs_live c \<and> gs_handle c = nw_next nw \<and> nw_conns nw' = gs_handle c # nw_conns nw \<and>
      nw_sessions nw' = gs_handle c # nw_sessions nw \<and> fresh_net nw'"
  using assms
  by (cases rule: Dial_cases [OF assms, of lv "sock_path pid" "pi_namespace p @ ''_'' @ pi_vmiName p"];
      auto simp: qga_connectVM_def gs_live_def gs_handle_def split: if_splits)+

interpretation qga: pool gs_close "open_vm_state rt lv qd dyn" gs_handle gs_live for rt lv qd dyn
proof (unfold_locales, goal_cases)
  case (1 c nw)
  then show ?case using client_Close_open [of "gs_client c" nw] by (simp add: gs_close_def gs_live_def gs_handle_def case_prod_beta Let_def)
next
  case (2 nw p nw')
  then show ?case using qga_connectVM_cases(1) [OF 2(1)] by (auto simp: open_vm_state_def split: sum.splits)
next
  case (3 nw p c nw')
  then show ?case using qga_connectVM_cases(2) [OF 3(1)] by (auto simp: open_vm_state_def split: sum.splits)
qed

abbreviation qga_owns :: "nat set \<Rightarrow> vmState table \<Rightarrow> network \<Rightarrow> bool" where
  "qga_owns \<equiv> owns gs_handle gs_live"

abbreviation world_targets :: "qga_world \<Rightarrow> CollectorConfig \<Rightarrow> target list" where
  "world_targets w cfg \<equiv> find_targets (gw_runtime w) (select_pods (gc_Namespaces cfg) (gc_LabelFilter cfg) (gw_store w))"

lemma qga_connections_owns:
  assumes "qga_owns F (qg_vms c) nw" and "qga_connections w c nw = (t, nw')"
  shows "qga_owns F t nw'"
proof -
  define gs where "gs = world_targets w (qg_cfg c)"
  obtain t1 nw1 where 1: "drop_departed gs_close (map tg_containerID gs) (qg_vms c) nw = (t1, nw1)" by fastforce
  have "connect_new gs_close (open_vm_state (gw_runtime' w) (gw_connect w) (gw_codec w) (gw_dynamic w)) (map fst t1) gs t1 nw1 = (t, nw')"
    using assms(2) by (simp add: qga_connections_def gs_def [symmetric] 1)
  then show ?thesis by (rule qga.connect_new_owns [OF qga.drop_departed_owns [OF assms(1) 1]])
qed

lemma qga_scrape_one_table:
  assumes "qga_scrape_one cfg scrape i (t, rs, n) = (t', rs', n')"
  shows "t' = t \<and> map_of t i = None \<or> (\<exists>vs. map_of t i = Some vs \<and> (t' = put i (vm_turn cfg scrape vs) t \<or> t' = t \<and> vm_turn cfg scrape vs = vs))"
proof (cases "map_of t i")
  case None
  then show ?thesis using assms by (simp add: qga_scrape_one_def)
next
  case (Some vs)
  obtain r vs' where r: "scrape vs = (r, vs')" by (cases "scrape vs")
  show ?thesis
  proof (cases "gs_stopped vs \<or> gs_closed vs")
    case True
    then show ?thesis using assms Some by (auto simp: qga_scrape_one_def vm_turn_def)
  next
    case False
    then have "t' = put i (vm_turn cfg scrape vs) t"
      using assms by (cases r) (auto simp: qga_scrape_one_def vm_turn_def Some r split: option.splits)
    then show ?thesis using Some by blast
  qed
qed

lemma qga_scrape_all_owns:
  assumes "\<And>vs. gs_keeps vs (vm_turn cfg scrape vs)"
  shows "qga_owns F t nw \<Longrightarrow> fold (qga_scrape_one cfg scrape) ids (t, rs, n) = (t', rs', n') \<Longrightarrow> qga_owns F t' nw"
proof (induction ids arbitrary: t rs n)
  case (Cons i ids)
  obtain t1 rs1 n1 where 1: "qga_scrape_one cfg scrape i (t, rs, n) = (t1, rs1, n1)" by (metis prod_cases3)
  have "qga_owns F t1 nw"
  proof (cases "t1 = t")
    case False
    then obtain vs where vs: "map_of t i = Some vs" "t1 = put i (vm_turn cfg scrape vs) t"
      using qga_scrape_one_table [OF 1] by blast
    have "gs_live vs" using Cons.prems(1) map_of_SomeD [OF vs(1)] by (auto simp: owns_def)
    then show ?thesis using qga.put_owns [OF Cons.prems(1) vs(1)] assms [of vs]
      by (simp add: vs(2) gs_keeps_def gs_handle_def gs_live_def)
  qed (use Cons.prems(1) in simp)
  then show ?case using Cons.IH [of t1 rs1 n1] Cons.prems(2) 1 by simp
qed simp

lemma qga_poll_split:
  obtains t nw1 t' rs n where "qga_connections w c nw = (t, nw1)"
    "fold (qga_scrape_one (qg_cfg c) (qga_scrapeVM (gw_scrape w) (gw_codec w) (gw_dynamic' w) (gw_iter w) (qg_cfg c)))
       (gw_order w (map fst t)) (t, [], 0) = (t', rs, n)"
    "qga_poll w c nw = (c\<lparr>qg_vms := t', qg_results := rs,
       qg_scrapeErrors := f64_add (qg_scrapeErrors c) (f64 (of_nat n)), qg_lastPollTS := gw_now w\<rparr>, nw1)"
proof -
  obtain t nw1 where 1: "qga_connections w c nw = (t, nw1)" by fastforce
  obtain t' rs n where 2: "fold (qga_scrape_one (qg_cfg c) (qga_scrapeVM (gw_scrape w) (gw_codec w) (gw_dynamic' w) (gw_iter w) (qg_cfg c)))
      (gw_order w (map fst t)) (t, [], 0) = (t', rs, n)" by (metis prod_cases3)
  show ?thesis by (rule that [OF 1 2]) (simp add: qga_poll_def 1 2)
qed

lemma qga_poll_owns:
  assumes "qga_owns F (qg_vms c) nw"
  shows "qga_owns F (qg_vms (fst (qga_poll w c nw))) (snd (qga_poll w c nw))"
proof (rule qga_poll_split [of w c nw])
  fix t nw1 t' rs n
  assume 1: "qga_connections w c nw = (t, nw1)"
    and 2: "fold (qga_scrape_one (qg_cfg c) (qga_scrapeVM (gw_scrape w) (gw_codec w) (gw_dynamic' w) (gw_iter w) (qg_cfg c)))
      (gw_order w (map fst t)) (t, [], 0) = (t', rs, n)"
    and 3: "qga_poll w c nw = (c\<lparr>qg_vms := t', qg_results := rs,
      qg_scrapeErrors := f64_add (qg_scrapeErrors c) (f64 (of_nat n)), qg_lastPollTS := gw_now w\<rparr>, nw1)"
  show ?thesis using qga_scrape_all_owns [OF world_turn_keeps qga_connections_owns [OF assms 1] 2] by (simp add: 3)
qed

lemma qga_poll_cfg: "qg_cfg (fst (qga_poll w c nw)) = qg_cfg c"
  by (rule qga_poll_split [of w c nw]) simp

abbreviation qga_polls :: "qga_world list \<Rightarrow> qga_Collector \<times> network \<Rightarrow> qga_Collector \<times> network" where
  "qga_polls \<equiv> fold (\<lambda>w (c, nw). qga_poll w c nw)"

lemma qga_polls_owns:
  "qga_owns F (qg_vms c) nw \<Longrightarrow> qga_owns F (qg_vms (fst (qga_polls ws (c, nw)))) (snd (qga_polls ws (c, nw)))"
proof (induction ws arbitrary: c nw)
  case (Cons w ws)
  show ?case using Cons.IH [OF qga_poll_owns [OF Cons.prems, of w]] by simp
qed simp

text \<open>
  C20: No connection of the guest agent collector leaks. After any polls the open sockets and sessions
  are those the process had before and one of each for every virtual machine of the table,
  stopped ones included; when the collector ends, exactly the former are left.
\<close>

theorem qga_no_leak:
  assumes "set (nw_conns nw) = F" and "set (nw_sessions nw) = F" and "fresh_net nw"
    and "fold (\<lambda>w (c, nw). qga_poll w c nw) ws (qga_NewCollector cfg, nw) = (c, nw')"
  shows "set (nw_conns nw') = F \<union> handles gs_handle (qg_vms c) \<and>
    set (nw_sessions nw') = F \<union> handles gs_handle (qg_vms c) \<and> F \<inter> handles gs_handle (qg_vms c) = {} \<and>
    distinct (map fst (qg_vms c)) \<and> (\<forall>e \<in> set (qg_vms c). gs_live (snd e)) \<and>
    set (nw_conns (snd (qga_Run ws (qga_NewCollector cfg) nw))) = F \<and>
    set (nw_sessions (snd (qga_Run ws (qga_NewCollector cfg) nw))) = F"
proof -
  have "qga_owns F (qg_vms (qga_NewCollector cfg)) nw"
    using assms(1-3) by (simp add: owns_def handles_def qga_NewCollector_def)
  from qga_polls_owns [OF this, of ws] have o: "qga_owns F (qg_vms c) nw'" by (simp add: assms(4))
  from qga.close_all_owns [OF o] o show ?thesis
    by (simp add: owns_def handles_def qga_Run_def assms(4) qga_closeAll_def)
qed

subsection \<open>A virtual machine over several polls\<close>

lemma qga_scrape_all_table:
  assumes "distinct ids" and "fold (qga_scrape_one cfg scrape) ids (t, rs, n) = (t', rs', n')"
  shows "map_of t' k = (if k \<in> set ids then map_option (vm_turn cfg scrape) (map_of t k) else map_of t k)"
  using assms
proof (induction ids arbitrary: t rs n)
  case (Cons i ids)
  obtain t1 rs1 n1 where 1: "qga_scrape_one cfg scrape i (t, rs, n) = (t1, rs1, n1)" by (metis prod_cases3)
  have t1: "map_of t1 k = (if k = i then map_option (vm_turn cfg scrape) (map_of t k) else map_of t k)"
    using qga_scrape_one_table [OF 1] by auto
  have "map_of t' k = (if k \<in> set ids then map_option (vm_turn cfg scrape) (map_of t1 k) else map_of t1 k)"
    using Cons.IH [of t1 rs1 n1] Cons.prems 1 by simp
  then show ?case using t1 Cons.prems(1) by auto
qed simp

lemma connect_new_keeps:
  "map_of t i = Some c \<Longrightarrow> map_of (fst (connect_new close open_vm existing gs t nw)) i = Some c"
proof (induction gs arbitrary: t nw)
  case (Cons g gs)
  obtain r nw1 where r: "open_vm (tg_pod g) nw = (r, nw1)" by (cases "open_vm (tg_pod g) nw")
  have "map_of (t @ [(tg_containerID g, d)]) i = Some c" for d using Cons.prems by (simp add: map_add_Some_iff)
  then show ?case using Cons.IH Cons.prems
    by (cases r; cases "tg_containerID g \<in> set existing"; cases "map_of t (tg_containerID g)") (simp_all add: r)
qed simp

lemma map_of_filter_fst: "P i \<Longrightarrow> map_of (filter (\<lambda>e. P (fst e)) t) i = map_of t i"
  by (induction t) auto

lemma qga_connections_keeps:
  assumes "map_of (qg_vms c) i = Some vs" and "i \<in> tg_containerID ` set (world_targets w (qg_cfg c))"
    and "qga_connections w c nw = (t, nw')"
  shows "map_of t i = Some vs"
proof -
  define gs where "gs = world_targets w (qg_cfg c)"
  obtain t1 nw1 where 1: "drop_departed gs_close (map tg_containerID gs) (qg_vms c) nw = (t1, nw1)" by fastforce
  have t1: "t1 = filter (\<lambda>e. fst e \<in> set (map tg_containerID gs)) (qg_vms c)"
    using drop_departed_table [of gs_close "map tg_containerID gs" "qg_vms c" nw] 1 by simp
  have "map_of t1 i = Some vs"
    unfolding t1 using assms(1,2) by (subst map_of_filter_fst) (simp_all add: gs_def)
  moreover have "t = fst (connect_new gs_close (open_vm_state (gw_runtime' w) (gw_connect w) (gw_codec w) (gw_dynamic w)) (map fst t1) gs t1 nw1)"
    using assms(3) by (simp add: qga_connections_def gs_def [symmetric] 1)
  ultimately show ?thesis using connect_new_keeps by simp
qed

definition fair_order :: "qga_world \<Rightarrow> bool" where
  "fair_order w \<longleftrightarrow> (\<forall>is. mset (gw_order w is) = mset is)"

lemma qga_poll_turn:
  assumes "qga_owns F (qg_vms c) nw" and "map_of (qg_vms c) i = Some vs"
    and "i \<in> tg_containerID ` set (world_targets w (qg_cfg c))" and "fair_order w"
  shows "map_of (qg_vms (fst (qga_poll w c nw))) i = Some (world_turn (qg_cfg c) w vs)"
proof (rule qga_poll_split [of w c nw])
  fix t nw1 t' rs n
  assume 1: "qga_connections w c nw = (t, nw1)"
    and 2: "fold (qga_scrape_one (qg_cfg c) (qga_scrapeVM (gw_scrape w) (gw_codec w) (gw_dynamic' w) (gw_iter w) (qg_cfg c)))
      (gw_order w (map fst t)) (t, [], 0) = (t', rs, n)"
    and 3: "qga_poll w c nw = (c\<lparr>qg_vms := t', qg_results := rs,
      qg_scrapeErrors := f64_add (qg_scrapeErrors c) (f64 (of_nat n)), qg_lastPollTS := gw_now w\<rparr>, nw1)"
  have m: "mset (gw_order w (map fst t)) = mset (map fst t)" using assms(4) by (simp add: fair_order_def)
  have "distinct (map fst t)" using qga_connections_owns [OF assms(1) 1] by (simp add: owns_def)
  then have d: "distinct (gw_order w (map fst t))" using mset_eq_imp_distinct_iff [OF m] by simp
  have i: "map_of t i = Some vs" by (rule qga_connections_keeps [OF assms(2,3) 1])
  then have "i \<in> set (gw_order w (map fst t))" using mset_eq_setD [OF m] map_of_SomeD by force
  then show ?thesis using qga_scrape_all_table [OF d 2, of i] i by (simp add: 3)
qed

lemma qga_polls_turn:
  assumes "qga_owns F (qg_vms c) nw" and "map_of (qg_vms c) i = Some vs"
    and "\<forall>w \<in> set ws. i \<in> tg_containerID ` set (world_targets w (qg_cfg c)) \<and> fair_order w"
  shows "map_of (qg_vms (fst (qga_polls ws (c, nw)))) i = Some (fold (world_turn (qg_cfg c)) ws vs)"
  using assms
proof (induction ws arbitrary: c nw vs)
  case (Cons w ws)
  have w: "i \<in> tg_containerID ` set (world_targets w (qg_cfg c))" "fair_order w" using Cons.prems(3) by simp_all
  show ?case
    using Cons.IH [OF qga_poll_owns [OF Cons.prems(1), of w] qga_poll_turn [OF Cons.prems(1,2) w]] Cons.prems(3)
    by (simp add: qga_poll_cfg)
qed simp

text \<open>
  C17: When collection is given up. Follow a virtual machine whose container stays, from a
  state in which it is collected and has not just failed, over any number of polls. It is
  stopped at the end exactly if the agent refused the command at some poll, or failed at
  as many consecutive polls as the configuration allows; a single answer in between
  starts the count again. A limit below 1 acts as 1.
\<close>

theorem qga_stops_exactly:
  assumes "qga_owns F (qg_vms c) nw" and "map_of (qg_vms c) i = Some vs" and "\<not> gs_stopped vs" and "gs_retryCount vs = 0"
    and "\<forall>w \<in> set ws. i \<in> tg_containerID ` set (find_targets (gw_runtime w)
      (select_pods (gc_Namespaces (qg_cfg c)) (gc_LabelFilter (qg_cfg c)) (gw_store w))) \<and> fair_order w"
    and "outcomes = map (\<lambda>w. outcome_of (gw_scrape w) (gw_codec w) (gs_client vs)) ws"
  shows "\<exists>vs'. map_of (qg_vms (fst (fold (\<lambda>w (c, nw). qga_poll w c nw) ws (c, nw)))) i = Some vs' \<and>
    (gs_stopped vs' \<longleftrightarrow> Refused \<in> set outcomes \<or>
       (\<exists>before after. outcomes = before @ replicate (max 1 (nat (gc_MaxRetries (qg_cfg c)))) Failed @ after))"
proof -
  have "gs_live vs" using assms(1) map_of_SomeD [OF assms(2)] by (auto simp: owns_def)
  then have "\<not> gs_closed vs" by (simp add: gs_live_def)
  from stops_iff [OF assms(3) this, of 0 "qg_cfg c" ws] have
    "gs_stopped (fold (world_turn (qg_cfg c)) ws vs) \<longleftrightarrow> Refused \<in> set outcomes \<or> sublist (replicate (retry_limit (qg_cfg c)) Failed) outcomes"
    using assms(4,6) by (simp add: retry_limit_def)
  then show ?thesis using qga_polls_turn [OF assms(1,2,5)] by (simp add: sublist_def retry_limit_def)
qed

subsection \<open>Whose results are reported\<close>

definition gs_pod :: "vmState \<Rightarrow> podInfo" where
  "gs_pod vs = \<lparr>pi_namespace = gs_namespace vs, pi_podName = gs_podName vs, pi_vmiName = gs_vmi vs\<rparr>"

definition gr_pod :: "vmiResult \<Rightarrow> podInfo" where
  "gr_pod r = \<lparr>pi_namespace = gr_Namespace r, pi_podName = gr_PodName r, pi_vmiName = gr_Name r\<rparr>"

lemma gs_keeps_pod: "gs_keeps a b \<Longrightarrow> gs_pod b = gs_pod a"
  by (simp add: gs_keeps_def gs_pod_def)

lemma qga_scrapeVM_pod:
  assumes "qga_scrapeVM lv qd dyn iter cfg vs = (Inr (Some r), vs')"
  shows "gr_pod r = gs_pod vs'"
  using assms
  by (auto simp: qga_scrapeVM_def gr_pod_def gs_pod_def Let_def split: if_splits sum.splits prod.splits)

lemma open_vm_state_pod: "fst (open_vm_state rt lv qd dyn p nw) = Some vs \<Longrightarrow> gs_pod vs = p"
  by (auto simp: open_vm_state_def qga_connectVM_def gs_pod_def split: sum.splits if_splits prod.splits)

definition vm_pods :: "(podInfo \<Rightarrow> bool) \<Rightarrow> vmState table \<Rightarrow> bool" where
  "vm_pods P t \<longleftrightarrow> (\<forall>e \<in> set t. P (gs_pod (snd e)))"

lemma qga_connections_pods:
  assumes "vm_pods P (qg_vms c)" and "qga_connections w c nw = (t, nw')"
    and "\<And>p. p \<in> set (select_pods (gc_Namespaces (qg_cfg c)) (gc_LabelFilter (qg_cfg c)) (gw_store w)) \<Longrightarrow> P p"
  shows "vm_pods P t"
proof -
  define gs where "gs = world_targets w (qg_cfg c)"
  obtain t1 nw1 where 1: "drop_departed gs_close (map tg_containerID gs) (qg_vms c) nw = (t1, nw1)" by fastforce
  have gs: "P (tg_pod g)" if "g \<in> set gs" for g
    using find_targets_pod [OF that [unfolded gs_def]] assms(3) by blast
  have "t1 = filter (\<lambda>e. fst e \<in> set (map tg_containerID gs)) (qg_vms c)"
    using drop_departed_table [of gs_close "map tg_containerID gs" "qg_vms c" nw] 1 by simp
  then have t1: "vm_pods P t1" using assms(1) by (auto simp: vm_pods_def)
  have "t = fst (connect_new gs_close (open_vm_state (gw_runtime' w) (gw_connect w) (gw_codec w) (gw_dynamic w)) (map fst t1) gs t1 nw1)"
    using assms(2) by (simp add: qga_connections_def gs_def [symmetric] 1)
  then show ?thesis using t1 gs connect_new_origin open_vm_state_pod unfolding vm_pods_def by (metis prod.collapse)
qed

lemma qga_scrape_one_results:
  assumes "qga_scrape_one cfg scrape i (t, rs, n) = (t', rs', n')" and "r \<in> set rs'"
  shows "r \<in> set rs \<or> (\<exists>vs vs'. map_of t i = Some vs \<and> scrape vs = (Inr (Some r), vs') \<and> vm_turn cfg scrape vs = vs')"
proof (cases "map_of t i")
  case None
  then show ?thesis using assms by (simp add: qga_scrape_one_def)
next
  case (Some vs)
  obtain x vs' where x: "scrape vs = (x, vs')" by (cases "scrape vs")
  show ?thesis
  proof (cases "gs_stopped vs \<or> gs_closed vs")
    case True
    then show ?thesis using assms by (auto simp: qga_scrape_one_def Some)
  next
    case False
    then show ?thesis using assms Some x
      by (cases x; simp add: qga_scrape_one_def vm_turn_def; cases "projr x"; auto)
  qed
qed

lemma qga_scrape_all_pods:
  assumes "\<And>vs. gs_keeps vs (vm_turn cfg scrape vs)" and "\<And>vs r vs'. scrape vs = (Inr (Some r), vs') \<Longrightarrow> gr_pod r = gs_pod vs'"
  shows "vm_pods P t \<Longrightarrow> (\<forall>r \<in> set rs. P (gr_pod r)) \<Longrightarrow>
    fold (qga_scrape_one cfg scrape) ids (t, rs, n) = (t', rs', n') \<Longrightarrow> vm_pods P t' \<and> (\<forall>r \<in> set rs'. P (gr_pod r))"
proof (induction ids arbitrary: t rs n)
  case (Cons i ids)
  obtain t1 rs1 n1 where 1: "qga_scrape_one cfg scrape i (t, rs, n) = (t1, rs1, n1)" by (metis prod_cases3)
  have turn: "P (gs_pod (vm_turn cfg scrape vs))" if "map_of t i = Some vs" for vs
    using Cons.prems(1) map_of_SomeD [OF that] gs_keeps_pod [OF assms(1) [of vs]] by (auto simp: vm_pods_def)
  have "vm_pods P t1"
    using qga_scrape_one_table [OF 1] turn Cons.prems(1) by (fastforce simp: vm_pods_def put_def)
  moreover have "P (gr_pod r)" if "r \<in> set rs1" for r
    using qga_scrape_one_results [OF 1 that] assms(2) [of _ r] turn Cons.prems(2) by metis
  moreover have "fold (qga_scrape_one cfg scrape) ids (t1, rs1, n1) = (t', rs', n')" using Cons.prems(3) 1 by simp
  ultimately show ?case using Cons.IH by blast
qed simp

lemma qga_poll_pods:
  assumes "vm_pods P (qg_vms c)"
    and "\<And>p. p \<in> set (select_pods (gc_Namespaces (qg_cfg c)) (gc_LabelFilter (qg_cfg c)) (gw_store w)) \<Longrightarrow> P p"
  shows "vm_pods P (qg_vms (fst (qga_poll w c nw))) \<and> (\<forall>r \<in> set (qg_results (fst (qga_poll w c nw))). P (gr_pod r))"
proof (rule qga_poll_split [of w c nw])
  fix t nw1 t' rs n
  assume 1: "qga_connections w c nw = (t, nw1)"
    and 2: "fold (qga_scrape_one (qg_cfg c) (qga_scrapeVM (gw_scrape w) (gw_codec w) (gw_dynamic' w) (gw_iter w) (qg_cfg c)))
      (gw_order w (map fst t)) (t, [], 0) = (t', rs, n)"
    and 3: "qga_poll w c nw = (c\<lparr>qg_vms := t', qg_results := rs,
      qg_scrapeErrors := f64_add (qg_scrapeErrors c) (f64 (of_nat n)), qg_lastPollTS := gw_now w\<rparr>, nw1)"
  show ?thesis
    using qga_scrape_all_pods [OF world_turn_keeps qga_scrapeVM_pod qga_connections_pods [OF assms(1) 1 assms(2)] _ 2] by (simp add: 3)
qed

lemma qga_polls_pods:
  assumes "vm_pods P (qg_vms c)" and "\<forall>r \<in> set (qg_results c). P (gr_pod r)"
    and "\<forall>w \<in> set ws. \<forall>p \<in> set (select_pods (gc_Namespaces (qg_cfg c)) (gc_LabelFilter (qg_cfg c)) (gw_store w)). P p"
  shows "\<forall>r \<in> set (qg_results (fst (qga_polls ws (c, nw)))). P (gr_pod r)"
  using assms
proof (induction ws arbitrary: c nw)
  case (Cons w ws)
  obtain c1 nw1 where 1: "qga_poll w c nw = (c1, nw1)" by fastforce
  have P: "P p" if "p \<in> set (select_pods (gc_Namespaces (qg_cfg c)) (gc_LabelFilter (qg_cfg c)) (gw_store w))" for p
    using Cons.prems(3) that by simp
  have "vm_pods P (qg_vms c1) \<and> (\<forall>r \<in> set (qg_results c1). P (gr_pod r)) \<and> qg_cfg c1 = qg_cfg c"
    using qga_poll_pods [of P c w nw, OF Cons.prems(1) P] qga_poll_cfg [of w c nw] 1 by simp
  then show ?case using Cons.IH [of c1 nw1] Cons.prems(3) 1 by simp
qed simp

subsection \<open>An example\<close>

definition ex_qga_world :: "libvirt \<Rightarrow> DiskCounters \<Rightarrow> qga_world" where
  "ex_qga_world lv d = \<lparr>gw_store = [CachedPod ex_pod], gw_runtime = ex_runtime, gw_runtime' = ex_runtime, gw_connect = ex_daemon,
     gw_dynamic = None, gw_scrape = lv, gw_dynamic' = None, gw_codec = ex_qga_codec d, gw_order = id, gw_iter = id, gw_now = 0\<rparr>"

definition ex_qga :: qga_Collector where
  "ex_qga = (qga_NewCollector ex_qga_cfg)\<lparr>qg_vms := [(''c1'', ex_vm)]\<rparr>"

lemma ex_targets: "find_targets ex_runtime (select_pods [''default''] [] [CachedPod ex_pod]) =
    [\<lparr>tg_pod = \<lparr>pi_namespace = ''default'', pi_podName = ''virt-launcher-vm1'', pi_vmiName = ''vm1''\<rparr>, tg_containerID = ''c1''\<rparr>]"
  by code_simp

lemma ex_silent_fails: "outcome_of ex_silent qd c = Failed"
proof -
  have "\<not> isBlacklistError ''guest agent is not connected''" "\<not> isBlacklistError ''client is closed''" by code_simp+
  then show ?thesis
    by (simp add: outcome_of_def CollectDiskCounters_def GuestExec_def agent_of_def AgentCommand_def ex_silent_def agent_error_def)
qed

theorem qga_stops_exactly_witness:
  "\<exists>vs'. map_of (qg_vms (fst (fold (\<lambda>w (c, nw). qga_poll w c nw) [ex_qga_world ex_silent ex_before, ex_qga_world ex_silent ex_before]
      (ex_qga, \<lparr>nw_next = 1, nw_conns = [0], nw_sessions = [0]\<rparr>)))) ''c1'' = Some vs' \<and> gs_stopped vs'"
proof -
  let ?ws = "[ex_qga_world ex_silent ex_before, ex_qga_world ex_silent ex_before]"
  let ?nw = "\<lparr>nw_next = 1, nw_conns = [0], nw_sessions = [0]\<rparr>"
  have own: "qga_owns {} (qg_vms ex_qga) ?nw"
    by (simp add: owns_def handles_def ex_qga_def ex_vm_def ex_conn_def gs_live_def gs_handle_def fresh_net_def)
  have vs: "map_of (qg_vms ex_qga) ''c1'' = Some ex_vm" "\<not> gs_stopped ex_vm" "gs_retryCount ex_vm = 0"
    by (simp_all add: ex_qga_def ex_vm_def)
  have cfg: "gc_Namespaces (qg_cfg ex_qga) = [''default'']" "gc_LabelFilter (qg_cfg ex_qga) = []" "gc_MaxRetries (qg_cfg ex_qga) = 2"
    by (simp_all add: ex_qga_def qga_NewCollector_def ex_qga_cfg_def)
  have tg: "\<forall>w \<in> set ?ws. ''c1'' \<in> tg_containerID ` set (find_targets (gw_runtime w)
      (select_pods (gc_Namespaces (qg_cfg ex_qga)) (gc_LabelFilter (qg_cfg ex_qga)) (gw_store w))) \<and> fair_order w"
    by (simp add: cfg ex_qga_world_def ex_targets fair_order_def)
  have "map (\<lambda>w. outcome_of (gw_scrape w) (gw_codec w) (gs_client ex_vm)) ?ws = [] @ replicate (max 1 (nat 2)) Failed @ []"
    by (simp add: ex_qga_world_def ex_silent_fails numeral_2_eq_2)
  then show ?thesis using qga_stops_exactly [OF own vs tg refl] unfolding cfg by metis
qed

theorem qga_no_leak_witness:
  "set (nw_conns (snd (qga_Run [ex_qga_world ex_silent ex_before] (qga_NewCollector ex_qga_cfg) ex_network))) = {}"
proof -
  obtain c nw where "fold (\<lambda>w (c, nw). qga_poll w c nw) [ex_qga_world ex_silent ex_before] (qga_NewCollector ex_qga_cfg, ex_network) = (c, nw)"
    by (metis prod.exhaust)
  from qga_no_leak [OF _ _ ex_fresh this, of "{}"] show ?thesis by (simp add: ex_network_def)
qed

end
