(* ===== verification/Config.thy ===== *)
theory Config
  imports GoStrings GoFloat "HOL-Library.Multiset"
begin

text \<open>
  \<^verbatim>\<open>pkg/config/config.go\<close>: the settings of the exporter from command-line flags and environment
  variables. Arguments are the environment, the flags given, and the two library parsers
  whose syntax is not modelled: \<^verbatim>\<open>time.ParseDuration\<close> (to nanoseconds) and
  \<^verbatim>\<open>strconv.ParseFloat\<close> (to a finite value).
\<close>

subsection \<open>Environment\<close>

record library =
  lib_ParseDuration :: "string \<Rightarrow> int option"
  lib_ParseFloat :: "string \<Rightarrow> rat option"

definition envOrDefault :: "(string \<Rightarrow> string) \<Rightarrow> string \<Rightarrow> string \<Rightarrow> string" where
  "envOrDefault getenv key dflt = (let v = getenv key in if v \<noteq> [] then v else dflt)"

definition envDurationOrDefault :: "library \<Rightarrow> (string \<Rightarrow> string) \<Rightarrow> string \<Rightarrow> int \<Rightarrow> int" where
  "envDurationOrDefault lib getenv key dflt =
     (let v = getenv key
      in if v \<noteq> [] then (case lib_ParseDuration lib v of Some d \<Rightarrow> d | None \<Rightarrow> dflt) else dflt)"

definition envIntOrDefault :: "(string \<Rightarrow> string) \<Rightarrow> string \<Rightarrow> int \<Rightarrow> int" where
  "envIntOrDefault getenv key dflt =
     (let v = getenv key
      in if v \<noteq> [] then (case Atoi v of Some i \<Rightarrow> i | None \<Rightarrow> dflt) else dflt)"

definition envBoolOrDefault :: "(string \<Rightarrow> string) \<Rightarrow> string \<Rightarrow> bool \<Rightarrow> bool" where
  "envBoolOrDefault getenv key dflt =
     (let v = getenv key in if v \<noteq> [] then v = ''true'' \<or> v = ''1'' else dflt)"

subsection \<open>Lists\<close>

definition ParseNamespaces :: "string \<Rightarrow> string list" where
  "ParseNamespaces s =
     (if s = [] then []
      else filter (\<lambda>t. t \<noteq> []) (map TrimSpace (Split s (CHR '',''))))"

definition parseBoundariesNs :: "string \<Rightarrow> int list" where
  "parseBoundariesNs s = List.map_filter (\<lambda>p. ParseInt (TrimSpace p) 10 64) (Split s (CHR '',''))"

definition parseBoundariesSeconds :: "library \<Rightarrow> string \<Rightarrow> rat list" where
  "parseBoundariesSeconds lib s =
     sort (List.map_filter (\<lambda>p.
         let p = TrimSpace p
         in if p = [] then None
         else map_option (\<lambda>ns. f64_quot ns 1000000000) (lib_ParseFloat lib p)) (Split s (CHR '','')))"

subsection \<open>The configuration\<close>

record Config =
  cfg_ListenAddress :: string
  cfg_LogLevel :: string
  cfg_NodeName :: string
  cfg_Namespaces :: string
  cfg_Boundaries :: "rat list"
  cfg_BoundariesNs :: "int list"
  cfg_CRISocket :: string
  cfg_EnableQMP :: bool
  cfg_QMPPollInterval :: int
  cfg_QMPConcurrency :: int
  cfg_QMPTimeout :: int
  cfg_QMPLabelFilter :: string
  cfg_EnableQGA :: bool
  cfg_QGAPollInterval :: int
  cfg_QGATimeout :: "32 word"
  cfg_QGAExecWait :: int
  cfg_QGARetries :: int
  cfg_QGAConcurrency :: int
  cfg_QGALabelFilter :: string
  cfg_EnableEBPF :: bool
  cfg_EnableEBPFBlock :: bool
  cfg_EnableEBPFNFS :: bool
  cfg_EnableEBPFNFSKprobe :: bool
  cfg_EBPFScanInterval :: int
  cfg_EBPFBlockMapSize :: int
  cfg_EBPFNFSMapSize :: int
  cfg_EBPFNFSKprobeMapSize :: int
  cfg_EBPFProcPath :: string

text \<open>The flags given on the command line, by type; a flag not given has its default.\<close>

record flags =
  fl_String :: "string \<Rightarrow> string option"
  fl_Bool :: "string \<Rightarrow> bool option"
  fl_Int :: "string \<Rightarrow> int option"
  fl_Duration :: "string \<Rightarrow> int option"

definition flag_or :: "(string \<Rightarrow> 'a option) \<Rightarrow> string \<Rightarrow> 'a \<Rightarrow> 'a" where
  "flag_or given name dflt = (case given name of Some v \<Rightarrow> v | None \<Rightarrow> dflt)"

definition Parse :: "library \<Rightarrow> (string \<Rightarrow> string) \<Rightarrow> flags \<Rightarrow> Config" where
  "Parse lib getenv fl =
     (let str = (\<lambda>name key dflt. flag_or (fl_String fl) name (envOrDefault getenv key dflt));
          bool = (\<lambda>name key dflt. flag_or (fl_Bool fl) name (envBoolOrDefault getenv key dflt));
          num = (\<lambda>name key dflt. flag_or (fl_Int fl) name (envIntOrDefault getenv key dflt));
          dur = (\<lambda>name key dflt. flag_or (fl_Duration fl) name (envDurationOrDefault lib getenv key dflt));
          boundariesStr = str ''boundaries'' ''BOUNDARIES'' ''10000000,100000000,1000000000'';
          qgaTimeout = num ''qga-timeout'' ''QGA_TIMEOUT'' 10
      in \<lparr>cfg_ListenAddress = str ''listen-address'' ''LISTEN_ADDRESS'' '':8080'',
          cfg_LogLevel = str ''log-level'' ''LOG_LEVEL'' ''info'',
          cfg_NodeName = getenv ''NODE_NAME'',
          cfg_Namespaces = str ''namespaces'' ''NAMESPACES'' [],
          cfg_Boundaries = parseBoundariesSeconds lib boundariesStr,
          cfg_BoundariesNs = parseBoundariesNs boundariesStr,
          cfg_CRISocket = str ''cri-socket'' ''CRI_SOCKET'' ''/run/crio/crio.sock'',
          cfg_EnableQMP = bool ''enable-qmp'' ''ENABLE_QMP'' True,
          cfg_QMPPollInterval = dur ''qmp-poll-interval'' ''QMP_POLL_INTERVAL'' 60000000000,
          cfg_QMPConcurrency = num ''qmp-concurrency'' ''QMP_CONCURRENCY'' 8,
          cfg_QMPTimeout = dur ''qmp-timeout'' ''QMP_TIMEOUT'' 5000000000,
          cfg_QMPLabelFilter = str ''qmp-label-filter'' ''QMP_LABEL_FILTER'' [],
          cfg_EnableQGA = bool ''enable-qga'' ''ENABLE_QGA'' True,
          cfg_QGAPollInterval = dur ''qga-poll-interval'' ''QGA_POLL_INTERVAL'' 60000000000,
          cfg_QGATimeout = word_of_int qgaTimeout,
          cfg_QGAExecWait = dur ''qga-exec-wait'' ''QGA_EXEC_WAIT'' 1000000000,
          cfg_QGARetries = num ''qga-retries'' ''QGA_RETRIES'' 10,
          cfg_QGAConcurrency = num ''qga-concurrency'' ''QGA_CONCURRENCY'' 8,
          cfg_QGALabelFilter = str ''qga-label-filter'' ''QGA_LABEL_FILTER'' [],
          cfg_EnableEBPF = bool ''enable-ebpf'' ''ENABLE_EBPF'' True,
          cfg_EnableEBPFBlock = bool ''enable-ebpf-block'' ''ENABLE_EBPF_BLOCK'' True,
          cfg_EnableEBPFNFS = bool ''enable-ebpf-nfs'' ''ENABLE_EBPF_NFS'' True,
          cfg_EnableEBPFNFSKprobe = bool ''enable-ebpf-nfs-kprobe'' ''ENABLE_EBPF_NFS_KPROBE'' False,
          cfg_EBPFScanInterval = num ''ebpf-scan-interval'' ''EBPF_SCAN_INTERVAL'' 30,
          cfg_EBPFBlockMapSize = num ''ebpf-block-map-size'' ''EBPF_BLOCK_MAP_SIZE'' 10240,
          cfg_EBPFNFSMapSize = num ''ebpf-nfs-map-size'' ''EBPF_NFS_MAP_SIZE'' 10240,
          cfg_EBPFNFSKprobeMapSize = num ''ebpf-nfs-kprobe-map-size'' ''EBPF_NFS_KPROBE_MAP_SIZE'' 10240,
          cfg_EBPFProcPath = str ''ebpf-proc-path'' ''EBPF_PROC_PATH'' ''/proc''\<rparr>)"

datatype config_error = NoNodeName | NoBoundaries | BadScanInterval int

definition Validate :: "Config \<Rightarrow> config_error option" where
  "Validate c =
     (if cfg_NodeName c = [] then Some NoNodeName
      else if cfg_BoundariesNs c = [] then Some NoBoundaries
      else if cfg_EnableEBPF c \<and> cfg_EBPFScanInterval c \<le> 0 then Some (BadScanInterval (cfg_EBPFScanInterval c))
      else None)"

subsection \<open>Properties\<close>

lemma map_filter_map: "List.map_filter f (map g xs) = List.map_filter (f \<circ> g) xs"
  by (simp add: map_filter_def filter_map o_def)

lemma map_filter_Some: "(\<And>x. x \<in> set xs \<Longrightarrow> f x = Some (g x)) \<Longrightarrow> List.map_filter f xs = map g xs"
  by (induction xs) (simp_all add: map_filter_simps)

text \<open>An element of a list as a user may write it, with white space around it.\<close>

definition padded :: "string \<Rightarrow> string \<Rightarrow> string \<Rightarrow> string" where
  "padded a w b = a @ w @ b"

lemma padded_trim:
  "\<forall>c \<in> set a. is_space c \<Longrightarrow> \<forall>c \<in> set b. is_space c \<Longrightarrow> word w \<Longrightarrow> TrimSpace (padded a w b) = w"
  by (simp add: padded_def TrimSpace_pad word_def)

lemma space_not_comma: "is_space c \<Longrightarrow> c \<noteq> CHR '',''"
  by (auto simp: is_space_def)

lemma padded_no_comma:
  "\<forall>c \<in> set a. is_space c \<Longrightarrow> \<forall>c \<in> set b. is_space c \<Longrightarrow> CHR '','' \<notin> set w \<Longrightarrow> CHR '','' \<notin> set (padded a w b)"
  using space_not_comma by (auto simp: padded_def)

text \<open>
  Namespace lists. Names joined by commas, with any white space around each, are read back
  exactly and in order.
\<close>

theorem namespaces_roundtrip:
  assumes "\<forall>(a, w, b) \<in> set ps. (\<forall>c \<in> set (a @ b). is_space c) \<and> word w \<and> CHR '','' \<notin> set w"
  shows "ParseNamespaces (join (CHR '','') (map (\<lambda>(a, w, b). padded a w b) ps)) = map (\<lambda>(a, w, b). w) ps"
proof (cases "ps = []")
  case True
  then show ?thesis by (simp add: ParseNamespaces_def)
next
  case False
  let ?s = "join (CHR '','') (map (\<lambda>(a, w, b). padded a w b) ps)"
  have p: "\<forall>s \<in> set (map (\<lambda>(a, w, b). padded a w b) ps). CHR '','' \<notin> set s"
    using assms padded_no_comma by fastforce
  have "map TrimSpace (map (\<lambda>(a, w, b). padded a w b) ps) = map (\<lambda>(a, w, b). w) ps"
    using assms padded_trim by fastforce
  moreover have "filter (\<lambda>t. t \<noteq> []) (map (\<lambda>(a, w, b). w) ps) = map (\<lambda>(a, w, b). w) ps"
    using assms by (auto simp: filter_id_conv word_def)
  moreover have "?s \<noteq> []"
  proof -
    obtain a w b qs where "ps = (a, w, b) # qs" using False by (cases ps) auto
    with assms show ?thesis by (auto simp: padded_def word_def)
  qed
  moreover have "Split ?s (CHR '','') = map (\<lambda>(a, w, b). padded a w b) ps"
    using Split_join [OF _ p] False by simp
  ultimately show ?thesis unfolding ParseNamespaces_def by metis
qed

theorem namespaces_roundtrip_witness: "ParseNamespaces '' prod , kube-system,dev'' = [''prod'', ''kube-system'', ''dev'']"
  using namespaces_roundtrip [of "[('' '', ''prod'', '' ''), ('' '', ''kube-system'', []), ([], ''dev'', [])]"]
  by (simp add: padded_def word_def is_space_def)

lemma comma_notin_Itoa [simp]: "CHR '','' \<notin> set (Itoa n)"
  using Itoa_digits [of n] by auto

lemma Split_numbers: "ns \<noteq> [] \<Longrightarrow> Split (join (CHR '','') (map Itoa ns)) (CHR '','') = map Itoa ns"
  by (rule Split_join) auto

text \<open>
  C29: Bucket boundaries. For comma-separated decimal integers below 2^53 the monitor gets exactly
  those nanoseconds in the order given, and the histograms get the same values in seconds, one
  per number, in ascending order; such a list is never rejected for lack of boundaries. For
  other elements the two readings differ: a fraction is kept by the second only.
\<close>

theorem boundaries_consistent:
  assumes "\<And>n. lib_ParseFloat lib (Itoa n) = Some (f64 (of_nat n))" and "ns \<noteq> []" and "\<forall>n \<in> set ns. n < 2 ^ 53"
    and "s = join (CHR '','') (map Itoa ns)"
  shows "parseBoundariesNs s = map int ns \<and>
    sorted (parseBoundariesSeconds lib s) \<and>
    mset (parseBoundariesSeconds lib s) = mset (map (\<lambda>n. f64 (of_nat n / 1000000000)) ns) \<and>
    (cfg_BoundariesNs c = parseBoundariesNs s \<longrightarrow> Validate c \<noteq> Some NoBoundaries)"
proof -
  have small: "n < 2 ^ 63" if "n \<in> set ns" for n
    using assms(3) that by (intro less_trans [of n "2 ^ 53" "2 ^ 63"]) simp_all
  have "TrimSpace (Itoa n) = Itoa n" for n by simp
  have 1: "parseBoundariesNs s = map int ns"
    unfolding parseBoundariesNs_def assms(4) Split_numbers [OF assms(2)] map_filter_map
    by (rule map_filter_Some) (simp add: ParseInt_Itoa [OF small] del: ParseInt_Itoa)
  have 2: "parseBoundariesSeconds lib s = sort (map (\<lambda>n. f64 (of_nat n / 1000000000)) ns)"
    unfolding parseBoundariesSeconds_def assms(4) Split_numbers [OF assms(2)] map_filter_map
    by (rule arg_cong [where f = sort], rule map_filter_Some)
      (use assms(1,3) in \<open>simp add: f64_of_nat f64_quot_def f64_div_def\<close>)
  show ?thesis using 1 2 assms(2) by (auto simp: Validate_def)
qed

definition ex_lib :: library where
  "ex_lib = \<lparr>lib_ParseDuration = (\<lambda>_. None),
     lib_ParseFloat = (\<lambda>s. map_option (\<lambda>n. f64 (of_nat n)) (digits_val 0 s))\<rparr>"

lemma join_numbers: "join (CHR '','') (map Itoa [100, 10]) = ''100,10''"
proof -
  have "Itoa 100 = ''100''" "Itoa 10 = ''10''" by code_simp+
  then show ?thesis by simp
qed

theorem boundaries_consistent_witness:
  "parseBoundariesNs ''100,10'' = [100, 10] \<and> sorted (parseBoundariesSeconds ex_lib ''100,10'')"
  using boundaries_consistent [of ex_lib "[100, 10]", OF _ _ _ join_numbers [symmetric]] by (simp add: ex_lib_def)

end
