(* ===== verification/WorkerPool.thy ===== *)
theory WorkerPool
  imports Config "HOL-Library.Multiset"
begin

text \<open>
  The goroutines of a poll, in \<^verbatim>\<open>pkg/qmp/collector.go\<close> and \<^verbatim>\<open>pkg/qga/collector.go\<close>: one per virtual machine,
  which takes a place in the channel \<^verbatim>\<open>sem\<close>, reads the virtual machine, appends the result under a
  lock and gives the place back; the poll waits for all of them. With a capacity of at least
  one every run ends with every virtual machine read once, in some order; the polls are
  modelled for any such order. With capacity 0, which the validation of the configuration
  accepts, no goroutine ever passes the channel and the poll does not return. The capacity is
  never negative here: Go panics when it makes such a channel.
\<close>

record workers =
  wk_waiting :: "string list"
  wk_reading :: "string list"
  wk_recorded :: "string list"
  wk_order :: "string list"

definition spawn :: "string list \<Rightarrow> workers" where
  "spawn is = \<lparr>wk_waiting = is, wk_reading = [], wk_recorded = [], wk_order = []\<rparr>"

text \<open>Places taken in the channel, from the send until the deferred receive.\<close>

definition sem_len :: "workers \<Rightarrow> nat" where
  "sem_len s = length (wk_reading s) + length (wk_recorded s)"

inductive worker_step :: "int \<Rightarrow> workers \<Rightarrow> workers \<Rightarrow> bool" for cap :: int where
  acquire: "i \<in> set (wk_waiting s) \<Longrightarrow> int (sem_len s) < cap \<Longrightarrow>
    worker_step cap s (s\<lparr>wk_waiting := remove1 i (wk_waiting s), wk_reading := i # wk_reading s\<rparr>)"
| append_result: "i \<in> set (wk_reading s) \<Longrightarrow>
    worker_step cap s (s\<lparr>wk_reading := remove1 i (wk_reading s), wk_recorded := i # wk_recorded s, wk_order := wk_order s @ [i]\<rparr>)"
| release: "i \<in> set (wk_recorded s) \<Longrightarrow> worker_step cap s (s\<lparr>wk_recorded := remove1 i (wk_recorded s)\<rparr>)"

definition all_done :: "workers \<Rightarrow> bool" where
  "all_done s \<longleftrightarrow> wk_waiting s = [] \<and> wk_reading s = [] \<and> wk_recorded s = []"

definition work_left :: "workers \<Rightarrow> nat" where
  "work_left s = 3 * length (wk_waiting s) + 2 * length (wk_reading s) + length (wk_recorded s)"

lemma length_remove1_Suc: "i \<in> set xs \<Longrightarrow> length xs = Suc (length (remove1 i xs))"
  by (induction xs) auto

lemma worker_step_decreases:
  assumes "worker_step cap s s'"
  shows "work_left s' < work_left s"
  using assms
proof cases
  case (acquire i)
  then show ?thesis using length_remove1_Suc [of i "wk_waiting s"] by (simp add: work_left_def)
next
  case (append_result i)
  then show ?thesis using length_remove1_Suc [of i "wk_reading s"] by (simp add: work_left_def)
next
  case (release i)
  then show ?thesis using length_remove1_Suc [of i "wk_recorded s"] by (simp add: work_left_def)
qed

text \<open>Every virtual machine is waiting, being read or in the order of results, and the channel is never over-full.\<close>

definition pool_inv :: "int \<Rightarrow> string list \<Rightarrow> workers \<Rightarrow> bool" where
  "pool_inv cap is s \<longleftrightarrow> mset (wk_waiting s) + mset (wk_reading s) + mset (wk_order s) = mset is \<and> int (sem_len s) \<le> max 0 cap"

lemma worker_step_inv:
  assumes "worker_step cap s s'" and "pool_inv cap is s"
  shows "pool_inv cap is s'"
  using assms(1)
proof cases
  case (acquire i)
  then show ?thesis using assms(2) by (auto simp: pool_inv_def sem_len_def)
next
  case (append_result i)
  have "mset (wk_reading s) = add_mset i (mset (remove1 i (wk_reading s)))" using append_result(2) by simp
  then show ?thesis using append_result assms(2) length_remove1_Suc [of i "wk_reading s"]
    by (simp add: pool_inv_def sem_len_def del: mset_remove1)
next
  case (release i)
  then show ?thesis using assms(2) length_remove1_Suc [of i "wk_recorded s"] by (auto simp: pool_inv_def sem_len_def)
qed

lemma workers_inv: "(worker_step cap)\<^sup>*\<^sup>* (spawn is) s \<Longrightarrow> pool_inv cap is s"
proof (induction rule: rtranclp_induct)
  case base
  show ?case by (simp add: pool_inv_def spawn_def sem_len_def)
next
  case (step s s')
  then show ?case by (auto intro: worker_step_inv)
qed

lemma worker_progress:
  assumes "0 < cap" and "\<not> all_done s"
  shows "\<exists>s'. worker_step cap s s'"
proof (cases "sem_len s = 0")
  case True
  then have "wk_waiting s \<noteq> []" using assms(2) by (auto simp: all_done_def sem_len_def)
  then show ?thesis using acquire [of "hd (wk_waiting s)" s cap] True assms(1) by auto
next
  case False
  then consider "wk_reading s \<noteq> []" | "wk_recorded s \<noteq> []" by (auto simp: sem_len_def)
  then show ?thesis
    by cases (use append_result [of "hd (wk_reading s)" s cap] release [of "hd (wk_recorded s)" s cap] in auto)
qed

text \<open>
  C25: Termination of a poll. With at least one place, a poll with any number of virtual machines
  makes at most three steps per machine, never has more of them at work than places, and can
  only stop when every machine has been read exactly once.
\<close>

theorem poll_workers_terminate:
  assumes "0 < cap" and "(worker_step cap ^^ n) (spawn is) s"
  shows "n \<le> 3 * length is \<and> int (sem_len s) \<le> cap \<and>
    ((\<nexists>s'. worker_step cap s s') \<longrightarrow> all_done s \<and> mset (wk_order s) = mset is)"
proof -
  have "work_left s + n \<le> work_left (spawn is)" using assms(2)
  proof (induction n arbitrary: s)
    case (Suc n)
    then obtain s0 where "(worker_step cap ^^ n) (spawn is) s0" "worker_step cap s0 s" by auto
    then show ?case using Suc.IH [of s0] worker_step_decreases [of cap s0 s] by simp
  qed simp
  then have "n \<le> 3 * length is" by (simp add: work_left_def spawn_def)
  moreover have inv: "pool_inv cap is s" using workers_inv relpowp_imp_rtranclp [OF assms(2)] by blast
  moreover have "all_done s \<and> mset (wk_order s) = mset is" if "\<nexists>s'. worker_step cap s s'"
  proof -
    have "all_done s" using worker_progress [OF assms(1), of s] that by blast
    then show ?thesis using inv by (simp add: pool_inv_def all_done_def)
  qed
  ultimately show ?thesis using assms(1) by (auto simp: pool_inv_def)
qed

theorem poll_workers_terminate_witness:
  "(worker_step 1 ^^ 3) (spawn [''c1'']) \<lparr>wk_waiting = [], wk_reading = [], wk_recorded = [], wk_order = [''c1'']\<rparr> \<and>
   3 \<le> 3 * length [''c1'']"
proof -
  have "worker_step 1 (spawn [''c1'']) \<lparr>wk_waiting = [], wk_reading = [''c1''], wk_recorded = [], wk_order = []\<rparr>"
    using acquire [of "''c1''" "spawn [''c1'']" 1] by (simp add: spawn_def sem_len_def)
  moreover have "worker_step 1 \<lparr>wk_waiting = [], wk_reading = [''c1''], wk_recorded = [], wk_order = []\<rparr>
      \<lparr>wk_waiting = [], wk_reading = [], wk_recorded = [''c1''], wk_order = [''c1'']\<rparr>"
    using append_result [of "''c1''" "\<lparr>wk_waiting = [], wk_reading = [''c1''], wk_recorded = [], wk_order = []\<rparr>" 1] by simp
  moreover have "worker_step 1 \<lparr>wk_waiting = [], wk_reading = [], wk_recorded = [''c1''], wk_order = [''c1'']\<rparr>
      \<lparr>wk_waiting = [], wk_reading = [], wk_recorded = [], wk_order = [''c1'']\<rparr>"
    using release [of "''c1''" "\<lparr>wk_waiting = [], wk_reading = [], wk_recorded = [''c1''], wk_order = [''c1'']\<rparr>" 1] by simp
  ultimately have run: "(worker_step 1 ^^ 3) (spawn [''c1'']) \<lparr>wk_waiting = [], wk_reading = [], wk_recorded = [], wk_order = [''c1'']\<rparr>"
    by (auto simp: numeral_3_eq_3 intro!: relcomppI)
  show ?thesis by (rule conjI [OF run conjunct1 [OF poll_workers_terminate [OF _ run]]]) simp
qed

text \<open>The configuration of a process started without flags and with a few environment variables.\<close>

definition ex_config :: Config where
  "ex_config = Parse ex_lib
     (\<lambda>k. if k = ''NODE_NAME'' then ''node'' else if k = ''BOUNDARIES'' then ''10''
          else if k = ''QMP_CONCURRENCY'' \<or> k = ''QGA_CONCURRENCY'' then ''0'' else [])
     \<lparr>fl_String = Map.empty, fl_Bool = Map.empty, fl_Int = Map.empty, fl_Duration = Map.empty\<rparr>"

lemma ex_config_accepted:
  "Validate ex_config = None \<and> cfg_EnableQMP ex_config \<and> cfg_QMPConcurrency ex_config = 0 \<and>
   cfg_EnableQGA ex_config \<and> cfg_QGAConcurrency ex_config = 0"
proof -
  have "Atoi ''0'' = Some 0" "parseBoundariesNs ''10'' = [10]" by code_simp+
  then show ?thesis
    by (simp add: ex_config_def Parse_def Validate_def Let_def flag_or_def envOrDefault_def envIntOrDefault_def envBoolOrDefault_def)
qed

text \<open>
  C37: A concurrency of 0 blocks. The validation accepts a configuration with concurrency 0 for
  either collector. With it, a poll that has a virtual machine to read makes no step: it does
  not return, and the collector reports nothing from then on.
\<close>

theorem zero_concurrency_blocks:
  "(\<exists>c. Validate c = None \<and> cfg_EnableQMP c \<and> cfg_QMPConcurrency c = 0 \<and> cfg_EnableQGA c \<and> cfg_QGAConcurrency c = 0) \<and>
   \<not> all_done (spawn (i # is)) \<and> (\<nexists>s. worker_step 0 (spawn (i # is)) s)"
proof (intro conjI)
  have "Validate ex_config = None \<and> cfg_EnableQMP ex_config \<and> cfg_QMPConcurrency ex_config = 0 \<and>
      cfg_EnableQGA ex_config \<and> cfg_QGAConcurrency ex_config = 0"
    by (rule ex_config_accepted)
  then show "\<exists>c. Validate c = None \<and> cfg_EnableQMP c \<and> cfg_QMPConcurrency c = 0 \<and> cfg_EnableQGA c \<and> cfg_QGAConcurrency c = 0"
    by blast
  show "\<not> all_done (spawn (i # is))" by (simp add: all_done_def spawn_def)
  show "\<nexists>s. worker_step 0 (spawn (i # is)) s" by (auto elim!: worker_step.cases simp: spawn_def)
qed

end
