(* ===== verification/Exporter.thy ===== *)
theory Exporter
  imports EbpfCollector QgaCollector WorkerPool
begin

text \<open>
  \<^verbatim>\<open>cmd/exporter/main.go\<close>: the start of the process, from the configuration to the collectors that are
  registered with Prometheus. Whether the Kubernetes caches could be filled, which container
  runtime sockets can be opened, what the Prometheus registry takes and whether the server ends
  by a shutdown are arguments. The process ends early only for the reasons below; a failure to
  load the eBPF programs only disables that subsystem. The configured namespaces bound what all
  three collectors export.
\<close>

subsection \<open>Starting the process\<close>

datatype log_level = LevelDebug | LevelInfo | LevelWarn | LevelError

definition setupLogging :: "string \<Rightarrow> log_level" where
  "setupLogging level =
     (if ToLower level = ''debug'' then LevelDebug
      else if ToLower level = ''warn'' then LevelWarn
      else if ToLower level = ''error'' then LevelError
      else LevelInfo)"

record informerStores =
  is_podStore :: "kobj list"
  is_pvcIndexer :: "string \<Rightarrow> kobj list option"

text \<open>
  The registry: whether it takes a collector with the given descriptions after those that are
  already registered; \<^verbatim>\<open>MustRegister\<close> panics if it does not.
\<close>

type_synonym registry = "Desc list \<Rightarrow> Desc list \<Rightarrow> bool"

datatype exit_reason = InvalidConfiguration config_error | NoInformers | NoRuntimeForQMP | NoRuntimeForQGA | RegistrationPanic
  | ServerFailed

definition startQMP :: "registry \<Rightarrow> Desc list \<Rightarrow> (string \<Rightarrow> bool) \<Rightarrow> Config \<Rightarrow> exit_reason + qmp_Collector" where
  "startQMP registers old cri_ok cfg =
     (if \<not> cri_ok (cfg_CRISocket cfg) then Inl NoRuntimeForQMP
      else
        let collector = qmp_NewCollector
          \<lparr>pc_NodeName = cfg_NodeName cfg, pc_PollInterval = cfg_QMPPollInterval cfg, pc_BoundariesNs = cfg_BoundariesNs cfg,
           pc_QMPTimeout = cfg_QMPTimeout cfg, pc_Concurrency = cfg_QMPConcurrency cfg,
           pc_Namespaces = ParseNamespaces (cfg_Namespaces cfg), pc_LabelFilter = cfg_QMPLabelFilter cfg\<rparr>
        in if registers old qmp_Describe then Inr collector else Inl RegistrationPanic)"

definition startQGA :: "registry \<Rightarrow> Desc list \<Rightarrow> (string \<Rightarrow> bool) \<Rightarrow> Config \<Rightarrow> exit_reason + qga_Collector" where
  "startQGA registers old cri_ok cfg =
     (if \<not> cri_ok (cfg_CRISocket cfg) then Inl NoRuntimeForQGA
      else
        let collector = qga_NewCollector
          \<lparr>gc_NodeName = cfg_NodeName cfg, gc_PollInterval = cfg_QGAPollInterval cfg, gc_QGATimeout = cfg_QGATimeout cfg,
           gc_ExecWait = cfg_QGAExecWait cfg, gc_MaxRetries = cfg_QGARetries cfg, gc_Concurrency = cfg_QGAConcurrency cfg,
           gc_Namespaces = ParseNamespaces (cfg_Namespaces cfg), gc_LabelFilter = cfg_QGALabelFilter cfg\<rparr>
        in if registers old qga_Describe then Inr collector else Inl RegistrationPanic)"

definition startEBPF :: "kenv \<Rightarrow> registry \<Rightarrow> Desc list \<Rightarrow> Config \<Rightarrow> informerStores \<Rightarrow> kernel \<Rightarrow>
    (exit_reason + Collector option) \<times> kernel" where
  "startEBPF env registers old cfg stores k =
     (let resolver = NewResolver (cfg_NodeName cfg) (cfg_EBPFProcPath cfg) (Some (is_podStore stores)) (Some (is_pvcIndexer stores))
      in case LoadAndAttach env (cfg_EnableEBPFBlock cfg) (cfg_EnableEBPFNFS cfg) (cfg_EnableEBPFNFSKprobe cfg)
            (cfg_EBPFBlockMapSize cfg) (cfg_EBPFNFSMapSize cfg) (cfg_EBPFNFSKprobeMapSize cfg) k of
        (None, k) \<Rightarrow> (Inr None, k)
      | (Some programs, k) \<Rightarrow>
          let collector = NewCollector programs resolver (cfg_NodeName cfg) (cfg_Boundaries cfg) (ParseNamespaces (cfg_Namespaces cfg))
          in (if registers old Describe then Inr (Some collector) else Inl RegistrationPanic, k))"

text \<open>
  What is running when the server starts to listen, each subsystem if it is enabled and has started,
  and the reason for which the process exits with a failure when \<^verbatim>\<open>ListenAndServe\<close> returns, if any.
\<close>

record exporter =
  xp_level :: log_level
  xp_address :: string
  xp_qmp :: "qmp_Collector option"
  xp_qga :: "qga_Collector option"
  xp_ebpf :: "Collector option"
  xp_exit :: "exit_reason option"

definition exporter_main :: "kenv \<Rightarrow> registry \<Rightarrow> informerStores option \<Rightarrow> (string \<Rightarrow> bool) \<Rightarrow> (string \<Rightarrow> bool) \<Rightarrow> Config \<Rightarrow> kernel \<Rightarrow>
    (exit_reason + exporter) \<times> kernel" where
  "exporter_main env registers informers cri_ok serves cfg k =
     (let level = setupLogging (cfg_LogLevel cfg)
      in case Validate cfg of
        Some e \<Rightarrow> (Inl (InvalidConfiguration e), k)
      | None \<Rightarrow>
          (case informers of
             None \<Rightarrow> (Inl NoInformers, k)
           | Some stores \<Rightarrow>
               (case (if cfg_EnableQMP cfg then map_sum id Some (startQMP registers [] cri_ok cfg) else Inr None) of
                  Inl e \<Rightarrow> (Inl e, k)
                | Inr qmp \<Rightarrow>
                    let old = (if cfg_EnableQMP cfg then qmp_Describe else [])
                    in (case (if cfg_EnableQGA cfg then map_sum id Some (startQGA registers old cri_ok cfg) else Inr None) of
                          Inl e \<Rightarrow> (Inl e, k)
                        | Inr qga \<Rightarrow>
                            let old = old @ (if cfg_EnableQGA cfg then qga_Describe else [])
                            in (case (if cfg_EnableEBPF cfg then startEBPF env registers old cfg stores k else (Inr None, k)) of
                                  (Inl e, k) \<Rightarrow> (Inl e, k)
                                | (Inr ebpf, k) \<Rightarrow>
                                    (Inr \<lparr>xp_level = level, xp_address = cfg_ListenAddress cfg, xp_qmp = qmp, xp_qga = qga,
                                       xp_ebpf = ebpf,
                                       xp_exit = (if serves (cfg_ListenAddress cfg) then None else Some ServerFailed)\<rparr>, k))))))"

subsection \<open>When the process ends early\<close>

text \<open>
  The default registry already holds the collectors of the Go runtime and of the process, whose
  metrics are named accordingly. It takes further metrics under names of their own.
\<close>

definition own_name :: "string \<Rightarrow> bool" where
  "own_name s \<longleftrightarrow> \<not> prefix ''go_'' s \<and> \<not> prefix ''process_'' s"

definition takes_new_names :: "registry \<Rightarrow> bool" where
  "takes_new_names registers \<longleftrightarrow>
     (\<forall>old new. distinct (map d_fqName (old @ new)) \<longrightarrow> (\<forall>d \<in> set new. own_name (d_fqName d)) \<longrightarrow> registers old new)"

lemma described_names:
  "distinct (map d_fqName (qmp_Describe @ qga_Describe @ Describe))"
  "\<forall>d \<in> set (qmp_Describe @ qga_Describe @ Describe). own_name (d_fqName d)"
  by code_simp+

lemma registrations:
  assumes "takes_new_names registers"
  shows "registers [] qmp_Describe" "registers [] qga_Describe" "registers qmp_Describe qga_Describe"
    "registers [] Describe" "registers qmp_Describe Describe" "registers qga_Describe Describe"
    "registers (qmp_Describe @ qga_Describe) Describe"
proof -
  have t: "registers old new" if "distinct (map d_fqName (old @ new))" "\<forall>d \<in> set new. own_name (d_fqName d)" for old new
    using assms that unfolding takes_new_names_def by blast
  note n = described_names
  show "registers [] qmp_Describe" "registers [] qga_Describe" "registers qmp_Describe qga_Describe"
    "registers [] Describe" "registers qmp_Describe Describe" "registers qga_Describe Describe"
    "registers (qmp_Describe @ qga_Describe) Describe"
    by (rule t; use n in \<open>auto simp: ball_Un\<close>)+
qed


subsection \<open>The namespace filter, end to end\<close>

definition label_value :: "Metric \<Rightarrow> string \<Rightarrow> string option" where
  "label_value m l = map_of (zip (d_variableLabels (m_desc m)) (m_labels m)) l"

lemma const_metric_iff: "const_metric accept d v labels = Some m \<longleftrightarrow> accept d labels \<and> m = ConstMetric d v labels"
  by (auto simp: const_metric_def)

lemma operation_metric_namespace:
  "m \<in> set (operation_metric accept vmi dev opd) \<Longrightarrow> label_value m ''namespace'' = Some (vm_Namespace vmi)"
  by (auto simp: operation_metric_def label_value_def latencyDesc_def Let_def split: if_splits option.splits prod.splits)

lemma queue_metrics_namespace:
  "Some m \<in> set (queue_metrics accept vmi vq) \<Longrightarrow> label_value m ''namespace'' = Some (vm_Namespace vmi)"
  by (auto simp: queue_metrics_def const_metric_iff label_value_def virtqueueInuseDesc_def virtqueueSizeDesc_def Let_def eq_commute [of "Some m"])

lemma direction_metrics_namespace:
  "Some m \<in> set (direction_metrics accept vmi disk opn lat iops) \<Longrightarrow> label_value m ''namespace'' = Some (gr_Namespace vmi)"
  by (auto simp: direction_metrics_def const_metric_iff label_value_def latencyAvgDesc_def iopsDesc_def Let_def eq_commute [of "Some m"]
    split: if_splits)

lemma qmp_Collect_namespace:
  assumes "qmp_Collect accept c = Some ms" and "m \<in> set ms" and "label_value m ''namespace'' = Some ns"
  shows "\<exists>r \<in> set (qm_results c). vm_Namespace r = ns"
proof -
  have "Some m \<in> set ([const_metric accept scrapeErrorsDesc (qm_scrapeErrors c) [],
      const_metric accept lastPollDesc (qm_lastPollTS c) []] @ concat (map (vmi_metrics accept) (qm_results c)))"
    unfolding those_Some [OF assms(1) [unfolded qmp_Collect_def]] using assms(2) by simp
  moreover have "const_metric accept scrapeErrorsDesc v [] \<noteq> Some m" "const_metric accept lastPollDesc v [] \<noteq> Some m" for v
    using assms(3) by (auto simp: const_metric_iff label_value_def scrapeErrorsDesc_def)
  ultimately obtain r where r: "r \<in> set (qm_results c)" "Some m \<in> set (vmi_metrics accept r)" by (auto simp: eq_commute [of "Some m"])
  from r(2) have "label_value m ''namespace'' = Some (vm_Namespace r)"
    by (auto simp: vmi_metrics_def device_metrics_def dest: operation_metric_namespace queue_metrics_namespace)
  then show ?thesis using r(1) assms(3) by auto
qed

lemma qga_Collect_namespace:
  assumes "qga_Collect accept c = Some ms" and "m \<in> set ms" and "label_value m ''namespace'' = Some ns"
  shows "\<exists>r \<in> set (qg_results c). gr_Namespace r = ns"
proof -
  have "Some m \<in> set ([const_metric accept qgaScrapeErrorsDesc (qg_scrapeErrors c) [],
      const_metric accept qgaLastPollDesc (qg_lastPollTS c) []] @
      concat (map (\<lambda>vmi. concat (map (disk_metrics accept vmi) (gr_Disks vmi))) (qg_results c)))"
    unfolding those_Some [OF assms(1) [unfolded qga_Collect_def]] using assms(2) by simp
  moreover have "const_metric accept qgaScrapeErrorsDesc v [] \<noteq> Some m" "const_metric accept qgaLastPollDesc v [] \<noteq> Some m" for v
    using assms(3) by (auto simp: const_metric_iff label_value_def qgaScrapeErrorsDesc_def)
  ultimately obtain r d where r: "r \<in> set (qg_results c)" "Some m \<in> set (disk_metrics accept r d)" by (auto simp: eq_commute [of "Some m"])
  from r(2) have "label_value m ''namespace'' = Some (gr_Namespace r)"
    unfolding disk_metrics_def set_append Un_iff by (elim disjE) (rule direction_metrics_namespace; assumption)+
  then show ?thesis using r(1) assms(3) by auto
qed

lemma ebpf_Collect_namespace:
  assumes "Collect_metrics accept iterate c = Some ms" and "m \<in> set ms" and "label_value m ''namespace'' = Some ns"
  shows "namespaceAllowed c ns"
  using Collect_metrics_labels [OF assms(1,2)] assms(3)
  by (auto simp: label_value_def volume_labels_def subsystemDesc_def systemBlockDesc_def podBlockDesc_def nfsDesc_def nfsVfsDesc_def
    length_Suc_conv split: if_splits)

lemma select_pods_namespace:
  "p \<in> set (select_pods nss flt objs) \<Longrightarrow> nss = [] \<or> pi_namespace p \<in> set nss"
  unfolding select_pods_iff by auto

lemma exporter_main_collectors:
  assumes "exporter_main env registers informers cri_ok serves cfg k = (Inr x, k')"
  shows "xp_qmp x = Some q \<Longrightarrow> qm_connections q = [] \<and> qm_results q = [] \<and> pc_Namespaces (qm_cfg q) = ParseNamespaces (cfg_Namespaces cfg)"
    and "xp_qga x = Some g \<Longrightarrow> qg_vms g = [] \<and> qg_results g = [] \<and> gc_Namespaces (qg_cfg g) = ParseNamespaces (cfg_Namespaces cfg)"
    and "xp_ebpf x = Some b \<Longrightarrow> namespaceAllowed b ns \<longleftrightarrow>
      ParseNamespaces (cfg_Namespaces cfg) = [] \<or> ns \<in> set (ParseNamespaces (cfg_Namespaces cfg))"
  using assms
  by (auto simp: exporter_main_def startQMP_def startQGA_def startEBPF_def Let_def qmp_NewCollector_def qga_NewCollector_def NewCollector_allowed
    split: option.splits prod.splits if_splits sum.splits)

text \<open>
  C16: The namespace filter holds for the whole exporter. With namespaces configured, every metric
  that carries a namespace label, from any of the three collectors, after any polls and with
  any device map, is of a configured namespace.
\<close>

theorem main_filters_namespaces:
  assumes "exporter_main env registers informers cri_ok serves cfg k = (Inr x, k')" and "ParseNamespaces (cfg_Namespaces cfg) \<noteq> []"
    and "(\<exists>c ws nw. xp_qmp x = Some c \<and> qmp_Collect accept (fst (fold (\<lambda>w (c, nw). qmp_poll w c nw) ws (c, nw))) = Some ms) \<or>
      (\<exists>c ws nw. xp_qga x = Some c \<and> qga_Collect accept (fst (fold (\<lambda>w (c, nw). qga_poll w c nw) ws (c, nw))) = Some ms) \<or>
      (\<exists>c p r. xp_ebpf x = Some c \<and> Collect_metrics accept iterate (c\<lparr>c_programs := p, c_resolver := r\<rparr>) = Some ms)"
    and "m \<in> set ms" and "label_value m ''namespace'' = Some ns"
  shows "ns \<in> set (ParseNamespaces (cfg_Namespaces cfg))"
  using assms(3)
proof (elim disjE exE conjE)
  fix c ws nw
  assume c: "xp_qmp x = Some c" and ms: "qmp_Collect accept (fst (fold (\<lambda>w (c, nw). qmp_poll w c nw) ws (c, nw))) = Some ms"
  let ?P = "\<lambda>p. pi_namespace p \<in> set (ParseNamespaces (cfg_Namespaces cfg))"
  have "\<forall>r \<in> set (qm_results (fst (fold (\<lambda>w (c, nw). qmp_poll w c nw) ws (c, nw)))). ?P (result_pod r)"
    by (rule qmp_polls_pods [OF _ _ _ prod.collapse [symmetric]])
      (use exporter_main_collectors(1) [OF assms(1) c] assms(2) in \<open>auto simp: all_pods_def dest: select_pods_namespace\<close>)
  then show ?thesis using qmp_Collect_namespace [OF ms assms(4,5)] by (auto simp: result_pod_def)
next
  fix c ws nw
  assume c: "xp_qga x = Some c" and ms: "qga_Collect accept (fst (fold (\<lambda>w (c, nw). qga_poll w c nw) ws (c, nw))) = Some ms"
  let ?P = "\<lambda>p. pi_namespace p \<in> set (ParseNamespaces (cfg_Namespaces cfg))"
  have "\<forall>r \<in> set (qg_results (fst (fold (\<lambda>w (c, nw). qga_poll w c nw) ws (c, nw)))). ?P (gr_pod r)"
    by (rule qga_polls_pods)
      (use exporter_main_collectors(2) [OF assms(1) c] assms(2) in \<open>auto simp: vm_pods_def dest: select_pods_namespace\<close>)
  then show ?thesis using qga_Collect_namespace [OF ms assms(4,5)] by (auto simp: gr_pod_def)
next
  fix c p r
  assume c: "xp_ebpf x = Some c" and ms: "Collect_metrics accept iterate (c\<lparr>c_programs := p, c_resolver := r\<rparr>) = Some ms"
  have "namespaceAllowed c ns" using ebpf_Collect_namespace [OF ms assms(4,5)] by (simp add: namespaceAllowed_def)
  then show ?thesis using exporter_main_collectors(3) [OF assms(1) c] assms(2) by simp
qed

subsection \<open>An example\<close>

definition ex_filtered :: Config where
  "ex_filtered = ex_config\<lparr>cfg_NodeName := ''node'', cfg_Namespaces := ''default'', cfg_BoundariesNs := [10000000], cfg_QMPPollInterval := 60,
     cfg_QMPTimeout := 5, cfg_QMPConcurrency := 8, cfg_QMPLabelFilter := [], cfg_EnableEBPF := False\<rparr>"

definition ex_stores :: informerStores where
  "ex_stores = \<lparr>is_podStore = [], is_pvcIndexer = (\<lambda>_. None)\<rparr>"

definition ex_registry :: registry where
  "ex_registry old new = distinct (map d_fqName (old @ new))"

lemma ex_filtered_valid:
  "Validate ex_filtered = None" "cfg_EnableQMP ex_filtered" "\<not> cfg_EnableEBPF ex_filtered"
  "ParseNamespaces (cfg_Namespaces ex_filtered) = [''default'']"
proof -
  have "ParseNamespaces ''default'' = [''default'']" by code_simp
  then show "ParseNamespaces (cfg_Namespaces ex_filtered) = [''default'']" by (simp add: ex_filtered_def)
  show "Validate ex_filtered = None" "cfg_EnableQMP ex_filtered" "\<not> cfg_EnableEBPF ex_filtered"
    using ex_config_accepted by (simp_all add: ex_filtered_def Validate_def)
qed

lemma ex_registry_takes: "takes_new_names ex_registry"
  by (simp add: takes_new_names_def ex_registry_def)

lemma ex_started:
  "\<exists>x. exporter_main env ex_registry (Some ex_stores) (\<lambda>_. True) (\<lambda>_. True) ex_filtered k = (Inr x, k) \<and> xp_qmp x = Some (qmp_NewCollector ex_poller)"
proof -
  have "startQMP ex_registry [] (\<lambda>_. True) ex_filtered = Inr (qmp_NewCollector ex_poller)"
    using registrations [OF ex_registry_takes] ex_filtered_valid(4)
    by (simp add: startQMP_def ex_poller_def) (simp add: ex_filtered_def)
  then show ?thesis using registrations [OF ex_registry_takes] ex_filtered_valid
    by (auto simp: exporter_main_def startQGA_def Let_def)
qed


lemma ex_labelled:
  "\<exists>ms m ns. qmp_Collect arity_ok (fst ex_polled) = Some ms \<and> m \<in> set ms \<and> label_value m ''namespace'' = Some ns"
proof -
  obtain ms where ms: "qmp_Collect arity_ok (fst ex_polled) = Some ms" using qmp_Collect_total by blast
  obtain r q qs where r: "r \<in> set (qm_results (fst ex_polled))" "vm_Virtqueues r = q # qs"
    using ex_vq by (cases "qm_results (fst ex_polled)") auto
  define labels where "labels = [vm_Namespace r, vm_Name r, vm_Node r, vm_PodName r, vr_Disk q, vr_PVC q, Itoa (nat (vr_Queue q)), vr_Bus q]"
  define m where "m = ConstMetric virtqueueInuseDesc (of_nat (unat (vr_Inuse q))) labels"
  have "arity_ok virtqueueInuseDesc labels" by (simp add: arity_ok_def labels_def virtqueueInuseDesc_def)
  then have "Some m \<in> set (vmi_metrics arity_ok r)"
    by (simp add: vmi_metrics_def r(2) queue_metrics_def labels_def m_def const_metric_def Let_def)
  then have "Some m \<in> set (concat (map (vmi_metrics arity_ok) (qm_results (fst ex_polled))))" using r(1) by (simp only: set_concat set_map) blast
  then have "Some m \<in> set (map Some ms)"
    unfolding those_Some [OF ms [unfolded qmp_Collect_def], symmetric] by (simp only: set_append Un_iff) blast
  moreover have "label_value m ''namespace'' = Some (vm_Namespace r)"
    by (simp add: label_value_def m_def virtqueueInuseDesc_def labels_def)
  ultimately show ?thesis using ms by auto
qed

theorem main_filters_namespaces_witness:
  "\<exists>ms m. qmp_Collect arity_ok (fst ex_polled) = Some ms \<and> m \<in> set ms \<and> label_value m ''namespace'' = Some ''default''"
proof -
  obtain ms m ns where m: "qmp_Collect arity_ok (fst ex_polled) = Some ms" "m \<in> set ms" "label_value m ''namespace'' = Some ns"
    using ex_labelled by blast
  obtain x where x: "exporter_main undefined ex_registry (Some ex_stores) (\<lambda>_. True) (\<lambda>_. True) ex_filtered undefined = (Inr x, undefined)"
      "xp_qmp x = Some (qmp_NewCollector ex_poller)"
    using ex_started by blast
  have ne: "ParseNamespaces (cfg_Namespaces ex_filtered) \<noteq> []" using ex_filtered_valid(4) by simp
  have "qmp_Collect arity_ok (fst (fold (\<lambda>w (c, nw). qmp_poll w c nw) [ex_world] (qmp_NewCollector ex_poller, ex_network))) = Some ms"
    using m(1) by simp
  then have "ns \<in> set (ParseNamespaces (cfg_Namespaces ex_filtered))"
    using x(2) by (intro main_filters_namespaces [OF x(1) ne _ m(2,3)]) blast
  then show ?thesis using m ex_filtered_valid(4) by auto
qed

end
