(* ===== verification/Spec2Isabelle.thy ===== *)
theory Spec2Isabelle
  imports KernelEnv BlockLatency NfsLatency NfsKprobe Concurrent Exporter
begin

text \<open>
  Verification of the KubeVirt storage latency exporter: eBPF programs that measure the latency of
  block requests, NFS transfers and NFS file operations in the kernel, and a Go process that
  loads them, attributes devices to the volumes of pods and exports histograms to Prometheus.
  The same process asks the QEMU monitor and the guest agent of every virtual machine for the
  latencies they see.

  \<^bold>\<open>The parts and how they interact.\<close> Each program under \<^verbatim>\<open>src/bpf\<close> keeps two LRU hash maps: one of
  operations in flight (key to start time) and one of histograms (device and operation to 26
  counters, one per power of two of microseconds). A probe at the start of an operation stores the
  time; the probe at the end removes it and counts the difference. The loader
  (\<^verbatim>\<open>pkg/ebpf/loader.go\<close>) puts the programs into the kernel and hands the histogram maps to the
  collector (\<^verbatim>\<open>pkg/ebpf/collector.go\<close>), which converts each histogram (\<^verbatim>\<open>histogram.go\<close>) and labels it
  with what the resolver (\<^verbatim>\<open>pkg/device\<close>) found in the mount table about the device.

  Two further collectors poll virtual machines. Both select running pods from the cache, find the
  container and its process, and keep one connection to the libvirt daemon per container. The QMP
  collector (\<^verbatim>\<open>pkg/qmp\<close>) enables the latency histograms of QEMU once per device and reads them
  and the virtqueues at every poll; the QGA collector (\<^verbatim>\<open>pkg/qga\<close>) runs a query in Windows
  guests, compares two successive answers, and gives up on guests that refuse. The start of the
  process (\<^verbatim>\<open>cmd/exporter/main.go\<close>) makes the three collectors from the configuration
  (\<^verbatim>\<open>pkg/config\<close>) and registers them with Prometheus.

  \<^bold>\<open>Theories, kernel side.\<close>
  \<^item> \<^verbatim>\<open>Prelude\<close>: machine integer types, byte strings and generic lemmas.
  \<^item> \<^verbatim>\<open>CTypes\<close>: C types as data with the x86-64 layout rules (size, alignment, bit fields,
    packing), and \<^verbatim>\<open>offsetof\<close> along a member path.
  \<^item> \<^verbatim>\<open>KTypes_*\<close>: the declarations of \<^verbatim>\<open>bpf/headers/vmlinux.h\<close> that the objects the programs read
    are made of, one definition per declaration; \<^verbatim>\<open>KernelEnv\<close> collects them and shows they are
    well-formed.
  \<^item> \<^verbatim>\<open>KernelAccess\<close>: reading a member at its offset from memory, and CO-RE pointer chains.
  \<^item> \<^verbatim>\<open>Bits\<close>: \<^verbatim>\<open>log2\<close> and \<^verbatim>\<open>log2l\<close> of \<^verbatim>\<open>bits.bpf.h\<close>. \<^verbatim>\<open>Common\<close>: \<^verbatim>\<open>common.h\<close>, and what a sample does to a
    histogram.
  \<^item> \<^verbatim>\<open>BpfMap\<close>: the contract of an LRU hash map as the locale \<^verbatim>\<open>bpf_lru\<close> (an update may evict other
    entries) and \<^verbatim>\<open>bpf_lru_room\<close> (below capacity it does not), with an executable map that meets
    it.
  \<^item> \<^verbatim>\<open>LatencyProbe\<close>: the pattern the three programs share, as locales over their handlers, and the
    abstract machine \<^verbatim>\<open>probe_spec\<close> of pending operations and histograms that they refine.
  \<^item> \<^verbatim>\<open>BlockLatency\<close>, \<^verbatim>\<open>NfsLatency\<close> (with \<^verbatim>\<open>NfsObjects\<close>), \<^verbatim>\<open>NfsKprobe\<close>: the handlers of
    \<^verbatim>\<open>block_latency.c\<close>, \<^verbatim>\<open>nfs_latency.c\<close> and \<^verbatim>\<open>nfs_kprobe_latency.c\<close>, one definition per C function,
    and their interpretations of the locales.
  \<^item> \<^verbatim>\<open>Concurrent\<close>: the block completion handler cut at its map operations, on several CPUs.

  \<^bold>\<open>Theories, Go side.\<close>
  \<^item> \<^verbatim>\<open>GoFloat\<close>, \<^verbatim>\<open>GoStrings\<close>: what the code uses of the language: \<^verbatim>\<open>float64\<close> as rationals with rounding
    to nearest even, and \<^verbatim>\<open>strings\<close> and \<^verbatim>\<open>strconv\<close> on character lists.
  \<^item> \<^verbatim>\<open>SlotHistogram\<close>: \<^verbatim>\<open>SlotsToConstHistogram\<close>.
  \<^item> \<^verbatim>\<open>Device\<close>: \<^verbatim>\<open>procmounts.go\<close> and \<^verbatim>\<open>resolver.go\<close>, from the text of the mount table to the lookup of a
    device.
  \<^item> \<^verbatim>\<open>Loader\<close>: \<^verbatim>\<open>LoadAndAttach\<close>, \<^verbatim>\<open>RetryFailed\<close> and \<^verbatim>\<open>Close\<close> over the handles the kernel gives out.
  \<^item> \<^verbatim>\<open>Prometheus\<close>: descriptions and metrics. \<^verbatim>\<open>EbpfCollector\<close>: a whole scrape.
  \<^item> \<^verbatim>\<open>Config\<close>: flags, environment and validation.
  \<^item> \<^verbatim>\<open>QmpTypes\<close>: \<^verbatim>\<open>pkg/qmp/types.go\<close>, device names and disk addresses. \<^verbatim>\<open>QmpClient\<close>: \<^verbatim>\<open>client.go\<close> and
    \<^verbatim>\<open>cri.go\<close>, with the record \<^verbatim>\<open>network\<close> of open sockets and sessions.
  \<^item> \<^verbatim>\<open>VmPoll\<close>: what the two polls share: selecting pods, finding targets, dropping and opening
    connections, and the locale \<^verbatim>\<open>pool\<close> of a table that owns its connections, which both collectors
    interpret. \<^verbatim>\<open>WorkerPool\<close>: the goroutines of a poll as a step relation.
  \<^item> \<^verbatim>\<open>QmpScrape\<close>, \<^verbatim>\<open>QmpCollector\<close>: reading one virtual machine over QMP; the poll and the export.
  \<^item> \<^verbatim>\<open>QgaCounters\<close>, \<^verbatim>\<open>QgaClient\<close>, \<^verbatim>\<open>QgaDiskMap\<close>: \<^verbatim>\<open>types.go\<close>, \<^verbatim>\<open>client.go\<close> and \<^verbatim>\<open>diskmap.go\<close> of \<^verbatim>\<open>pkg/qga\<close>;
    \<^verbatim>\<open>QgaScrape\<close>, \<^verbatim>\<open>QgaCollector\<close>: its \<^verbatim>\<open>collector.go\<close> and \<^verbatim>\<open>metrics.go\<close>.
  \<^item> \<^verbatim>\<open>Exporter\<close>: the start of the process.

  \<^bold>\<open>Correspondence.\<close> Handlers are functions from the maps, the context bytes and the clock to the new
  maps, with the map operations, the relocated offsets and the memory reader as arguments. C
  integers keep their width and sign. Go errors are values of sum or option types, and a panic of a
  scrape is the value None. Tables of connections are association lists, and the order in which
  Go visits a map, or goroutines finish, is an argument. Files, \<^verbatim>\<open>stat\<close>, the Kubernetes caches
  and API, the container runtime, the libvirt daemon with its virtual machines, the decoding of
  JSON, XML and base64, the success of kernel requests, the Prometheus client and the iteration
  of maps are arguments as well; what the properties need of them is in their hypotheses, and
  their witnesses give concrete instances.

  \<^bold>\<open>What is shown.\<close>
  \<^item> Each program refines the abstract machine while its maps have room; a finished operation adds
    exactly one sample, in the slot that brackets its latency; samples are conserved; and
    whatever the maps evict, no histogram gains more samples than operations that ended.
  \<^item> The NFS programs read the members they name: on memory that holds the objects in the layout of
    the kernel's declarations, and nothing else, the handlers find the header, the device, the
    offset and the count. Pointer chains are well-typed, members of any declaration are in bounds
    and do not overlap, and map keys have no ambiguous padding.
  \<^item> Concurrent completions lose no sample once the histogram exists; while it is created they can.
  \<^item> The exported histogram is well-formed and counts each sample in every bucket at or above its
    latency, and also in some buckets below it.
  \<^item> Mount lines and device numbers survive their round trips, a scan installs exactly the mounted
    volumes, and a lookup never names a pod that does not mount the device.
  \<^item> A failed NFS load leaves nothing behind, every handle is released by \<^verbatim>\<open>Close\<close>, and the retry loop
    ends with both subsystems active once they were available.
  \<^item> A scrape does not panic, exports the non-empty block histograms the namespace filter allows with
    their number of samples, and sends a series twice exactly if two devices are attributed to
    one volume.
  \<^item> Neither polling collector leaks a socket or a session, whatever fails; a poll of the QMP collector
    reads every virtual machine once and attributes each result to a pod that the configuration
    selects; QEMU's histograms are enabled exactly once, and their buckets count what they should,
    but the queues of any two SCSI controllers of a virtual machine collide.
  \<^item> The goroutines of a poll end after reading every virtual machine once, if the concurrency is
    positive; the configuration is accepted also with 0, and then they block.
  \<^item> The guest's counters survive their round trip through CSV, the drives in both of two
    successive answers are reported with the average latency, except where a counter wraps, and
    under the volume they are; a guest is given up exactly after a refusal or the configured
    number of failures in a row.
  \<^item> The process ends with a failure exactly on an invalid configuration, a missing service or a
    server that cannot go on, and the namespace filter holds for
    every metric of all three collectors.

  \<^bold>\<open>Bounds.\<close> All loops of the programs are straight-line or structural, so no fuel is needed;
  \<^verbatim>\<open>RetryFailed\<close> and \<^verbatim>\<open>Run\<close> take the list of their ticks, and the wait for a guest process has its own
  limit of attempts in the code. Exact statements about counters hold modulo
  2^64 as in the code, or assume that the counters do not add up to 2^64. \<^verbatim>\<open>float64\<close> has no infinity or
  NaN here, which the code cannot produce from 26 finite counters; subnormals are not rounded to,
  and no value of the code is that small.

  \<^bold>\<open>Not modelled.\<close>
  \<^item> The HTTP handlers, the handling of signals and \<^verbatim>\<open>startInformers\<close> of \<^verbatim>\<open>cmd/exporter/main.go\<close>, which are
    calls of libraries; the files \<^verbatim>\<open>*_bpfel.go\<close>, which are generated from the C programs and embed
    the compiled objects; and the manifests under \<^verbatim>\<open>deploy\<close>.
  \<^item> Deadlines, sleeps and tickers: a command that times out is one whose answer is an error. That
    \<^verbatim>\<open>NewTicker\<close> panics for an interval that is not positive, and \<^verbatim>\<open>make\<close> for a channel of negative
    capacity, is outside the model; theory \<^verbatim>\<open>WorkerPool\<close> is about capacities from 0.
  \<^item> White space beyond ASCII in \<^verbatim>\<open>strings.Fields\<close> and \<^verbatim>\<open>TrimSpace\<close>.
  \<^item> Log output, the locks (of the loader, held for the whole of every scrape and tick; of the
    polling collectors, held around each access to the table and the results), and the verifier and just-in-time compiler of the kernel.
  \<^item> Declarations of \<^verbatim>\<open>vmlinux.h\<close> that no object the programs read is made of or points to.
\<close>

subsection \<open>Accesses to kernel objects\<close>

lemma kernel_env_lookups:
  "map_of kernel_env ''struct inode'' = Some struct_inode"
  "map_of kernel_env ''struct super_block'' = Some struct_super_block"
  "map_of kernel_env ''struct file'' = Some struct_file"
  "map_of kernel_env ''struct dentry'' = Some struct_dentry"
  "map_of kernel_env ''struct kiocb'' = Some struct_kiocb"
  "map_of kernel_env ''struct nfs_pgio_header'' = Some struct_nfs_pgio_header"
  by (simp_all add: kernel_env_def)

lemma raw_args_offset: "offsetof struct_bpf_raw_tracepoint_args [''args''] = Some (0, CArr td___u64 0)"
  by (simp add: struct_bpf_raw_tracepoint_args_def layout)

lemmas access_offsets = block_rq_offsets block_rq_completion_offsets pgio_header_offsets inode_offsets
  vfs_offsets raw_args_offset

text \<open>
  The pointer chains of the NFS programs are well-typed in the kernel's declarations: each
  link but the last is a pointer to a structure that has the next member, and every chain ends
  in the device number of a super block.
\<close>

theorem core_read_chains_typed:
  "list_all (\<lambda>(t, ps). chain_type kernel_env t ps = Some td_dev_t)
     [(struct_nfs_pgio_header, [[''inode''], [''i_sb''], [''s_dev'']]),
      (struct_kiocb, [[''ki_filp''], [''f_inode''], [''i_sb''], [''s_dev'']]),
      (struct_inode, [[''i_sb''], [''s_dev'']]),
      (struct_path, [[''dentry''], [''d_inode''], [''i_sb''], [''s_dev'']])]"
  by (simp add: kernel_env_lookups access_offsets del: offsetof.simps)

text \<open>
  Layout of the kernel's declarations. Any member path of any structure or union of the
  environment stays inside the object, and where the declaration is not packed the member is
  at a multiple of its alignment, which the alignment of the object covers.
\<close>

theorem kernel_members_in_bounds:
  assumes "map_of kernel_env s = Some t" and "offsetof t p = Some (off, u)"
  shows "off + csize u \<le> csize t \<and> (unpacked t \<longrightarrow> calign u dvd off)"
  using offsetof_in_bounds [OF kernel_env_member_wf [OF assms(1)] assms(2)]
    offsetof_aligned [OF kernel_env_member_wf [OF assms(1)] _ assms(2)] by blast

theorem kernel_members_in_bounds_witness:
  "664 + csize td___u64 \<le> csize struct_nfs_pgio_header"
  using kernel_members_in_bounds [of "''struct nfs_pgio_header''" struct_nfs_pgio_header
      "[''args'', ''offset'']" 664 td___u64]
  by (simp add: kernel_env_lookups pgio_header_offsets)

text \<open>
  In every structure of the environment the ordinary members are in declaration order and
  do not overlap: each ends before the next one starts.
\<close>

theorem kernel_members_disjoint:
  assumes "map_of kernel_env s = Some t" and "struct_fields t = Some (packed, fs)"
  shows "sorted_wrt (\<lambda>(_, off1, t1) (_, off2, t2). off1 + csize t1 \<le> off2) (placed packed 0 fs)"
proof -
  have "wf_fields fs" using kernel_env_member_wf [OF assms(1)] assms(2) by (cases t) simp_all
  then show ?thesis by (rule placed_disjoint)
qed

theorem kernel_members_disjoint_witness:
  "sorted_wrt (\<lambda>(_, off1, t1) (_, off2, t2). off1 + csize t1 \<le> off2)
     (placed False 0 (snd (the (struct_fields struct_kiocb))))"
  by (rule kernel_members_disjoint [of "''struct kiocb''" struct_kiocb])
    (simp_all add: kernel_env_lookups struct_kiocb_def)

subsection \<open>The maps\<close>

lemma key_layouts [simp]:
  "csize struct_req_key = 16" "csize struct_nfs_req_key = 24" "csize struct_nfs_kprobe_start_val = 16"
  by (simp_all add: struct_req_key_def struct_nfs_req_key_def struct_nfs_kprobe_start_val_def layout)

lemmas map_decl_defs = block_start_decl_def block_hists_decl_def nfs_start_decl_def nfs_hists_decl_def
  nfs_kprobe_start_decl_def nfs_kprobe_hists_decl_def

lemma lru_hash_type: "BPF_MAP_TYPE_LRU_HASH = Some 9"
  by (simp add: BPF_MAP_TYPE_LRU_HASH_def enum_bpf_map_type_def)

lemma req_key_bytes_inj: "req_key_bytes k = req_key_bytes k' \<longleftrightarrow> k = k'"
  by (cases k; cases k') (auto simp: req_key_bytes_def u32_bytes_inj u64_bytes_inj)

lemma nfs_req_key_bytes_inj: "nfs_req_key_bytes k = nfs_req_key_bytes k' \<longleftrightarrow> k = k'"
  by (cases k; cases k') (auto simp: nfs_req_key_bytes_def u32_bytes_inj u64_bytes_inj)

lemma length_key_bytes:
  "length (req_key_bytes k) = 16"
  "length (nfs_req_key_bytes (nfs_key rd rl ctx i op)) = 24"
  by (simp_all add: req_key_bytes_def nfs_req_key_bytes_def nfs_key_def nfs_fill_key_def zero_nfs_req_key_def)

text \<open>
  The keys the programs put into their maps are exactly the bytes of the declared key types,
  and two keys have the same bytes only if they agree in every member: the padding never
  separates or merges two requests or histograms.
\<close>

theorem map_keys_faithful:
  "length (req_key_bytes k) = csize (md_key block_start_decl)
   \<and> (req_key_bytes k = req_key_bytes k' \<longleftrightarrow> k = k')
   \<and> length (block_hist_key_bytes (block_key d op)) = csize (md_key block_hists_decl)
   \<and> (block_hist_key_bytes (block_key d op) = block_hist_key_bytes (block_key d' op') \<longleftrightarrow> d = d' \<and> op = op')
   \<and> length (nfs_req_key_bytes (nfs_key rd rl ctx i op)) = csize (md_key nfs_start_decl)
   \<and> (nfs_req_key_bytes (nfs_key rd rl ctx i op) = nfs_req_key_bytes (nfs_key rd' rl' ctx' i' op')
      \<longleftrightarrow> nfs_key rd rl ctx i op = nfs_key rd' rl' ctx' i' op')
   \<and> length (nfs_hist_key_bytes (nfs_hist_of d op)) = csize (md_key nfs_hists_decl)
   \<and> (nfs_hist_key_bytes (nfs_hist_of d op) = nfs_hist_key_bytes (nfs_hist_of d' op') \<longleftrightarrow> d = d' \<and> op = op')"
  by (auto simp: req_key_bytes_inj nfs_req_key_bytes_inj length_key_bytes map_decl_defs
      block_hist_key_bytes_def block_key_def nfs_hist_key_bytes_def nfs_hist_of_def u32_bytes_inj)

definition program_maps :: "map_decl list" where
  "program_maps =
     [block_start_decl, block_hists_decl, nfs_start_decl, nfs_hists_decl,
      nfs_kprobe_start_decl, nfs_kprobe_hists_decl]"

text \<open>
  The six maps of the programs are LRU hashes (map type 9 of the kernel's enumeration) with
  the key size, value size and capacity listed; all histograms are 26 counters of 8 bytes.
\<close>

theorem map_declarations:
  "map (\<lambda>d. (md_type d, csize (md_key d), csize (md_value d), md_max_entries d)) program_maps
   = [(Some 9, 16, 8, 10240), (Some 9, 8, 208, 1024), (Some 9, 24, 8, 10240), (Some 9, 8, 208, 256),
      (Some 9, 8, 16, 10240), (Some 9, 8, 208, 1024)]"
  by (simp add: program_maps_def map_decl_defs lru_hash_type MAX_BLOCK_ENTRIES_def MAX_HIST_ENTRIES_def
      MAX_NFS_ENTRIES_def MAX_NFS_KPROBE_ENTRIES_def)

end
